(* ===== verification/Prelude.thy ===== *)
theory Prelude
  imports Main "HOL-Library.AList"
begin

text \<open>
  What every component shares: the result type for code that may return an error, loops
  with early return, Go maps as association lists, Go's 64-bit integers, instants and
  durations, and the collections of facts the component proofs use.
\<close>

named_theorems route_simps \<open>equations of the routing operations\<close>
named_theorems inv_intros \<open>operations that keep a component's invariant\<close>
named_theorems frame_simps \<open>state components an operation does not change\<close>

section \<open>Results and loops with early return\<close>

text \<open>A call that returns an error gives \<open>Inl\<close>, a normal return \<open>Inr\<close>.\<close>

definition res_bind :: "'e + 'a \<Rightarrow> ('a \<Rightarrow> 'e + 'b) \<Rightarrow> 'e + 'b" where
  "res_bind m f = (case m of Inl e \<Rightarrow> Inl e | Inr x \<Rightarrow> f x)"

lemma res_bind_simps [simp]:
  "res_bind (Inl e) f = Inl e"
  "res_bind (Inr x) f = f x"
  by (simp_all add: res_bind_def)

lemma res_bind_Inr_iff:
  "res_bind m f = Inr y \<longleftrightarrow> (\<exists>x. m = Inr x \<and> f x = Inr y)"
  by (cases m) auto

lemma res_bind_Inl_iff:
  "res_bind m f = Inl e \<longleftrightarrow> m = Inl e \<or> (\<exists>x. m = Inr x \<and> f x = Inl e)"
  by (cases m) auto

lemma res_bind_ok:
  assumes "(\<exists>x. m = Inr x) = A" and "\<And>x. m = Inr x \<Longrightarrow> (\<exists>y. f x = Inr y) = B"
  shows "(\<exists>y. res_bind m f = Inr y) = (A \<and> B)"
  using assms by (cases m) auto

text \<open>
  \<open>fold_res f xs s\<close> is \<open>for _, x := range xs { ... return err ... }\<close> over a state \<open>s\<close>:
  the body returns the next state, or an error that ends the loop.
\<close>

fun fold_res :: "('a \<Rightarrow> 's \<Rightarrow> 'e + 's) \<Rightarrow> 'a list \<Rightarrow> 's \<Rightarrow> 'e + 's" where
  "fold_res f [] s = Inr s"
| "fold_res f (x # xs) s = res_bind (f x s) (fold_res f xs)"

lemma fold_res_append:
  "fold_res f (xs @ ys) s = res_bind (fold_res f xs s) (fold_res f ys)"
  by (induction xs arbitrary: s) (auto simp: res_bind_def split: sum.splits)

lemma fold_res_invariant:
  assumes "fold_res f xs s = Inr t" and "P s"
    and "\<And>x s t. x \<in> set xs \<Longrightarrow> P s \<Longrightarrow> f x s = Inr t \<Longrightarrow> P t"
  shows "P t"
  using assms
proof (induction xs arbitrary: s)
  case Nil
  then show ?case by simp
next
  case (Cons x xs)
  then obtain s' where s': "f x s = Inr s'" "fold_res f xs s' = Inr t"
    by (auto simp: res_bind_Inr_iff)
  have "P s'" using Cons.prems(2,3) s'(1) by auto
  with s'(2) show ?case using Cons.IH Cons.prems(3) by auto
qed

lemma fold_res_total:
  assumes "\<And>x s. x \<in> set xs \<Longrightarrow> \<exists>t. f x s = Inr t"
  shows "\<exists>t. fold_res f xs s = Inr t"
  using assms
proof (induction xs arbitrary: s)
  case (Cons x xs)
  then obtain t where "f x s = Inr t" by force
  then show ?case using Cons by (auto simp: res_bind_def)
qed simp

lemma fold_res_keeps:
  assumes "\<And>x s t. f x s = Inr t \<Longrightarrow> g t = g s" and "fold_res f xs s = Inr t"
  shows "g t = g s"
  using fold_res_invariant [where P = "\<lambda>u. g u = g s", OF assms(2)] assms(1) by metis

lemma fold_keeps:
  assumes "\<And>x s. g (f x s) = g s"
  shows "g (fold f xs s) = g s"
  by (induction xs arbitrary: s) (simp_all add: assms)

section \<open>Indexed loops\<close>

text \<open>\<open>for idx, x := range xs\<close>: the elements with their positions.\<close>

definition indexed :: "'a list \<Rightarrow> (nat \<times> 'a) list" where
  "indexed xs = zip [0..<length xs] xs"

fun indexed_from :: "nat \<Rightarrow> 'a list \<Rightarrow> (nat \<times> 'a) list" where
  "indexed_from n [] = []"
| "indexed_from n (x # xs) = (n, x) # indexed_from (Suc n) xs"

lemma zip_upt_indexed_from: "zip [n..<n + length xs] xs = indexed_from n xs"
proof (induction xs arbitrary: n)
  case (Cons x xs)
  have "[n..<n + length (x # xs)] = n # [Suc n..<Suc n + length xs]"
    by (simp add: upt_rec)
  then show ?case using Cons.IH [of "Suc n"] by simp
qed simp

lemma indexed_code [code, simp]: "indexed xs = indexed_from 0 xs"
  using zip_upt_indexed_from [of 0 xs] by (simp add: indexed_def)

lemma snd_indexed_from [simp]: "map snd (indexed_from n xs) = xs"
  by (induction xs arbitrary: n) auto

lemma snd_set_indexed_from: "(i, x) \<in> set (indexed_from n xs) \<Longrightarrow> x \<in> set xs"
  by (induction xs arbitrary: n) auto

lemma ex_set_indexed_from: "x \<in> set xs \<Longrightarrow> \<exists>i. (i, x) \<in> set (indexed_from n xs)"
  by (induction xs arbitrary: n) auto

lemma find_append: "find P (xs @ ys) = (case find P xs of None \<Rightarrow> find P ys | Some x \<Rightarrow> Some x)"
  by (induction xs) simp_all

section \<open>Go maps\<close>

text \<open>
  A Go map is an association list with distinct keys; its order is the order in which
  the runtime yields the entries, which the language leaves open: a theorem about every
  list is a theorem about every order.
\<close>

type_synonym 'v gomap = "(string \<times> 'v) list"

abbreviation map_get :: "'v gomap \<Rightarrow> string \<Rightarrow> 'v option" where
  "map_get m k \<equiv> map_of m k"

abbreviation map_put :: "string \<Rightarrow> 'v \<Rightarrow> 'v gomap \<Rightarrow> 'v gomap" where
  "map_put k v m \<equiv> AList.update k v m"

abbreviation map_del :: "string \<Rightarrow> 'v gomap \<Rightarrow> 'v gomap" where
  "map_del k m \<equiv> AList.delete k m"

lemma map_get_put [simp]: "map_get (map_put k v m) k' = (if k' = k then Some v else map_get m k')"
  by (simp add: update_conv')

lemma map_get_del [simp]: "map_get (map_del k m) k' = (if k' = k then None else map_get m k')"
  by (simp add: delete_conv')

lemma distinct_put [simp, inv_intros]:
  "distinct (map fst m) \<Longrightarrow> distinct (map fst (map_put k v m))"
  by (rule distinct_update)

lemma map_put_not_Nil [simp]: "map_put k v m \<noteq> []"
  by (cases m) auto

lemma map_put_in [simp]: "(k, v) \<in> set (map_put k v m)"
  by (induction m) auto

lemma set_map_put:
  "(k', v') \<in> set (map_put k v m) \<Longrightarrow> (k' = k \<and> v' = v) \<or> (k', v') \<in> set m"
  by (induction m) (auto split: if_splits)

lemma set_map_put_distinct:
  "distinct (map fst m) \<Longrightarrow>
   set (map_put k v m) = insert (k, v) {p \<in> set m. fst p \<noteq> k}"
  by (induction m) (auto simp: image_iff)

section \<open>Machine integers, instants and durations\<close>

text \<open>
  Go's \<open>int\<close> and \<open>time.Duration\<close> are 64 bits wide and wrap around. An instant is the
  number of nanoseconds since the zero \<open>time.Time\<close>, which is 0; \<open>Sub\<close> saturates.
\<close>

definition wrap64 :: "int \<Rightarrow> int" where
  "wrap64 x = (x + 2 ^ 63) mod 2 ^ 64 - 2 ^ 63"

lemma wrap64_id: "- (2 ^ 63) \<le> x \<Longrightarrow> x < 2 ^ 63 \<Longrightarrow> wrap64 x = x"
  by (simp add: wrap64_def)

lemma wrap64_range: "- (2 ^ 63) \<le> wrap64 x \<and> wrap64 x < 2 ^ 63"
proof -
  have "0 \<le> (x + 2 ^ 63) mod 2 ^ 64" and "(x + 2 ^ 63) mod 2 ^ 64 < 2 ^ 64"
    by simp_all
  then show ?thesis by (simp add: wrap64_def)
qed

type_synonym gotime = int
type_synonym duration = int

definition second :: duration where "second = 1000000000"
definition minute :: duration where "minute = 60 * second"
definition hour :: duration where "hour = 60 * minute"

lemma duration_units: "second = 1000000000" "minute = 60000000000" "hour = 3600000000000"
  by (simp_all add: second_def minute_def hour_def)

definition time_sub :: "gotime \<Rightarrow> gotime \<Rightarrow> duration" where
  "time_sub a b = max (- (2 ^ 63)) (min (2 ^ 63 - 1) (a - b))"

lemma time_sub_id: "\<bar>a - b\<bar> < 2 ^ 63 \<Longrightarrow> time_sub a b = a - b"
  by (auto simp: time_sub_def max_def min_def)

lemma time_sub_gt_iff:
  "d < 2 ^ 63 - 1 \<Longrightarrow> - (2 ^ 63) \<le> d \<Longrightarrow> d < time_sub a b \<longleftrightarrow> d < a - b"
  by (auto simp: time_sub_def max_def min_def)

end
