(* ===== verification/GoStrings.thy ===== *)
theory GoStrings
  imports Prelude
begin

text \<open>
  The operations of Go's \<open>strings\<close>, \<open>strconv\<close> and \<open>fmt\<close> packages that the program
  uses, on byte strings. Bytes at or above 0x80 are left alone by trimming and case
  folding, so on ASCII text these are Go's functions.
\<close>

section \<open>Characters\<close>

definition code :: "char \<Rightarrow> nat" where
  "code c = of_char c"

definition is_space :: "char \<Rightarrow> bool" where
  "is_space c \<longleftrightarrow> c \<in> {CHR '' '', CHR 0x09, CHR 0x0A, CHR 0x0B, CHR 0x0C, CHR 0x0D}"

definition is_digit :: "char \<Rightarrow> bool" where
  "is_digit c \<longleftrightarrow> 48 \<le> code c \<and> code c \<le> 57"

definition is_lower :: "char \<Rightarrow> bool" where
  "is_lower c \<longleftrightarrow> 97 \<le> code c \<and> code c \<le> 122"

definition is_upper :: "char \<Rightarrow> bool" where
  "is_upper c \<longleftrightarrow> 65 \<le> code c \<and> code c \<le> 90"

definition lower :: "char \<Rightarrow> char" where
  "lower c = (if is_upper c then char_of (code c + 32) else c)"

definition digit_val :: "char \<Rightarrow> nat" where
  "digit_val c = code c - 48"

definition digit :: "nat \<Rightarrow> char" where
  "digit n = char_of (48 + n)"

lemma code_char_of: "n < 256 \<Longrightarrow> code (char_of n) = n"
  by (simp add: code_def)

lemma code_inject: "code c = code d \<longleftrightarrow> c = d"
  by (simp add: code_def)

lemma digit_props:
  assumes "n < 10"
  shows "is_digit (digit n)" "digit_val (digit n) = n" "code (digit n) = 48 + n"
  using assms by (simp_all add: is_digit_def digit_val_def digit_def code_char_of)

lemma lower_lower [simp]: "lower (lower c) = lower c"
proof (cases "is_upper c")
  case True
  then have "code c + 32 < 256" "97 \<le> code c + 32" by (simp_all add: is_upper_def)
  with True show ?thesis by (simp add: lower_def is_upper_def code_char_of)
qed (simp add: lower_def)

lemma is_space_code: "is_space c \<longleftrightarrow> code c \<in> {32, 9, 10, 11, 12, 13}"
proof -
  have eq: "c = d \<longleftrightarrow> code c = code d" for d by (simp add: code_inject)
  show ?thesis
    unfolding is_space_def insert_iff empty_iff eq
    by (simp add: code_def)
qed

lemma is_space_lower [simp]: "is_space (lower c) = is_space c"
proof (cases "is_upper c")
  case True
  then have "code (lower c) = code c + 32" "65 \<le> code c" "code c \<le> 90"
    by (auto simp: lower_def is_upper_def code_char_of)
  then show ?thesis by (auto simp: is_space_code)
qed (simp add: lower_def)

section \<open>Strings\<close>

text \<open>\<open>strings.ToLower\<close>, \<open>strings.TrimSpace\<close> and \<open>strings.Trim\<close>.\<close>

definition to_lower :: "string \<Rightarrow> string" where
  "to_lower s = map lower s"

definition trim_by :: "(char \<Rightarrow> bool) \<Rightarrow> string \<Rightarrow> string" where
  "trim_by P s = rev (dropWhile P (rev (dropWhile P s)))"

definition trim_space :: "string \<Rightarrow> string" where
  "trim_space s = trim_by is_space s"

definition has_prefix :: "string \<Rightarrow> string \<Rightarrow> bool" where
  "has_prefix s p \<longleftrightarrow> take (length p) s = p"

definition has_suffix :: "string \<Rightarrow> string \<Rightarrow> bool" where
  "has_suffix s p \<longleftrightarrow> length p \<le> length s \<and> drop (length s - length p) s = p"

definition trim_prefix :: "string \<Rightarrow> string \<Rightarrow> string" where
  "trim_prefix s p = (if has_prefix s p then drop (length p) s else s)"

text \<open>
  \<open>if idx := strings.IndexByte(s, c); idx >= 0 { s = s[:idx] }\<close>: the part before the
  first \<open>c\<close>, all of \<open>s\<close> when there is none.
\<close>

definition before :: "char \<Rightarrow> string \<Rightarrow> string" where
  "before c s = takeWhile (\<lambda>x. x \<noteq> c) s"

definition from_first :: "char \<Rightarrow> string \<Rightarrow> string" where
  "from_first c s = dropWhile (\<lambda>x. x \<noteq> c) s"

text \<open>The last \<open>c\<close> (\<open>strings.LastIndexByte\<close>): what is before and after it.\<close>

definition cut_last :: "char \<Rightarrow> string \<Rightarrow> (string \<times> string) option" where
  "cut_last c s =
     (if c \<in> set s
      then Some (rev (tl (dropWhile (\<lambda>x. x \<noteq> c) (rev s))), rev (takeWhile (\<lambda>x. x \<noteq> c) (rev s)))
      else None)"

text \<open>\<open>strings.Split(s, c)\<close> for a one-byte separator.\<close>

fun split_on :: "char \<Rightarrow> string \<Rightarrow> string list" where
  "split_on c [] = [[]]"
| "split_on c (x # xs) =
     (if x = c then [] # split_on c xs
      else (case split_on c xs of [] \<Rightarrow> [[x]] | w # ws \<Rightarrow> (x # w) # ws))"

text \<open>\<open>strings.EqualFold\<close>.\<close>

definition equal_fold :: "string \<Rightarrow> string \<Rightarrow> bool" where
  "equal_fold a b \<longleftrightarrow> to_lower a = to_lower b"

lemma split_on_no_sep: "c \<notin> set s \<Longrightarrow> split_on c s = [s]"
  by (induction s) auto

lemma split_on_not_Nil [simp]: "split_on c s \<noteq> []"
  by (induction s) (auto split: list.splits)

lemma to_lower_idem [simp]: "to_lower (to_lower s) = to_lower s"
  by (simp add: to_lower_def comp_def)

lemma to_lower_Nil_iff [simp]: "to_lower s = [] \<longleftrightarrow> s = []"
  by (simp add: to_lower_def)

lemma dropWhile_map_lower: "dropWhile is_space (map lower s) = map lower (dropWhile is_space s)"
  by (simp add: dropWhile_map comp_def)

lemma trim_space_to_lower: "trim_space (to_lower s) = to_lower (trim_space s)"
  by (simp add: trim_space_def trim_by_def to_lower_def dropWhile_map_lower rev_map)

lemma dropWhile_rev_dropWhile:
  "dropWhile P (rev (dropWhile P (rev (dropWhile P s)))) = rev (dropWhile P (rev (dropWhile P s)))"
proof (cases "dropWhile P s")
  case Nil
  then show ?thesis unfolding Nil by simp
next
  case (Cons x xs)
  then have x: "\<not> P x" by (metis hd_dropWhile list.sel(1) list.distinct(1))
  have "dropWhile P (rev xs @ [x]) = dropWhile P (rev xs) @ [x]"
    using x by (induction xs rule: rev_induct) auto
  with Cons x show ?thesis by simp
qed

lemma trim_by_idem: "trim_by P (trim_by P s) = trim_by P s"
  by (simp add: trim_by_def dropWhile_rev_dropWhile dropWhile_idem)

lemma trim_space_idem [simp]: "trim_space (trim_space s) = trim_space s"
  by (simp add: trim_space_def trim_by_idem)

lemma set_trim_by: "set (trim_by P s) \<subseteq> set s"
proof
  fix x assume "x \<in> set (trim_by P s)"
  then have "x \<in> set (dropWhile P (rev (dropWhile P s)))" by (simp add: trim_by_def)
  then have "x \<in> set (dropWhile P s)" using set_dropWhileD by fastforce
  then show "x \<in> set s" using set_dropWhileD by fastforce
qed

lemma trim_by_ends:
  assumes "trim_by P s \<noteq> []"
  shows "\<not> P (hd (trim_by P s))" "\<not> P (last (trim_by P s))"
proof -
  show "\<not> P (hd (trim_by P s))"
    by (metis assms dropWhile_rev_dropWhile hd_dropWhile trim_by_def)
  show "\<not> P (last (trim_by P s))"
    by (metis assms hd_dropWhile hd_rev rev_is_Nil_conv rev_rev_ident trim_by_def)
qed

lemma not_in_before [simp]: "c \<notin> set (before c s)"
  by (auto simp: before_def dest: set_takeWhileD)

lemma before_id: "c \<notin> set s \<Longrightarrow> before c s = s"
  by (simp add: before_def takeWhile_eq_all_conv) metis

lemma has_prefix_append [simp]: "has_prefix (p @ s) p"
  by (simp add: has_prefix_def)

lemma has_prefix_iff: "has_prefix s p \<longleftrightarrow> (\<exists>t. s = p @ t)"
  by (metis append_eq_conv_conj append_take_drop_id has_prefix_def)

lemma has_suffix_iff: "has_suffix s p \<longleftrightarrow> (\<exists>t. s = t @ p)"
  by (auto simp: has_suffix_def) (metis append_take_drop_id)

lemma has_suffix_refl [simp]: "has_suffix s s"
  by (simp add: has_suffix_def)

section \<open>Numbers\<close>

text \<open>\<open>strconv.Itoa\<close> and \<open>%d\<close> on a non-negative number.\<close>

fun itoa :: "nat \<Rightarrow> string" where
  "itoa n = (if n < 10 then [digit n] else itoa (n div 10) @ [digit (n mod 10)])"

declare itoa.simps [simp del]

definition dec_val :: "string \<Rightarrow> nat" where
  "dec_val s = fold (\<lambda>c v. v * 10 + digit_val c) s 0"

lemma dec_val_snoc: "dec_val (s @ [c]) = dec_val s * 10 + digit_val c"
  by (simp add: dec_val_def)

lemma dec_val_itoa [simp]: "dec_val (itoa n) = n"
proof (induction n rule: itoa.induct)
  case (1 n)
  show ?case
  proof (cases "n < 10")
    case True
    then show ?thesis by (simp add: itoa.simps dec_val_def digit_props)
  next
    case False
    with "1.IH" show ?thesis
      by (subst itoa.simps) (simp add: dec_val_snoc digit_props)
  qed
qed

lemma itoa_inject [simp]: "itoa m = itoa n \<longleftrightarrow> m = n"
  by (metis dec_val_itoa)

lemma itoa_digits: "list_all is_digit (itoa n)"
proof (induction n rule: itoa.induct)
  case (1 n)
  then show ?case by (subst itoa.simps) (simp add: digit_props)
qed

lemma itoa_not_Nil [simp]: "itoa n \<noteq> []"
  by (subst itoa.simps) simp

text \<open>\<open>strconv.Atoi\<close>: an optional sign, then digits, in the range of a 64-bit integer.\<close>

definition atoi :: "string \<Rightarrow> int option" where
  "atoi s =
     (let neg = has_prefix s ''-''; plus = has_prefix s ''+'';
          ds = (if neg \<or> plus then drop 1 s else s)
      in if ds = [] \<or> \<not> list_all is_digit ds then None
         else let v = (if neg then - int (dec_val ds) else int (dec_val ds))
              in if - (2 ^ 63) \<le> v \<and> v < 2 ^ 63 then Some v else None)"

lemma atoi_range: "atoi s = Some v \<Longrightarrow> - (2 ^ 63) \<le> v \<and> v < 2 ^ 63"
  by (auto simp: atoi_def Let_def split: if_splits)

section \<open>Quoting\<close>

text \<open>The verb \<open>%q\<close>: a double-quoted Go string literal.\<close>

definition hex_lower :: "nat \<Rightarrow> char" where
  "hex_lower n = (if n < 10 then char_of (48 + n) else char_of (87 + n))"

definition quote_char :: "char \<Rightarrow> string" where
  "quote_char c =
     (if c = CHR 0x22 \<or> c = CHR 0x5C then [CHR 0x5C, c]
      else if c = CHR 0x07 then [CHR 0x5C, CHR ''a'']
      else if c = CHR 0x08 then [CHR 0x5C, CHR ''b'']
      else if c = CHR 0x0C then [CHR 0x5C, CHR ''f'']
      else if c = CHR 0x0A then [CHR 0x5C, CHR ''n'']
      else if c = CHR 0x0D then [CHR 0x5C, CHR ''r'']
      else if c = CHR 0x09 then [CHR 0x5C, CHR ''t'']
      else if c = CHR 0x0B then [CHR 0x5C, CHR ''v'']
      else if code c < 32 \<or> code c = 127 then
        [CHR 0x5C, CHR ''x'', hex_lower (code c div 16), hex_lower (code c mod 16)]
      else [c])"

definition go_quote :: "string \<Rightarrow> string" where
  "go_quote s = [CHR 0x22] @ concat (map quote_char s) @ [CHR 0x22]"

text \<open>\<open>%d\<close> of a signed number.\<close>

definition signed_text :: "int \<Rightarrow> string" where
  "signed_text n = (if n < 0 then ''-'' @ itoa (nat (- n)) else itoa (nat n))"

section \<open>File paths\<close>

text \<open>\<open>filepath.Clean\<close>, \<open>Join\<close> and \<open>Dir\<close> on Unix.\<close>

fun clean_parts :: "bool \<Rightarrow> string list \<Rightarrow> string list \<Rightarrow> string list" where
  "clean_parts rooted [] out = out"
| "clean_parts rooted (p # ps) out =
     clean_parts rooted ps
       (if p = [] \<or> p = ''.'' then out
        else if p = ''..'' then
          (if out \<noteq> [] \<and> last out \<noteq> ''..'' then butlast out
           else if rooted then out else out @ [''..''])
        else out @ [p])"

fun join_with :: "string \<Rightarrow> string list \<Rightarrow> string" where
  "join_with sep [] = []"
| "join_with sep [x] = x"
| "join_with sep (x # y # zs) = x @ sep @ join_with sep (y # zs)"

lemma split_on_first: "c \<notin> set x \<Longrightarrow> split_on c (x @ c # rest) = x # split_on c rest"
  by (induction x) auto

lemma split_on_join:
  "ps \<noteq> [] \<Longrightarrow> list_all (\<lambda>p. c \<notin> set p) ps \<Longrightarrow> split_on c (join_with [c] ps) = ps"
  by (induction "[c]" ps rule: join_with.induct) (simp_all add: split_on_no_sep split_on_first)

definition path_clean :: "string \<Rightarrow> string" where
  "path_clean p =
     (if p = [] then ''.''
      else
        let rooted = has_prefix p ''/'';
            out = join_with ''/'' (clean_parts rooted (split_on (CHR ''/'') p) [])
        in if rooted then ''/'' @ out else if out = [] then ''.'' else out)"

definition path_join :: "string \<Rightarrow> string \<Rightarrow> string" where
  "path_join a b =
     (let parts = filter (\<lambda>e. e \<noteq> []) [a, b] in
      if parts = [] then [] else path_clean (join_with ''/'' parts))"

definition path_dir :: "string \<Rightarrow> string" where
  "path_dir p =
     (case cut_last (CHR ''/'') p of None \<Rightarrow> ''.''
      | Some (d, _) \<Rightarrow> path_clean (d @ ''/''))"

end
