(* ===== verification/NetIP.thy ===== *)
theory NetIP
  imports GoStrings "HOL-Library.Word"
begin

text \<open>
  The part of Go's \<open>net/netip\<close> and \<open>net\<close> packages that the program uses: addresses,
  prefixes, their parsers, \<open>Prefix.Contains\<close>, \<open>Addr.Unmap\<close> and
  \<open>net.SplitHostPort\<close>. Error texts are not kept: a failed parse is \<open>None\<close>.
\<close>

unbundle bit_operations_syntax

section \<open>Addresses and prefixes\<close>

text \<open>\<open>NoIP\<close> is the zero \<open>netip.Addr\<close>; an IPv6 address carries its zone.\<close>

datatype ip_addr = NoIP | IP4 "32 word" | IP6 "128 word" string

datatype ip_prefix = Prefix (pfx_addr: ip_addr) (pfx_bits: nat)

definition ip_is_valid :: "ip_addr \<Rightarrow> bool" where
  "ip_is_valid ip \<longleftrightarrow> ip \<noteq> NoIP"

definition ipv4_unspecified :: ip_addr where
  "ipv4_unspecified = IP4 0"

text \<open>\<open>Addr.Unmap\<close>: an IPv4-mapped IPv6 address becomes the IPv4 address.\<close>

fun ip_unmap :: "ip_addr \<Rightarrow> ip_addr" where
  "ip_unmap (IP6 w z) = (if drop_bit 32 w = 0xFFFF then IP4 (ucast w) else IP6 w z)"
| "ip_unmap ip = ip"

fun prefix_contains :: "ip_prefix \<Rightarrow> ip_addr \<Rightarrow> bool" where
  "prefix_contains (Prefix (IP4 p) n) (IP4 a) = (n \<le> 32 \<and> drop_bit (32 - n) (p XOR a) = 0)"
| "prefix_contains (Prefix (IP6 p _) n) (IP6 a z) =
     (n \<le> 128 \<and> z = [] \<and> drop_bit (128 - n) (p XOR a) = 0)"
| "prefix_contains _ _ = False"

text \<open>What containment means: the leading bits agree.\<close>

lemma drop_bit_xor_eq_0_iff:
  fixes a b :: "'a::len word"
  shows "drop_bit k (a XOR b) = 0 \<longleftrightarrow> (\<forall>i. k \<le> i \<longrightarrow> bit a i = bit b i)"
proof
  assume eq: "drop_bit k (a XOR b) = 0"
  show "\<forall>i. k \<le> i \<longrightarrow> bit a i = bit b i"
  proof (intro allI impI)
    fix i assume "k \<le> i"
    have "\<not> bit (drop_bit k (a XOR b)) (i - k)" using eq by simp
    with \<open>k \<le> i\<close> show "bit a i = bit b i" by (simp add: bit_drop_bit_eq bit_xor_iff)
  qed
next
  assume "\<forall>i. k \<le> i \<longrightarrow> bit a i = bit b i"
  then show "drop_bit k (a XOR b) = 0"
    by (intro bit_eqI) (simp add: bit_drop_bit_eq bit_xor_iff)
qed

lemma prefix_contains_v4_iff:
  "prefix_contains (Prefix (IP4 p) n) (IP4 a) \<longleftrightarrow>
     n \<le> 32 \<and> (\<forall>i. 32 - n \<le> i \<longrightarrow> bit p i = bit a i)"
  by (simp only: prefix_contains.simps drop_bit_xor_eq_0_iff)

lemma prefix_contains_not_NoIP [simp]: "\<not> prefix_contains p NoIP"
  by (cases p; cases "pfx_addr p") auto

lemma prefix_contains_family:
  "prefix_contains (Prefix p n) (IP4 a) \<Longrightarrow> \<exists>w. p = IP4 w"
  by (cases p) auto

lemma prefix_contains_all_v4: "prefix_contains (Prefix (IP4 p) 0) (IP4 a)"
  by (auto simp: drop_bit_xor_eq_0_iff dest!: bit_imp_le_length)

section \<open>Parsing addresses\<close>

text \<open>
  \<open>parseIPv4Fields\<close>: \<open>v\<close> is the current octet, \<open>digs\<close> its number of digits and
  \<open>acc\<close> the octets before it. A dot needs a digit on each side, so the source's tests on
  the neighbouring bytes are \<open>digs = 0\<close> (first byte, or after a dot) and \<open>cs = []\<close>.
\<close>

fun v4_fields :: "string \<Rightarrow> nat \<Rightarrow> nat \<Rightarrow> nat list \<Rightarrow> nat list option" where
  "v4_fields [] v digs acc = (if length acc < 3 then None else Some (acc @ [v]))"
| "v4_fields (c # cs) v digs acc =
     (if is_digit c then
        if digs = 1 \<and> v = 0 then None
        else if v * 10 + digit_val c > 255 then None
        else v4_fields cs (v * 10 + digit_val c) (digs + 1) acc
      else if c = CHR ''.'' then
        if digs = 0 \<or> cs = [] then None
        else if length acc = 3 then None
        else v4_fields cs 0 0 (acc @ [v])
      else None)"

definition join_fields :: "nat \<Rightarrow> nat list \<Rightarrow> 'a::len word" where
  "join_fields w fs = fold (\<lambda>f acc. push_bit w acc OR word_of_nat f) fs 0"

definition parse_ipv4 :: "string \<Rightarrow> ip_addr option" where
  "parse_ipv4 s = map_option (\<lambda>fs. IP4 (join_fields 8 fs)) (v4_fields s 0 0 [])"

definition is_hex :: "char \<Rightarrow> bool" where
  "is_hex c \<longleftrightarrow> is_digit c \<or> (97 \<le> code c \<and> code c \<le> 102) \<or> (65 \<le> code c \<and> code c \<le> 70)"

definition hex_digit_val :: "char \<Rightarrow> nat" where
  "hex_digit_val c =
     (if is_digit c then code c - 48 else if 97 \<le> code c then code c - 87 else code c - 55)"

definition hex_val :: "string \<Rightarrow> nat" where
  "hex_val s = fold (\<lambda>c v. v * 16 + hex_digit_val c) s 0"

text \<open>
  The loop of \<open>parseIPv6\<close>: \<open>gs\<close> are the 16-bit groups read so far and \<open>ell\<close> the
  position of the ellipsis. The result is what is left of the text when the loop ends,
  with the groups and the ellipsis.
\<close>

function v6_groups ::
  "string \<Rightarrow> nat list \<Rightarrow> nat option \<Rightarrow> (string \<times> nat list \<times> nat option) option" where
  "v6_groups s gs ell =
     (if 8 \<le> length gs then Some (s, gs, ell)
      else
        let h = takeWhile is_hex s; r = dropWhile is_hex s in
        if h = [] \<or> 4 < length h then None
        else
          (case r of
             [] \<Rightarrow> Some ([], gs @ [hex_val h], ell)
           | c # r' \<Rightarrow>
               if c = CHR ''.'' then
                 if ell = None \<and> length gs \<noteq> 6 then None
                 else if 6 < length gs then None
                 else
                   (case v4_fields s 0 0 [] of
                      None \<Rightarrow> None
                    | Some f \<Rightarrow>
                        Some ([], gs @ [f ! 0 * 256 + f ! 1, f ! 2 * 256 + f ! 3], ell))
               else if c \<noteq> CHR '':'' \<or> r' = [] then None
               else if hd r' = CHR '':'' then
                 if ell \<noteq> None then None
                 else if tl r' = [] then Some ([], gs @ [hex_val h], Some (length gs + 1))
                 else v6_groups (tl r') (gs @ [hex_val h]) (Some (length gs + 1))
               else v6_groups r' (gs @ [hex_val h]) ell))"
  by pat_completeness auto
termination
  by (relation "measure (\<lambda>(s, gs, ell). 8 - length gs)") auto

declare v6_groups.simps [simp del]

definition v6_expand :: "nat list \<Rightarrow> nat option \<Rightarrow> nat list option" where
  "v6_expand gs ell =
     (if length gs < 8 then
        (case ell of
           None \<Rightarrow> None
         | Some e \<Rightarrow> Some (take e gs @ replicate (8 - length gs) 0 @ drop e gs))
      else if ell \<noteq> None then None else Some gs)"

definition parse_ipv6 :: "string \<Rightarrow> ip_addr option" where
  "parse_ipv6 inp =
     (let s = before (CHR ''%'') inp; zone = drop (length s + 1) inp in
      if CHR ''%'' \<in> set inp \<and> zone = [] then None
      else
        let ell = (if has_prefix s ''::'' then Some 0 else None);
            s' = (if has_prefix s ''::'' then drop 2 s else s)
        in if ell \<noteq> None \<and> s' = [] then Some (IP6 0 zone)
           else
             (case v6_groups s' [] ell of
                None \<Rightarrow> None
              | Some (rest, gs, ell') \<Rightarrow>
                  if rest \<noteq> [] then None
                  else map_option (\<lambda>fs. IP6 (join_fields 16 fs) zone) (v6_expand gs ell')))"

text \<open>\<open>netip.ParseAddr\<close>: the first dot, colon or percent sign decides.\<close>

definition parse_addr :: "string \<Rightarrow> ip_addr option" where
  "parse_addr s =
     (case dropWhile (\<lambda>c. c \<notin> {CHR ''.'', CHR '':'', CHR ''%''}) s of
        [] \<Rightarrow> None
      | c # _ \<Rightarrow>
          if c = CHR ''.'' then parse_ipv4 s
          else if c = CHR '':'' then parse_ipv6 s
          else None)"

text \<open>\<open>netip.ParsePrefix\<close>.\<close>

definition parse_prefix :: "string \<Rightarrow> ip_prefix option" where
  "parse_prefix s =
     (case cut_last (CHR ''/'') s of
        None \<Rightarrow> None
      | Some (a, bits) \<Rightarrow>
          (case parse_addr a of
             None \<Rightarrow> None
           | Some ip \<Rightarrow>
               if (case ip of IP6 _ z \<Rightarrow> z \<noteq> [] | _ \<Rightarrow> False) then None
               else if 1 < length bits \<and> \<not> (49 \<le> code (hd bits) \<and> code (hd bits) \<le> 57) then None
               else
                 (case atoi bits of
                    None \<Rightarrow> None
                  | Some n \<Rightarrow>
                      if n < 0 \<or> n > (case ip of IP4 _ \<Rightarrow> 32 | _ \<Rightarrow> 128) then None
                      else Some (Prefix ip (nat n)))))"

lemma parse_ipv4_IP4: "parse_ipv4 s = Some ip \<Longrightarrow> \<exists>w. ip = IP4 w"
  by (auto simp: parse_ipv4_def)

lemma parse_ipv6_IP6: "parse_ipv6 s = Some ip \<Longrightarrow> \<exists>w z. ip = IP6 w z"
  by (auto simp: parse_ipv6_def Let_def split: if_splits option.splits)

lemma parse_addr_valid: "parse_addr s = Some ip \<Longrightarrow> ip \<noteq> NoIP"
  by (auto simp: parse_addr_def dest: parse_ipv4_IP4 parse_ipv6_IP6
      split: list.splits if_splits)

text \<open>A parsed prefix is well formed: its length fits its address and it has no zone.\<close>

fun prefix_ok :: "ip_prefix \<Rightarrow> bool" where
  "prefix_ok (Prefix (IP4 _) n) = (n \<le> 32)"
| "prefix_ok (Prefix (IP6 _ z) n) = (n \<le> 128 \<and> z = [])"
| "prefix_ok (Prefix NoIP _) = False"

lemma parse_prefix_ok: "parse_prefix s = Some p \<Longrightarrow> prefix_ok p"
  by (auto simp: parse_prefix_def dest: parse_addr_valid
      split: option.splits if_splits ip_addr.splits prod.splits)

lemma parse_prefix_Nil [simp]: "parse_prefix [] = None"
  by (simp add: parse_prefix_def cut_last_def)

section \<open>\<open>net.SplitHostPort\<close>\<close>

text \<open>
  The host and port of \<open>host:port\<close>, \<open>[host]:port\<close> or \<open>[host%zone]:port\<close>; \<open>None\<close> for
  every text the function rejects.
\<close>

definition split_host_port :: "string \<Rightarrow> (string \<times> string) option" where
  "split_host_port hp =
     (case cut_last (CHR '':'') hp of
        None \<Rightarrow> None
      | Some (pre, port) \<Rightarrow>
          if has_prefix hp ''['' then
            (if CHR '']'' \<notin> set hp then None
             else
               let host = tl (before (CHR '']'') hp);
                   after = drop (length host + 2) hp
               in if after = [] \<or> drop 1 after \<noteq> port \<or> hd after \<noteq> CHR '':'' then None
                  else if CHR ''['' \<in> set (tl hp) \<or> CHR '']'' \<in> set after then None
                  else Some (host, port))
          else if CHR '':'' \<in> set pre then None
          else if CHR ''['' \<in> set hp \<or> CHR '']'' \<in> set hp then None
          else Some (pre, port))"

text \<open>\<open>net.JoinHostPort\<close>.\<close>

definition join_host_port :: "string \<Rightarrow> string \<Rightarrow> string" where
  "join_host_port host port =
     (if CHR '':'' \<in> set host \<or> CHR ''%'' \<in> set host
      then ''['' @ host @ '']:'' @ port
      else host @ '':'' @ port)"

end
