(* ===== verification/GoURL.thy ===== *)
theory GoURL
  imports NetIP
begin

text \<open>
  \<open>url.Parse\<close> of Go's \<open>net/url\<close>: the scheme, host, user, path, query and fragment of a
  URL text, \<open>None\<close> for a text it rejects. \<open>RawPath\<close> and \<open>RawFragment\<close>, which only
  keep an unusual escaping, are left out.
\<close>

record url =
  url_scheme :: string
  url_opaque :: string
  url_user :: "string option"
  url_host :: string
  url_path :: string
  url_query :: string
  url_fragment :: string

definition empty_url :: url where
  "empty_url = \<lparr>url_scheme = [], url_opaque = [], url_user = None, url_host = [],
     url_path = [], url_query = [], url_fragment = []\<rparr>"

definition is_letter :: "char \<Rightarrow> bool" where
  "is_letter c \<longleftrightarrow> is_lower c \<or> is_upper c"

text \<open>\<open>getScheme\<close>: the scheme and the rest, no scheme at an invalid character.\<close>

fun get_scheme_from :: "string \<Rightarrow> string \<Rightarrow> string \<Rightarrow> (string \<times> string) option" where
  "get_scheme_from raw pre [] = Some ([], raw)"
| "get_scheme_from raw pre (c # cs) =
     (if is_letter c then get_scheme_from raw (pre @ [c]) cs
      else if is_digit c \<or> c \<in> {CHR ''+'', CHR ''-'', CHR ''.''} then
        (if pre = [] then Some ([], raw) else get_scheme_from raw (pre @ [c]) cs)
      else if c = CHR '':'' then (if pre = [] then None else Some (pre, cs))
      else Some ([], raw))"

definition get_scheme :: "string \<Rightarrow> (string \<times> string) option" where
  "get_scheme raw = get_scheme_from raw [] raw"

text \<open>\<open>unescape\<close>: the tests on an escape and on a plain byte depend on the mode.\<close>

fun unescape :: "(char \<Rightarrow> char \<Rightarrow> bool) \<Rightarrow> (char \<Rightarrow> bool) \<Rightarrow> string \<Rightarrow> string option" where
  "unescape esc plain [] = Some []"
| "unescape esc plain (c # cs) =
     (if c = CHR ''%'' then
        (case cs of
           a # b # ds \<Rightarrow>
             if is_hex a \<and> is_hex b \<and> esc a b
             then map_option ((#) (char_of (hex_val [a, b]))) (unescape esc plain ds)
             else None
         | _ \<Rightarrow> None)
      else if plain c then map_option ((#) c) (unescape esc plain cs)
      else None)"

definition host_byte :: "char \<Rightarrow> bool" where
  "host_byte c \<longleftrightarrow> 128 \<le> code c \<or> is_letter c \<or> is_digit c \<or>
     c \<in> set ''!$&()*+,;=:[]<>-_.~'' \<or> c = CHR 0x27 \<or> c = CHR 0x22"

definition unescape_host :: "string \<Rightarrow> string option" where
  "unescape_host =
     unescape (\<lambda>a b. 8 \<le> hex_digit_val a \<or> (a = CHR ''2'' \<and> b = CHR ''5'')) host_byte"

definition unescape_zone :: "string \<Rightarrow> string option" where
  "unescape_zone =
     unescape
       (\<lambda>a b. let v = char_of (hex_val [a, b]) :: char
              in (a = CHR ''2'' \<and> b = CHR ''5'') \<or> v = CHR '' '' \<or> (host_byte v \<and> code v < 128))
       host_byte"

definition unescape_any :: "string \<Rightarrow> string option" where
  "unescape_any = unescape (\<lambda>_ _. True) (\<lambda>_. True)"

definition valid_optional_port :: "string \<Rightarrow> bool" where
  "valid_optional_port p \<longleftrightarrow> p = [] \<or> (hd p = CHR '':'' \<and> list_all is_digit (tl p))"

definition parse_host :: "string \<Rightarrow> string option" where
  "parse_host h =
     (if has_prefix h ''['' then
        (case cut_last (CHR '']'') h of
           None \<Rightarrow> None
         | Some (pre, post) \<Rightarrow>
             if \<not> valid_optional_port post then None
             else
               (case find (\<lambda>i. has_prefix (drop i pre) ''%25'') [0..<length pre] of
                  None \<Rightarrow> unescape_host h
                | Some z \<Rightarrow>
                    (case (unescape_host (take z pre), unescape_zone (drop z pre),
                           unescape_host ('']'' @ post)) of
                       (Some a, Some b, Some c) \<Rightarrow> Some (a @ b @ c)
                     | _ \<Rightarrow> None)))
      else
        (case cut_last (CHR '':'') h of
           None \<Rightarrow> unescape_host h
         | Some (_, post) \<Rightarrow>
             if valid_optional_port ('':'' @ post) then unescape_host h else None))"

definition valid_userinfo :: "string \<Rightarrow> bool" where
  "valid_userinfo s \<longleftrightarrow>
     list_all (\<lambda>c. is_letter c \<or> is_digit c \<or> c \<in> set ''-._:~!$&()*+,;=%@'' \<or> c = CHR 0x27) s"

definition parse_authority :: "string \<Rightarrow> (string option \<times> string) option" where
  "parse_authority a =
     (case cut_last (CHR ''@'') a of
        None \<Rightarrow> map_option (\<lambda>h. (None, h)) (parse_host a)
      | Some (user, h) \<Rightarrow>
          (case parse_host h of
             None \<Rightarrow> None
           | Some host \<Rightarrow>
               if valid_userinfo user \<and> unescape_any user \<noteq> None then Some (Some user, host)
               else None))"

definition parse_no_fragment :: "string \<Rightarrow> url option" where
  "parse_no_fragment raw =
     (if list_ex (\<lambda>c. code c < 32 \<or> code c = 127) raw then None
      else if raw = ''*'' then Some (empty_url\<lparr>url_path := ''*''\<rparr>)
      else
        (case get_scheme raw of
           None \<Rightarrow> None
         | Some (scheme0, rest0) \<Rightarrow>
             let scheme = to_lower scheme0;
                 rest = before (CHR ''?'') rest0;
                 query = drop 1 (from_first (CHR ''?'') rest0);
                 base = empty_url\<lparr>url_scheme := scheme, url_query := query\<rparr>
             in if \<not> has_prefix rest ''/'' \<and> scheme \<noteq> [] then
                  Some (base\<lparr>url_opaque := rest\<rparr>)
                else if \<not> has_prefix rest ''/'' \<and> CHR '':'' \<in> set (before (CHR ''/'') rest) then None
                else if (scheme \<noteq> [] \<or> \<not> has_prefix rest ''///'') \<and> has_prefix rest ''//'' then
                  let authority = before (CHR ''/'') (drop 2 rest);
                      path = from_first (CHR ''/'') (drop 2 rest)
                  in (case (parse_authority authority, unescape_any path) of
                        (Some (user, host), Some p) \<Rightarrow>
                          Some (base\<lparr>url_user := user, url_host := host, url_path := p\<rparr>)
                      | _ \<Rightarrow> None)
                else map_option (\<lambda>p. base\<lparr>url_path := p\<rparr>) (unescape_any rest)))"

definition url_parse :: "string \<Rightarrow> url option" where
  "url_parse raw =
     (case parse_no_fragment (before (CHR ''#'') raw) of
        None \<Rightarrow> None
      | Some u \<Rightarrow>
          map_option (\<lambda>f. u\<lparr>url_fragment := f\<rparr>)
            (unescape_any (drop 1 (from_first (CHR ''#'') raw))))"

text \<open>
  The test the program makes on every upstream:
  \<open>err != nil || parsed.Host == "" || parsed.Scheme == ""\<close> rejects it.
\<close>

definition upstream_url :: "string \<Rightarrow> url option" where
  "upstream_url s =
     (case url_parse s of
        None \<Rightarrow> None
      | Some u \<Rightarrow> if url_host u = [] \<or> url_scheme u = [] then None else Some u)"

lemma upstream_url_Some_iff:
  "upstream_url s = Some u \<longleftrightarrow> url_parse s = Some u \<and> url_host u \<noteq> [] \<and> url_scheme u \<noteq> []"
  by (auto simp: upstream_url_def split: option.splits)

lemma url_parse_Nil: "url_parse [] = Some empty_url"
  by code_simp

lemma upstream_url_Nil [simp]: "upstream_url [] = None"
  by code_simp

end
