(* ===== verification/ConfigTypes.thy ===== *)
theory ConfigTypes
  imports GoURL
begin

text \<open>
  The gateway's configuration (\<open>internal/config/types.go\<close>), its defaults
  (\<open>fillDefaults\<close> of \<open>manager.go\<close>) and the overrides taken from the environment
  (\<open>env.go\<close>). The environment is a function from names to values, the empty text for a
  name that is not set, as \<open>os.Getenv\<close> has it.
\<close>

section \<open>Configuration records\<close>

record ssl_certificate =
  ssl_id :: string
  ssl_name :: string
  ssl_domains :: "string list"
  ssl_not_after :: gotime
  ssl_issuer :: string
  ssl_cert_pem :: string
  ssl_key_pem :: string
  ssl_created_at :: gotime

record data_plane_config =
  http_listen_addr :: string
  https_listen_addr :: string
  enable_https :: bool
  dp_cert_id :: string

record auth_config =
  auth_username :: string
  auth_password :: string
  auth_token :: string

record control_plane_config =
  admin_listen_addr :: string
  cp_auth :: auth_config

record cloudflare_config =
  cf_endpoint :: string
  cf_api_token :: string
  cf_zone_id :: string

record cdn_sync_config =
  sync_enabled :: bool
  sync_providers :: "string list"
  sync_schedule :: string
  sync_cloudflare :: cloudflare_config

record cdn_provider_setting =
  api_key :: string
  secret_key :: string
  cdn_option :: string
  account_id :: string
  zone_id :: string
  cdn_endpoint :: string
  refresh_interval_seconds :: int
  max_staleness_seconds :: int

record security_config =
  allowed_cidrs :: "string list"
  trusted_proxy_cidrs :: "string list"
  allowed_cdn_providers :: "string list"
  cdn_provider_settings :: "cdn_provider_setting gomap option"
  origin_protection_mode :: string
  enable_hsts :: bool

record domain_rule =
  dr_domain :: string
  dr_upstream :: string
  dr_force_https :: bool

record routing_config =
  default_upstream :: string
  routing_domains :: "domain_rule list"

record lb_node =
  node_id :: string
  node_upstream :: string
  node_weight :: int
  node_enabled :: bool

record lb_pool =
  pool_id :: string
  pool_name :: string
  pool_strategy :: string
  pool_nodes :: "lb_node list"

record lb_route_rule =
  rule_domain :: string
  rule_pool_id :: string
  rule_fallback_pool_id :: string
  rule_force_https :: bool

record load_balancer_config =
  default_pool_id :: string
  lb_cfg_pools :: "lb_pool list"
  lb_cfg_routes :: "lb_route_rule list"

record certificate =
  cert_domain :: string
  cert_pem :: string
  cert_key_pem :: string
  cert_file :: string
  cert_key_file :: string

record config =
  data_plane :: data_plane_config
  control_plane :: control_plane_config
  security :: security_config
  routing :: routing_config
  load_balancer :: load_balancer_config
  cdn_sync :: cdn_sync_config
  certificates :: "certificate list"
  ssl_certificates :: "ssl_certificate list"

text \<open>
  A validation issue. A message the program writes itself is a text; a message that is
  the text of a library error keeps the error.
\<close>

datatype go_error = PrefixError string | ReadFileError string | KeyPairError string string

datatype issue_message = Msg string | ErrorText go_error

record validation_issue =
  issue_path :: string
  issue_message :: issue_message

definition issue :: "string \<Rightarrow> string \<Rightarrow> validation_issue" where
  "issue p m = \<lparr>issue_path = p, issue_message = Msg m\<rparr>"

section \<open>Defaults\<close>

definition zero_setting :: cdn_provider_setting where
  "zero_setting = \<lparr>api_key = [], secret_key = [], cdn_option = [], account_id = [], zone_id = [],
     cdn_endpoint = [], refresh_interval_seconds = 0, max_staleness_seconds = 0\<rparr>"

definition zero_config :: config where
  "zero_config = \<lparr>
     data_plane = \<lparr>http_listen_addr = [], https_listen_addr = [], enable_https = False, dp_cert_id = []\<rparr>,
     control_plane = \<lparr>admin_listen_addr = [],
       cp_auth = \<lparr>auth_username = [], auth_password = [], auth_token = []\<rparr>\<rparr>,
     security = \<lparr>allowed_cidrs = [], trusted_proxy_cidrs = [], allowed_cdn_providers = [],
       cdn_provider_settings = None, origin_protection_mode = [], enable_hsts = False\<rparr>,
     routing = \<lparr>default_upstream = [], routing_domains = []\<rparr>,
     load_balancer = \<lparr>default_pool_id = [], lb_cfg_pools = [], lb_cfg_routes = []\<rparr>,
     cdn_sync = \<lparr>sync_enabled = False, sync_providers = [], sync_schedule = [],
       sync_cloudflare = \<lparr>cf_endpoint = [], cf_api_token = [], cf_zone_id = []\<rparr>\<rparr>,
     certificates = [], ssl_certificates = []\<rparr>"

definition default_config :: config where
  "default_config = zero_config\<lparr>
     data_plane := \<lparr>http_listen_addr = '':8080'', https_listen_addr = '':8443'',
       enable_https = True, dp_cert_id = []\<rparr>,
     control_plane := \<lparr>admin_listen_addr = '':9090'',
       cp_auth = \<lparr>auth_username = ''admin'', auth_password = ''change_me'', auth_token = []\<rparr>\<rparr>,
     cdn_sync := \<lparr>sync_enabled = False, sync_providers = [''cloudflare''],
       sync_schedule = ''@every 1h'',
       sync_cloudflare = \<lparr>cf_endpoint = [], cf_api_token = [], cf_zone_id = []\<rparr>\<rparr>\<rparr>"

definition or_default :: "string \<Rightarrow> string \<Rightarrow> string" where
  "or_default v d = (if v = [] then d else v)"

lemma or_default_simps [simp]:
  "or_default [] d = d" "v \<noteq> [] \<Longrightarrow> or_default v d = v" "or_default (or_default v d) d = or_default v d"
  by (simp_all add: or_default_def)

definition fill_defaults :: "config \<Rightarrow> config" where
  "fill_defaults cfg =
     (let base = default_config; dp = data_plane cfg; cp = control_plane cfg in
      cfg\<lparr>data_plane := dp\<lparr>
             http_listen_addr := or_default (http_listen_addr dp) (http_listen_addr (data_plane base)),
             https_listen_addr := or_default (https_listen_addr dp) (https_listen_addr (data_plane base))\<rparr>,
          control_plane := cp\<lparr>
             admin_listen_addr :=
               or_default (admin_listen_addr cp) (admin_listen_addr (control_plane base))\<rparr>\<rparr>)"

lemma fill_defaults_frame [simp, frame_simps]:
  "security (fill_defaults cfg) = security cfg"
  "routing (fill_defaults cfg) = routing cfg"
  "load_balancer (fill_defaults cfg) = load_balancer cfg"
  "cdn_sync (fill_defaults cfg) = cdn_sync cfg"
  "certificates (fill_defaults cfg) = certificates cfg"
  "ssl_certificates (fill_defaults cfg) = ssl_certificates cfg"
  "cp_auth (control_plane (fill_defaults cfg)) = cp_auth (control_plane cfg)"
  by (simp_all add: fill_defaults_def Let_def)

lemma fill_defaults_idem [simp]: "fill_defaults (fill_defaults cfg) = fill_defaults cfg"
  by (simp add: fill_defaults_def Let_def)

lemma fill_defaults_addrs:
  "http_listen_addr (data_plane (fill_defaults cfg)) \<noteq> []"
  "https_listen_addr (data_plane (fill_defaults cfg)) \<noteq> []"
  "admin_listen_addr (control_plane (fill_defaults cfg)) \<noteq> []"
  by (simp_all add: fill_defaults_def Let_def or_default_def default_config_def)

section \<open>Environment overrides\<close>

type_synonym environ = "string \<Rightarrow> string"

definition env_or_default :: "environ \<Rightarrow> string \<Rightarrow> string \<Rightarrow> string" where
  "env_or_default env key fallback =
     (let value = trim_space (env key) in if value = [] then fallback else value)"

definition env_duration_seconds :: "environ \<Rightarrow> string \<Rightarrow> int \<Rightarrow> duration" where
  "env_duration_seconds env key fallback =
     (let value = trim_space (env key) in
      if value = [] then wrap64 (fallback * second)
      else
        (case atoi value of
           None \<Rightarrow> wrap64 (fallback * second)
         | Some n \<Rightarrow> if n \<le> 0 then wrap64 (fallback * second) else wrap64 (n * second)))"

definition env_bool_value :: "environ \<Rightarrow> string \<Rightarrow> bool \<Rightarrow> bool" where
  "env_bool_value env key fallback =
     (let value = trim_space (env key) in
      if value = [] then fallback
      else if to_lower value \<in> {''1'', ''true'', ''yes'', ''on''} then True
      else if to_lower value \<in> {''0'', ''false'', ''no'', ''off''} then False
      else fallback)"

definition env_plain_overrides :: "environ \<Rightarrow> config \<Rightarrow> config" where
  "env_plain_overrides env cfg =
     (let dp = data_plane cfg; cp = control_plane cfg; au = cp_auth cp; sec = security cfg in
      cfg\<lparr>
        data_plane := dp\<lparr>
          http_listen_addr := env_or_default env ''HTTP_LISTEN_ADDR'' (http_listen_addr dp),
          https_listen_addr := env_or_default env ''HTTPS_LISTEN_ADDR'' (https_listen_addr dp),
          enable_https := env_bool_value env ''HTTPS_ENABLED'' (enable_https dp)\<rparr>,
        control_plane := cp\<lparr>
          admin_listen_addr := env_or_default env ''ADMIN_LISTEN_ADDR'' (admin_listen_addr cp),
          cp_auth := au\<lparr>
            auth_username := env_or_default env ''ADMIN_USERNAME'' (auth_username au),
            auth_password := env_or_default env ''ADMIN_PASSWORD'' (auth_password au),
            auth_token := env_or_default env ''ADMIN_API_TOKEN'' (auth_token au)\<rparr>\<rparr>,
        security := sec\<lparr>enable_hsts := env_bool_value env ''HSTS_ENABLED'' (enable_hsts sec)\<rparr>\<rparr>)"

definition env_upstream_override :: "environ \<Rightarrow> config \<Rightarrow> config" where
  "env_upstream_override env cfg =
     (let up = trim_space (env ''DEFAULT_UPSTREAM'') in
      if up \<noteq> [] then
        cfg\<lparr>routing := (routing cfg)\<lparr>default_upstream := up\<rparr>,
            load_balancer := (load_balancer cfg)\<lparr>default_pool_id := []\<rparr>\<rparr>
      else
        cfg\<lparr>routing := (routing cfg)\<lparr>default_upstream :=
              env_or_default env ''DEFAULT_UPSTREAM'' (default_upstream (routing cfg))\<rparr>\<rparr>)"

definition env_cidrs_override :: "environ \<Rightarrow> config \<Rightarrow> config" where
  "env_cidrs_override env cfg =
     (let cidrs = trim_space (env ''ALLOWED_CIDRS'') in
      if cidrs \<noteq> [] then
        cfg\<lparr>security := (security cfg)\<lparr>allowed_cidrs :=
              filter (\<lambda>v. v \<noteq> []) (map trim_space (split_on (CHR '','') cidrs))\<rparr>\<rparr>
      else cfg)"

text \<open>\<open>ApplyEnvOverrides\<close>: the assignments in the order of the code.\<close>

definition apply_env_overrides :: "environ \<Rightarrow> config \<Rightarrow> config" where
  "apply_env_overrides env cfg =
     env_cidrs_override env (env_upstream_override env (env_plain_overrides env cfg))"

lemma env_or_default_idem:
  "env_or_default env k (env_or_default env k d) = env_or_default env k d"
  by (simp add: env_or_default_def Let_def)

lemma env_bool_value_idem:
  "env_bool_value env k (env_bool_value env k d) = env_bool_value env k d"
  by (simp add: env_bool_value_def Let_def)

lemma env_or_default_unset [simp]: "env k = [] \<Longrightarrow> env_or_default env k d = d"
  by (simp add: env_or_default_def trim_space_def trim_by_def)

lemma env_bool_value_unset [simp]: "env k = [] \<Longrightarrow> env_bool_value env k d = d"
  by (simp add: env_bool_value_def trim_space_def trim_by_def)

lemma env_override_idem:
  "env_plain_overrides env (env_plain_overrides env cfg) = env_plain_overrides env cfg"
  "env_upstream_override env (env_upstream_override env cfg) = env_upstream_override env cfg"
  "env_cidrs_override env (env_cidrs_override env cfg) = env_cidrs_override env cfg"
  by (simp_all add: env_plain_overrides_def env_upstream_override_def env_cidrs_override_def Let_def
      env_or_default_idem env_bool_value_idem)

lemma env_override_commute:
  "env_plain_overrides env (env_upstream_override env cfg) =
     env_upstream_override env (env_plain_overrides env cfg)"
  "env_plain_overrides env (env_cidrs_override env cfg) =
     env_cidrs_override env (env_plain_overrides env cfg)"
  "env_upstream_override env (env_cidrs_override env cfg) =
     env_cidrs_override env (env_upstream_override env cfg)"
  by (simp_all add: env_plain_overrides_def env_upstream_override_def env_cidrs_override_def Let_def)

lemma apply_env_overrides_idem:
  "apply_env_overrides env (apply_env_overrides env cfg) = apply_env_overrides env cfg"
  by (simp add: apply_env_overrides_def env_override_commute env_override_idem)

lemma env_overrides_upstream:
  "trim_space (env ''DEFAULT_UPSTREAM'') \<noteq> [] \<Longrightarrow>
   default_upstream (routing (apply_env_overrides env cfg)) = trim_space (env ''DEFAULT_UPSTREAM'') \<and>
   default_pool_id (load_balancer (apply_env_overrides env cfg)) = []"
  by (simp add: apply_env_overrides_def env_upstream_override_def env_cidrs_override_def Let_def)

lemma apply_env_overrides_empty:
  "apply_env_overrides (\<lambda>_. []) cfg = cfg"
  by (simp add: apply_env_overrides_def env_plain_overrides_def env_upstream_override_def
      env_cidrs_override_def Let_def trim_space_def trim_by_def)

lemma env_duration_seconds_pos:
  assumes "0 < fallback" "fallback * second < 2 ^ 63"
    and "\<And>n. atoi (trim_space (env key)) = Some n \<Longrightarrow> n * second < 2 ^ 63"
  shows "0 < env_duration_seconds env key fallback"
proof -
  have pos: "0 < wrap64 (n * second)" if "0 < n" "n * second < 2 ^ 63" for n
  proof -
    have "0 < n * second" using that(1) by (simp add: duration_units)
    then show ?thesis using that(2) by (simp add: wrap64_id)
  qed
  show ?thesis
    using assms pos by (auto simp: env_duration_seconds_def Let_def split: option.splits)
qed

end
