(* ===== verification/Snapshot.thy ===== *)
theory Snapshot
  imports ConfigTypes
begin

text \<open>
  The compiled, read-only form of a configuration that requests are served from
  (\<open>type snapshot\<close> and its parts in \<open>internal/config/manager.go\<close> and
  \<open>manager_lb.go\<close>), the errors of compiling one, and \<open>normalizeHost\<close>. The counter of a
  pool, an \<open>atomic.Uint64\<close> behind a pointer, is a field of the pool: operations that
  advance it return the snapshot updated. A loaded certificate is an opaque value.
\<close>

section \<open>Routes and pools\<close>

record route_item =
  ri_domain :: string
  ri_force_https :: bool
  ri_target :: url

record wildcard_item =
  wi_suffix :: string
  wi_route :: route_item

record lb_route_item =
  lri_domain :: string
  lri_force_https :: bool
  lri_pool_id :: string
  lri_fallback_pool_id :: string

record lb_wildcard_item =
  lwi_suffix :: string
  lwi_route :: lb_route_item

record compiled_pool_node =
  cpn_id :: string
  cpn_target :: url

record compiled_pool =
  cp_id :: string
  cp_strategy :: string
  cp_nodes :: "compiled_pool_node list"
  cp_ring :: "int list"
  cp_counter :: "64 word"

datatype tls_certificate = TlsCertificate string string

record snapshot =
  snap_cfg :: config
  allow_all :: bool
  snap_allowed_cidrs :: "ip_prefix list"
  cdn_provider_cidrs :: "ip_prefix list gomap"
  lb_pools :: "compiled_pool gomap"
  lb_exact_routes :: "lb_route_item gomap"
  lb_wildcard_routes :: "lb_wildcard_item list"
  lb_default_route :: "lb_route_item option"
  exact_routes :: "route_item gomap"
  wildcard_routes :: "wildcard_item list"
  default_route :: "route_item option"
  snap_certificates :: "tls_certificate gomap"
  default_cert :: "tls_certificate option"

record route_match =
  rm_domain :: string
  rm_force_https :: bool
  rm_target :: url

record cdn_status =
  cs_provider :: string
  cs_cidrs :: "string list"
  cs_last_sync :: gotime
  cs_error :: string

definition empty_snapshot :: "config \<Rightarrow> snapshot" where
  "empty_snapshot cfg = \<lparr>snap_cfg = cfg, allow_all = False, snap_allowed_cidrs = [],
     cdn_provider_cidrs = [], lb_pools = [], lb_exact_routes = [], lb_wildcard_routes = [],
     lb_default_route = None, exact_routes = [], wildcard_routes = [], default_route = None,
     snap_certificates = [], default_cert = None\<rparr>"

text \<open>The errors of the configuration manager, one constructor for each \<open>return err\<close>.\<close>

datatype config_error =
    ReadConfigFailed
  | ParseConfigFailed
  | ConfigConflict "validation_issue list"
  | InvalidCidr string
  | InvalidCdnCidr string
  | InvalidPoolNode string string
  | InvalidRuleUpstream string string
  | InvalidDefaultUpstream string
  | EmptyCertDomain
  | ReadCertFileFailed string
  | ReadKeyFileFailed string
  | LoadCertFailed string
  | LoadSslCertFailed string string
  | ProviderEmpty
  | ConfigNotReady
  | NoCertificate

section \<open>Host names\<close>

definition normalize_host :: "string \<Rightarrow> string" where
  "normalize_host host =
     (let value = trim_space (to_lower host);
          value = trim_prefix value ''http://'';
          value = trim_prefix value ''https://'' in
      before (CHR '':'') value)"

lemma normalize_host_no_colon [simp]: "CHR '':'' \<notin> set (normalize_host h)"
  by (simp add: normalize_host_def Let_def)

lemma to_lower_drop: "to_lower (drop n s) = drop n (to_lower s)"
  by (simp add: to_lower_def drop_map)

lemma to_lower_takeWhile:
  assumes "to_lower s = s" shows "to_lower (takeWhile P s) = takeWhile P s"
  using assms by (induction s) (auto simp: to_lower_def)

lemma to_lower_trim_prefix:
  "to_lower s = s \<Longrightarrow> to_lower (trim_prefix s p) = trim_prefix s p"
  by (simp add: trim_prefix_def to_lower_drop)

lemma to_lower_trim_space: "to_lower s = s \<Longrightarrow> to_lower (trim_space s) = trim_space s"
  by (metis trim_space_to_lower)

lemma normalize_host_lower [simp]: "to_lower (normalize_host h) = normalize_host h"
  by (simp add: normalize_host_def Let_def before_def to_lower_takeWhile to_lower_trim_prefix
      to_lower_trim_space)

lemma normalize_host_to_lower [simp]: "normalize_host (to_lower h) = normalize_host h"
  by (simp add: normalize_host_def)

lemma normalize_host_trim_space [simp]: "normalize_host (trim_space h) = normalize_host h"
  by (simp add: normalize_host_def trim_space_to_lower [symmetric])

lemma normalize_host_Nil [simp]: "normalize_host [] = []"
  by (simp add: normalize_host_def trim_space_def trim_by_def trim_prefix_def to_lower_def
      has_prefix_def before_def)


end
