(* ===== verification/Schedule.thy ===== *)
theory Schedule
  imports Prelude "HOL-Library.Multiset"
begin

text \<open>
  The interface of a cyclic scheduler: an operation that hands out the entries of a ring
  in order, one position further at each call. What a caller may conclude from it, which
  is fairness over every window of the ring's length and the effect of a caller that
  throws away every second answer, is proved once here.
\<close>

fun picks :: "('s \<Rightarrow> 's \<times> 'a option) \<Rightarrow> nat \<Rightarrow> 's \<Rightarrow> 'a option list" where
  "picks op 0 s = []"
| "picks op (Suc n) s = (case op s of (s', r) \<Rightarrow> r # picks op n s')"

text \<open>A caller that asks twice for every answer it uses.\<close>

definition ask_twice :: "('s \<Rightarrow> 's \<times> 'a option) \<Rightarrow> 's \<Rightarrow> 's \<times> 'a option" where
  "ask_twice op s = (case op s of (s1, r) \<Rightarrow> op s1)"

lemma length_picks [simp]: "length (picks op n s) = n"
  by (induction n arbitrary: s) (auto split: prod.splits)

lemma mset_rotated: "mset (rotate n xs) = mset xs"
proof (induction n)
  case (Suc n)
  have "mset (rotate1 ys) = mset ys" for ys :: "'a list" by (cases ys) simp_all
  with Suc show ?case by simp
qed simp

locale cyclic_schedule =
  fixes step :: "'s \<Rightarrow> 's \<times> 'a option"
    and ring :: "'s \<Rightarrow> 'a list"
    and tick :: "'s \<Rightarrow> nat"
    and ready :: "'s \<Rightarrow> bool"
    and bound :: nat
  assumes ring_nonempty: "ready s \<Longrightarrow> ring s \<noteq> []"
    and step_result: "ready s \<Longrightarrow> Suc (tick s) < bound \<Longrightarrow>
      snd (step s) = Some (ring s ! (Suc (tick s) mod length (ring s)))"
    and step_tick: "ready s \<Longrightarrow> Suc (tick s) < bound \<Longrightarrow> tick (fst (step s)) = Suc (tick s)"
    and step_ring: "ready s \<Longrightarrow> ring (fst (step s)) = ring s"
    and step_ready: "ready s \<Longrightarrow> ready (fst (step s))"
begin

lemma picks_nth:
  assumes "ready s" "tick s + n < bound" "j < n"
  shows "picks step n s ! j = Some (ring s ! ((Suc (tick s) + j) mod length (ring s)))"
  using assms
proof (induction n arbitrary: s j)
  case (Suc n)
  obtain s' r where st: "step s = (s', r)" by fastforce
  have b: "Suc (tick s) < bound" using Suc.prems by simp
  have next_state: "ready s'" "tick s' = Suc (tick s)" "ring s' = ring s"
    using step_ready [OF Suc.prems(1)] step_tick [OF Suc.prems(1) b] step_ring [OF Suc.prems(1)]
    by (simp_all add: st)
  show ?case
  proof (cases j)
    case 0
    then show ?thesis using step_result [OF Suc.prems(1) b] by (simp add: st)
  next
    case (Suc i)
    then show ?thesis using Suc.IH [of s' i] Suc.prems next_state by (simp add: st)
  qed
qed simp

lemma window_rotates:
  assumes "ready s" "tick s + length (ring s) < bound"
  shows "picks step (length (ring s)) s = map Some (rotate (Suc (tick s)) (ring s))"
proof (rule nth_equalityI)
  fix j assume "j < length (picks step (length (ring s)) s)"
  then have j: "j < length (ring s)" by simp
  then show "picks step (length (ring s)) s ! j = map Some (rotate (Suc (tick s)) (ring s)) ! j"
    using picks_nth [OF assms j] by (simp add: nth_rotate del: rotate_Suc)
qed simp

lemma window_fair:
  assumes "ready s" "tick s + length (ring s) < bound"
  shows "mset (picks step (length (ring s)) s) = image_mset Some (mset (ring s))"
  by (simp add: window_rotates [OF assms] mset_rotated del: rotate_Suc)

lemma ask_twice_nth:
  assumes "ready s" "tick s + 2 * n < bound" "j < n"
  shows "picks (ask_twice step) n s ! j =
    Some (ring s ! ((tick s + 2 * (j + 1)) mod length (ring s)))"
  using assms
proof (induction n arbitrary: s j)
  case (Suc n)
  obtain s1 r1 where st1: "step s = (s1, r1)" by fastforce
  obtain s2 r2 where st2: "step s1 = (s2, r2)" by fastforce
  have b: "Suc (tick s) < bound" "Suc (Suc (tick s)) < bound" using Suc.prems by simp_all
  have one: "ready s1" "tick s1 = Suc (tick s)" "ring s1 = ring s"
    using step_ready [OF Suc.prems(1)] step_tick [OF Suc.prems(1) b(1)] step_ring [OF Suc.prems(1)]
    by (simp_all add: st1)
  have two: "ready s2" "tick s2 = Suc (Suc (tick s))" "ring s2 = ring s"
    using step_ready [OF one(1)] step_tick [OF one(1)] step_ring [OF one(1)] one b
    by (simp_all add: st2)
  have twice: "ask_twice step s = (s2, r2)" by (simp add: ask_twice_def st1 st2)
  show ?case
  proof (cases j)
    case 0
    then show ?thesis using step_result [OF one(1)] one b by (simp add: twice st2)
  next
    case (Suc i)
    then show ?thesis using Suc.IH [of s2 i] Suc.prems two by (simp add: twice)
  qed
qed simp

text \<open>With a ring of even length, asking twice never reaches the positions of one parity.\<close>

lemma ask_twice_parity:
  assumes "ready s" "tick s + 2 * n < bound" "even (length (ring s))" "j < n"
  shows "\<exists>i. i < length (ring s) \<and> even (i + tick s) \<and>
    picks (ask_twice step) n s ! j = Some (ring s ! i)"
proof -
  let ?i = "(tick s + 2 * (j + 1)) mod length (ring s)"
  have "even ?i \<longleftrightarrow> even (tick s)"
    using assms(3) by (metis dvd_mod_iff dvd_triv_left even_add)
  moreover have "?i < length (ring s)" using ring_nonempty [OF assms(1)] by simp
  ultimately show ?thesis using ask_twice_nth [OF assms(1,2,4)] by (intro exI [of _ ?i]) simp
qed

end

end
