(* ===== verification/LoadBalancer.thy ===== *)
theory LoadBalancer
  imports Snapshot Schedule
begin

text \<open>
  The load balancer of \<open>internal/config/manager_lb.go\<close>: compiling the pools and routes of
  a configuration into the snapshot, the weighted ring of a pool, picking a target from it
  and finding the route of a host. A pick advances the counter of its pool, so each of
  these operations returns the snapshot it leaves behind.
\<close>

section \<open>Compiling pools\<close>

definition lb_strategy_weighted_rr :: string where
  "lb_strategy_weighted_rr = ''weighted_rr''"

definition lb_max_node_weight :: int where
  "lb_max_node_weight = 100"

definition normalize_node_weight :: "int \<Rightarrow> int" where
  "normalize_node_weight w =
     (if w \<le> 0 then 1 else if w > lb_max_node_weight then lb_max_node_weight else w)"

definition compile_node ::
  "string \<Rightarrow> nat \<times> lb_node \<Rightarrow> compiled_pool_node list \<times> int list
   \<Rightarrow> config_error + compiled_pool_node list \<times> int list" where
  "compile_node pid ix acc =
     (case (ix, acc) of ((idx, node), (nodes, ring)) \<Rightarrow>
        if \<not> node_enabled node then Inr (nodes, ring)
        else
          (case upstream_url (trim_space (node_upstream node)) of
             None \<Rightarrow> Inl (InvalidPoolNode pid (node_id node))
           | Some u \<Rightarrow>
               let nodes' = nodes @ [\<lparr>cpn_id = trim_space (node_id node), cpn_target = u\<rparr>];
                   weight = normalize_node_weight (node_weight node);
                   target = int (length nodes') - 1;
                   ring1 = ring @ replicate (nat weight) target;
                   ring2 = (if idx = 0 \<and> weight = 0 then ring1 @ [target] else ring1)
               in Inr (nodes', ring2)))"

definition compile_load_balancer_pool :: "lb_pool \<Rightarrow> config_error + compiled_pool" where
  "compile_load_balancer_pool pool =
     res_bind (fold_res (compile_node (pool_id pool)) (indexed (pool_nodes pool)) ([], []))
       (\<lambda>(nodes, ring).
          let ring' = (if nodes \<noteq> [] \<and> ring = [] then map int [0..<length nodes] else ring);
              strategy = trim_space (pool_strategy pool)
          in Inr \<lparr>cp_id = trim_space (pool_id pool),
                  cp_strategy = (if strategy = [] then lb_strategy_weighted_rr else strategy),
                  cp_nodes = nodes, cp_ring = ring', cp_counter = 0\<rparr>)"

definition route_item_of :: "lb_route_rule \<Rightarrow> lb_route_item" where
  "route_item_of rule = \<lparr>lri_domain = normalize_host (rule_domain rule),
     lri_force_https = rule_force_https rule,
     lri_pool_id = trim_space (rule_pool_id rule),
     lri_fallback_pool_id = trim_space (rule_fallback_pool_id rule)\<rparr>"

definition compile_pool_step :: "lb_pool \<Rightarrow> snapshot \<Rightarrow> config_error + snapshot" where
  "compile_pool_step pool data =
     (let pid = trim_space (pool_id pool) in
      if pid = [] then Inr data
      else res_bind (compile_load_balancer_pool pool)
             (\<lambda>c. Inr (data\<lparr>lb_pools := map_put pid c (lb_pools data)\<rparr>)))"

definition add_lb_route :: "lb_route_rule \<Rightarrow> snapshot \<Rightarrow> snapshot" where
  "add_lb_route rule data =
     (let item = route_item_of rule; domain = lri_domain item in
      if domain = [] then data
      else if has_prefix domain ''*.'' then
        data\<lparr>lb_wildcard_routes :=
          lb_wildcard_routes data @ [\<lparr>lwi_suffix = drop 1 domain, lwi_route = item\<rparr>]\<rparr>
      else data\<lparr>lb_exact_routes := map_put domain item (lb_exact_routes data)\<rparr>)"

definition compile_load_balancer_config ::
  "snapshot \<Rightarrow> load_balancer_config \<Rightarrow> config_error + snapshot" where
  "compile_load_balancer_config data lb =
     res_bind (fold_res compile_pool_step (lb_cfg_pools lb) data)
       (\<lambda>data1.
          let data2 = fold add_lb_route (lb_cfg_routes lb) data1;
              dflt = trim_space (default_pool_id lb)
          in Inr (if dflt \<noteq> [] then
                    data2\<lparr>lb_default_route := Some \<lparr>lri_domain = ''_lb_default'',
                       lri_force_https = False, lri_pool_id = dflt, lri_fallback_pool_id = []\<rparr>\<rparr>
                  else data2))"

section \<open>Picking a target\<close>

definition pick_target_from_pool :: "string \<Rightarrow> snapshot \<Rightarrow> snapshot \<times> url option" where
  "pick_target_from_pool pid s =
     (let key = trim_space pid in
      case map_get (lb_pools s) key of
        None \<Rightarrow> (s, None)
      | Some p \<Rightarrow>
          if cp_ring p = [] then (s, None)
          else
            let nxt = cp_counter p + 1;
                s' = s\<lparr>lb_pools := map_put key (p\<lparr>cp_counter := nxt\<rparr>) (lb_pools s)\<rparr>;
                index = cp_ring p ! (unat nxt mod length (cp_ring p))
            in if index < 0 \<or> index \<ge> int (length (cp_nodes p)) then (s', None)
               else (s', Some (cpn_target (cp_nodes p ! nat index))))"

definition resolve_pool_target :: "string \<Rightarrow> string \<Rightarrow> snapshot \<Rightarrow> snapshot \<times> url option" where
  "resolve_pool_target primary fallback s =
     (case pick_target_from_pool primary s of
        (s1, Some t) \<Rightarrow> (s1, Some t)
      | (s1, None) \<Rightarrow>
          if fallback \<noteq> [] then pick_target_from_pool fallback s1 else (s1, None))"

definition lb_match :: "lb_route_item \<Rightarrow> url \<Rightarrow> route_match" where
  "lb_match item t = \<lparr>rm_domain = lri_domain item, rm_force_https = lri_force_https item,
     rm_target = t\<rparr>"

definition try_lb_item :: "lb_route_item \<Rightarrow> snapshot \<Rightarrow> snapshot \<times> route_match option" where
  "try_lb_item item s =
     (case resolve_pool_target (lri_pool_id item) (lri_fallback_pool_id item) s of
        (s1, Some t) \<Rightarrow> (s1, Some (lb_match item t))
      | (s1, None) \<Rightarrow> (s1, None))"

text \<open>The loop over the wildcard routes, which a suffix match with a live pool ends.\<close>

fun try_wildcards ::
  "string \<Rightarrow> lb_wildcard_item list \<Rightarrow> snapshot \<Rightarrow> snapshot \<times> route_match option" where
  "try_wildcards host [] s = (s, None)"
| "try_wildcards host (w # ws) s =
     (if has_suffix host (lwi_suffix w) then
        (case try_lb_item (lwi_route w) s of
           (s1, Some m) \<Rightarrow> (s1, Some m)
         | (s1, None) \<Rightarrow> try_wildcards host ws s1)
      else try_wildcards host ws s)"

definition try_lb_default :: "snapshot \<Rightarrow> snapshot \<times> route_match option" where
  "try_lb_default s =
     (case lb_default_route s of None \<Rightarrow> (s, None)
      | Some d \<Rightarrow>
          (case resolve_pool_target (lri_pool_id d) (lri_fallback_pool_id d) s of
             (s1, Some t) \<Rightarrow> (s1, Some (lb_match d t))
           | (s1, None) \<Rightarrow> (s1, None)))"

definition resolve_load_balancer_route :: "string \<Rightarrow> snapshot \<Rightarrow> snapshot \<times> route_match option" where
  "resolve_load_balancer_route host s =
     (case (case map_get (lb_exact_routes s) host of
              None \<Rightarrow> (s, None) | Some item \<Rightarrow> try_lb_item item s) of
        (s1, Some m) \<Rightarrow> (s1, Some m)
      | (s1, None) \<Rightarrow>
          (case try_wildcards host (lb_wildcard_routes s1) s1 of
             (s2, Some m) \<Rightarrow> (s2, Some m)
           | (s2, None) \<Rightarrow> try_lb_default s2))"

definition has_load_balancer_rule_for_domain :: "snapshot \<Rightarrow> string \<Rightarrow> bool" where
  "has_load_balancer_rule_for_domain s domain =
     (if domain = [] then False
      else if map_get (lb_exact_routes s) domain \<noteq> None then True
      else if has_prefix domain ''*.'' then
        list_ex (\<lambda>w. lwi_suffix w = drop 1 domain) (lb_wildcard_routes s)
      else list_ex (\<lambda>w. has_suffix domain (lwi_suffix w)) (lb_wildcard_routes s))"

section \<open>What a pool compiles to\<close>

definition pool_node_url :: "lb_node \<Rightarrow> url option" where
  "pool_node_url n = upstream_url (trim_space (node_upstream n))"

definition weighted_ring :: "nat \<Rightarrow> lb_node list \<Rightarrow> int list" where
  "weighted_ring k ns =
     concat (map (\<lambda>(j, n). replicate (nat (normalize_node_weight (node_weight n))) (int j))
       (indexed_from k (filter node_enabled ns)))"

definition compiled_nodes :: "lb_node list \<Rightarrow> compiled_pool_node list" where
  "compiled_nodes ns =
     map (\<lambda>n. \<lparr>cpn_id = trim_space (node_id n), cpn_target = the (pool_node_url n)\<rparr>)
       (filter node_enabled ns)"

definition pool_spec :: "lb_pool \<Rightarrow> compiled_pool" where
  "pool_spec pool = \<lparr>cp_id = trim_space (pool_id pool),
     cp_strategy = (if trim_space (pool_strategy pool) = [] then ''weighted_rr''
                    else trim_space (pool_strategy pool)),
     cp_nodes = compiled_nodes (pool_nodes pool),
     cp_ring = weighted_ring 0 (pool_nodes pool), cp_counter = 0\<rparr>"

lemma normalize_node_weight_range: "1 \<le> normalize_node_weight w \<and> normalize_node_weight w \<le> 100"
  by (simp add: normalize_node_weight_def lb_max_node_weight_def)

lemma normalize_node_weight_id: "1 \<le> w \<Longrightarrow> w \<le> 100 \<Longrightarrow> normalize_node_weight w = w"
  by (simp add: normalize_node_weight_def lb_max_node_weight_def)

lemma compiled_nodes_length: "length (compiled_nodes ns) = length (filter node_enabled ns)"
  by (simp add: compiled_nodes_def)

lemma weighted_ring_Nil [simp]: "weighted_ring k [] = []"
  by (simp add: weighted_ring_def)

lemma compiled_nodes_Nil [simp]: "compiled_nodes [] = []"
  by (simp add: compiled_nodes_def)

lemma weighted_ring_Cons [simp]:
  "weighted_ring k (n # ns) =
     (if node_enabled n
      then replicate (nat (normalize_node_weight (node_weight n))) (int k) @ weighted_ring (Suc k) ns
      else weighted_ring k ns)"
  by (simp add: weighted_ring_def)

lemma compiled_nodes_Cons [simp]:
  "compiled_nodes (n # ns) =
     (if node_enabled n
      then \<lparr>cpn_id = trim_space (node_id n), cpn_target = the (pool_node_url n)\<rparr> # compiled_nodes ns
      else compiled_nodes ns)"
  by (simp add: compiled_nodes_def)

lemma compile_node_disabled [simp]:
  "\<not> node_enabled n \<Longrightarrow> compile_node pid (i, n) acc = Inr acc"
  by (cases acc) (simp add: compile_node_def)

lemma compile_node_bad [simp]:
  "node_enabled n \<Longrightarrow> pool_node_url n = None \<Longrightarrow>
   compile_node pid (i, n) acc = Inl (InvalidPoolNode pid (node_id n))"
  by (cases acc) (simp add: compile_node_def pool_node_url_def)

lemma compile_node_ok [simp]:
  assumes "node_enabled n" "pool_node_url n = Some u"
  shows "compile_node pid (i, n) (nodes, ring) =
    Inr (nodes @ compiled_nodes [n], ring @ weighted_ring (length nodes) [n])"
proof -
  have "normalize_node_weight (node_weight n) \<noteq> 0"
    by (simp add: normalize_node_weight_def lb_max_node_weight_def)
  with assms show ?thesis
    by (simp add: compile_node_def pool_node_url_def Let_def)
qed

lemma compile_nodes_loop:
  "fold_res (compile_node pid) (indexed_from i ns) (nodes, ring) =
     (case find (\<lambda>n. node_enabled n \<and> pool_node_url n = None) ns of
        Some n \<Rightarrow> Inl (InvalidPoolNode pid (node_id n))
      | None \<Rightarrow> Inr (nodes @ compiled_nodes ns, ring @ weighted_ring (length nodes) ns))"
proof (induction ns arbitrary: i nodes ring)
  case (Cons n ns)
  show ?case
  proof (cases "node_enabled n")
    case True
    then show ?thesis using Cons.IH by (cases "pool_node_url n") (simp_all split: option.split)
  next
    case False
    then show ?thesis using Cons.IH by (simp split: option.split)
  qed
qed simp

lemma weighted_ring_eq_Nil_iff [simp]: "weighted_ring k ns = [] \<longleftrightarrow> compiled_nodes ns = []"
proof (induction ns arbitrary: k)
  case (Cons n ns)
  then show ?case using normalize_node_weight_range [of "node_weight n"] by auto
qed simp

lemma set_weighted_ring:
  "i \<in> set (weighted_ring k ns) \<Longrightarrow> int k \<le> i \<and> i < int k + int (length (compiled_nodes ns))"
proof (induction ns arbitrary: k)
  case (Cons n ns)
  then show ?case by (fastforce split: if_splits)
qed simp

lemma length_weighted_ring: "length (weighted_ring k ns) \<le> 100 * length (compiled_nodes ns)"
proof (induction ns arbitrary: k)
  case (Cons n ns)
  have "nat (normalize_node_weight (node_weight n)) \<le> 100"
    using normalize_node_weight_range [of "node_weight n"] by linarith
  then show ?case using Cons.IH [of "Suc k"] Cons.IH [of k] by simp
qed simp

lemma count_weighted_ring:
  "j < length (filter node_enabled ns) \<Longrightarrow>
   count (mset (weighted_ring k ns)) (int (k + j)) =
     nat (normalize_node_weight (node_weight (filter node_enabled ns ! j)))"
proof (induction ns arbitrary: k j)
  case (Cons n ns)
  have none: "int k \<notin> set (weighted_ring (Suc k) ns)"
    using set_weighted_ring [of "int k" "Suc k" ns] by auto
  show ?case
  proof (cases "node_enabled n")
    case True
    show ?thesis
    proof (cases j)
      case 0
      with True none show ?thesis by (simp add: count_eq_zero_iff [THEN iffD2])
    next
      case (Suc j')
      with True Cons.prems Cons.IH [of j' "Suc k"] show ?thesis by simp
    qed
  next
    case False
    with Cons show ?thesis by simp
  qed
qed simp

lemma compile_pool_ok:
  "find (\<lambda>n. node_enabled n \<and> pool_node_url n = None) (pool_nodes pool) = None \<Longrightarrow>
   compile_load_balancer_pool pool = Inr (pool_spec pool)"
  by (simp add: compile_load_balancer_pool_def compile_nodes_loop pool_spec_def
      lb_strategy_weighted_rr_def Let_def)

lemma compile_pool_bad:
  "find (\<lambda>n. node_enabled n \<and> pool_node_url n = None) (pool_nodes pool) = Some n \<Longrightarrow>
   compile_load_balancer_pool pool = Inl (InvalidPoolNode (pool_id pool) (node_id n))"
  by (simp add: compile_load_balancer_pool_def compile_nodes_loop)

text \<open>
  \<open>compileLoadBalancerPool\<close> is its specification: it fails exactly at the first
  enabled node whose trimmed upstream is not a URL with a scheme and a host, and otherwise
  gives the enabled nodes in order with the ring that repeats each of them as often as its
  normalised weight; neither fallback branch of the code (\<open>weight == 0\<close>, an empty ring
  with nodes) adds anything.
\<close>

theorem compile_pool_meets_spec:
  "compile_load_balancer_pool pool =
     (case find (\<lambda>n. node_enabled n \<and> pool_node_url n = None) (pool_nodes pool) of
        Some n \<Rightarrow> Inl (InvalidPoolNode (pool_id pool) (node_id n))
      | None \<Rightarrow> Inr (pool_spec pool))"
  by (auto simp: compile_pool_ok compile_pool_bad split: option.split)

end
