(* ===== verification/RoutePrep.thy ===== *)
theory RoutePrep
  imports LoadBalancer
begin

text \<open>
  The step between a configuration and its snapshot (\<open>manager_lb.go\<close>, from
  \<open>prepareRoutingAndLoadBalancer\<close> on): a configuration with load-balancer pools or routes
  is checked for conflicts with its legacy routes, one without them has its legacy routes
  migrated to pools with fresh identifiers.
\<close>

definition has_load_balancer_binding :: "load_balancer_config \<Rightarrow> bool" where
  "has_load_balancer_binding lb \<longleftrightarrow>
     trim_space (default_pool_id lb) \<noteq> [] \<or> lb_cfg_pools lb \<noteq> [] \<or> lb_cfg_routes lb \<noteq> []"

definition has_legacy_routing :: "routing_config \<Rightarrow> bool" where
  "has_legacy_routing r \<longleftrightarrow> trim_space (default_upstream r) \<noteq> [] \<or> routing_domains r \<noteq> []"

section \<open>Conflicts\<close>

text \<open>The routes of the load balancer, indexed as the snapshot has them.\<close>

definition lb_route_index :: "lb_route_rule list \<Rightarrow> snapshot" where
  "lb_route_index rules = fold add_lb_route rules (empty_snapshot zero_config)"

definition domain_conflict :: "snapshot \<Rightarrow> nat \<times> domain_rule \<Rightarrow> validation_issue list" where
  "domain_conflict index ix =
     (case ix of (idx, item) \<Rightarrow>
        let domain = normalize_host (dr_domain item) in
        if domain = [] then []
        else if has_load_balancer_rule_for_domain index domain then
          [issue (''routing.domains['' @ itoa idx @ ''].domain'')
             (''domain '' @ go_quote (dr_domain item) @ '' conflicts with loadBalancer.routes'')]
        else [])"

definition check_routing_load_balancer_conflict ::
  "routing_config \<Rightarrow> load_balancer_config \<Rightarrow> validation_issue list" where
  "check_routing_load_balancer_conflict r lb =
     (if \<not> has_legacy_routing r \<or> \<not> has_load_balancer_binding lb then []
      else
        let index = lb_route_index (lb_cfg_routes lb);
            issues = concat (map (domain_conflict index) (indexed (routing_domains r)))
        in if trim_space (default_upstream r) \<noteq> [] \<and> trim_space (default_pool_id lb) \<noteq> [] then
             issues @ [issue ''routing.defaultUpstream''
               ''defaultUpstream conflicts with loadBalancer.defaultPoolId'']
           else issues)"

section \<open>Fresh pool identifiers\<close>

definition sanitize_step :: "char \<Rightarrow> string \<times> bool \<Rightarrow> string \<times> bool" where
  "sanitize_step c st =
     (case st of (out, previous_underline) \<Rightarrow>
        if is_lower c \<or> is_digit c then (out @ [c], False)
        else if \<not> previous_underline then (out @ ''_'', True)
        else (out, previous_underline))"

definition sanitize_pool_token :: "string \<Rightarrow> string" where
  "sanitize_pool_token source =
     trim_by (\<lambda>c. c = CHR ''_'')
       (fst (fold sanitize_step (to_lower (trim_space source)) ([], False)))"

definition numbered :: "string \<Rightarrow> nat \<Rightarrow> string" where
  "numbered candidate index = candidate @ ''_'' @ itoa index"

lemma numbered_inject [simp]: "numbered c i = numbered c j \<longleftrightarrow> i = j"
  by (simp add: numbered_def)

text \<open>
  The loop that looks for an identifier that is not used. It ends because the numbered
  candidates differ and only finitely many identifiers are used: the used ones among the
  numbers still to come, and the one at hand, get fewer.
\<close>

definition used_ahead :: "string \<Rightarrow> string list \<Rightarrow> nat \<Rightarrow> nat set" where
  "used_ahead candidate used index = {j. index < j \<and> numbered candidate j \<in> set used}"

lemma finite_used_ahead: "finite (used_ahead candidate used index)"
proof -
  have "inj (numbered candidate)" by (simp add: inj_on_def)
  then have "finite (numbered candidate -` set used)" by (intro finite_vimageI) simp_all
  then show ?thesis
    by (rule rev_finite_subset) (auto simp: used_ahead_def)
qed

lemma used_ahead_Suc:
  "card (used_ahead c used (Suc i)) + (if numbered c (Suc i) \<in> set used then 1 else 0) =
     card (used_ahead c used i)"
proof (cases "numbered c (Suc i) \<in> set used")
  case True
  have "used_ahead c used i = insert (Suc i) (used_ahead c used (Suc i))"
    using True by (auto simp: used_ahead_def dest: Suc_lessI)
  moreover have "Suc i \<notin> used_ahead c used (Suc i)" by (simp add: used_ahead_def)
  ultimately show ?thesis using True finite_used_ahead by simp
next
  case False
  then have "used_ahead c used i = used_ahead c used (Suc i)"
    by (force simp: used_ahead_def dest: Suc_lessI)
  with False show ?thesis by simp
qed

function migrated_id_loop :: "string \<Rightarrow> string list \<Rightarrow> string \<Rightarrow> nat \<Rightarrow> string" where
  "migrated_id_loop candidate used pid index =
     (if pid \<notin> set used then pid
      else migrated_id_loop candidate used (numbered candidate (Suc index)) (Suc index))"
  by pat_completeness auto
termination
proof (relation "measure (\<lambda>(c, used, pid, i).
    card (used_ahead c used i) + (if pid \<in> set used then 1 else 0))", goal_cases)
  case (2 c used pid i)
  then show ?case using used_ahead_Suc [of c used i] by simp
qed simp

declare migrated_id_loop.simps [simp del]

definition build_migrated_pool_id :: "string \<Rightarrow> string list \<Rightarrow> string \<times> string list" where
  "build_migrated_pool_id source used =
     (let base = ''pool_mig_'' @ sanitize_pool_token source;
          candidate = (if base = ''pool_mig_'' then ''pool_mig_item'' else base);
          pid = migrated_id_loop candidate used candidate 1
      in (pid, pid # used))"

section \<open>Migration\<close>

text \<open>The name of a migrated pool starts with three characters outside ASCII.\<close>

definition migrated_name :: "string \<Rightarrow> string" where
  "migrated_name s = [CHR 0xE8, CHR 0xBF, CHR 0x81, CHR 0xE7, CHR 0xA7, CHR 0xBB,
     CHR 0xE6, CHR 0xB1, CHR 0xA0, CHR ''_''] @ s"

definition migrated_pool :: "string \<Rightarrow> string \<Rightarrow> string \<Rightarrow> lb_pool" where
  "migrated_pool pid name upstream = \<lparr>pool_id = pid, pool_name = migrated_name name,
     pool_strategy = lb_strategy_weighted_rr,
     pool_nodes = [\<lparr>node_id = ''node_primary'', node_upstream = upstream, node_weight = 1,
       node_enabled = True\<rparr>]\<rparr>"

definition migrate_domain ::
  "domain_rule \<Rightarrow> load_balancer_config \<times> string list \<Rightarrow> load_balancer_config \<times> string list" where
  "migrate_domain item st =
     (case st of (lb, used) \<Rightarrow>
        let domain = normalize_host (dr_domain item); upstream = trim_space (dr_upstream item) in
        if domain = [] \<or> upstream = [] then (lb, used)
        else
          (case build_migrated_pool_id domain used of
             (pid, used') \<Rightarrow>
               (lb\<lparr>lb_cfg_pools := lb_cfg_pools lb @ [migrated_pool pid domain upstream],
                   lb_cfg_routes := lb_cfg_routes lb @
                     [\<lparr>rule_domain = dr_domain item, rule_pool_id = pid, rule_fallback_pool_id = [],
                       rule_force_https = dr_force_https item\<rparr>]\<rparr>, used')))"

definition migrate_routing_to_load_balancer ::
  "routing_config \<Rightarrow> load_balancer_config \<Rightarrow> load_balancer_config" where
  "migrate_routing_to_load_balancer r lb =
     (let used0 = filter (\<lambda>p. p \<noteq> []) (map (\<lambda>p. trim_space (pool_id p)) (lb_cfg_pools lb));
          upstream = trim_space (default_upstream r)
      in case fold migrate_domain (routing_domains r) (lb, used0) of
           (lb1, used1) \<Rightarrow>
             if upstream \<noteq> [] then
               (case build_migrated_pool_id ''default'' used1 of
                  (pid, used2) \<Rightarrow>
                    lb1\<lparr>lb_cfg_pools := lb_cfg_pools lb1 @ [migrated_pool pid ''default'' upstream],
                        default_pool_id := pid\<rparr>)
             else lb1)"

definition empty_routing :: routing_config where
  "empty_routing = \<lparr>default_upstream = [], routing_domains = []\<rparr>"

definition prepare_routing_and_load_balancer :: "config \<Rightarrow> config \<times> validation_issue list" where
  "prepare_routing_and_load_balancer cfg =
     (if has_load_balancer_binding (load_balancer cfg) then
        (cfg, check_routing_load_balancer_conflict (routing cfg) (load_balancer cfg))
      else if \<not> has_legacy_routing (routing cfg) then (cfg, [])
      else
        (cfg\<lparr>load_balancer := migrate_routing_to_load_balancer (routing cfg) (load_balancer cfg),
             routing := empty_routing\<rparr>, []))"

end
