(* ===== verification/PoolPick.thy ===== *)
theory PoolPick
  imports LoadBalancer
begin

text \<open>
  What picking from the compiled pools guarantees: the well-formedness of pools, the parts
  of the snapshot a pick leaves alone, when a pick finds a target, and the fairness of the
  weighted ring, through the interface of \<open>Schedule\<close>.
\<close>

section \<open>Well-formed pools\<close>

definition pool_wf :: "compiled_pool \<Rightarrow> bool" where
  "pool_wf p \<longleftrightarrow> (cp_nodes p = [] \<longleftrightarrow> cp_ring p = []) \<and>
     list_all (\<lambda>i. 0 \<le> i \<and> i < int (length (cp_nodes p))) (cp_ring p) \<and>
     length (cp_ring p) \<le> 100 * length (cp_nodes p)"

definition pools_wf :: "snapshot \<Rightarrow> bool" where
  "pools_wf s \<longleftrightarrow> list_all (\<lambda>(k, p). pool_wf p) (lb_pools s)"

lemma pool_spec_wf [simp, inv_intros]: "pool_wf (pool_spec pool)"
  using set_weighted_ring [of _ 0 "pool_nodes pool"] length_weighted_ring [of 0 "pool_nodes pool"]
  by (auto simp: pool_wf_def pool_spec_def list_all_iff)

lemma compile_pool_wf [inv_intros]: "compile_load_balancer_pool pool = Inr c \<Longrightarrow> pool_wf c"
  by (cases "find (\<lambda>n. node_enabled n \<and> pool_node_url n = None) (pool_nodes pool)")
    (auto simp: compile_pool_ok compile_pool_bad)

lemma pool_wf_counter [simp]: "pool_wf (p\<lparr>cp_counter := c\<rparr>) = pool_wf p"
  by (simp add: pool_wf_def)

lemma pools_wf_get: "pools_wf s \<Longrightarrow> map_get (lb_pools s) k = Some p \<Longrightarrow> pool_wf p"
  by (auto simp: pools_wf_def list_all_iff dest!: map_of_SomeD)

lemma pools_wf_put [inv_intros]:
  "pools_wf s \<Longrightarrow> pool_wf p \<Longrightarrow> pools_wf (s\<lparr>lb_pools := map_put k p (lb_pools s)\<rparr>)"
  by (auto simp: pools_wf_def list_all_iff dest!: set_map_put)

section \<open>What a pick leaves alone\<close>

text \<open>Two snapshots that differ only in the counters of their pools.\<close>

definition reset_counters :: "snapshot \<Rightarrow> snapshot" where
  "reset_counters s = s\<lparr>lb_pools := map (\<lambda>(k, p). (k, p\<lparr>cp_counter := 0\<rparr>)) (lb_pools s)\<rparr>"

lemma map_of_reset:
  "map_of (map (\<lambda>(k, p). (k, p\<lparr>cp_counter := 0\<rparr>)) m) k =
     map_option (\<lambda>p. p\<lparr>cp_counter := 0\<rparr>) (map_of m k)"
  by (induction m) auto

lemma reset_put_counter:
  "map_of m k = Some p \<Longrightarrow>
   map (\<lambda>(k, p). (k, p\<lparr>cp_counter := 0\<rparr>)) (map_put k (p\<lparr>cp_counter := c\<rparr>) m) =
   map (\<lambda>(k, p). (k, p\<lparr>cp_counter := 0\<rparr>)) m"
  by (induction m) (auto split: if_splits)

text \<open>
  Route resolution is a chain of such operations, the next one tried when the one before
  it finds nothing.
\<close>

definition keeps_pools :: "(snapshot \<Rightarrow> snapshot \<times> 'a option) \<Rightarrow> bool" where
  "keeps_pools op \<longleftrightarrow> (\<forall>s. reset_counters (fst (op s)) = reset_counters s \<and>
     (pools_wf s \<longrightarrow> pools_wf (fst (op s))))"

definition or_else ::
  "('s \<Rightarrow> 's \<times> 'a option) \<Rightarrow> ('s \<Rightarrow> 's \<times> 'a option) \<Rightarrow> 's \<Rightarrow> 's \<times> 'a option" where
  "or_else f g s = (case f s of (s1, Some x) \<Rightarrow> (s1, Some x) | (s1, None) \<Rightarrow> g s1)"

definition map_result :: "('a \<Rightarrow> 'b) \<Rightarrow> ('s \<Rightarrow> 's \<times> 'a option) \<Rightarrow> 's \<Rightarrow> 's \<times> 'b option" where
  "map_result h f s = (case f s of (s1, r) \<Rightarrow> (s1, map_option h r))"

definition no_result :: "'s \<Rightarrow> 's \<times> 'a option" where
  "no_result s = (s, None)"

lemma keeps_poolsD:
  "keeps_pools op \<Longrightarrow> reset_counters (fst (op s)) = reset_counters s"
  "keeps_pools op \<Longrightarrow> pools_wf s \<Longrightarrow> pools_wf (fst (op s))"
  by (simp_all add: keeps_pools_def)

lemma keeps_no_result [simp, inv_intros]: "keeps_pools no_result"
  by (simp add: keeps_pools_def no_result_def)

lemma keeps_poolsI:
  assumes "\<And>s. reset_counters (fst (op s)) = reset_counters s"
    and "\<And>s. pools_wf s \<Longrightarrow> pools_wf (fst (op s))"
  shows "keeps_pools op"
  using assms by (simp add: keeps_pools_def)

lemma fst_or_else:
  "fst (or_else f g s) = (if snd (f s) = None then fst (g (fst (f s))) else fst (f s))"
  by (cases "f s"; cases "snd (f s)") (simp_all add: or_else_def)

lemma snd_or_else:
  "snd (or_else f g s) = (if snd (f s) = None then snd (g (fst (f s))) else snd (f s))"
  by (cases "f s"; cases "snd (f s)") (simp_all add: or_else_def)

lemma map_result_simps [simp]:
  "fst (map_result h f s) = fst (f s)" "snd (map_result h f s) = map_option h (snd (f s))"
  by (simp_all add: map_result_def split: prod.split)

lemma keeps_or_else [inv_intros]: "keeps_pools f \<Longrightarrow> keeps_pools g \<Longrightarrow> keeps_pools (or_else f g)"
  by (rule keeps_poolsI) (simp_all add: fst_or_else keeps_poolsD)

lemma keeps_map_result [inv_intros]: "keeps_pools f \<Longrightarrow> keeps_pools (map_result h f)"
  by (rule keeps_poolsI) (simp_all add: keeps_poolsD)

lemma pick_keeps [simp, inv_intros]: "keeps_pools (pick_target_from_pool pid)"
proof -
  have "reset_counters (fst (pick_target_from_pool pid s)) = reset_counters s" for s
    by (auto simp: pick_target_from_pool_def reset_counters_def Let_def reset_put_counter
        split: option.split)
  moreover have "pools_wf s \<Longrightarrow> pools_wf (fst (pick_target_from_pool pid s))" for s
    by (auto simp: pick_target_from_pool_def Let_def intro!: pools_wf_put dest: pools_wf_get
        split: option.split)
  ultimately show ?thesis by (simp add: keeps_pools_def)
qed

lemma resolve_pool_target_or_else:
  "resolve_pool_target p f =
     or_else (pick_target_from_pool p) (if f = [] then no_result else pick_target_from_pool f)"
  by (rule ext) (auto simp: resolve_pool_target_def or_else_def no_result_def split: prod.split option.split)

lemma resolve_pool_keeps [simp, inv_intros]: "keeps_pools (resolve_pool_target p f)"
  by (auto simp: resolve_pool_target_or_else intro!: inv_intros)

section \<open>When a pick finds a target\<close>

definition pool_live :: "snapshot \<Rightarrow> string \<Rightarrow> bool" where
  "pool_live s pid =
     (case map_get (lb_pools s) (trim_space pid) of None \<Rightarrow> False | Some p \<Rightarrow> cp_ring p \<noteq> [])"

lemma pool_live_reset [simp]: "pool_live (reset_counters s) pid = pool_live s pid"
  by (simp add: pool_live_def reset_counters_def map_of_reset split: option.split)

lemma pool_ring_nth:
  "pool_wf p \<Longrightarrow> cp_ring p \<noteq> [] \<Longrightarrow>
   0 \<le> cp_ring p ! (n mod length (cp_ring p)) \<and>
   cp_ring p ! (n mod length (cp_ring p)) < int (length (cp_nodes p))"
  by (simp add: pool_wf_def list_all_iff)

text \<open>
  \<open>finds op P\<close>: the operation finds something exactly in the snapshots of \<open>P\<close>, a
  condition that does not read the counters.
\<close>

definition counter_free :: "(snapshot \<Rightarrow> bool) \<Rightarrow> bool" where
  "counter_free P \<longleftrightarrow> (\<forall>s. P (reset_counters s) = P s)"

definition finds :: "(snapshot \<Rightarrow> snapshot \<times> 'a option) \<Rightarrow> (snapshot \<Rightarrow> bool) \<Rightarrow> bool" where
  "finds op P \<longleftrightarrow> counter_free P \<and> (\<forall>s. pools_wf s \<longrightarrow> (snd (op s) \<noteq> None) = P s)"

lemma counter_freeD:
  "counter_free P \<Longrightarrow> reset_counters s = reset_counters t \<Longrightarrow> P s = P t"
  unfolding counter_free_def by metis

lemma counter_free_simps [simp]:
  "counter_free (\<lambda>s. b)" "counter_free (\<lambda>s. pool_live s pid)"
  "counter_free P \<Longrightarrow> counter_free Q \<Longrightarrow> counter_free (\<lambda>s. P s \<or> Q s)"
  "counter_free P \<Longrightarrow> counter_free Q \<Longrightarrow> counter_free (\<lambda>s. P s \<and> Q s)"
  by (simp_all add: counter_free_def)

lemma findsI:
  "counter_free P \<Longrightarrow> (\<And>s. pools_wf s \<Longrightarrow> (snd (op s) \<noteq> None) = P s) \<Longrightarrow> finds op P"
  by (simp add: finds_def)

lemma findsD: "finds op P \<Longrightarrow> pools_wf s \<Longrightarrow> (snd (op s) \<noteq> None) = P s"
  by (simp add: finds_def)

lemma finds_ex: "finds op P \<Longrightarrow> pools_wf s \<Longrightarrow> (\<exists>y. snd (op s) = Some y) = P s"
  using findsD [of op P s] by simp

lemma finds_counter_free: "finds op P \<Longrightarrow> counter_free P"
  by (simp add: finds_def)

lemma finds_cong: "finds op P \<Longrightarrow> (\<And>s. P s = Q s) \<Longrightarrow> finds op Q"
  unfolding finds_def counter_free_def by simp

lemma finds_no_result [simp]: "finds no_result (\<lambda>s. False)"
  by (rule findsI) (simp_all add: no_result_def)

lemma finds_map_result: "finds f P \<Longrightarrow> finds (map_result h f) P"
  by (rule findsI) (simp_all add: finds_counter_free findsD [symmetric])

lemma finds_or_else:
  assumes f: "finds f P" "keeps_pools f" and g: "finds g Q"
  shows "finds (or_else f g) (\<lambda>s. P s \<or> Q s)"
proof (rule findsI)
  show "counter_free (\<lambda>s. P s \<or> Q s)" using f(1) g by (simp add: finds_counter_free)
next
  fix s assume wf: "pools_wf s"
  have "Q (fst (f s)) = Q s"
    by (rule counter_freeD [OF finds_counter_free [OF g] keeps_poolsD(1) [OF f(2)]])
  then show "(snd (or_else f g s) \<noteq> None) = (P s \<or> Q s)"
    using findsD [OF f(1) wf] findsD [OF g keeps_poolsD(2) [OF f(2) wf]]
    by (auto simp: snd_or_else)
qed

lemma finds_if: "finds f P \<Longrightarrow> finds (if b then f else no_result) (\<lambda>s. b \<and> P s)"
  by (cases b) (simp_all add: finds_cong [OF finds_no_result])

lemma pick_finds: "finds (pick_target_from_pool pid) (\<lambda>s. pool_live s pid)"
proof (rule findsI)
  fix s assume "pools_wf s"
  show "(snd (pick_target_from_pool pid s) \<noteq> None) = pool_live s pid"
  proof (cases "map_get (lb_pools s) (trim_space pid)")
    case (Some p)
    have wf: "pool_wf p" by (rule pools_wf_get [OF \<open>pools_wf s\<close> Some])
    show ?thesis
      using pool_ring_nth [OF wf, of "unat (cp_counter p + 1)"]
      by (cases "cp_ring p = []")
        (auto simp: pick_target_from_pool_def pool_live_def Let_def Some)
  qed (simp add: pick_target_from_pool_def pool_live_def)
qed simp

definition route_live :: "snapshot \<Rightarrow> lb_route_item \<Rightarrow> bool" where
  "route_live s item \<longleftrightarrow> pool_live s (lri_pool_id item) \<or>
     (lri_fallback_pool_id item \<noteq> [] \<and> pool_live s (lri_fallback_pool_id item))"

lemma route_live_counter_free [simp]: "counter_free (\<lambda>s. route_live s item)"
  by (simp add: route_live_def)

lemma resolve_pool_target_if:
  "resolve_pool_target p f =
     or_else (pick_target_from_pool p) (if f \<noteq> [] then pick_target_from_pool f else no_result)"
  by (simp add: resolve_pool_target_or_else)

lemma resolve_pool_finds:
  "finds (resolve_pool_target p f) (\<lambda>s. pool_live s p \<or> (f \<noteq> [] \<and> pool_live s f))"
  unfolding resolve_pool_target_if
  by (rule finds_or_else [OF pick_finds pick_keeps finds_if [OF pick_finds]])

section \<open>Resolving a host\<close>

lemma try_lb_item_map_result:
  "try_lb_item item =
     map_result (lb_match item) (resolve_pool_target (lri_pool_id item) (lri_fallback_pool_id item))"
  by (rule ext) (auto simp: try_lb_item_def map_result_def split: prod.split option.split)

lemma try_lb_item_keeps [simp, inv_intros]: "keeps_pools (try_lb_item item)"
  by (auto simp: try_lb_item_map_result intro!: inv_intros)

lemma try_lb_item_finds: "finds (try_lb_item item) (\<lambda>s. route_live s item)"
  using finds_map_result [OF resolve_pool_finds] by (simp add: try_lb_item_map_result route_live_def)

lemma try_wildcards_Cons_or_else:
  "try_wildcards host (w # ws) =
     or_else (if has_suffix host (lwi_suffix w) then try_lb_item (lwi_route w) else no_result)
       (try_wildcards host ws)"
  by (rule ext) (auto simp: or_else_def no_result_def split: prod.split option.split)

lemma try_wildcards_Nil_no_result: "try_wildcards host [] = no_result"
  by (rule ext) (simp add: no_result_def)

lemma try_wildcards_keeps [simp, inv_intros]: "keeps_pools (try_wildcards host ws)"
  by (induction ws)
    (auto simp: try_wildcards_Cons_or_else try_wildcards_Nil_no_result simp del: try_wildcards.simps
      intro!: inv_intros)

definition wildcard_live :: "string \<Rightarrow> lb_wildcard_item list \<Rightarrow> snapshot \<Rightarrow> bool" where
  "wildcard_live host ws s =
     list_ex (\<lambda>w. has_suffix host (lwi_suffix w) \<and> route_live s (lwi_route w)) ws"

lemma wildcard_live_simps [simp]:
  "wildcard_live host [] s = False"
  "wildcard_live host (w # ws) s =
     ((has_suffix host (lwi_suffix w) \<and> route_live s (lwi_route w)) \<or> wildcard_live host ws s)"
  by (simp_all add: wildcard_live_def)

lemma try_wildcards_finds: "finds (try_wildcards host ws) (wildcard_live host ws)"
proof (induction ws)
  case Nil
  show ?case
    unfolding try_wildcards_Nil_no_result by (rule finds_cong [OF finds_no_result]) simp
next
  case (Cons w ws)
  have "keeps_pools (if has_suffix host (lwi_suffix w) then try_lb_item (lwi_route w) else no_result)"
    by simp
  from finds_or_else [OF finds_if [OF try_lb_item_finds] this Cons.IH]
  have "finds (try_wildcards host (w # ws))
      (\<lambda>s. (has_suffix host (lwi_suffix w) \<and> route_live s (lwi_route w)) \<or> wildcard_live host ws s)"
    by (simp only: try_wildcards_Cons_or_else)
  then show ?case by (rule finds_cong) simp
qed

text \<open>The three sources of a load-balanced route, tried in this order.\<close>

definition try_lb_exact :: "string \<Rightarrow> snapshot \<Rightarrow> snapshot \<times> route_match option" where
  "try_lb_exact host s =
     (case map_get (lb_exact_routes s) host of None \<Rightarrow> (s, None) | Some item \<Rightarrow> try_lb_item item s)"

definition try_lb_wildcards :: "string \<Rightarrow> snapshot \<Rightarrow> snapshot \<times> route_match option" where
  "try_lb_wildcards host s = try_wildcards host (lb_wildcard_routes s) s"

lemma resolve_lb_or_else:
  "resolve_load_balancer_route host =
     or_else (try_lb_exact host) (or_else (try_lb_wildcards host) try_lb_default)"
  by (rule ext)
    (auto simp: resolve_load_balancer_route_def or_else_def try_lb_exact_def try_lb_wildcards_def
      split: prod.split option.split)

lemma try_lb_default_eq:
  "try_lb_default s =
     (case lb_default_route s of None \<Rightarrow> (s, None) | Some d \<Rightarrow> try_lb_item d s)"
  by (simp add: try_lb_default_def try_lb_item_def split: option.split)

lemma reset_counters_routes [simp]:
  "lb_exact_routes (reset_counters s) = lb_exact_routes s"
  "lb_wildcard_routes (reset_counters s) = lb_wildcard_routes s"
  "lb_default_route (reset_counters s) = lb_default_route s"
  "exact_routes (reset_counters s) = exact_routes s"
  "wildcard_routes (reset_counters s) = wildcard_routes s"
  "default_route (reset_counters s) = default_route s"
  "snap_cfg (reset_counters s) = snap_cfg s"
  "allow_all (reset_counters s) = allow_all s"
  "snap_allowed_cidrs (reset_counters s) = snap_allowed_cidrs s"
  "cdn_provider_cidrs (reset_counters s) = cdn_provider_cidrs s"
  "snap_certificates (reset_counters s) = snap_certificates s"
  "default_cert (reset_counters s) = default_cert s"
  by (simp_all add: reset_counters_def)

lemma lb_sources_keep [simp, inv_intros]:
  "keeps_pools (try_lb_exact host)" "keeps_pools (try_lb_wildcards host)" "keeps_pools try_lb_default"
  by (rule keeps_poolsI; simp add: try_lb_exact_def try_lb_wildcards_def try_lb_default_eq keeps_poolsD
      split: option.split)+

lemma resolve_lb_keeps [simp, inv_intros]: "keeps_pools (resolve_load_balancer_route host)"
  by (auto simp: resolve_lb_or_else intro!: inv_intros)

definition lb_exact_live :: "string \<Rightarrow> snapshot \<Rightarrow> bool" where
  "lb_exact_live host s =
     (case map_get (lb_exact_routes s) host of None \<Rightarrow> False | Some item \<Rightarrow> route_live s item)"

definition lb_default_live :: "snapshot \<Rightarrow> bool" where
  "lb_default_live s = (case lb_default_route s of None \<Rightarrow> False | Some d \<Rightarrow> route_live s d)"

definition lb_live :: "string \<Rightarrow> snapshot \<Rightarrow> bool" where
  "lb_live host s \<longleftrightarrow>
     lb_exact_live host s \<or> wildcard_live host (lb_wildcard_routes s) s \<or> lb_default_live s"

lemma route_live_reset [simp]: "route_live (reset_counters s) item = route_live s item"
  by (simp add: route_live_def)

lemma try_lb_exact_finds: "finds (try_lb_exact host) (lb_exact_live host)"
  by (rule findsI)
    (simp_all add: counter_free_def lb_exact_live_def try_lb_exact_def finds_ex [OF try_lb_item_finds]
      split: option.split)

lemma try_lb_default_finds: "finds try_lb_default lb_default_live"
  by (rule findsI)
    (simp_all add: counter_free_def lb_default_live_def try_lb_default_eq finds_ex [OF try_lb_item_finds]
      split: option.split)

lemma try_lb_wildcards_finds:
  "finds (try_lb_wildcards host) (\<lambda>s. wildcard_live host (lb_wildcard_routes s) s)"
  by (rule findsI)
    (simp_all add: counter_free_def try_lb_wildcards_def finds_ex [OF try_wildcards_finds] wildcard_live_def)

lemma resolve_lb_finds: "finds (resolve_load_balancer_route host) (lb_live host)"
  unfolding resolve_lb_or_else
  by (rule finds_cong
      [OF finds_or_else [OF try_lb_exact_finds _ finds_or_else [OF try_lb_wildcards_finds _ try_lb_default_finds]]])
    (simp_all add: lb_live_def)

section \<open>Fairness\<close>

text \<open>
  The targets of a pool's ring in order, the value of its counter and whether it can be
  picked from: a pool is a cyclic schedule of its ring.
\<close>

definition ring_targets :: "compiled_pool \<Rightarrow> url list" where
  "ring_targets p = map (\<lambda>i. cpn_target (cp_nodes p ! nat i)) (cp_ring p)"

definition pool_targets :: "string \<Rightarrow> snapshot \<Rightarrow> url list" where
  "pool_targets pid s =
     (case map_get (lb_pools s) (trim_space pid) of None \<Rightarrow> [] | Some p \<Rightarrow> ring_targets p)"

definition pool_tick :: "string \<Rightarrow> snapshot \<Rightarrow> nat" where
  "pool_tick pid s =
     (case map_get (lb_pools s) (trim_space pid) of None \<Rightarrow> 0 | Some p \<Rightarrow> unat (cp_counter p))"

definition pool_ready :: "string \<Rightarrow> snapshot \<Rightarrow> bool" where
  "pool_ready pid s \<longleftrightarrow> pools_wf s \<and> pool_live s pid"

lemma ring_targets_counter [simp]: "ring_targets (p\<lparr>cp_counter := c\<rparr>) = ring_targets p"
  by (simp add: ring_targets_def)

lemma pool_targets_reset [simp]: "pool_targets pid (reset_counters s) = pool_targets pid s"
  by (simp add: pool_targets_def reset_counters_def map_of_reset split: option.split)

lemma pool_ready_cases:
  assumes "pool_ready pid s"
  obtains p where "map_get (lb_pools s) (trim_space pid) = Some p" "pool_wf p" "cp_ring p \<noteq> []"
  using assms by (auto simp: pool_ready_def pool_live_def dest: pools_wf_get split: option.splits)

lemma pool_targets_nonempty: "pool_ready pid s \<Longrightarrow> pool_targets pid s \<noteq> []"
  by (erule pool_ready_cases) (simp add: pool_targets_def ring_targets_def)

lemma pick_result:
  assumes "pool_ready pid s" "Suc (pool_tick pid s) < 2 ^ 64"
  shows "snd (pick_target_from_pool pid s) =
           Some (pool_targets pid s ! (Suc (pool_tick pid s) mod length (pool_targets pid s)))"
    and "pool_tick pid (fst (pick_target_from_pool pid s)) = Suc (pool_tick pid s)"
proof -
  obtain p where p: "map_get (lb_pools s) (trim_space pid) = Some p" "pool_wf p" "cp_ring p \<noteq> []"
    using assms(1) by (rule pool_ready_cases)
  have "unat (cp_counter p) + unat (1 :: 64 word) < 2 ^ 64"
    using assms(2) by (simp add: pool_tick_def p(1))
  then have nxt: "unat (cp_counter p + 1) = Suc (unat (cp_counter p))"
    by (subst unat_word_ariths(1)) simp
  note idx = pool_ring_nth [OF p(2,3), of "Suc (unat (cp_counter p))"]
  from idx show "snd (pick_target_from_pool pid s) =
      Some (pool_targets pid s ! (Suc (pool_tick pid s) mod length (pool_targets pid s)))"
    by (simp add: pick_target_from_pool_def pool_targets_def pool_tick_def ring_targets_def
        p(1,3) nxt Let_def not_less not_le)
  from idx show "pool_tick pid (fst (pick_target_from_pool pid s)) = Suc (pool_tick pid s)"
    by (simp add: pick_target_from_pool_def pool_tick_def p(1,3) nxt Let_def not_less not_le)
qed

interpretation pool_pick: cyclic_schedule
  "pick_target_from_pool pid" "pool_targets pid" "pool_tick pid" "pool_ready pid" "2 ^ 64"
proof
  fix s assume ready: "pool_ready pid s"
  have frame: "reset_counters (fst (pick_target_from_pool pid s)) = reset_counters s"
    by (rule keeps_poolsD(1) [OF pick_keeps])
  show "pool_targets pid s \<noteq> []" by (rule pool_targets_nonempty [OF ready])
  show "pool_targets pid (fst (pick_target_from_pool pid s)) = pool_targets pid s"
    by (metis frame pool_targets_reset)
  show "pool_ready pid (fst (pick_target_from_pool pid s))"
    using ready keeps_poolsD(2) [OF pick_keeps] frame
    by (simp add: pool_ready_def) (metis pool_live_reset)
qed (rule pick_result; assumption)+

definition node_targets :: "lb_node list \<Rightarrow> url list" where
  "node_targets ns = concat (map (\<lambda>n. replicate (nat (normalize_node_weight (node_weight n)))
     (the (pool_node_url n))) (filter node_enabled ns))"

lemma weighted_ring_targets:
  "map (\<lambda>i. cpn_target ((cs @ compiled_nodes ns) ! nat i)) (weighted_ring (length cs) ns) =
     node_targets ns"
proof (induction ns arbitrary: cs)
  case (Cons n ns)
  show ?case
  proof (cases "node_enabled n")
    case True
    let ?c = "\<lparr>cpn_id = trim_space (node_id n), cpn_target = the (pool_node_url n)\<rparr>"
    show ?thesis
      using True Cons.IH [of "cs @ [?c]"] by (simp add: node_targets_def)
  qed (use Cons in \<open>simp add: node_targets_def\<close>)
qed (simp add: node_targets_def)

lemma ring_targets_spec: "ring_targets (pool_spec pool) = node_targets (pool_nodes pool)"
  using weighted_ring_targets [of "[]" "pool_nodes pool"] by (simp add: ring_targets_def pool_spec_def)

section \<open>Properties\<close>

text \<open>A pool of two nodes of weights 2 and 1, alone in a snapshot, for the witnesses.\<close>

definition sample_pool :: lb_pool where
  "sample_pool = \<lparr>pool_id = ''p'', pool_name = [], pool_strategy = [],
     pool_nodes = [\<lparr>node_id = ''a'', node_upstream = ''http://a:1'', node_weight = 2, node_enabled = True\<rparr>,
                   \<lparr>node_id = ''b'', node_upstream = ''http://b:2'', node_weight = 1, node_enabled = True\<rparr>]\<rparr>"

definition sample_snapshot :: snapshot where
  "sample_snapshot = (empty_snapshot zero_config)\<lparr>lb_pools := [(''p'', pool_spec sample_pool)]\<rparr>"

text \<open>
  C14. Weighted fairness: from any state in which a compiled pool has a node and its 64-bit
  counter does not wrap, as many picks as the ring is long hand out the target of each
  enabled node exactly as often as its normalised weight says.
\<close>

theorem weighted_fairness:
  assumes "compile_load_balancer_pool pool = Inr c"
    and "map_get (lb_pools s) (trim_space pid) = Some (c\<lparr>cp_counter := k\<rparr>)"
    and "pools_wf s" and "cp_ring c \<noteq> []"
    and "unat k + length (cp_ring c) < 2 ^ 64"
  shows "mset (picks (pick_target_from_pool pid) (length (cp_ring c)) s) =
     mset (concat (map (\<lambda>n. replicate (nat (normalize_node_weight (node_weight n)))
       (upstream_url (trim_space (node_upstream n)))) (filter node_enabled (pool_nodes pool))))"
proof -
  have none: "find (\<lambda>n. node_enabled n \<and> pool_node_url n = None) (pool_nodes pool) = None"
    and c: "c = pool_spec pool"
    using assms(1) by (cases "find (\<lambda>n. node_enabled n \<and> pool_node_url n = None) (pool_nodes pool)";
        simp add: compile_pool_ok compile_pool_bad)+
  have ready: "pool_ready pid s" using assms(2,3,4) by (simp add: pool_ready_def pool_live_def)
  have targets: "pool_targets pid s = node_targets (pool_nodes pool)"
    by (simp add: pool_targets_def assms(2) c ring_targets_spec)
  have len: "length (pool_targets pid s) = length (cp_ring c)"
    by (simp add: pool_targets_def assms(2) ring_targets_def)
  have urls: "Some (the (pool_node_url n)) = upstream_url (trim_space (node_upstream n))"
    if "n \<in> set (filter node_enabled (pool_nodes pool))" for n
    using none that by (auto simp: find_None_iff pool_node_url_def)
  have "mset (picks (pick_target_from_pool pid) (length (cp_ring c)) s) =
      image_mset Some (mset (node_targets (pool_nodes pool)))"
    using pool_pick.window_fair [OF ready] assms(5)
    by (simp add: len [symmetric] targets [symmetric] pool_tick_def assms(2))
  also have "\<dots> = mset (concat (map (\<lambda>n. replicate (nat (normalize_node_weight (node_weight n)))
       (upstream_url (trim_space (node_upstream n)))) (filter node_enabled (pool_nodes pool))))"
    unfolding node_targets_def mset_map [symmetric] map_concat map_map comp_def map_replicate
    by (rule arg_cong [where f = "\<lambda>x. mset (concat x)"], rule map_cong) (simp_all add: urls)
  finally show ?thesis .
qed

theorem weighted_fairness_witness:
  "mset (picks (pick_target_from_pool ''p'') 3 sample_snapshot) =
     mset [url_parse ''http://a:1'', url_parse ''http://a:1'', url_parse ''http://b:2'']"
proof -
  have a: "compile_load_balancer_pool sample_pool = Inr (pool_spec sample_pool)"
    by code_simp
  have b: "map_get (lb_pools sample_snapshot) (trim_space ''p'') =
      Some ((pool_spec sample_pool)\<lparr>cp_counter := 0\<rparr>)" by code_simp
  have c: "pools_wf sample_snapshot" by code_simp
  have d: "cp_ring (pool_spec sample_pool) \<noteq> []" by code_simp
  have e: "length (cp_ring (pool_spec sample_pool)) = 3" by code_simp
  have f: "concat (map (\<lambda>n. replicate (nat (normalize_node_weight (node_weight n)))
      (upstream_url (trim_space (node_upstream n)))) (filter node_enabled (pool_nodes sample_pool))) =
      [url_parse ''http://a:1'', url_parse ''http://a:1'', url_parse ''http://b:2'']" by code_simp
  show ?thesis
    using weighted_fairness [OF a b c d] by (simp add: e f)
qed

end
