(* ===== verification/ConfigManager.thy ===== *)
theory ConfigManager
  imports RoutePrep PoolPick
begin

text \<open>
  The configuration manager (\<open>internal/config/manager.go\<close>): compiling a configuration
  into a snapshot, replacing the snapshot, and the queries requests are served from. An
  operation that can fail returns the manager it leaves behind with the error, if any.
  Files, certificate parsing and JSON decoding are the fields of \<open>system\<close>.
\<close>

record system =
  sys_read_file :: "string \<Rightarrow> string option"
  sys_key_pair :: "string \<Rightarrow> string \<Rightarrow> tls_certificate option"
  sys_decode :: "config \<Rightarrow> string \<Rightarrow> config option"

record site_cdn_snapshot =
  scs_prefixes :: "ip_prefix list"
  scs_last_success :: gotime

record manager =
  mgr_path :: string
  mgr_data :: "snapshot option"
  dynamic_cidrs :: "string list"
  cdn_statuses :: "cdn_status gomap"
  site_cdn_snapshots :: "site_cdn_snapshot gomap gomap"

section \<open>Compiling a configuration\<close>

definition add_allowed_cidr :: "string \<Rightarrow> snapshot \<Rightarrow> config_error + snapshot" where
  "add_allowed_cidr txt data =
     (case parse_prefix (trim_space txt) of
        None \<Rightarrow> Inl (InvalidCidr txt)
      | Some p \<Rightarrow> Inr (data\<lparr>snap_allowed_cidrs := snap_allowed_cidrs data @ [p]\<rparr>))"

definition compile_allowed_cidrs :: "string list \<Rightarrow> snapshot \<Rightarrow> config_error + snapshot" where
  "compile_allowed_cidrs all data =
     (if all = [] then Inr (data\<lparr>allow_all := True\<rparr>) else fold_res add_allowed_cidr all data)"

definition provider_prefixes :: "snapshot \<Rightarrow> string \<Rightarrow> ip_prefix list" where
  "provider_prefixes data provider =
     (case map_get (cdn_provider_cidrs data) provider of None \<Rightarrow> [] | Some ps \<Rightarrow> ps)"

definition add_provider_cidr :: "string \<Rightarrow> string \<Rightarrow> snapshot \<Rightarrow> config_error + snapshot" where
  "add_provider_cidr provider txt data =
     (let v = trim_space txt in
      if v = [] then Inr data
      else
        (case parse_prefix v of
           None \<Rightarrow> Inl (InvalidCdnCidr v)
         | Some p \<Rightarrow>
             Inr (data\<lparr>cdn_provider_cidrs :=
               map_put provider (provider_prefixes data provider @ [p]) (cdn_provider_cidrs data)\<rparr>)))"

definition add_provider :: "string \<times> cdn_status \<Rightarrow> snapshot \<Rightarrow> config_error + snapshot" where
  "add_provider st data =
     (case st of (name, status) \<Rightarrow>
        let provider = to_lower (trim_space name) in
        if provider = [] \<or> cs_cidrs status = [] then Inr data
        else fold_res (add_provider_cidr provider) (cs_cidrs status) data)"

definition add_domain_rule :: "domain_rule \<Rightarrow> snapshot \<Rightarrow> config_error + snapshot" where
  "add_domain_rule rule data =
     (case upstream_url (dr_upstream rule) of
        None \<Rightarrow> Inl (InvalidRuleUpstream (dr_domain rule) (dr_upstream rule))
      | Some u \<Rightarrow>
          let domain = normalize_host (dr_domain rule) in
          if has_load_balancer_rule_for_domain data domain then Inr data
          else
            let item = \<lparr>ri_domain = domain, ri_force_https = dr_force_https rule, ri_target = u\<rparr> in
            if has_prefix domain ''*.'' then
              Inr (data\<lparr>wildcard_routes :=
                wildcard_routes data @ [\<lparr>wi_suffix = drop 1 domain, wi_route = item\<rparr>]\<rparr>)
            else Inr (data\<lparr>exact_routes := map_put domain item (exact_routes data)\<rparr>))"

definition add_default_route :: "string \<Rightarrow> snapshot \<Rightarrow> config_error + snapshot" where
  "add_default_route upstream data =
     (if upstream \<noteq> [] \<and> lb_default_route data = None then
        (case upstream_url upstream of
           None \<Rightarrow> Inl (InvalidDefaultUpstream upstream)
         | Some u \<Rightarrow>
             Inr (data\<lparr>default_route :=
               Some \<lparr>ri_domain = ''_default'', ri_force_https = False, ri_target = u\<rparr>\<rparr>))
      else Inr data)"

section \<open>Certificates\<close>

text \<open>The text of a PEM field, or the content of the file that replaces it.\<close>

definition pem_source ::
  "system \<Rightarrow> string \<Rightarrow> string \<Rightarrow> string \<Rightarrow> config_error \<Rightarrow> config_error + string" where
  "pem_source sys dir pem file err =
     (if file = [] then Inr pem
      else (case sys_read_file sys (path_join dir file) of None \<Rightarrow> Inl err | Some t \<Rightarrow> Inr t))"

text \<open>The certificate at position 0 becomes the default one when there is none yet.\<close>

definition set_default_cert :: "nat \<Rightarrow> tls_certificate \<Rightarrow> snapshot \<Rightarrow> snapshot" where
  "set_default_cert idx cert data =
     (if idx = 0 \<and> default_cert data = None then data\<lparr>default_cert := Some cert\<rparr> else data)"

definition load_legacy_certificate ::
  "system \<Rightarrow> string \<Rightarrow> nat \<times> certificate \<Rightarrow> snapshot \<Rightarrow> config_error + snapshot" where
  "load_legacy_certificate sys dir ix data =
     (case ix of (idx, item) \<Rightarrow>
        let domain = normalize_host (cert_domain item) in
        if domain = [] then Inl EmptyCertDomain
        else
          res_bind (pem_source sys dir (cert_pem item) (cert_file item)
                      (ReadCertFileFailed (cert_file item)))
            (\<lambda>cpem. res_bind (pem_source sys dir (cert_key_pem item) (cert_key_file item)
                                (ReadKeyFileFailed (cert_key_file item)))
              (\<lambda>kpem.
                 case sys_key_pair sys cpem kpem of
                   None \<Rightarrow> Inl (LoadCertFailed domain)
                 | Some cert \<Rightarrow>
                     Inr (set_default_cert idx cert
                       (data\<lparr>snap_certificates := map_put domain cert (snap_certificates data)\<rparr>)))))"

definition register_domain :: "tls_certificate \<Rightarrow> string \<Rightarrow> snapshot \<Rightarrow> snapshot" where
  "register_domain cert domain data =
     (let normalized = normalize_host domain in
      if normalized = [] then data
      else data\<lparr>snap_certificates := map_put normalized cert (snap_certificates data)\<rparr>)"

definition load_ssl_certificate ::
  "system \<Rightarrow> nat \<times> ssl_certificate \<Rightarrow> snapshot \<Rightarrow> config_error + snapshot" where
  "load_ssl_certificate sys ix data =
     (case ix of (idx, item) \<Rightarrow>
        if ssl_cert_pem item = [] \<or> ssl_key_pem item = [] then Inr data
        else
          (case sys_key_pair sys (ssl_cert_pem item) (ssl_key_pem item) of
             None \<Rightarrow> Inl (LoadSslCertFailed (ssl_id item) (ssl_name item))
           | Some cert \<Rightarrow>
               Inr (set_default_cert idx cert (fold (register_domain cert) (ssl_domains item) data))))"

definition load_certificates :: "system \<Rightarrow> string \<Rightarrow> snapshot \<Rightarrow> config_error + snapshot" where
  "load_certificates sys path data =
     res_bind
       (fold_res (load_legacy_certificate sys (path_dir path))
          (indexed (certificates (snap_cfg data))) data)
       (\<lambda>data1. fold_res (load_ssl_certificate sys)
                  (indexed (ssl_certificates (snap_cfg data1))) data1)"

definition build_snapshot ::
  "system \<Rightarrow> config \<Rightarrow> string \<Rightarrow> string list \<Rightarrow> cdn_status gomap \<Rightarrow> config_error + snapshot" where
  "build_snapshot sys cfg path dynamic statuses =
     res_bind (compile_allowed_cidrs (allowed_cidrs (security cfg) @ dynamic) (empty_snapshot cfg))
       (\<lambda>d1. res_bind (fold_res add_provider statuses d1)
       (\<lambda>d2. res_bind (compile_load_balancer_config d2 (load_balancer cfg))
       (\<lambda>d3. res_bind (fold_res add_domain_rule (routing_domains (routing cfg)) d3)
       (\<lambda>d4. res_bind (add_default_route (default_upstream (routing cfg)) d4)
       (\<lambda>d5. load_certificates sys path d5)))))"

section \<open>The manager's operations\<close>

definition current_config :: "manager \<Rightarrow> config" where
  "current_config m = (case mgr_data m of None \<Rightarrow> default_config | Some d \<Rightarrow> snap_cfg d)"

definition compile_config :: "system \<Rightarrow> config \<Rightarrow> manager \<Rightarrow> config_error + snapshot" where
  "compile_config sys cfg m =
     (case prepare_routing_and_load_balancer (fill_defaults cfg) of
        (prepared, issues) \<Rightarrow>
          if issues \<noteq> [] then Inl (ConfigConflict issues)
          else build_snapshot sys prepared (mgr_path m) (dynamic_cidrs m) (cdn_statuses m))"

definition apply_config :: "system \<Rightarrow> config \<Rightarrow> manager \<Rightarrow> manager \<times> config_error option" where
  "apply_config sys cfg m =
     (case compile_config sys cfg m of
        Inl e \<Rightarrow> (m, Some e)
      | Inr next \<Rightarrow> (m\<lparr>mgr_data := Some next\<rparr>, None))"

definition load_config :: "system \<Rightarrow> string \<Rightarrow> config_error + config" where
  "load_config sys path =
     (case sys_read_file sys path of
        None \<Rightarrow> Inl ReadConfigFailed
      | Some raw \<Rightarrow>
          (case sys_decode sys default_config raw of
             None \<Rightarrow> Inl ParseConfigFailed | Some cfg \<Rightarrow> Inr cfg))"

definition new_manager :: "system \<Rightarrow> environ \<Rightarrow> string \<Rightarrow> config_error + manager" where
  "new_manager sys env path =
     res_bind (load_config sys path)
       (\<lambda>cfg.
          case apply_config sys (apply_env_overrides env cfg)
                 \<lparr>mgr_path = path, mgr_data = None, dynamic_cidrs = [], cdn_statuses = [],
                   site_cdn_snapshots = []\<rparr> of
            (m, Some e) \<Rightarrow> Inl e
          | (m, None) \<Rightarrow> Inr m)"

definition reload :: "system \<Rightarrow> manager \<Rightarrow> manager \<times> config_error option" where
  "reload sys m =
     (case load_config sys (mgr_path m) of
        Inl e \<Rightarrow> (m, Some e) | Inr cfg \<Rightarrow> apply_config sys cfg m)"

text \<open>
  \<open>UpdateProviderStatus\<close> at the instant \<open>now\<close>: the part under the lock, which records the
  status and recomputes the dynamic CIDRs, then \<open>Apply\<close> of the current configuration.
\<close>

definition all_dynamic :: "cdn_status gomap \<Rightarrow> string list" where
  "all_dynamic statuses = concat (map (\<lambda>(k, st). cs_cidrs st) statuses)"

definition record_provider_status ::
  "string \<Rightarrow> string list \<Rightarrow> string \<Rightarrow> gotime \<Rightarrow> manager \<Rightarrow> manager" where
  "record_provider_status name cidrs err now m =
     (let statuses = map_put name \<lparr>cs_provider = name, cs_cidrs = cidrs, cs_last_sync = now,
            cs_error = err\<rparr> (cdn_statuses m)
      in m\<lparr>cdn_statuses := statuses, dynamic_cidrs := all_dynamic statuses\<rparr>)"

definition update_provider_status ::
  "system \<Rightarrow> string \<Rightarrow> string list \<Rightarrow> string option \<Rightarrow> gotime \<Rightarrow> manager
   \<Rightarrow> manager \<times> config_error option" where
  "update_provider_status sys provider cidrs err now m =
     (let name = to_lower (trim_space provider) in
      if name = [] then (m, Some ProviderEmpty)
      else
        let m1 = record_provider_status name cidrs (case err of None \<Rightarrow> [] | Some e \<Rightarrow> e) now m
        in apply_config sys (current_config m1) m1)"

definition get_cdn_status :: "manager \<Rightarrow> cdn_status gomap" where
  "get_cdn_status m = cdn_statuses m"

section \<open>Queries\<close>

definition route_match_of :: "route_item \<Rightarrow> route_match" where
  "route_match_of r = \<lparr>rm_domain = ri_domain r, rm_force_https = ri_force_https r,
     rm_target = ri_target r\<rparr>"

definition resolve_legacy_route :: "string \<Rightarrow> snapshot \<Rightarrow> route_match option" where
  "resolve_legacy_route host d =
     (case map_get (exact_routes d) host of
        Some r \<Rightarrow> Some (route_match_of r)
      | None \<Rightarrow>
          (case find (\<lambda>w. has_suffix host (wi_suffix w)) (wildcard_routes d) of
             Some w \<Rightarrow> Some (route_match_of (wi_route w))
           | None \<Rightarrow> map_option route_match_of (default_route d)))"

definition snapshot_resolve :: "string \<Rightarrow> snapshot \<Rightarrow> snapshot \<times> route_match option" where
  "snapshot_resolve host d =
     (case resolve_load_balancer_route host d of
        (d1, Some m) \<Rightarrow> (d1, Some m)
      | (d1, None) \<Rightarrow> (d1, resolve_legacy_route host d1))"

definition resolve_route :: "string \<Rightarrow> manager \<Rightarrow> manager \<times> route_match option" where
  "resolve_route host m =
     (case mgr_data m of
        None \<Rightarrow> (m, None)
      | Some d \<Rightarrow>
          (case snapshot_resolve (normalize_host host) d of
             (d1, r) \<Rightarrow> (m\<lparr>mgr_data := Some d1\<rparr>, r)))"

definition is_host_authorized :: "string \<Rightarrow> manager \<Rightarrow> manager \<times> bool" where
  "is_host_authorized host m =
     (case resolve_route host m of (m1, r) \<Rightarrow> (m1, r \<noteq> None))"

definition is_ip_allowed :: "manager \<Rightarrow> ip_addr \<Rightarrow> bool" where
  "is_ip_allowed m ip =
     (case mgr_data m of
        None \<Rightarrow> False
      | Some d \<Rightarrow> allow_all d \<or> list_ex (\<lambda>c. prefix_contains c ip) (snap_allowed_cidrs d))"

definition is_ip_allowed_by_providers :: "manager \<Rightarrow> ip_addr \<Rightarrow> string list \<Rightarrow> bool" where
  "is_ip_allowed_by_providers m ip providers =
     (case mgr_data m of
        None \<Rightarrow> False
      | Some d \<Rightarrow>
          if providers = [] \<or> cdn_provider_cidrs d = [] then False
          else list_ex (\<lambda>raw.
                 let provider = to_lower (trim_space raw) in
                 provider \<noteq> [] \<and> list_ex (\<lambda>c. prefix_contains c ip) (provider_prefixes d provider))
               providers)"

definition get_certificate :: "manager \<Rightarrow> string \<Rightarrow> config_error + tls_certificate" where
  "get_certificate m hello_name =
     (case mgr_data m of
        None \<Rightarrow> Inl ConfigNotReady
      | Some d \<Rightarrow>
          let name = normalize_host hello_name in
          (case map_get (snap_certificates d) name of
             Some c \<Rightarrow> Inr c
           | None \<Rightarrow>
               (case (if CHR ''.'' \<in> set name
                      then map_get (snap_certificates d) (''*'' @ from_first (CHR ''.'') name)
                      else None) of
                  Some c \<Rightarrow> Inr c
                | None \<Rightarrow>
                    (case default_cert d of Some c \<Rightarrow> Inr c | None \<Rightarrow> Inl NoCertificate))))"

definition has_certificates :: "manager \<Rightarrow> bool" where
  "has_certificates m =
     (case mgr_data m of None \<Rightarrow> False | Some d \<Rightarrow> snap_certificates d \<noteq> [])"

end
