(* ===== verification/Validate.thy ===== *)
theory Validate
  imports ConfigManager
begin

text \<open>
  The static checks of a configuration (\<open>internal/config/validate.go\<close>) and
  \<open>Manager.Validate\<close>. Each check gives the issues it appends, in the order of the code; the
  loop over the set of providers goes through it in the order they were seen, one of those
  the language allows.
\<close>

definition path_at :: "string \<Rightarrow> nat \<Rightarrow> string \<Rightarrow> string" where
  "path_at pre idx post = pre @ ''['' @ itoa idx @ '']'' @ post"

section \<open>Security settings\<close>

definition check_cidr :: "string \<Rightarrow> nat \<times> string \<Rightarrow> validation_issue list" where
  "check_cidr field ix =
     (case ix of (idx, txt) \<Rightarrow>
        let v = trim_space txt in
        if v = [] then []
        else if parse_prefix v = None then
          [\<lparr>issue_path = path_at field idx [], issue_message = ErrorText (PrefixError v)\<rparr>]
        else [])"

definition supported_cdn_providers :: "string list" where
  "supported_cdn_providers = [''aliyun'', ''cloudflare'', ''tencent'']"

text \<open>The loop over the providers: the issues so far and the providers seen so far.\<close>

definition check_provider ::
  "nat \<times> string \<Rightarrow> validation_issue list \<times> string list \<Rightarrow> validation_issue list \<times> string list" where
  "check_provider ix st =
     (case (ix, st) of ((idx, p), (issues, seen)) \<Rightarrow>
        let v = to_lower (trim_space p); path = path_at ''security.allowedCdnProviders'' idx [] in
        if v = [] then (issues, seen)
        else if v \<notin> set supported_cdn_providers then
          (issues @ [issue path ''cdn provider is not supported''], seen)
        else if v \<in> set seen then (issues @ [issue path ''cdn provider is duplicated''], seen)
        else (issues, seen @ [v]))"

definition check_origin_mode :: "string \<Rightarrow> validation_issue list" where
  "check_origin_mode m =
     (if m \<noteq> [] \<and> to_lower (trim_space m) \<notin> {''disabled'', ''enforced''}
      then [issue ''security.originProtectionMode'' ''origin protection mode is invalid'']
      else [])"

definition setting_path :: "string \<Rightarrow> string \<Rightarrow> string" where
  "setting_path provider field = ''security.cdnProviderSettings.'' @ provider @ ''.'' @ field"

definition check_intervals :: "string \<Rightarrow> cdn_provider_setting \<Rightarrow> validation_issue list" where
  "check_intervals provider st =
     (let refresh = refresh_interval_seconds st; stale = max_staleness_seconds st in
      (if refresh \<noteq> 0 \<and> (refresh < 60 \<or> refresh > 86400)
       then [issue (setting_path provider ''refreshIntervalSeconds'')
               ''refresh interval seconds is out of range'']
       else []) @
      (if stale \<noteq> 0 then
         (if stale < 60 \<or> stale > 604800
          then [issue (setting_path provider ''maxStalenessSeconds'')
                  ''max staleness seconds is out of range'']
          else []) @
         (if refresh > 0 \<and> stale > 0 \<and> stale < refresh
          then [issue (setting_path provider ''maxStalenessSeconds'')
                  ''max staleness seconds must be >= refresh interval seconds'']
          else [])
       else []))"

definition check_endpoint :: "string \<Rightarrow> string \<Rightarrow> validation_issue list" where
  "check_endpoint provider endpoint =
     (if trim_space endpoint \<noteq> [] \<and> upstream_url (trim_space endpoint) = None
      then [issue (setting_path provider ''endpoint'') ''endpoint is invalid''] else [])"

definition required :: "string \<Rightarrow> string \<Rightarrow> string \<Rightarrow> validation_issue list" where
  "required v path message = (if trim_space v = [] then [issue path message] else [])"

definition check_credentials :: "string \<Rightarrow> cdn_provider_setting \<Rightarrow> validation_issue list" where
  "check_credentials provider st =
     (if provider = ''aliyun'' then
        required (api_key st) (setting_path provider ''apiKey'') ''apiKey is required'' @
        required (cdn_option st) (setting_path provider ''option'') ''option(siteId) is required'' @
        check_endpoint provider (cdn_endpoint st)
      else if provider = ''tencent'' then
        required (api_key st) (setting_path provider ''apiKey'') ''apiKey is required'' @
        required (zone_id st) (setting_path provider ''zoneId'') ''zoneId is required'' @
        check_endpoint provider (cdn_endpoint st)
      else [])"

definition provider_setting :: "security_config \<Rightarrow> string \<Rightarrow> cdn_provider_setting" where
  "provider_setting sec provider =
     (case cdn_provider_settings sec of
        None \<Rightarrow> zero_setting
      | Some m \<Rightarrow> (case map_get m provider of None \<Rightarrow> zero_setting | Some st \<Rightarrow> st))"

definition check_provider_settings :: "security_config \<Rightarrow> string \<Rightarrow> validation_issue list" where
  "check_provider_settings sec provider =
     (let st = provider_setting sec provider in
      check_intervals provider st @ check_credentials provider st)"

definition check_security :: "security_config \<Rightarrow> validation_issue list" where
  "check_security sec =
     concat (map (check_cidr ''security.allowedCidrs'') (indexed (allowed_cidrs sec))) @
     concat (map (check_cidr ''security.trustedProxyCidrs'') (indexed (trusted_proxy_cidrs sec))) @
     (case fold check_provider (indexed (allowed_cdn_providers sec)) ([], []) of
        (issues, seen) \<Rightarrow>
          issues @ check_origin_mode (origin_protection_mode sec) @
          concat (map (check_provider_settings sec) seen))"

section \<open>Routes\<close>

definition check_domain_rule :: "nat \<times> domain_rule \<Rightarrow> validation_issue list" where
  "check_domain_rule ix =
     (case ix of (idx, rule) \<Rightarrow>
        let upstream = trim_space (dr_upstream rule);
            upath = path_at ''routing.domains'' idx ''.upstream'' in
        if trim_space (dr_domain rule) = [] then
          [issue (path_at ''routing.domains'' idx ''.domain'') ''domain is required'']
        else if upstream = [] then [issue upath ''upstream is required'']
        else if upstream_url upstream = None then [issue upath ''upstream url is invalid'']
        else [])"

definition check_default_upstream :: "string \<Rightarrow> validation_issue list" where
  "check_default_upstream u =
     (if u \<noteq> [] \<and> upstream_url u = None
      then [issue ''routing.defaultUpstream'' ''default upstream url is invalid''] else [])"

section \<open>Load balancer\<close>

definition node_path :: "nat \<Rightarrow> nat \<Rightarrow> string \<Rightarrow> string" where
  "node_path pidx nidx field =
     path_at ''loadBalancer.pools'' pidx (path_at ''.nodes'' nidx field)"

definition check_node ::
  "nat \<Rightarrow> nat \<times> lb_node \<Rightarrow> validation_issue list \<times> nat gomap
   \<Rightarrow> validation_issue list \<times> nat gomap" where
  "check_node pidx ix st =
     (case (ix, st) of ((nidx, node), (issues, index)) \<Rightarrow>
        let nid = trim_space (node_id node); upstream = trim_space (node_upstream node) in
        (issues @
         (if nid = [] then [issue (node_path pidx nidx ''.id'') ''node id is required'']
          else (case map_get index nid of None \<Rightarrow> []
                | Some prev \<Rightarrow> [issue (node_path pidx nidx ''.id'')
                    (''node id is duplicated with index '' @ itoa prev)])) @
         (if upstream = [] then [issue (node_path pidx nidx ''.upstream'') ''upstream is required'']
          else if upstream_url upstream = None then
            [issue (node_path pidx nidx ''.upstream'') ''upstream url is invalid'']
          else []) @
         (if node_weight node \<le> 0
          then [issue (node_path pidx nidx ''.weight'') ''weight must be positive''] else []),
         map_put nid nidx index))"

definition validate_load_balancer_pool_nodes :: "nat \<Rightarrow> lb_pool \<Rightarrow> validation_issue list" where
  "validate_load_balancer_pool_nodes pidx pool =
     fst (fold (check_node pidx) (indexed (pool_nodes pool)) ([], []))"

definition check_pool ::
  "nat \<times> lb_pool \<Rightarrow> validation_issue list \<times> nat gomap \<Rightarrow> validation_issue list \<times> nat gomap" where
  "check_pool ix st =
     (case (ix, st) of ((idx, pool), (issues, index)) \<Rightarrow>
        let pid = trim_space (pool_id pool); path = path_at ''loadBalancer.pools'' idx ''.id'' in
        if pid = [] then (issues @ [issue path ''pool id is required''], index)
        else
          (issues @
           (case map_get index pid of None \<Rightarrow> []
            | Some prev \<Rightarrow> [issue path (''pool id is duplicated with index '' @ itoa prev)]) @
           validate_load_balancer_pool_nodes idx pool,
           map_put pid idx index))"

definition check_lb_route :: "nat gomap \<Rightarrow> nat \<times> lb_route_rule \<Rightarrow> validation_issue list" where
  "check_lb_route index ix =
     (case ix of (idx, r) \<Rightarrow>
        let pid = trim_space (rule_pool_id r); fid = trim_space (rule_fallback_pool_id r) in
        (if trim_space (rule_domain r) = []
         then [issue (path_at ''loadBalancer.routes'' idx ''.domain'') ''domain is required'']
         else []) @
        (if pid = [] then
           [issue (path_at ''loadBalancer.routes'' idx ''.poolId'') ''pool id is required'']
         else if map_get index pid = None then
           [issue (path_at ''loadBalancer.routes'' idx ''.poolId'') ''pool id not found in pools'']
         else []) @
        (if fid \<noteq> [] \<and> map_get index fid = None then
           [issue (path_at ''loadBalancer.routes'' idx ''.fallbackPoolId'')
              ''fallback pool id not found in pools'']
         else []))"

definition validate_load_balancer_config :: "load_balancer_config \<Rightarrow> validation_issue list" where
  "validate_load_balancer_config lb =
     (case fold check_pool (indexed (lb_cfg_pools lb)) ([], []) of
        (issues, index) \<Rightarrow>
          issues @
          (if default_pool_id lb \<noteq> [] \<and> map_get index (trim_space (default_pool_id lb)) = None
           then [issue ''loadBalancer.defaultPoolId'' ''default pool id not found in pools'']
           else []) @
          concat (map (check_lb_route index) (indexed (lb_cfg_routes lb))))"

section \<open>Certificates\<close>

definition check_certificate ::
  "system \<Rightarrow> string \<Rightarrow> nat \<times> certificate \<Rightarrow> validation_issue list" where
  "check_certificate sys dir ix =
     (case ix of (idx, item) \<Rightarrow>
        let at = (\<lambda>field. path_at ''certificates'' idx field) in
        if trim_space (cert_domain item) = [] then [issue (at ''.domain'') ''domain is required'']
        else
          (case pem_source sys dir (cert_pem item) (cert_file item)
                  (ReadCertFileFailed (cert_file item)) of
             Inl _ \<Rightarrow> [\<lparr>issue_path = at ''.certFile'',
                        issue_message = ErrorText (ReadFileError (cert_file item))\<rparr>]
           | Inr cpem \<Rightarrow>
               (case pem_source sys dir (cert_key_pem item) (cert_key_file item)
                       (ReadKeyFileFailed (cert_key_file item)) of
                  Inl _ \<Rightarrow> [\<lparr>issue_path = at ''.keyFile'',
                             issue_message = ErrorText (ReadFileError (cert_key_file item))\<rparr>]
                | Inr kpem \<Rightarrow>
                    if cpem = [] then [issue (at ''.certPem'') ''certPem is required'']
                    else if kpem = [] then [issue (at ''.keyPem'') ''keyPem is required'']
                    else if sys_key_pair sys cpem kpem = None then
                      [\<lparr>issue_path = at [], issue_message = ErrorText (KeyPairError cpem kpem)\<rparr>]
                    else [])))"

definition validate_config :: "system \<Rightarrow> config \<Rightarrow> string \<Rightarrow> validation_issue list" where
  "validate_config sys cfg0 path =
     (let cfg = fill_defaults cfg0 in
      check_security (security cfg) @
      concat (map check_domain_rule (indexed (routing_domains (routing cfg)))) @
      check_default_upstream (default_upstream (routing cfg)) @
      validate_load_balancer_config (load_balancer cfg) @
      concat (map (check_certificate sys (path_dir path)) (indexed (certificates cfg))))"

definition manager_validate :: "system \<Rightarrow> config \<Rightarrow> manager \<Rightarrow> validation_issue list" where
  "manager_validate sys cfg m =
     (case prepare_routing_and_load_balancer (fill_defaults cfg) of
        (prepared, issues) \<Rightarrow> issues @ validate_config sys prepared (mgr_path m))"

end
