(* ===== verification/SnapshotProps.thy ===== *)
theory SnapshotProps
  imports Validate
begin

text \<open>
  When a configuration compiles, what the compiled snapshot keeps of it, and the
  invariants every snapshot of the manager has.
\<close>

section \<open>When a configuration compiles\<close>

text \<open>What a stage of the compilation leaves alone, for each of the stages.\<close>

lemma fold_res_ok_iff:
  assumes "\<And>x s. (\<exists>t. f x s = Inr t) = P x"
  shows "(\<exists>t. fold_res f xs s = Inr t) = list_all P xs"
proof (induction xs arbitrary: s)
  case (Cons x xs)
  show ?case
  proof (cases "f x s")
    case (Inl e)
    then show ?thesis using assms [of x s] by simp
  next
    case (Inr t)
    then show ?thesis using assms [of x s] Cons.IH [of t] by auto
  qed
qed simp

definition cidr_ok :: "string \<Rightarrow> bool" where
  "cidr_ok t \<longleftrightarrow> parse_prefix (trim_space t) \<noteq> None"

definition blank_or_cidr :: "string \<Rightarrow> bool" where
  "blank_or_cidr t \<longleftrightarrow> trim_space t = [] \<or> cidr_ok t"

definition provider_ok :: "string \<times> cdn_status \<Rightarrow> bool" where
  "provider_ok p \<longleftrightarrow> trim_space (fst p) = [] \<or> list_all blank_or_cidr (cs_cidrs (snd p))"

definition node_ok :: "lb_node \<Rightarrow> bool" where
  "node_ok n \<longleftrightarrow> \<not> node_enabled n \<or> pool_node_url n \<noteq> None"

definition pool_ok :: "lb_pool \<Rightarrow> bool" where
  "pool_ok p \<longleftrightarrow> trim_space (pool_id p) = [] \<or> list_all node_ok (pool_nodes p)"

definition rule_ok :: "domain_rule \<Rightarrow> bool" where
  "rule_ok r \<longleftrightarrow> upstream_url (dr_upstream r) \<noteq> None"

definition default_ok :: "config \<Rightarrow> bool" where
  "default_ok cfg \<longleftrightarrow> default_upstream (routing cfg) = [] \<or>
     trim_space (default_pool_id (load_balancer cfg)) \<noteq> [] \<or>
     upstream_url (default_upstream (routing cfg)) \<noteq> None"

definition pem_of :: "system \<Rightarrow> string \<Rightarrow> string \<Rightarrow> string \<Rightarrow> string option" where
  "pem_of sys dir pem file =
     (if file = [] then Some pem else sys_read_file sys (path_join dir file))"

definition legacy_cert_ok :: "system \<Rightarrow> string \<Rightarrow> certificate \<Rightarrow> bool" where
  "legacy_cert_ok sys dir c \<longleftrightarrow> normalize_host (cert_domain c) \<noteq> [] \<and>
     (case (pem_of sys dir (cert_pem c) (cert_file c), pem_of sys dir (cert_key_pem c) (cert_key_file c)) of
        (Some a, Some b) \<Rightarrow> sys_key_pair sys a b \<noteq> None
      | _ \<Rightarrow> False)"

definition ssl_cert_ok :: "system \<Rightarrow> ssl_certificate \<Rightarrow> bool" where
  "ssl_cert_ok sys c \<longleftrightarrow> ssl_cert_pem c = [] \<or> ssl_key_pem c = [] \<or>
     sys_key_pair sys (ssl_cert_pem c) (ssl_key_pem c) \<noteq> None"

definition config_compiles ::
  "system \<Rightarrow> config \<Rightarrow> string \<Rightarrow> string list \<Rightarrow> cdn_status gomap \<Rightarrow> bool" where
  "config_compiles sys cfg path dynamic statuses \<longleftrightarrow>
     list_all cidr_ok (allowed_cidrs (security cfg) @ dynamic) \<and>
     list_all provider_ok statuses \<and>
     list_all pool_ok (lb_cfg_pools (load_balancer cfg)) \<and>
     list_all rule_ok (routing_domains (routing cfg)) \<and>
     default_ok cfg \<and>
     list_all (legacy_cert_ok sys (path_dir path)) (certificates cfg) \<and>
     list_all (ssl_cert_ok sys) (ssl_certificates cfg)"

lemma add_allowed_cidr_ok: "(\<exists>t. add_allowed_cidr c s = Inr t) = cidr_ok c"
  by (auto simp: add_allowed_cidr_def cidr_ok_def split: option.split)

lemma compile_allowed_cidrs_ok:
  "(\<exists>t. compile_allowed_cidrs cs s = Inr t) = list_all cidr_ok cs"
  by (auto simp: compile_allowed_cidrs_def fold_res_ok_iff [OF add_allowed_cidr_ok])

lemma parse_prefix_blank: "trim_space t = [] \<Longrightarrow> \<not> cidr_ok t"
  by (simp add: cidr_ok_def)

lemma add_provider_cidr_ok: "(\<exists>t. add_provider_cidr p c s = Inr t) = blank_or_cidr c"
  by (auto simp: add_provider_cidr_def blank_or_cidr_def cidr_ok_def Let_def split: option.split)

lemma add_provider_ok: "(\<exists>t. add_provider st s = Inr t) = provider_ok st"
  by (cases st) (auto simp: add_provider_def provider_ok_def Let_def
      fold_res_ok_iff [OF add_provider_cidr_ok])

lemma compile_pool_step_ok: "(\<exists>t. compile_pool_step p s = Inr t) = pool_ok p"
proof (cases "find (\<lambda>n. node_enabled n \<and> pool_node_url n = None) (pool_nodes p)")
  case None
  then have "list_all node_ok (pool_nodes p)" by (auto simp: find_None_iff node_ok_def list_all_iff)
  with None show ?thesis by (simp add: compile_pool_step_def pool_ok_def compile_pool_ok Let_def)
next
  case (Some n)
  then have "\<not> list_all node_ok (pool_nodes p)"
    by (auto simp: find_Some_iff node_ok_def list_all_iff)
  with Some show ?thesis by (simp add: compile_pool_step_def pool_ok_def compile_pool_bad Let_def)
qed

lemma add_domain_rule_ok: "(\<exists>t. add_domain_rule r s = Inr t) = rule_ok r"
  by (auto simp: add_domain_rule_def rule_ok_def Let_def split: option.split)

lemma pem_source_eq:
  "pem_source sys dir pem file err =
     (case pem_of sys dir pem file of None \<Rightarrow> Inl err | Some t \<Rightarrow> Inr t)"
  by (simp add: pem_source_def pem_of_def)

lemma load_legacy_certificate_ok:
  "(\<exists>t. load_legacy_certificate sys dir ix s = Inr t) = legacy_cert_ok sys dir (snd ix)"
  by (cases ix) (auto simp: load_legacy_certificate_def legacy_cert_ok_def pem_source_eq Let_def
      split: option.split)

lemma load_ssl_certificate_ok:
  "(\<exists>t. load_ssl_certificate sys ix s = Inr t) = ssl_cert_ok sys (snd ix)"
  by (cases ix) (auto simp: load_ssl_certificate_def ssl_cert_ok_def Let_def split: option.split)

section \<open>What the stages leave alone\<close>

definition routes_of :: "snapshot \<Rightarrow> lb_route_item option \<times> route_item gomap \<times> wildcard_item list \<times> route_item option" where
  "routes_of s = (lb_default_route s, exact_routes s, wildcard_routes s, default_route s)"

definition lb_part :: "snapshot \<Rightarrow> compiled_pool gomap \<times> lb_route_item gomap \<times> lb_wildcard_item list" where
  "lb_part s = (lb_pools s, lb_exact_routes s, lb_wildcard_routes s)"

definition certs_of :: "snapshot \<Rightarrow> tls_certificate gomap \<times> tls_certificate option" where
  "certs_of s = (snap_certificates s, default_cert s)"

definition filters_of :: "snapshot \<Rightarrow> bool \<times> ip_prefix list \<times> ip_prefix list gomap" where
  "filters_of s = (allow_all s, snap_allowed_cidrs s, cdn_provider_cidrs s)"

lemmas part_defs = routes_of_def lb_part_def certs_of_def filters_of_def

definition but_allowed :: "snapshot \<Rightarrow> _" where
  "but_allowed s = (snap_cfg s, routes_of s, lb_part s, certs_of s, allow_all s, cdn_provider_cidrs s)"

definition but_providers :: "snapshot \<Rightarrow> _" where
  "but_providers s = (snap_cfg s, routes_of s, lb_part s, certs_of s, allow_all s, snap_allowed_cidrs s)"

definition but_pools :: "snapshot \<Rightarrow> _" where
  "but_pools s = (snap_cfg s, routes_of s, lb_exact_routes s, lb_wildcard_routes s, certs_of s, filters_of s)"

definition but_lb_routes :: "snapshot \<Rightarrow> _" where
  "but_lb_routes s = (snap_cfg s, routes_of s, lb_pools s, certs_of s, filters_of s)"

definition but_domain_routes :: "snapshot \<Rightarrow> _" where
  "but_domain_routes s =
     (snap_cfg s, lb_part s, lb_default_route s, default_route s, certs_of s, filters_of s)"

definition but_default_route :: "snapshot \<Rightarrow> _" where
  "but_default_route s = (snap_cfg s, lb_part s, lb_default_route s, exact_routes s,
     wildcard_routes s, certs_of s, filters_of s)"

definition but_certs :: "snapshot \<Rightarrow> _" where
  "but_certs s = (snap_cfg s, routes_of s, lb_part s, filters_of s)"

lemmas but_defs = but_allowed_def but_providers_def but_pools_def but_lb_routes_def
  but_domain_routes_def but_default_route_def but_certs_def

lemma add_allowed_cidr_frame: "add_allowed_cidr c s = Inr t \<Longrightarrow> but_allowed t = but_allowed s"
  by (auto simp: add_allowed_cidr_def but_allowed_def part_defs split: option.splits)

lemma add_provider_cidr_frame: "add_provider_cidr p c s = Inr t \<Longrightarrow> but_providers t = but_providers s"
  by (auto simp: add_provider_cidr_def but_providers_def part_defs Let_def split: option.splits if_splits)

lemma add_provider_cidrs_frame:
  "fold_res (add_provider_cidr p) xs s = Inr t \<Longrightarrow> but_providers t = but_providers s"
  by (rule fold_res_keeps [OF add_provider_cidr_frame])

lemma add_provider_frame: "add_provider st s = Inr t \<Longrightarrow> but_providers t = but_providers s"
  by (cases st) (auto simp: add_provider_def Let_def dest: add_provider_cidrs_frame split: if_splits)

lemma compile_pool_step_frame: "compile_pool_step p s = Inr t \<Longrightarrow> but_pools t = but_pools s"
  by (auto simp: compile_pool_step_def but_pools_def part_defs Let_def res_bind_Inr_iff split: if_splits)

lemma add_lb_route_frame: "but_lb_routes (add_lb_route r s) = but_lb_routes s"
  by (simp add: add_lb_route_def but_lb_routes_def part_defs Let_def)

lemma but_routes_simps [simp]:
  "but_domain_routes (s\<lparr>wildcard_routes := w\<rparr>) = but_domain_routes s"
  "but_domain_routes (s\<lparr>exact_routes := x\<rparr>) = but_domain_routes s"
  "but_default_route (s\<lparr>default_route := d\<rparr>) = but_default_route s"
  by (simp_all add: but_domain_routes_def but_default_route_def part_defs)

lemma add_domain_rule_frame: "add_domain_rule r s = Inr t \<Longrightarrow> but_domain_routes t = but_domain_routes s"
  by (auto simp: add_domain_rule_def Let_def split: option.splits if_splits)

lemma add_default_route_frame: "add_default_route u s = Inr t \<Longrightarrow> but_default_route t = but_default_route s"
  by (auto simp: add_default_route_def split: option.splits if_splits)

lemma but_certs_simps [simp]:
  "but_certs (set_default_cert i c s) = but_certs s"
  "but_certs (s\<lparr>snap_certificates := cs\<rparr>) = but_certs s"
  by (simp_all add: set_default_cert_def but_certs_def part_defs)

lemma load_legacy_certificate_frame:
  "load_legacy_certificate sys dir ix s = Inr t \<Longrightarrow> but_certs t = but_certs s"
  by (cases ix) (auto simp: load_legacy_certificate_def Let_def res_bind_Inr_iff
      split: option.splits if_splits)

lemma register_domains_frame: "but_certs (fold (register_domain c) ds s) = but_certs s"
  by (rule fold_keeps) (simp add: register_domain_def Let_def)

lemma load_ssl_certificate_frame:
  "load_ssl_certificate sys ix s = Inr t \<Longrightarrow> but_certs t = but_certs s"
  by (cases ix) (auto simp: load_ssl_certificate_def Let_def register_domains_frame
      split: option.splits if_splits)

lemma load_certificates_frame: "load_certificates sys path s = Inr t \<Longrightarrow> but_certs t = but_certs s"
  using fold_res_keeps [where f = "load_legacy_certificate sys (path_dir path)" and g = but_certs,
      OF load_legacy_certificate_frame]
    fold_res_keeps [where f = "load_ssl_certificate sys" and g = but_certs,
      OF load_ssl_certificate_frame]
  by (fastforce simp: load_certificates_def res_bind_Inr_iff)

section \<open>Stages and the whole\<close>

lemma compile_allowed_cidrs_cfg:
  "compile_allowed_cidrs cs s = Inr t \<Longrightarrow>
   snap_cfg t = snap_cfg s \<and> routes_of t = routes_of s \<and> lb_part t = lb_part s \<and>
   certs_of t = certs_of s \<and> cdn_provider_cidrs t = cdn_provider_cidrs s"
  using fold_res_keeps [where f = add_allowed_cidr and g = but_allowed, OF add_allowed_cidr_frame]
  by (fastforce simp: compile_allowed_cidrs_def but_allowed_def part_defs split: if_splits)

lemma add_providers_frame:
  "fold_res add_provider sts s = Inr t \<Longrightarrow> but_providers t = but_providers s"
  by (rule fold_res_keeps [OF add_provider_frame])

lemma compile_pools_frame:
  "fold_res compile_pool_step ps s = Inr t \<Longrightarrow> but_pools t = but_pools s"
  by (rule fold_res_keeps [OF compile_pool_step_frame])

lemma add_lb_routes_frame: "but_lb_routes (fold add_lb_route rs s) = but_lb_routes s"
  by (rule fold_keeps) (rule add_lb_route_frame)

lemma add_domain_rules_frame:
  "fold_res add_domain_rule rs s = Inr t \<Longrightarrow> but_domain_routes t = but_domain_routes s"
  by (rule fold_res_keeps [OF add_domain_rule_frame])

lemma compile_lb_cfg:
  assumes "compile_load_balancer_config s lb = Inr t"
  shows "snap_cfg t = snap_cfg s" "filters_of t = filters_of s" "certs_of t = certs_of s"
    "exact_routes t = exact_routes s" "wildcard_routes t = wildcard_routes s"
    "default_route t = default_route s"
    "lb_default_route t = None \<longleftrightarrow> lb_default_route s = None \<and> trim_space (default_pool_id lb) = []"
proof -
  obtain s1 where s1: "fold_res compile_pool_step (lb_cfg_pools lb) s = Inr s1"
    and t: "t = (let dflt = trim_space (default_pool_id lb); s2 = fold add_lb_route (lb_cfg_routes lb) s1 in
      if dflt \<noteq> [] then s2\<lparr>lb_default_route := Some \<lparr>lri_domain = ''_lb_default'',
        lri_force_https = False, lri_pool_id = dflt, lri_fallback_pool_id = []\<rparr>\<rparr> else s2)"
    using assms by (auto simp: compile_load_balancer_config_def res_bind_Inr_iff Let_def)
  have a: "but_pools s1 = but_pools s" by (rule compile_pools_frame [OF s1])
  have b: "but_lb_routes (fold add_lb_route (lb_cfg_routes lb) s1) = but_lb_routes s1"
    by (rule add_lb_routes_frame)
  note ab = a [unfolded but_pools_def part_defs prod.inject] b [unfolded but_lb_routes_def part_defs prod.inject]
  show "snap_cfg t = snap_cfg s" "filters_of t = filters_of s" "certs_of t = certs_of s"
    "exact_routes t = exact_routes s" "wildcard_routes t = wildcard_routes s"
    "default_route t = default_route s"
    "lb_default_route t = None \<longleftrightarrow> lb_default_route s = None \<and> trim_space (default_pool_id lb) = []"
    using ab by (simp_all add: t part_defs Let_def)
qed

lemma compile_lb_ok:
  "(\<exists>t. compile_load_balancer_config s lb = Inr t) = list_all pool_ok (lb_cfg_pools lb)"
  using fold_res_ok_iff [where f = compile_pool_step, OF compile_pool_step_ok, of "lb_cfg_pools lb" s]
  by (auto simp: compile_load_balancer_config_def res_bind_Inr_iff Let_def)

lemma list_all_indexed: "list_all (\<lambda>ix. P (snd ix)) (indexed_from n xs) = list_all P xs"
  by (induction xs arbitrary: n) simp_all

lemma load_certificates_ok:
  "(\<exists>t. load_certificates sys path s = Inr t) \<longleftrightarrow>
     list_all (legacy_cert_ok sys (path_dir path)) (certificates (snap_cfg s)) \<and>
     list_all (ssl_cert_ok sys) (ssl_certificates (snap_cfg s))"
proof (cases "fold_res (load_legacy_certificate sys (path_dir path)) (indexed (certificates (snap_cfg s))) s")
  case (Inl e)
  then show ?thesis
    using fold_res_ok_iff [where f = "load_legacy_certificate sys (path_dir path)",
        OF load_legacy_certificate_ok, of "indexed (certificates (snap_cfg s))" s]
    by (simp add: load_certificates_def list_all_indexed)
next
  case (Inr t)
  have "snap_cfg t = snap_cfg s"
    using fold_res_keeps [where f = "load_legacy_certificate sys (path_dir path)" and g = but_certs,
        OF load_legacy_certificate_frame Inr] by (simp add: but_certs_def)
  then show ?thesis
    using Inr fold_res_ok_iff [where f = "load_legacy_certificate sys (path_dir path)",
        OF load_legacy_certificate_ok, of "indexed (certificates (snap_cfg s))" s]
      fold_res_ok_iff [where f = "load_ssl_certificate sys",
        OF load_ssl_certificate_ok, of "indexed (ssl_certificates (snap_cfg s))" t]
    by (simp add: load_certificates_def list_all_indexed)
qed

lemma add_default_route_ok:
  "(\<exists>t. add_default_route u s = Inr t) \<longleftrightarrow> u = [] \<or> lb_default_route s \<noteq> None \<or> upstream_url u \<noteq> None"
  by (auto simp: add_default_route_def split: option.split)

text \<open>The stages of a successful compilation, with the facts each keeps.\<close>

lemma build_snapshot_stages:
  "build_snapshot sys cfg path dyn sts = Inr d \<longleftrightarrow>
   (\<exists>d1 d2 d3 d4 d5.
      compile_allowed_cidrs (allowed_cidrs (security cfg) @ dyn) (empty_snapshot cfg) = Inr d1 \<and>
      fold_res add_provider sts d1 = Inr d2 \<and>
      compile_load_balancer_config d2 (load_balancer cfg) = Inr d3 \<and>
      fold_res add_domain_rule (routing_domains (routing cfg)) d3 = Inr d4 \<and>
      add_default_route (default_upstream (routing cfg)) d4 = Inr d5 \<and>
      load_certificates sys path d5 = Inr d)"
  unfolding build_snapshot_def by (auto simp: res_bind_Inr_iff)

lemma build_snapshot_ok_iff:
  "(\<exists>d. build_snapshot sys cfg path dyn sts = Inr d) = config_compiles sys cfg path dyn sts"
  unfolding build_snapshot_def config_compiles_def
proof (intro res_bind_ok, goal_cases)
  case 1
  show ?case by (rule compile_allowed_cidrs_ok)
next
  case (2 d1)
  show ?case by (rule fold_res_ok_iff [OF add_provider_ok])
next
  case (3 d1 d2)
  show ?case by (rule compile_lb_ok)
next
  case (4 d1 d2 d3)
  show ?case by (rule fold_res_ok_iff [OF add_domain_rule_ok])
next
  case (5 d1 d2 d3 d4)
  have "lb_default_route d1 = None"
    using compile_allowed_cidrs_cfg [OF 5(1)] by (simp add: empty_snapshot_def routes_of_def)
  then have "lb_default_route d2 = None"
    using add_providers_frame [OF 5(2)] by (simp add: but_providers_def routes_of_def)
  then have "lb_default_route d4 = None \<longleftrightarrow> trim_space (default_pool_id (load_balancer cfg)) = []"
    using compile_lb_cfg(7) [OF 5(3)] add_domain_rules_frame [OF 5(4)] by (simp add: but_domain_routes_def)
  then show ?case by (auto simp: add_default_route_ok default_ok_def)
next
  case (6 d1 d2 d3 d4 d5)
  have "snap_cfg d5 = cfg"
    using compile_allowed_cidrs_cfg [OF 6(1)] add_providers_frame [OF 6(2)] compile_lb_cfg(1) [OF 6(3)]
      add_domain_rules_frame [OF 6(4)] add_default_route_frame [OF 6(5)]
    by (simp add: empty_snapshot_def but_providers_def but_domain_routes_def but_default_route_def)
  then show ?case by (simp add: load_certificates_ok)
qed

lemma build_snapshot_cfg:
  assumes "build_snapshot sys cfg path dyn sts = Inr d"
  shows "snap_cfg d = cfg"
proof -
  obtain d1 d2 d3 d4 d5 where d:
      "compile_allowed_cidrs (allowed_cidrs (security cfg) @ dyn) (empty_snapshot cfg) = Inr d1"
      "fold_res add_provider sts d1 = Inr d2" "compile_load_balancer_config d2 (load_balancer cfg) = Inr d3"
      "fold_res add_domain_rule (routing_domains (routing cfg)) d3 = Inr d4"
      "add_default_route (default_upstream (routing cfg)) d4 = Inr d5" "load_certificates sys path d5 = Inr d"
    using assms unfolding build_snapshot_stages by blast
  show ?thesis
    using compile_allowed_cidrs_cfg [OF d(1)] add_providers_frame [OF d(2)] compile_lb_cfg(1) [OF d(3)]
      add_domain_rules_frame [OF d(4)] add_default_route_frame [OF d(5)] load_certificates_frame [OF d(6)]
    by (simp add: empty_snapshot_def but_providers_def but_domain_routes_def but_default_route_def but_certs_def)
qed

section \<open>The address filters\<close>

definition parsed_cidr :: "string \<Rightarrow> ip_prefix" where
  "parsed_cidr t = the (parse_prefix (trim_space t))"

lemma add_allowed_cidr_Inr:
  "add_allowed_cidr c s = Inr u \<longleftrightarrow>
     (\<exists>p. parse_prefix (trim_space c) = Some p \<and>
        u = s\<lparr>snap_allowed_cidrs := snap_allowed_cidrs s @ [p]\<rparr>)"
  by (auto simp: add_allowed_cidr_def split: option.splits)

lemma add_provider_cidr_Inr:
  "trim_space c \<noteq> [] \<Longrightarrow> add_provider_cidr q c s = Inr u \<longleftrightarrow>
     (\<exists>p. parse_prefix (trim_space c) = Some p \<and> u = s\<lparr>cdn_provider_cidrs :=
        map_put q (provider_prefixes s q @ [p]) (cdn_provider_cidrs s)\<rparr>)"
  by (auto simp: add_provider_cidr_def Let_def split: option.splits)

lemma add_allowed_cidrs_loop:
  "fold_res add_allowed_cidr cs s = Inr t \<Longrightarrow>
   snap_allowed_cidrs t = snap_allowed_cidrs s @ map parsed_cidr cs \<and> allow_all t = allow_all s"
proof (induction cs arbitrary: s)
  case (Cons c cs)
  then obtain p where p: "parse_prefix (trim_space c) = Some p"
      "fold_res add_allowed_cidr cs (s\<lparr>snap_allowed_cidrs := snap_allowed_cidrs s @ [p]\<rparr>) = Inr t"
    by (auto simp: add_allowed_cidr_Inr res_bind_Inr_iff)
  with Cons.IH [OF p(2)] show ?case by (simp add: parsed_cidr_def)
qed simp

text \<open>The prefixes the loop over the statuses collects for one provider.\<close>

definition status_prefixes :: "string \<Rightarrow> string \<times> cdn_status \<Rightarrow> ip_prefix list" where
  "status_prefixes provider st =
     (if to_lower (trim_space (fst st)) = provider \<and> provider \<noteq> []
      then map parsed_cidr (filter (\<lambda>t. trim_space t \<noteq> []) (cs_cidrs (snd st))) else [])"

lemma provider_prefixes_put:
  "provider_prefixes (s\<lparr>cdn_provider_cidrs := map_put q ps m\<rparr>) p =
     (if p = q then ps else case map_get m p of None \<Rightarrow> [] | Some x \<Rightarrow> x)"
  by (simp add: provider_prefixes_def)

lemma add_provider_cidrs_loop:
  "fold_res (add_provider_cidr q) cs s = Inr t \<Longrightarrow>
   provider_prefixes t p = provider_prefixes s p @
     (if p = q then map parsed_cidr (filter (\<lambda>t. trim_space t \<noteq> []) cs) else [])"
proof (induction cs arbitrary: s)
  case (Cons c cs)
  show ?case
  proof (cases "trim_space c = []")
    case True
    with Cons show ?thesis by (simp add: add_provider_cidr_def)
  next
    case False
    then obtain x where x: "parse_prefix (trim_space c) = Some x"
        "fold_res (add_provider_cidr q) cs (s\<lparr>cdn_provider_cidrs :=
           map_put q (provider_prefixes s q @ [x]) (cdn_provider_cidrs s)\<rparr>) = Inr t"
      using Cons.prems by (auto simp: add_provider_cidr_Inr res_bind_Inr_iff)
    show ?thesis
      using Cons.IH [OF x(2)] x(1) False
      by (auto simp: provider_prefixes_put parsed_cidr_def) (simp add: provider_prefixes_def)
  qed
qed simp

lemma add_provider_prefixes:
  assumes "add_provider st s = Inr t"
  shows "provider_prefixes t p = provider_prefixes s p @ status_prefixes p st"
proof (cases "to_lower (trim_space (fst st)) = [] \<or> cs_cidrs (snd st) = []")
  case True
  with assms show ?thesis by (cases st) (auto simp: add_provider_def status_prefixes_def)
next
  case False
  then have "fold_res (add_provider_cidr (to_lower (trim_space (fst st)))) (cs_cidrs (snd st)) s = Inr t"
    using assms by (cases st) (simp add: add_provider_def)
  from add_provider_cidrs_loop [OF this, of p] False show ?thesis
    by (auto simp: status_prefixes_def)
qed

lemma add_providers_loop:
  "fold_res add_provider sts s = Inr t \<Longrightarrow>
   provider_prefixes t p = provider_prefixes s p @ concat (map (status_prefixes p) sts)"
proof (induction sts arbitrary: s)
  case (Cons st sts)
  then obtain u where u: "add_provider st s = Inr u" "fold_res add_provider sts u = Inr t"
    by (auto simp: res_bind_Inr_iff)
  show ?case using Cons.IH [OF u(2)] add_provider_prefixes [OF u(1), of p] by simp
qed simp

lemma build_snapshot_filters:
  assumes "build_snapshot sys cfg path dyn sts = Inr d"
  shows "allow_all d \<longleftrightarrow> allowed_cidrs (security cfg) @ dyn = []"
    and "snap_allowed_cidrs d = map parsed_cidr (allowed_cidrs (security cfg) @ dyn)"
    and "provider_prefixes d p = concat (map (status_prefixes p) sts)"
proof -
  obtain d1 d2 d3 d4 d5 where d:
      "compile_allowed_cidrs (allowed_cidrs (security cfg) @ dyn) (empty_snapshot cfg) = Inr d1"
      "fold_res add_provider sts d1 = Inr d2" "compile_load_balancer_config d2 (load_balancer cfg) = Inr d3"
      "fold_res add_domain_rule (routing_domains (routing cfg)) d3 = Inr d4"
      "add_default_route (default_upstream (routing cfg)) d4 = Inr d5" "load_certificates sys path d5 = Inr d"
    using assms unfolding build_snapshot_stages by blast
  have rest: "filters_of d = filters_of d2"
    using compile_lb_cfg(2) [OF d(3)] add_domain_rules_frame [OF d(4)] add_default_route_frame [OF d(5)]
      load_certificates_frame [OF d(6)]
    by (simp add: but_domain_routes_def but_default_route_def but_certs_def)
  have two: "allow_all d2 = allow_all d1" "snap_allowed_cidrs d2 = snap_allowed_cidrs d1"
    using add_providers_frame [OF d(2)] by (simp_all add: but_providers_def)
  have one: "(allow_all d1 \<longleftrightarrow> allowed_cidrs (security cfg) @ dyn = []) \<and>
      snap_allowed_cidrs d1 = map parsed_cidr (allowed_cidrs (security cfg) @ dyn)"
  proof (cases "allowed_cidrs (security cfg) @ dyn = []")
    case True
    then show ?thesis using d(1) by (auto simp: compile_allowed_cidrs_def empty_snapshot_def)
  next
    case False
    then have "fold_res add_allowed_cidr (allowed_cidrs (security cfg) @ dyn) (empty_snapshot cfg) = Inr d1"
      using d(1) by (simp add: compile_allowed_cidrs_def split: if_splits)
    from add_allowed_cidrs_loop [OF this] False show ?thesis by (simp add: empty_snapshot_def)
  qed
  show "allow_all d \<longleftrightarrow> allowed_cidrs (security cfg) @ dyn = []"
    and "snap_allowed_cidrs d = map parsed_cidr (allowed_cidrs (security cfg) @ dyn)"
    using rest two one by (simp_all add: filters_of_def)
  have "provider_prefixes d p = provider_prefixes d2 p"
    using rest by (simp add: filters_of_def provider_prefixes_def)
  moreover have "provider_prefixes d1 p = []"
    using compile_allowed_cidrs_cfg [OF d(1)] by (simp add: provider_prefixes_def empty_snapshot_def)
  ultimately show "provider_prefixes d p = concat (map (status_prefixes p) sts)"
    using add_providers_loop [OF d(2), of p] by simp
qed

section \<open>The pools\<close>

lemma compile_pool_step_wf:
  "pools_wf s \<Longrightarrow> compile_pool_step p s = Inr t \<Longrightarrow> pools_wf t"
  by (auto simp: compile_pool_step_def Let_def res_bind_Inr_iff intro: compile_pool_wf
      intro!: pools_wf_put split: if_splits)

lemma pools_wf_cong: "lb_pools t = lb_pools s \<Longrightarrow> pools_wf t = pools_wf s"
  by (simp add: pools_wf_def)

lemma compile_lb_wf:
  assumes "pools_wf s" "compile_load_balancer_config s lb = Inr t"
  shows "pools_wf t"
proof -
  obtain s1 where s1: "fold_res compile_pool_step (lb_cfg_pools lb) s = Inr s1"
    and t: "lb_pools t = lb_pools (fold add_lb_route (lb_cfg_routes lb) s1)"
    using assms(2) by (fastforce simp: compile_load_balancer_config_def res_bind_Inr_iff Let_def split: if_splits)
  have "pools_wf s1"
    by (rule fold_res_invariant [where P = pools_wf, OF s1 assms(1)]) (rule compile_pool_step_wf)
  moreover have "lb_pools t = lb_pools s1"
    using t add_lb_routes_frame [of "lb_cfg_routes lb" s1] by (simp add: but_lb_routes_def)
  ultimately show ?thesis using pools_wf_cong by blast
qed

lemma build_snapshot_wf:
  assumes "build_snapshot sys cfg path dyn sts = Inr d"
  shows "pools_wf d"
proof -
  obtain d1 d2 d3 d4 d5 where d:
      "compile_allowed_cidrs (allowed_cidrs (security cfg) @ dyn) (empty_snapshot cfg) = Inr d1"
      "fold_res add_provider sts d1 = Inr d2" "compile_load_balancer_config d2 (load_balancer cfg) = Inr d3"
      "fold_res add_domain_rule (routing_domains (routing cfg)) d3 = Inr d4"
      "add_default_route (default_upstream (routing cfg)) d4 = Inr d5" "load_certificates sys path d5 = Inr d"
    using assms unfolding build_snapshot_stages by blast
  have "lb_pools d2 = []"
    using compile_allowed_cidrs_cfg [OF d(1)] add_providers_frame [OF d(2)]
    by (simp add: empty_snapshot_def but_providers_def lb_part_def)
  then have "pools_wf d3" using compile_lb_wf [OF _ d(3)] by (simp add: pools_wf_def)
  moreover have "lb_pools d = lb_pools d3"
    using add_domain_rules_frame [OF d(4)] add_default_route_frame [OF d(5)]
      load_certificates_frame [OF d(6)]
    by (simp add: but_domain_routes_def but_default_route_def but_certs_def lb_part_def)
  ultimately show ?thesis using pools_wf_cong by blast
qed

end
