(* ===== verification/Router.thy ===== *)
theory Router
  imports Prelude
begin

text \<open>
  The interface the gateway uses of the configuration manager: a resolver of host names
  whose state may move on at each call (the counters of the pools), a test of source
  addresses, and what the calls leave alone. The facts a client needs, that asking again
  gives the same verdict and that a sequence of requests never changes what is known, are
  proved here once.
\<close>

fun resolve_all :: "(string \<Rightarrow> 'm \<Rightarrow> 'm \<times> 'r option) \<Rightarrow> string list \<Rightarrow> 'm \<Rightarrow> 'm" where
  "resolve_all op [] m = m"
| "resolve_all op (h # hs) m = resolve_all op hs (fst (op h m))"

locale host_router =
  fixes resolve :: "string \<Rightarrow> 'm \<Rightarrow> 'm \<times> 'r option"
    and known :: "'m \<Rightarrow> string \<Rightarrow> bool"
    and allowed :: "'m \<Rightarrow> 'ip \<Rightarrow> bool"
    and inv :: "'m \<Rightarrow> bool"
  assumes found_iff: "inv m \<Longrightarrow> (snd (resolve h m) \<noteq> None) = known m h"
    and resolve_inv: "inv m \<Longrightarrow> inv (fst (resolve h m))"
    and resolve_known: "inv m \<Longrightarrow> known (fst (resolve h m)) = known m"
    and resolve_allowed: "allowed (fst (resolve h m)) = allowed m"
begin

lemma resolve_again:
  "inv m \<Longrightarrow> (snd (resolve h (fst (resolve h' m))) \<noteq> None) = (snd (resolve h m) \<noteq> None)"
  by (simp only: found_iff resolve_inv resolve_known)

lemma resolve_all_keeps:
  "inv m \<Longrightarrow> inv (resolve_all resolve hs m) \<and> known (resolve_all resolve hs m) = known m \<and>
     allowed (resolve_all resolve hs m) = allowed m"
proof (induction hs arbitrary: m)
  case (Cons h hs)
  from Cons.IH [OF resolve_inv [OF Cons.prems, of h]] show ?case
    by (simp add: resolve_known [OF Cons.prems] resolve_allowed)
qed simp

lemma verdict_stable:
  "inv m \<Longrightarrow> (snd (resolve h (resolve_all resolve hs m)) \<noteq> None) = (snd (resolve h m) \<noteq> None)"
  using resolve_all_keeps [of m hs] by (simp only: found_iff)

end

end
