(* ===== verification/ManagerProps.thy ===== *)
theory ManagerProps
  imports SnapshotProps Router
begin

text \<open>
  What the configuration manager promises: when \<open>Apply\<close> succeeds and what it changes, what
  the address filters of the new snapshot let through, in which order the sources of a route
  are tried, and that a query never changes the verdict of the next one.
\<close>

section \<open>Invariant\<close>

definition manager_inv :: "manager \<Rightarrow> bool" where
  "manager_inv m \<longleftrightarrow> (case mgr_data m of None \<Rightarrow> True | Some d \<Rightarrow> pools_wf d)"

lemma compile_config_wf: "compile_config sys cfg m = Inr d \<Longrightarrow> pools_wf d"
  by (auto simp: compile_config_def intro: build_snapshot_wf split: prod.splits if_splits)

lemma apply_config_inv [inv_intros]: "manager_inv m \<Longrightarrow> manager_inv (fst (apply_config sys cfg m))"
  by (auto simp: apply_config_def manager_inv_def dest: compile_config_wf split: sum.split)

lemma record_provider_status_simps [simp]:
  "mgr_data (record_provider_status n cs e t m) = mgr_data m"
  "mgr_path (record_provider_status n cs e t m) = mgr_path m"
  "current_config (record_provider_status n cs e t m) = current_config m"
  by (simp_all add: record_provider_status_def current_config_def Let_def)

lemma record_provider_status_inv [simp]:
  "manager_inv (record_provider_status n cs e t m) = manager_inv m"
  by (simp add: manager_inv_def)

lemma update_provider_status_inv [inv_intros]:
  "manager_inv m \<Longrightarrow> manager_inv (fst (update_provider_status sys p cs e t m))"
  by (auto simp: update_provider_status_def Let_def intro!: apply_config_inv)

lemma reload_inv [inv_intros]: "manager_inv m \<Longrightarrow> manager_inv (fst (reload sys m))"
  by (auto simp: reload_def intro: apply_config_inv split: sum.split)

section \<open>Resolving\<close>

definition snapshot_knows :: "string \<Rightarrow> snapshot \<Rightarrow> bool" where
  "snapshot_knows host d \<longleftrightarrow> lb_live host d \<or> resolve_legacy_route host d \<noteq> None"

lemma resolve_legacy_reset [simp]:
  "resolve_legacy_route host (reset_counters d) = resolve_legacy_route host d"
  by (simp add: resolve_legacy_route_def split: option.split)

definition legacy_op :: "string \<Rightarrow> snapshot \<Rightarrow> snapshot \<times> route_match option" where
  "legacy_op host d = (d, resolve_legacy_route host d)"

lemma snapshot_resolve_or_else:
  "snapshot_resolve host = or_else (resolve_load_balancer_route host) (legacy_op host)"
  by (rule ext) (simp add: snapshot_resolve_def or_else_def legacy_op_def split: prod.split option.split)

lemma legacy_op_keeps [simp, inv_intros]: "keeps_pools (legacy_op host)"
  by (rule keeps_poolsI) (simp_all add: legacy_op_def)

lemma legacy_op_finds: "finds (legacy_op host) (\<lambda>d. resolve_legacy_route host d \<noteq> None)"
  by (rule findsI) (simp_all add: legacy_op_def counter_free_def)

lemma snapshot_resolve_keeps [simp, inv_intros]: "keeps_pools (snapshot_resolve host)"
  by (auto simp: snapshot_resolve_or_else intro!: inv_intros)

lemma snapshot_resolve_finds: "finds (snapshot_resolve host) (snapshot_knows host)"
  unfolding snapshot_resolve_or_else
  by (rule finds_cong [OF finds_or_else [OF resolve_lb_finds resolve_lb_keeps legacy_op_finds]])
    (simp add: snapshot_knows_def)

definition manager_knows :: "manager \<Rightarrow> string \<Rightarrow> bool" where
  "manager_knows m host =
     (case mgr_data m of None \<Rightarrow> False | Some d \<Rightarrow> snapshot_knows (normalize_host host) d)"

lemma fst_resolve_route:
  "fst (resolve_route host m) =
     (case mgr_data m of None \<Rightarrow> m
      | Some d \<Rightarrow> m\<lparr>mgr_data := Some (fst (snapshot_resolve (normalize_host host) d))\<rparr>)"
  by (simp add: resolve_route_def split: option.split prod.split)

lemma snd_resolve_route:
  "snd (resolve_route host m) =
     (case mgr_data m of None \<Rightarrow> None | Some d \<Rightarrow> snd (snapshot_resolve (normalize_host host) d))"
  by (simp add: resolve_route_def split: option.split prod.split)

lemma snapshot_resolve_frame:
  "allow_all (fst (snapshot_resolve h d)) = allow_all d"
  "snap_allowed_cidrs (fst (snapshot_resolve h d)) = snap_allowed_cidrs d"
  "cdn_provider_cidrs (fst (snapshot_resolve h d)) = cdn_provider_cidrs d"
  "snap_cfg (fst (snapshot_resolve h d)) = snap_cfg d"
  "snap_certificates (fst (snapshot_resolve h d)) = snap_certificates d"
  "default_cert (fst (snapshot_resolve h d)) = default_cert d"
  using keeps_poolsD(1) [OF snapshot_resolve_keeps, of h d]
  by (metis reset_counters_routes)+

interpretation mgr_router: host_router resolve_route manager_knows is_ip_allowed manager_inv
proof
  fix m :: manager and h
  assume inv: "manager_inv m"
  show "(snd (resolve_route h m) \<noteq> None) = manager_knows m h"
    using inv findsD [OF snapshot_resolve_finds]
    by (simp add: snd_resolve_route manager_knows_def manager_inv_def split: option.splits)
  show "manager_inv (fst (resolve_route h m))"
    using inv keeps_poolsD(2) [OF snapshot_resolve_keeps]
    by (simp add: fst_resolve_route manager_inv_def split: option.splits)
  show "manager_knows (fst (resolve_route h m)) = manager_knows m"
  proof
    fix h'
    show "manager_knows (fst (resolve_route h m)) h' = manager_knows m h'"
      using counter_freeD [OF finds_counter_free [OF snapshot_resolve_finds]
          keeps_poolsD(1) [OF snapshot_resolve_keeps]]
      by (simp add: fst_resolve_route manager_knows_def split: option.split)
  qed
next
  fix m :: manager and h
  show "is_ip_allowed (fst (resolve_route h m)) = is_ip_allowed m"
    by (rule ext) (simp add: fst_resolve_route is_ip_allowed_def snapshot_resolve_frame split: option.split)
qed

section \<open>The order of the sources\<close>

text \<open>What a match says besides its target.\<close>

definition match_label :: "route_match \<Rightarrow> string \<times> bool" where
  "match_label r = (rm_domain r, rm_force_https r)"

text \<open>The load-balanced routes of a host in the order of their precedence.\<close>

definition lb_candidates :: "string \<Rightarrow> snapshot \<Rightarrow> lb_route_item list" where
  "lb_candidates host d =
     (case map_get (lb_exact_routes d) host of None \<Rightarrow> [] | Some item \<Rightarrow> [item]) @
     map lwi_route (filter (\<lambda>w. has_suffix host (lwi_suffix w)) (lb_wildcard_routes d)) @
     (case lb_default_route d of None \<Rightarrow> [] | Some item \<Rightarrow> [item])"

definition item_label :: "lb_route_item \<Rightarrow> string \<times> bool" where
  "item_label it = (lri_domain it, lri_force_https it)"

definition first_live :: "snapshot \<Rightarrow> lb_route_item list \<Rightarrow> (string \<times> bool) option" where
  "first_live d its = map_option item_label (find (route_live d) its)"

text \<open>An operation whose answer, up to a label, is a function of the snapshot's routes.\<close>

definition answers :: "(snapshot \<Rightarrow> snapshot \<times> route_match option) \<Rightarrow>
    (snapshot \<Rightarrow> (string \<times> bool) option) \<Rightarrow> bool" where
  "answers op F \<longleftrightarrow> (\<forall>s. F (reset_counters s) = F s) \<and>
     (\<forall>s. pools_wf s \<longrightarrow> map_option match_label (snd (op s)) = F s)"

lemma answersI:
  "(\<And>s. F (reset_counters s) = F s) \<Longrightarrow>
   (\<And>s. pools_wf s \<Longrightarrow> map_option match_label (snd (op s)) = F s) \<Longrightarrow> answers op F"
  by (simp add: answers_def)

lemma answersD: "answers op F \<Longrightarrow> pools_wf s \<Longrightarrow> map_option match_label (snd (op s)) = F s"
  by (simp add: answers_def)

lemma answers_frame: "answers op F \<Longrightarrow> reset_counters s = reset_counters t \<Longrightarrow> F s = F t"
  unfolding answers_def by metis

lemma answers_cong: "answers op F \<Longrightarrow> (\<And>s. F s = G s) \<Longrightarrow> answers op G"
  unfolding answers_def by simp

lemma answers_or_else:
  assumes f: "answers f F" "keeps_pools f" and g: "answers g G"
  shows "answers (or_else f g) (\<lambda>s. case F s of None \<Rightarrow> G s | Some x \<Rightarrow> Some x)"
proof (rule answersI)
  fix s
  show "(case F (reset_counters s) of None \<Rightarrow> G (reset_counters s) | Some x \<Rightarrow> Some x) =
      (case F s of None \<Rightarrow> G s | Some x \<Rightarrow> Some x)"
    using f(1) g by (simp add: answers_def split: option.split)
  assume wf: "pools_wf s"
  have "G (fst (f s)) = G s" by (rule answers_frame [OF g keeps_poolsD(1) [OF f(2)]])
  then show "map_option match_label (snd (or_else f g s)) =
      (case F s of None \<Rightarrow> G s | Some x \<Rightarrow> Some x)"
    using answersD [OF f(1) wf] answersD [OF g keeps_poolsD(2) [OF f(2) wf]]
    by (cases "snd (f s)") (auto simp: snd_or_else split: option.split)
qed

lemma first_live_reset [simp]: "first_live (reset_counters s) its = first_live s its"
proof -
  have "route_live (reset_counters s) = route_live s" by (rule ext) simp
  then show ?thesis by (simp add: first_live_def)
qed

lemma first_live_simps [simp]:
  "first_live s [] = None"
  "first_live s (it # its) = (if route_live s it then Some (item_label it) else first_live s its)"
  by (simp_all add: first_live_def)

lemma first_live_append:
  "first_live s (xs @ ys) = (case first_live s xs of None \<Rightarrow> first_live s ys | Some x \<Rightarrow> Some x)"
  by (induction xs) simp_all

lemma try_lb_item_answers: "answers (try_lb_item it) (\<lambda>s. first_live s [it])"
proof (rule answersI)
  fix s assume wf: "pools_wf s"
  have "snd (try_lb_item it s) = None \<or> (\<exists>t. snd (try_lb_item it s) = Some (lb_match it t))"
    by (cases "snd (resolve_pool_target (lri_pool_id it) (lri_fallback_pool_id it) s)")
      (auto simp: try_lb_item_map_result)
  then show "map_option match_label (snd (try_lb_item it s)) = first_live s [it]"
    using finds_ex [OF try_lb_item_finds wf, of it]
    by (auto simp: match_label_def lb_match_def item_label_def)
qed simp

lemma no_result_answers: "answers no_result (\<lambda>s. None)"
  by (rule answersI) (simp_all add: no_result_def)

lemma try_wildcards_answers:
  "answers (try_wildcards host ws)
     (\<lambda>s. first_live s (map lwi_route (filter (\<lambda>w. has_suffix host (lwi_suffix w)) ws)))"
proof (induction ws)
  case Nil
  show ?case unfolding try_wildcards_Nil_no_result by (simp add: no_result_answers)
next
  case (Cons w ws)
  show ?case
  proof (cases "has_suffix host (lwi_suffix w)")
    case True
    have op: "try_wildcards host (w # ws) = or_else (try_lb_item (lwi_route w)) (try_wildcards host ws)"
      using True by (simp add: try_wildcards_Cons_or_else del: try_wildcards.simps)
    show ?thesis unfolding op
      by (rule answers_cong [OF answers_or_else [OF try_lb_item_answers try_lb_item_keeps Cons.IH]])
        (simp add: True split: option.split)
  next
    case False
    have "try_wildcards host (w # ws) = try_wildcards host ws"
      by (rule ext) (simp add: False)
    with Cons.IH False show ?thesis by simp
  qed
qed

lemma lb_sources_answer:
  "answers (try_lb_exact host)
     (\<lambda>s. first_live s (case map_get (lb_exact_routes s) host of None \<Rightarrow> [] | Some it \<Rightarrow> [it]))"
  "answers (try_lb_wildcards host)
     (\<lambda>s. first_live s (map lwi_route (filter (\<lambda>w. has_suffix host (lwi_suffix w)) (lb_wildcard_routes s))))"
  "answers try_lb_default
     (\<lambda>s. first_live s (case lb_default_route s of None \<Rightarrow> [] | Some it \<Rightarrow> [it]))"
proof -
  show "answers (try_lb_exact host)
     (\<lambda>s. first_live s (case map_get (lb_exact_routes s) host of None \<Rightarrow> [] | Some it \<Rightarrow> [it]))"
    using answersD [OF try_lb_item_answers]
    by (intro answersI) (simp_all add: try_lb_exact_def split: option.split)
  show "answers try_lb_default
     (\<lambda>s. first_live s (case lb_default_route s of None \<Rightarrow> [] | Some it \<Rightarrow> [it]))"
    using answersD [OF try_lb_item_answers]
    by (intro answersI) (simp_all add: try_lb_default_eq split: option.split)
  show "answers (try_lb_wildcards host)
     (\<lambda>s. first_live s (map lwi_route (filter (\<lambda>w. has_suffix host (lwi_suffix w)) (lb_wildcard_routes s))))"
    using answersD [OF try_wildcards_answers]
    by (intro answersI) (simp_all add: try_lb_wildcards_def)
qed

lemma resolve_lb_answers:
  "answers (resolve_load_balancer_route host) (\<lambda>s. first_live s (lb_candidates host s))"
  unfolding resolve_lb_or_else
  by (rule answers_cong [OF answers_or_else [OF lb_sources_answer(1) lb_sources_keep(1)
        answers_or_else [OF lb_sources_answer(2) lb_sources_keep(2) lb_sources_answer(3)]]])
    (simp add: lb_candidates_def first_live_append split: option.split)

lemma snapshot_resolve_answers:
  "answers (snapshot_resolve host)
     (\<lambda>s. case first_live s (lb_candidates host s) of
            Some l \<Rightarrow> Some l
          | None \<Rightarrow> map_option match_label (resolve_legacy_route host s))"
proof -
  have "answers (legacy_op host) (\<lambda>s. map_option match_label (resolve_legacy_route host s))"
    by (rule answersI) (simp_all add: legacy_op_def)
  from answers_or_else [OF resolve_lb_answers resolve_lb_keeps this] show ?thesis
    unfolding snapshot_resolve_or_else by (rule answers_cong) (simp split: option.split)
qed

section \<open>Properties\<close>

text \<open>A system without files whose certificates all load, and a manager at its start.\<close>

definition sample_system :: system where
  "sample_system = \<lparr>sys_read_file = (\<lambda>_. None), sys_key_pair = (\<lambda>c k. Some (TlsCertificate c k)),
     sys_decode = (\<lambda>d raw. Some d)\<rparr>"

definition sample_manager :: manager where
  "sample_manager = \<lparr>mgr_path = ''/etc/gateway.json'', mgr_data = None, dynamic_cidrs = [],
     cdn_statuses = [], site_cdn_snapshots = []\<rparr>"

definition sample_lb_config :: config where
  "sample_lb_config = zero_config\<lparr>
     security := (security zero_config)\<lparr>allowed_cidrs := [''10.0.0.0/8'']\<rparr>,
     load_balancer := \<lparr>default_pool_id = [], lb_cfg_pools = [sample_pool],
       lb_cfg_routes = [\<lparr>rule_domain = ''*.x.org'', rule_pool_id = ''p'', rule_fallback_pool_id = [],
         rule_force_https = True\<rparr>]\<rparr>\<rparr>"

text \<open>
  C15. \<open>Apply\<close> succeeds exactly when the prepared configuration has no conflict and each of
  its parts compiles: every static and dynamic CIDR parses (a blank one does not), every
  provider CIDR that is not blank parses, every enabled node of a named pool, every legacy
  rule and the default upstream is a URL with scheme and host, every certificate loads.
\<close>

theorem apply_succeeds_iff:
  "snd (apply_config sys cfg m) = None \<longleftrightarrow>
     (case prepare_routing_and_load_balancer (fill_defaults cfg) of
        (prepared, issues) \<Rightarrow> issues = [] \<and>
          config_compiles sys prepared (mgr_path m) (dynamic_cidrs m) (cdn_statuses m))"
proof (cases "prepare_routing_and_load_balancer (fill_defaults cfg)")
  case (Pair prepared issues)
  show ?thesis
    using build_snapshot_ok_iff [of sys prepared "mgr_path m" "dynamic_cidrs m" "cdn_statuses m"]
    by (cases "build_snapshot sys prepared (mgr_path m) (dynamic_cidrs m) (cdn_statuses m)")
      (auto simp: apply_config_def compile_config_def Pair)
qed

text \<open>
  \<open>Apply\<close> is all or nothing: with an error the manager is what it was, without one only
  the snapshot is new, its configuration is the prepared one and its pools are well formed.
\<close>

theorem apply_all_or_nothing:
  "case apply_config sys cfg m of
     (m', Some e) \<Rightarrow> m' = m
   | (m', None) \<Rightarrow> m' = m\<lparr>mgr_data := mgr_data m'\<rparr> \<and> manager_inv m' \<and>
       current_config m' = fst (prepare_routing_and_load_balancer (fill_defaults cfg))"
proof (cases "compile_config sys cfg m")
  case (Inr d)
  then have "snap_cfg d = fst (prepare_routing_and_load_balancer (fill_defaults cfg))"
    by (auto simp: compile_config_def build_snapshot_cfg split: prod.splits if_splits)
  with Inr compile_config_wf [OF Inr] show ?thesis
    by (simp add: apply_config_def current_config_def manager_inv_def)
qed (simp add: apply_config_def)

lemma apply_config_filters:
  assumes "snd (apply_config sys cfg m) = None"
  obtains d prepared where "mgr_data (fst (apply_config sys cfg m)) = Some d"
    "prepared = fst (prepare_routing_and_load_balancer (fill_defaults cfg))"
    "build_snapshot sys prepared (mgr_path m) (dynamic_cidrs m) (cdn_statuses m) = Inr d"
proof (cases "prepare_routing_and_load_balancer (fill_defaults cfg)")
  case (Pair prepared issues)
  with assms that show ?thesis
    by (auto simp: apply_config_def compile_config_def split: sum.splits if_splits)
qed

lemma prepare_security [simp]:
  "security (fst (prepare_routing_and_load_balancer cfg)) = security cfg"
  by (simp add: prepare_routing_and_load_balancer_def)

definition in_cidr_texts :: "string list \<Rightarrow> ip_addr \<Rightarrow> bool" where
  "in_cidr_texts cs ip = list_ex (\<lambda>t. case parse_prefix (trim_space t) of
      None \<Rightarrow> False | Some p \<Rightarrow> prefix_contains p ip) cs"

lemma in_cidr_texts_iff:
  "list_all cidr_ok cs \<Longrightarrow> list_ex (\<lambda>c. prefix_contains c ip) (map parsed_cidr cs) = in_cidr_texts cs ip"
  by (induction cs) (auto simp: in_cidr_texts_def parsed_cidr_def cidr_ok_def)

text \<open>
  The whitelist after a successful \<open>Apply\<close>: with neither static nor dynamic CIDRs every
  address is let through, otherwise exactly the addresses inside one of them.
\<close>

theorem whitelist_meaning:
  assumes "snd (apply_config sys cfg m) = None"
  shows "is_ip_allowed (fst (apply_config sys cfg m)) ip \<longleftrightarrow>
     allowed_cidrs (security cfg) @ dynamic_cidrs m = [] \<or>
     in_cidr_texts (allowed_cidrs (security cfg) @ dynamic_cidrs m) ip"
proof -
  let ?cs = "allowed_cidrs (security cfg) @ dynamic_cidrs m"
  obtain d prepared where d: "mgr_data (fst (apply_config sys cfg m)) = Some d"
    "prepared = fst (prepare_routing_and_load_balancer (fill_defaults cfg))"
    "build_snapshot sys prepared (mgr_path m) (dynamic_cidrs m) (cdn_statuses m) = Inr d"
    using assms by (rule apply_config_filters)
  have "list_all cidr_ok ?cs"
    using d(3) build_snapshot_ok_iff [of sys prepared "mgr_path m" "dynamic_cidrs m" "cdn_statuses m"]
    by (auto simp: config_compiles_def d(2))
  then show ?thesis
    using build_snapshot_filters(1,2) [OF d(3)] in_cidr_texts_iff [of ?cs ip]
    by (simp add: is_ip_allowed_def in_cidr_texts_def d(1,2))
qed

lemma whitelist_open:
  assumes "snd (apply_config sys cfg m) = None" "allowed_cidrs (security cfg) = []" "dynamic_cidrs m = []"
  shows "is_ip_allowed (fst (apply_config sys cfg m)) ip"
proof -
  obtain d prepared where d: "mgr_data (fst (apply_config sys cfg m)) = Some d"
    "prepared = fst (prepare_routing_and_load_balancer (fill_defaults cfg))"
    "build_snapshot sys prepared (mgr_path m) (dynamic_cidrs m) (cdn_statuses m) = Inr d"
    using assms(1) by (rule apply_config_filters)
  show ?thesis
    using build_snapshot_filters(1) [OF d(3)] assms(2,3) by (simp add: is_ip_allowed_def d(1,2))
qed

theorem whitelist_meaning_witness:
  "is_ip_allowed (fst (apply_config sample_system sample_lb_config sample_manager)) (IP4 0x0A010203) \<and>
   \<not> is_ip_allowed (fst (apply_config sample_system sample_lb_config sample_manager)) (IP4 0x0B010203)"
proof -
  have ok: "snd (apply_config sample_system sample_lb_config sample_manager) = None" by code_simp
  have a: "in_cidr_texts (allowed_cidrs (security sample_lb_config) @ dynamic_cidrs sample_manager)
      (IP4 0x0A010203)" by code_simp
  have b: "\<not> (allowed_cidrs (security sample_lb_config) @ dynamic_cidrs sample_manager = [] \<or>
      in_cidr_texts (allowed_cidrs (security sample_lb_config) @ dynamic_cidrs sample_manager)
        (IP4 0x0B010203))" by code_simp
  show ?thesis
    using whitelist_meaning [OF ok, of "IP4 0x0A010203"] whitelist_meaning [OF ok, of "IP4 0x0B010203"] a b
    by blast
qed

end
