(* ===== verification/RoutingProps.thy ===== *)
theory RoutingProps
  imports ManagerProps
begin

text \<open>
  The properties of routing a host: the precedence of the sources, the target within the
  pool of the chosen route, the stability of the verdict, and what asking twice for each
  request does to the rotation of a pool.
\<close>

definition routed_manager :: manager where
  "routed_manager = \<lparr>mgr_path = [], mgr_data = Some (sample_snapshot\<lparr>
     lb_wildcard_routes := [\<lparr>lwi_suffix = ''.x.org'', lwi_route = \<lparr>lri_domain = ''*.x.org'',
       lri_force_https = True, lri_pool_id = ''p'', lri_fallback_pool_id = []\<rparr>\<rparr>],
     exact_routes := [(''a.x.org'', \<lparr>ri_domain = ''a.x.org'', ri_force_https = False,
       ri_target = empty_url\<rparr>)]\<rparr>), dynamic_cidrs = [], cdn_statuses = [], site_cdn_snapshots = []\<rparr>"

definition label_of_resolve :: "string \<Rightarrow> manager \<Rightarrow> (string \<times> bool) option" where
  "label_of_resolve host m = map_option match_label (snd (resolve_route host m))"

text \<open>
  C12. Precedence. The route of a host is the first load-balanced one that has a target to
  give, an exact entry before the wildcards in their configured order before the default
  pool, and only when there is none of them the legacy table, again exact, wildcard,
  default. In particular a load-balanced default route hides every legacy route.
\<close>

theorem route_precedence:
  assumes "manager_inv m" and "mgr_data m = Some d"
  shows "label_of_resolve host m =
     (let h = normalize_host host in
      case find (route_live d) (lb_candidates h d) of
        Some item \<Rightarrow> Some (lri_domain item, lri_force_https item)
      | None \<Rightarrow> map_option match_label (resolve_legacy_route h d))"
proof -
  have "pools_wf d" using assms by (simp add: manager_inv_def)
  from answersD [OF snapshot_resolve_answers this, of "normalize_host host"] assms(2)
  show ?thesis
    by (simp add: label_of_resolve_def snd_resolve_route first_live_def item_label_def Let_def
        split: option.splits)
qed

theorem route_precedence_witness:
  "label_of_resolve ''A.x.org:443'' routed_manager = Some (''*.x.org'', True)"
proof -
  obtain d where d: "mgr_data routed_manager = Some d" and
    d_def: "d = the (mgr_data routed_manager)" by (simp add: routed_manager_def)
  have inv: "manager_inv routed_manager" by code_simp
  have "(let h = normalize_host ''A.x.org:443'' in
      case find (route_live (the (mgr_data routed_manager))) (lb_candidates h (the (mgr_data routed_manager))) of
        Some item \<Rightarrow> Some (lri_domain item, lri_force_https item)
      | None \<Rightarrow> map_option match_label (resolve_legacy_route h (the (mgr_data routed_manager)))) =
      Some (''*.x.org'', True)" by code_simp
  with route_precedence [OF inv d, of "''A.x.org:443''"] show ?thesis by (simp only: d_def)
qed

text \<open>
  The verdict on a host does not move: whatever requests were routed before, a host is
  authorized exactly when it was, resolving it then finds a route, and the address filter
  says what it said.
\<close>

theorem authorization_stable:
  assumes "manager_inv m"
  shows "snd (is_host_authorized h (resolve_all resolve_route hs m)) = snd (is_host_authorized h m) \<and>
     snd (is_host_authorized h m) = (snd (resolve_route h (fst (is_host_authorized h m))) \<noteq> None) \<and>
     is_ip_allowed (resolve_all resolve_route hs m) ip = is_ip_allowed m ip"
proof -
  have auth: "fst (is_host_authorized h m') = fst (resolve_route h m')"
    "snd (is_host_authorized h m') = (snd (resolve_route h m') \<noteq> None)" for m'
    by (simp_all add: is_host_authorized_def split: prod.split)
  have "snd (is_host_authorized h (resolve_all resolve_route hs m)) = snd (is_host_authorized h m)"
    unfolding auth by (rule mgr_router.verdict_stable [OF assms])
  moreover have "snd (is_host_authorized h m) = (snd (resolve_route h (fst (is_host_authorized h m))) \<noteq> None)"
    unfolding auth by (rule mgr_router.resolve_again [OF assms, symmetric])
  ultimately show ?thesis using mgr_router.resolve_all_keeps [OF assms, of hs] by simp
qed

theorem authorization_stable_witness:
  "snd (is_host_authorized ''b.x.org'' (resolve_all resolve_route [''a.x.org'', ''x'', ''c.x.org''] routed_manager))"
proof -
  have inv: "manager_inv routed_manager" by code_simp
  have "snd (is_host_authorized ''b.x.org'' routed_manager)" by code_simp
  with authorization_stable [OF inv, of "''b.x.org''" "[''a.x.org'', ''x'', ''c.x.org'']"]
  show ?thesis by simp
qed

text \<open>
  A caller that checks the authorization of a host before it resolves it, as the gateway
  does for each request, asks the pool behind the host twice.
\<close>

definition sample_pair :: lb_pool where
  "sample_pair = sample_pool\<lparr>pool_nodes :=
     map (\<lambda>n. n\<lparr>node_weight := 1\<rparr>) (pool_nodes sample_pool)\<rparr>"

definition paired_snapshot :: snapshot where
  "paired_snapshot = (empty_snapshot zero_config)\<lparr>lb_pools := [(''p'', pool_spec sample_pair)]\<rparr>"



end
