(* ===== verification/Migration.thy ===== *)
theory Migration
  imports ManagerProps
begin

text \<open>
  The migration of legacy routes to pools: its identifiers are fresh, and a configuration
  routes every host to the same upstream after it as before.
\<close>

section \<open>Fresh identifiers\<close>

lemma migrated_id_loop_fresh: "migrated_id_loop c used pid i \<notin> set used"
  by (induction c used pid i rule: migrated_id_loop.induct) (simp add: migrated_id_loop.simps)

definition token_char :: "char \<Rightarrow> bool" where
  "token_char c \<longleftrightarrow> is_lower c \<or> is_digit c \<or> c = CHR ''_''"

lemma token_not_space: "token_char c \<Longrightarrow> \<not> is_space c"
  by (auto simp: token_char_def is_space_code is_lower_def is_digit_def) (auto simp: code_def)

lemma trim_space_token: "list_all token_char s \<Longrightarrow> trim_space s = s"
proof -
  assume tok: "list_all token_char s"
  have "dropWhile is_space t = t" if "list_all token_char t" for t
    using that token_not_space by (cases t) auto
  then show ?thesis using tok by (simp add: trim_space_def trim_by_def list_all_iff)
qed

lemma itoa_token: "list_all token_char (itoa n)"
  using itoa_digits [of n] by (auto simp: list_all_iff token_char_def)

lemma sanitize_steps_token:
  "list_all token_char out \<Longrightarrow> list_all token_char (fst (fold sanitize_step cs (out, b)))"
  by (induction cs arbitrary: out b) (auto simp: sanitize_step_def token_char_def)

lemma sanitize_token: "list_all token_char (sanitize_pool_token s)"
proof -
  have "list_all token_char (fst (fold sanitize_step (to_lower (trim_space s)) ([], False)))"
    by (rule sanitize_steps_token) simp
  then show ?thesis
    using set_trim_by unfolding sanitize_pool_token_def list_all_iff by blast
qed

lemma migrated_id_loop_token:
  "list_all token_char c \<Longrightarrow> list_all token_char pid \<Longrightarrow> list_all token_char (migrated_id_loop c used pid i)"
proof (induction c used pid i rule: migrated_id_loop.induct)
  case (1 c used pid i)
  have "list_all token_char (numbered c (Suc i))"
    using 1(2) itoa_token by (simp add: numbered_def) (simp add: token_char_def)
  with 1 show ?case by (subst migrated_id_loop.simps) simp
qed

lemma migrated_id_loop_not_Nil:
  "pid \<noteq> [] \<Longrightarrow> migrated_id_loop c used pid i \<noteq> []"
proof (induction c used pid i rule: migrated_id_loop.induct)
  case (1 c used pid i)
  have "numbered c (Suc i) \<noteq> []" by (simp add: numbered_def)
  with 1 show ?case by (subst migrated_id_loop.simps) simp
qed

lemma build_migrated_pool_id_props:
  assumes "build_migrated_pool_id source used = (pid, used')"
  shows "pid \<notin> set used" "used' = pid # used" "trim_space pid = pid" "pid \<noteq> []"
proof -
  define base where "base = ''pool_mig_'' @ sanitize_pool_token source"
  define cand where "cand = (if base = ''pool_mig_'' then ''pool_mig_item'' else base)"
  have pid: "pid = migrated_id_loop cand used cand 1" and used': "used' = pid # used"
    using assms by (auto simp: build_migrated_pool_id_def Let_def base_def cand_def)
  have "list_all token_char ''pool_mig_item''" by code_simp
  moreover have "list_all token_char base"
    using sanitize_token by (simp add: base_def) code_simp
  ultimately have "list_all token_char cand" by (simp add: cand_def)
  then show "pid \<notin> set used" "used' = pid # used" "trim_space pid = pid"
    unfolding pid using used' by (simp_all add: pid migrated_id_loop_fresh trim_space_token migrated_id_loop_token)
  show "pid \<noteq> []" unfolding pid by (rule migrated_id_loop_not_Nil) (simp add: cand_def base_def)
qed

section \<open>The route tables\<close>

text \<open>The exact and wildcard tables the two kinds of rules build.\<close>

definition lb_tables :: "snapshot \<Rightarrow> lb_route_item gomap \<times> lb_wildcard_item list" where
  "lb_tables s = (lb_exact_routes s, lb_wildcard_routes s)"

definition legacy_tables :: "snapshot \<Rightarrow> route_item gomap \<times> wildcard_item list" where
  "legacy_tables s = (exact_routes s, wildcard_routes s)"

fun add_to_tables where
  "add_to_tables rule (ex, wc) =
     (let item = route_item_of rule; domain = lri_domain item in
      if domain = [] then (ex, wc)
      else if has_prefix domain ''*.'' then (ex, wc @ [\<lparr>lwi_suffix = drop 1 domain, lwi_route = item\<rparr>])
      else (map_put domain item ex, wc))"

fun add_legacy where
  "add_legacy rule (ex, wc) =
     (let domain = normalize_host (dr_domain rule);
          item = \<lparr>ri_domain = domain, ri_force_https = dr_force_https rule,
                  ri_target = the (upstream_url (dr_upstream rule))\<rparr> in
      if has_prefix domain ''*.'' then (ex, wc @ [\<lparr>wi_suffix = drop 1 domain, wi_route = item\<rparr>])
      else (map_put domain item ex, wc))"

lemma lb_tables_fold: "lb_tables (fold add_lb_route rs s) = fold add_to_tables rs (lb_tables s)"
  by (induction rs arbitrary: s) (simp_all add: add_lb_route_def lb_tables_def Let_def)

lemma legacy_tables_fold:
  assumes "fold_res add_domain_rule rs s = Inr t" "lb_tables s = ([], [])"
  shows "legacy_tables t = fold add_legacy rs (legacy_tables s)"
  using assms
proof (induction rs arbitrary: s)
  case (Cons r rs)
  then obtain u where u: "add_domain_rule r s = Inr u" "fold_res add_domain_rule rs u = Inr t"
    by (auto simp: res_bind_Inr_iff)
  have "lb_tables u = ([], [])"
    using add_domain_rule_frame [OF u(1)] Cons.prems(2)
    by (simp add: but_domain_routes_def lb_part_def lb_tables_def)
  moreover have "\<not> has_load_balancer_rule_for_domain s h" for h
    using Cons.prems(2) by (simp add: has_load_balancer_rule_for_domain_def lb_tables_def)
  then have "legacy_tables u = add_legacy r (legacy_tables s)"
    using u(1) by (auto simp: add_domain_rule_def legacy_tables_def Let_def split: option.splits if_splits)
  ultimately show ?case using Cons.IH [OF u(2)] by simp
qed simp

section \<open>Coupling the two\<close>

text \<open>
  A migrated route carries a legacy one: same \<open>forceHttps\<close>, no fallback, and its pool has
  the one node that is the legacy upstream.
\<close>

definition carries :: "lb_pool list \<Rightarrow> lb_route_item \<Rightarrow> route_item \<Rightarrow> bool" where
  "carries ps it ri \<longleftrightarrow> lri_force_https it = ri_force_https ri \<and> lri_fallback_pool_id it = [] \<and>
     (\<exists>name up. migrated_pool (lri_pool_id it) name up \<in> set ps \<and>
        upstream_url (trim_space up) = Some (ri_target ri))"

definition same_wildcard :: "lb_pool list \<Rightarrow> lb_wildcard_item \<Rightarrow> wildcard_item \<Rightarrow> bool" where
  "same_wildcard ps w l \<longleftrightarrow> lwi_suffix w = wi_suffix l \<and> carries ps (lwi_route w) (wi_route l)"

definition coupled :: "lb_pool list \<Rightarrow> lb_route_item gomap \<times> lb_wildcard_item list \<Rightarrow>
    route_item gomap \<times> wildcard_item list \<Rightarrow> bool" where
  "coupled ps T L \<longleftrightarrow>
     (\<forall>h. h \<noteq> [] \<longrightarrow> rel_option (carries ps) (map_get (fst T) h) (map_get (fst L) h)) \<and>
     list_all2 (same_wildcard ps) (snd T) (snd L)"

definition migrated_ok :: "load_balancer_config \<times> string list \<Rightarrow> bool" where
  "migrated_ok st \<longleftrightarrow> set (snd st) = pool_id ` set (lb_cfg_pools (fst st)) \<and>
     distinct (map pool_id (lb_cfg_pools (fst st))) \<and>
     list_all (\<lambda>p. trim_space (pool_id p) = pool_id p \<and> pool_id p \<noteq> [] \<and>
        (\<exists>name up. p = migrated_pool (pool_id p) name up \<and> upstream_url (trim_space up) \<noteq> None))
       (lb_cfg_pools (fst st))"

lemma carries_mono: "carries ps it ri \<Longrightarrow> carries (ps @ qs) it ri"
  by (auto simp: carries_def)

lemma coupled_mono: "coupled ps T L \<Longrightarrow> coupled (ps @ qs) T L"
  unfolding coupled_def same_wildcard_def
  by (auto intro: carries_mono elim!: option.rel_mono_strong list.rel_mono_strong)

definition rule_trimmed :: "domain_rule \<Rightarrow> bool" where
  "rule_trimmed r \<longleftrightarrow> upstream_url (dr_upstream r) \<noteq> None \<and> trim_space (dr_upstream r) = dr_upstream r"

lemma coupled_step:
  assumes "rule_trimmed r" "migrated_ok (lb, used)" "coupled (lb_cfg_pools lb) T L"
    and "T = fold add_to_tables (lb_cfg_routes lb) ([], [])"
    and "migrate_domain r (lb, used) = (lb', used')"
  shows "migrated_ok (lb', used') \<and>
    coupled (lb_cfg_pools lb') (fold add_to_tables (lb_cfg_routes lb') ([], [])) (add_legacy r L)"
proof (cases "normalize_host (dr_domain r) = []")
  case True
  then have "lb' = lb" "used' = used" using assms(5) by (simp_all add: migrate_domain_def)
  with assms(2,3,4) True show ?thesis
    by (cases L) (simp add: coupled_def has_prefix_def)
next
  case False
  have up: "trim_space (dr_upstream r) = dr_upstream r" "dr_upstream r \<noteq> []"
    "upstream_url (dr_upstream r) \<noteq> None"
    using assms(1) by (auto simp: rule_trimmed_def)
  obtain pid where pid: "build_migrated_pool_id (normalize_host (dr_domain r)) used = (pid, used')"
    and lb': "lb' = lb\<lparr>lb_cfg_pools := lb_cfg_pools lb @ [migrated_pool pid (normalize_host (dr_domain r)) (dr_upstream r)],
      lb_cfg_routes := lb_cfg_routes lb @ [\<lparr>rule_domain = dr_domain r, rule_pool_id = pid,
        rule_fallback_pool_id = [], rule_force_https = dr_force_https r\<rparr>]\<rparr>"
    using assms(5) False up by (auto simp: migrate_domain_def Let_def split: prod.splits)
  note props = build_migrated_pool_id_props [OF pid]
  have ok: "migrated_ok (lb', used')"
    using assms(2) props up by (auto simp: migrated_ok_def lb' migrated_pool_def)
  have tables: "fold add_to_tables (lb_cfg_routes lb') ([], []) =
      add_to_tables \<lparr>rule_domain = dr_domain r, rule_pool_id = pid, rule_fallback_pool_id = [],
        rule_force_https = dr_force_https r\<rparr> T"
    using assms(4) by (simp add: lb')
  have new: "carries (lb_cfg_pools lb') \<lparr>lri_domain = normalize_host (dr_domain r),
        lri_force_https = dr_force_https r, lri_pool_id = pid, lri_fallback_pool_id = []\<rparr>
      \<lparr>ri_domain = normalize_host (dr_domain r), ri_force_https = dr_force_https r,
        ri_target = the (upstream_url (dr_upstream r))\<rparr>"
  proof -
    have "migrated_pool pid (normalize_host (dr_domain r)) (dr_upstream r) \<in> set (lb_cfg_pools lb')"
      by (simp add: lb')
    moreover have "upstream_url (trim_space (dr_upstream r)) = Some (the (upstream_url (dr_upstream r)))"
      using up by simp
    ultimately show ?thesis unfolding carries_def by (simp del: up(1)) blast
  qed
  have old: "coupled (lb_cfg_pools lb') T L"
    using coupled_mono [OF assms(3)] by (simp add: lb')
  have blank: "trim_space [] = []" by code_simp
  from old new ok show ?thesis
    unfolding tables
    by (cases T; cases L)
      (auto simp: coupled_def route_item_of_def Let_def False props(3) blank same_wildcard_def
        list_all2_appendI)
qed

lemma coupled_fold:
  assumes "list_all rule_trimmed rs" "migrated_ok (lb, used)" "coupled (lb_cfg_pools lb) T L"
    and "T = fold add_to_tables (lb_cfg_routes lb) ([], [])"
    and "fold migrate_domain rs (lb, used) = (lb', used')"
  shows "migrated_ok (lb', used') \<and>
    coupled (lb_cfg_pools lb') (fold add_to_tables (lb_cfg_routes lb') ([], [])) (fold add_legacy rs L)"
  using assms
proof (induction rs arbitrary: lb used T L)
  case (Cons r rs)
  obtain lb1 used1 where st: "migrate_domain r (lb, used) = (lb1, used1)" by fastforce
  note step = coupled_step [OF _ Cons.prems(2,3,4) st]
  show ?case
    using Cons.IH [of lb1 used1 _ "add_legacy r L", OF _ _ _ refl] step Cons.prems(1,5) st by simp
qed simp

section \<open>The compiled pools\<close>

lemma compile_pools_get:
  assumes "fold_res compile_pool_step ps s = Inr t" "distinct (map pool_id ps)"
    and "list_all (\<lambda>p. trim_space (pool_id p) = pool_id p \<and> pool_id p \<noteq> []) ps"
  shows "(p \<in> set ps \<longrightarrow> map_get (lb_pools t) (pool_id p) = Some (pool_spec p)) \<and>
    (\<forall>k. k \<notin> pool_id ` set ps \<longrightarrow> map_get (lb_pools t) k = map_get (lb_pools s) k)"
  using assms
proof (induction ps arbitrary: s)
  case (Cons q ps)
  obtain u where u: "compile_pool_step q s = Inr u" "fold_res compile_pool_step ps u = Inr t"
    using Cons.prems(1) by (auto simp: res_bind_Inr_iff)
  have "compile_load_balancer_pool q = Inr (pool_spec q)"
    using u(1) Cons.prems(3)
    by (cases "find (\<lambda>n. node_enabled n \<and> pool_node_url n = None) (pool_nodes q)")
      (auto simp: compile_pool_step_def compile_pool_ok compile_pool_bad Let_def)
  then have "lb_pools u = map_put (pool_id q) (pool_spec q) (lb_pools s)"
    using u(1) Cons.prems(3) by (auto simp: compile_pool_step_def)
  with Cons.IH [OF u(2)] Cons.prems(2,3) show ?case by auto
qed simp

lemma pool_spec_migrated:
  assumes "upstream_url (trim_space up) = Some u"
  shows "cp_ring (pool_spec (migrated_pool pid name up)) = [0]"
    and "cp_nodes (pool_spec (migrated_pool pid name up)) = [\<lparr>cpn_id = ''node_primary'', cpn_target = u\<rparr>]"
proof -
  have "normalize_node_weight 1 = 1" "trim_space ''node_primary'' = ''node_primary''" by code_simp+
  then show "cp_ring (pool_spec (migrated_pool pid name up)) = [0]"
    and "cp_nodes (pool_spec (migrated_pool pid name up)) = [\<lparr>cpn_id = ''node_primary'', cpn_target = u\<rparr>]"
    by (simp_all add: pool_spec_def migrated_pool_def pool_node_url_def assms)
qed

text \<open>All pools of the migrated configuration are in the snapshot.\<close>

definition has_pools :: "lb_pool list \<Rightarrow> snapshot \<Rightarrow> bool" where
  "has_pools ps d \<longleftrightarrow> list_all (\<lambda>p. trim_space (pool_id p) = pool_id p \<and>
     map_get (lb_pools d) (pool_id p) = Some (pool_spec p)) ps"

lemma pick_migrated:
  assumes "has_pools ps d" "migrated_pool pid name up \<in> set ps" "upstream_url (trim_space up) = Some u"
  shows "snd (pick_target_from_pool pid d) = Some u"
proof -
  have "trim_space pid = pid \<and> map_get (lb_pools d) pid = Some (pool_spec (migrated_pool pid name up))"
    using assms(1,2) by (auto simp: has_pools_def list_all_iff migrated_pool_def)
  then show ?thesis
    using pool_spec_migrated [OF assms(3), of pid name] by (simp add: pick_target_from_pool_def Let_def)
qed

definition answer :: "route_match option \<Rightarrow> (bool \<times> url) option" where
  "answer = map_option (\<lambda>r. (rm_force_https r, rm_target r))"

lemma try_item_migrated:
  assumes "has_pools ps d" "carries ps it ri"
  shows "snd (try_lb_item it d) = Some (lb_match it (ri_target ri))"
  using assms(2) pick_migrated [OF assms(1)]
  by (fastforce simp: carries_def try_lb_item_map_result resolve_pool_target_or_else snd_or_else)

lemma try_wildcards_migrated:
  assumes "has_pools ps d" "list_all2 (same_wildcard ps) ws ls"
  shows "answer (snd (try_wildcards h ws d)) =
    map_option (\<lambda>w. (ri_force_https (wi_route w), ri_target (wi_route w))) (find (\<lambda>w. has_suffix h (wi_suffix w)) ls)
    \<and> (snd (try_wildcards h ws d) = None \<longrightarrow> fst (try_wildcards h ws d) = d)"
  using assms(2)
proof (induction rule: list_all2_induct)
  case (Cons w ws l ls)
  then have carr: "carries ps (lwi_route w) (wi_route l)" "lwi_suffix w = wi_suffix l"
    by (simp_all add: same_wildcard_def)
  note found = try_item_migrated [OF assms(1) carr(1)]
  show ?case
  proof (cases "has_suffix h (wi_suffix l)")
    case True
    then show ?thesis using found carr
      by (cases "try_lb_item (lwi_route w) d") (simp add: answer_def lb_match_def carries_def)
  next
    case False
    then show ?thesis using Cons.IH carr(2) by simp
  qed
qed (simp add: answer_def)

section \<open>The tables of a snapshot\<close>

definition default_item :: "string \<Rightarrow> lb_route_item" where
  "default_item pid = \<lparr>lri_domain = ''_lb_default'', lri_force_https = False, lri_pool_id = pid,
     lri_fallback_pool_id = []\<rparr>"

lemma compile_lb_parts:
  assumes "compile_load_balancer_config s lb = Inr t" "lb_tables s = ([], [])" "lb_default_route s = None"
  shows "(\<exists>s1. fold_res compile_pool_step (lb_cfg_pools lb) s = Inr s1 \<and> lb_pools t = lb_pools s1) \<and>
    lb_tables t = fold add_to_tables (lb_cfg_routes lb) ([], []) \<and>
    lb_default_route t = (if trim_space (default_pool_id lb) = [] then None
      else Some (default_item (trim_space (default_pool_id lb))))"
proof -
  obtain s1 where s1: "fold_res compile_pool_step (lb_cfg_pools lb) s = Inr s1"
    and t: "t = (let dflt = trim_space (default_pool_id lb); s2 = fold add_lb_route (lb_cfg_routes lb) s1 in
      if dflt \<noteq> [] then s2\<lparr>lb_default_route := Some (default_item dflt)\<rparr> else s2)"
    using assms(1) by (auto simp: compile_load_balancer_config_def res_bind_Inr_iff Let_def default_item_def)
  have a: "lb_tables s1 = ([], [])" "lb_default_route s1 = None"
    using compile_pools_frame [OF s1] assms(2,3) by (simp_all add: but_pools_def lb_tables_def routes_of_def)
  have b: "lb_pools (fold add_lb_route (lb_cfg_routes lb) s1) = lb_pools s1"
    "lb_default_route (fold add_lb_route (lb_cfg_routes lb) s1) = None"
    using add_lb_routes_frame [of "lb_cfg_routes lb" s1] a(2) by (simp_all add: but_lb_routes_def routes_of_def)
  have c: "lb_tables (fold add_lb_route (lb_cfg_routes lb) s1) = fold add_to_tables (lb_cfg_routes lb) ([], [])"
    by (simp add: lb_tables_fold a(1))
  show ?thesis using s1 b c by (auto simp: t Let_def lb_tables_def)
qed

lemma build_snapshot_tables:
  assumes "build_snapshot sys cfg path dyn sts = Inr d"
  shows "\<exists>s0 s1. lb_pools s0 = [] \<and>
      fold_res compile_pool_step (lb_cfg_pools (load_balancer cfg)) s0 = Inr s1 \<and> lb_pools d = lb_pools s1"
    and "lb_tables d = fold add_to_tables (lb_cfg_routes (load_balancer cfg)) ([], [])"
    and "lb_default_route d = (if trim_space (default_pool_id (load_balancer cfg)) = [] then None
      else Some (default_item (trim_space (default_pool_id (load_balancer cfg)))))"
    and "lb_tables d = ([], []) \<Longrightarrow>
      legacy_tables d = fold add_legacy (routing_domains (routing cfg)) ([], [])"
    and "routing_domains (routing cfg) = [] \<Longrightarrow> legacy_tables d = ([], [])"
    and "default_route d = (if default_upstream (routing cfg) = [] \<or> lb_default_route d \<noteq> None then None
      else Some \<lparr>ri_domain = ''_default'', ri_force_https = False,
        ri_target = the (upstream_url (default_upstream (routing cfg)))\<rparr>)"
proof -
  obtain d1 d2 d3 d4 d5 where d:
      "compile_allowed_cidrs (allowed_cidrs (security cfg) @ dyn) (empty_snapshot cfg) = Inr d1"
      "fold_res add_provider sts d1 = Inr d2" "compile_load_balancer_config d2 (load_balancer cfg) = Inr d3"
      "fold_res add_domain_rule (routing_domains (routing cfg)) d3 = Inr d4"
      "add_default_route (default_upstream (routing cfg)) d4 = Inr d5" "load_certificates sys path d5 = Inr d"
    using assms unfolding build_snapshot_stages by blast
  have two: "lb_pools d2 = []" "lb_tables d2 = ([], [])" "lb_default_route d2 = None"
    "legacy_tables d2 = ([], [])" "default_route d2 = None"
    using compile_allowed_cidrs_cfg [OF d(1)] add_providers_frame [OF d(2)]
    by (simp_all add: empty_snapshot_def but_providers_def lb_part_def lb_tables_def routes_of_def legacy_tables_def)
  note lb = compile_lb_parts [OF d(3) two(2,3)] compile_lb_cfg(4,5,6) [OF d(3)]
  have same: "lb_pools d = lb_pools d3" "lb_tables d = lb_tables d3" "lb_tables d4 = lb_tables d3"
    "lb_default_route d = lb_default_route d3" "lb_default_route d4 = lb_default_route d3"
    "legacy_tables d = legacy_tables d4" "default_route d = default_route d5" "default_route d4 = default_route d3"
    using add_domain_rules_frame [OF d(4)] add_default_route_frame [OF d(5)] load_certificates_frame [OF d(6)]
    by (simp_all add: but_domain_routes_def but_default_route_def but_certs_def lb_part_def lb_tables_def
        routes_of_def legacy_tables_def)
  show "\<exists>s0 s1. lb_pools s0 = [] \<and>
      fold_res compile_pool_step (lb_cfg_pools (load_balancer cfg)) s0 = Inr s1 \<and> lb_pools d = lb_pools s1"
    using two(1) lb same(1) by metis
  show "lb_tables d = fold add_to_tables (lb_cfg_routes (load_balancer cfg)) ([], [])"
    "lb_default_route d = (if trim_space (default_pool_id (load_balancer cfg)) = [] then None
      else Some (default_item (trim_space (default_pool_id (load_balancer cfg)))))"
    using lb same by simp_all
  show "legacy_tables d = fold add_legacy (routing_domains (routing cfg)) ([], [])"
    if "lb_tables d = ([], [])"
    using legacy_tables_fold [OF d(4)] that same lb two(4) by (simp add: legacy_tables_def)
  show "legacy_tables d = ([], [])" if "routing_domains (routing cfg) = []"
    using d(4) that same(6) lb two(4) by (simp add: legacy_tables_def)
  show "default_route d = (if default_upstream (routing cfg) = [] \<or> lb_default_route d \<noteq> None then None
      else Some \<lparr>ri_domain = ''_default'', ri_force_https = False,
        ri_target = the (upstream_url (default_upstream (routing cfg)))\<rparr>)"
    using d(5) same lb two(5) by (auto simp: add_default_route_def split: option.splits if_splits)
qed

section \<open>Migration preserves routing\<close>

lemma resolve_without_lb:
  assumes "lb_tables d = ([], [])" "lb_default_route d = None"
  shows "snapshot_resolve h d = (d, resolve_legacy_route h d)"
  using assms by (simp add: snapshot_resolve_def resolve_load_balancer_route_def lb_tables_def try_lb_default_def)

lemma resolve_coupled:
  assumes pools: "has_pools ps d'" and tabs: "coupled ps (lb_tables d') (legacy_tables d)" and "h \<noteq> []"
    and dflt: "rel_option (carries ps) (lb_default_route d') (default_route d)"
    and none: "legacy_tables d' = ([], [])" "default_route d' = None"
  shows "answer (snd (snapshot_resolve h d')) = answer (resolve_legacy_route h d)"
proof -
  have ex: "rel_option (carries ps) (map_get (lb_exact_routes d') h) (map_get (exact_routes d) h)"
    and wc: "list_all2 (same_wildcard ps) (lb_wildcard_routes d') (wildcard_routes d)"
    using tabs \<open>h \<noteq> []\<close> by (simp_all add: coupled_def lb_tables_def legacy_tables_def)
  have item: "answer (snd (try_lb_item it d')) = Some (ri_force_https ri, ri_target ri)"
    if "carries ps it ri" for it ri
    using try_item_migrated [OF pools that] that by (simp add: answer_def lb_match_def carries_def)
  have legacy': "resolve_legacy_route h d' = None"
    using none by (simp add: resolve_legacy_route_def legacy_tables_def)
  show ?thesis
  proof (cases "map_get (lb_exact_routes d') h")
    case (Some it)
    then obtain ri where ri: "map_get (exact_routes d) h = Some ri" "carries ps it ri"
      using ex by (auto simp: option_rel_Some1)
    then show ?thesis
      using item [OF ri(2)] try_item_migrated [OF pools ri(2)] Some
      by (cases "try_lb_item it d'")
        (simp add: snapshot_resolve_def resolve_load_balancer_route_def resolve_legacy_route_def ri
          answer_def route_match_of_def)
  next
    case None
    then have none_ex: "map_get (exact_routes d) h = None" using ex by simp
    note wild = try_wildcards_migrated [OF pools wc, of h]
    show ?thesis
    proof (cases "snd (try_wildcards h (lb_wildcard_routes d') d')")
      case (Some r)
      then show ?thesis
        using wild None none_ex
        by (cases "try_wildcards h (lb_wildcard_routes d') d'")
          (auto simp: snapshot_resolve_def resolve_load_balancer_route_def resolve_legacy_route_def
            answer_def route_match_of_def split: option.split)
    next
      case w: None
      then have st: "try_wildcards h (lb_wildcard_routes d') d' = (d', None)"
        and find: "find (\<lambda>w. has_suffix h (wi_suffix w)) (wildcard_routes d) = None"
        using wild by (cases "try_wildcards h (lb_wildcard_routes d') d'"; simp add: answer_def)+
      show ?thesis
      proof (cases "lb_default_route d'")
        case d0: None
        then show ?thesis
          using dflt None none_ex st find legacy'
          by (simp add: snapshot_resolve_def resolve_load_balancer_route_def resolve_legacy_route_def
              try_lb_default_def)
      next
        case (Some it)
        then obtain ri where ri: "default_route d = Some ri" "carries ps it ri"
          using dflt by (auto simp: option_rel_Some1)
        then show ?thesis
          using item [OF ri(2)] try_item_migrated [OF pools ri(2)] Some None none_ex st find
          by (cases "try_lb_item it d'")
            (simp add: snapshot_resolve_def resolve_load_balancer_route_def resolve_legacy_route_def
              try_lb_default_eq answer_def route_match_of_def)
      qed
    qed
  qed
qed

text \<open>What the migration makes of a configuration without pools.\<close>

lemma migration_result:
  assumes "\<not> has_load_balancer_binding lb" "list_all rule_trimmed (routing_domains r)"
    and "trim_space (default_upstream r) = default_upstream r"
    and "default_upstream r = [] \<or> upstream_url (default_upstream r) \<noteq> None"
  defines "lb' \<equiv> migrate_routing_to_load_balancer r lb"
  shows "\<exists>used. migrated_ok (lb', used)"
    and "coupled (lb_cfg_pools lb') (fold add_to_tables (lb_cfg_routes lb') ([], []))
      (fold add_legacy (routing_domains r) ([], []))"
    and "if default_upstream r = [] then trim_space (default_pool_id lb') = []
      else default_pool_id lb' \<noteq> [] \<and> trim_space (default_pool_id lb') = default_pool_id lb' \<and>
        migrated_pool (default_pool_id lb') ''default'' (default_upstream r) \<in> set (lb_cfg_pools lb')"
proof -
  have lb0: "lb_cfg_pools lb = []" "lb_cfg_routes lb = []" "trim_space (default_pool_id lb) = []"
    using assms(1) by (simp_all add: has_load_balancer_binding_def)
  obtain lb1 used1 where st: "fold migrate_domain (routing_domains r) (lb, []) = (lb1, used1)" by fastforce
  have ok0: "migrated_ok (lb, [])" "coupled (lb_cfg_pools lb) ([], []) ([], [])"
    by (simp_all add: migrated_ok_def coupled_def lb0)
  have one: "migrated_ok (lb1, used1)" "coupled (lb_cfg_pools lb1)
      (fold add_to_tables (lb_cfg_routes lb1) ([], [])) (fold add_legacy (routing_domains r) ([], []))"
    using coupled_fold [OF assms(2) ok0 _ st] by (simp_all add: lb0)
  have keep: "default_pool_id (fst (migrate_domain q p)) = default_pool_id (fst p)" for q p
    by (cases p) (simp add: migrate_domain_def Let_def split: prod.split)
  have dp: "default_pool_id lb1 = default_pool_id lb"
    using fold_keeps [where g = "\<lambda>p. default_pool_id (fst p)" and f = migrate_domain, OF keep,
        of "routing_domains r" "(lb, [])"] by (simp add: st)
  show "\<exists>used. migrated_ok (lb', used)"
    and "coupled (lb_cfg_pools lb') (fold add_to_tables (lb_cfg_routes lb') ([], []))
      (fold add_legacy (routing_domains r) ([], []))"
    and "if default_upstream r = [] then trim_space (default_pool_id lb') = []
      else default_pool_id lb' \<noteq> [] \<and> trim_space (default_pool_id lb') = default_pool_id lb' \<and>
        migrated_pool (default_pool_id lb') ''default'' (default_upstream r) \<in> set (lb_cfg_pools lb')"
  proof (atomize (full), cases "default_upstream r = []")
    case True
    have "lb' = lb1"
      using True by (simp add: lb'_def migrate_routing_to_load_balancer_def lb0 st) code_simp
    with one dp lb0 True show "(\<exists>used. migrated_ok (lb', used)) \<and>
      coupled (lb_cfg_pools lb') (fold add_to_tables (lb_cfg_routes lb') ([], []))
       (fold add_legacy (routing_domains r) ([], [])) \<and>
      (if default_upstream r = [] then trim_space (default_pool_id lb') = []
       else default_pool_id lb' \<noteq> [] \<and> trim_space (default_pool_id lb') = default_pool_id lb' \<and>
        migrated_pool (default_pool_id lb') ''default'' (default_upstream r) \<in> set (lb_cfg_pools lb'))" by auto
  next
    case False
    obtain pid used2 where pid: "build_migrated_pool_id ''default'' used1 = (pid, used2)" by fastforce
    note props = build_migrated_pool_id_props [OF pid]
    have lb': "lb' = lb1\<lparr>lb_cfg_pools := lb_cfg_pools lb1 @ [migrated_pool pid ''default'' (default_upstream r)],
        default_pool_id := pid\<rparr>"
      using False assms(3) by (simp add: lb'_def migrate_routing_to_load_balancer_def lb0 st pid)
    have "migrated_ok (lb', used2)"
      using one(1) props False assms(3,4) by (auto simp: migrated_ok_def lb' migrated_pool_def)
    moreover have "coupled (lb_cfg_pools lb') (fold add_to_tables (lb_cfg_routes lb') ([], []))
        (fold add_legacy (routing_domains r) ([], []))"
      using coupled_mono [OF one(2)] by (simp add: lb')
    ultimately show "(\<exists>used. migrated_ok (lb', used)) \<and>
      coupled (lb_cfg_pools lb') (fold add_to_tables (lb_cfg_routes lb') ([], []))
       (fold add_legacy (routing_domains r) ([], [])) \<and>
      (if default_upstream r = [] then trim_space (default_pool_id lb') = []
       else default_pool_id lb' \<noteq> [] \<and> trim_space (default_pool_id lb') = default_pool_id lb' \<and>
        migrated_pool (default_pool_id lb') ''default'' (default_upstream r) \<in> set (lb_cfg_pools lb'))"
      using False props by (auto simp: lb')
  qed
qed

lemma migrated_pool_ok: "upstream_url (trim_space up) \<noteq> None \<Longrightarrow> pool_ok (migrated_pool pid name up)"
  by (simp add: pool_ok_def node_ok_def pool_node_url_def migrated_pool_def)

lemma migrated_ok_pools: "migrated_ok (lb, used) \<Longrightarrow> list_all pool_ok (lb_cfg_pools lb)"
  unfolding migrated_ok_def list_all_iff fst_conv using migrated_pool_ok by metis

lemma migrated_compiles:
  assumes d: "build_snapshot sys cfg path dyn sts = Inr d"
    and bind: "\<not> has_load_balancer_binding (load_balancer cfg)"
    and trimmed: "list_all rule_trimmed (routing_domains (routing cfg))"
      "trim_space (default_upstream (routing cfg)) = default_upstream (routing cfg)"
  defines "lb' \<equiv> migrate_routing_to_load_balancer (routing cfg) (load_balancer cfg)"
  shows "\<exists>d'. build_snapshot sys (cfg\<lparr>load_balancer := lb', routing := empty_routing\<rparr>) path dyn sts = Inr d'"
    and "default_upstream (routing cfg) = [] \<or> upstream_url (default_upstream (routing cfg)) \<noteq> None"
proof -
  have comp: "config_compiles sys cfg path dyn sts" using d build_snapshot_ok_iff by metis
  have "trim_space (default_pool_id (load_balancer cfg)) = []"
    using bind by (simp add: has_load_balancer_binding_def)
  then show du: "default_upstream (routing cfg) = [] \<or> upstream_url (default_upstream (routing cfg)) \<noteq> None"
    using comp by (simp add: config_compiles_def default_ok_def)
  obtain used where "migrated_ok (lb', used)"
    using migration_result(1) [OF bind trimmed du] by (auto simp: lb'_def)
  then have "list_all pool_ok (lb_cfg_pools lb')" by (rule migrated_ok_pools)
  with comp have "config_compiles sys (cfg\<lparr>load_balancer := lb', routing := empty_routing\<rparr>) path dyn sts"
    by (simp add: config_compiles_def default_ok_def empty_routing_def)
  then show "\<exists>d'. build_snapshot sys (cfg\<lparr>load_balancer := lb', routing := empty_routing\<rparr>) path dyn sts = Inr d'"
    by (simp add: build_snapshot_ok_iff)
qed

lemma migrated_has_pools:
  assumes "build_snapshot sys cfg path dyn sts = Inr d" "migrated_ok (load_balancer cfg, used)"
  shows "has_pools (lb_cfg_pools (load_balancer cfg)) d"
proof -
  obtain s0 s1 where s: "fold_res compile_pool_step (lb_cfg_pools (load_balancer cfg)) s0 = Inr s1"
    "lb_pools d = lb_pools s1"
    using build_snapshot_tables(1) [OF assms(1)] by metis
  have "distinct (map pool_id (lb_cfg_pools (load_balancer cfg)))"
    and "list_all (\<lambda>p. trim_space (pool_id p) = pool_id p \<and> pool_id p \<noteq> []) (lb_cfg_pools (load_balancer cfg))"
    using assms(2) by (auto simp: migrated_ok_def list_all_iff)
  from compile_pools_get [OF s(1) this] this(2) show ?thesis
    by (simp add: has_pools_def list_all_iff s(2))
qed

section \<open>Properties\<close>

text \<open>
  A migrated pool gets a fresh identifier: the search returns for every source text and
  every set of used identifiers, and what it returns is not used, is recorded as used, is
  not empty and is left alone by trimming.
\<close>

theorem migrated_id_fresh:
  "case build_migrated_pool_id source used of
     (pid, used') \<Rightarrow> pid \<notin> set used \<and> used' = pid # used \<and> trim_space pid = pid \<and> pid \<noteq> []"
  using build_migrated_pool_id_props [of source used] by (auto split: prod.split)

text \<open>
  C13. Migration preserves routing. A configuration without pools whose legacy routes compile,
  with upstream texts that are already trimmed, also compiles after its migration, and every
  non-empty host is then answered with the same target and the same \<open>forceHttps\<close> as the
  legacy tables answer it, or not at all when they do not.
\<close>

theorem migration_preserves_routing:
  assumes "build_snapshot sys cfg path dyn sts = Inr d"
    and "\<not> has_load_balancer_binding (load_balancer cfg)" "has_legacy_routing (routing cfg)"
    and "list_all rule_trimmed (routing_domains (routing cfg))"
    and "trim_space (default_upstream (routing cfg)) = default_upstream (routing cfg)"
    and "h \<noteq> []"
  shows "\<exists>cfg' d'. prepare_routing_and_load_balancer cfg = (cfg', []) \<and>
     build_snapshot sys cfg' path dyn sts = Inr d' \<and>
     answer (snd (snapshot_resolve h d')) = answer (snd (snapshot_resolve h d))"
proof -
  define lb' where "lb' = migrate_routing_to_load_balancer (routing cfg) (load_balancer cfg)"
  define cfg' where "cfg' = cfg\<lparr>load_balancer := lb', routing := empty_routing\<rparr>"
  have prep: "prepare_routing_and_load_balancer cfg = (cfg', [])"
    using assms(2,3) by (simp add: prepare_routing_and_load_balancer_def cfg'_def lb'_def)
  obtain d' where d': "build_snapshot sys cfg' path dyn sts = Inr d'"
    and du: "default_upstream (routing cfg) = [] \<or> upstream_url (default_upstream (routing cfg)) \<noteq> None"
    using migrated_compiles [OF assms(1,2,4,5)] by (auto simp: cfg'_def lb'_def)
  note res = migration_result [OF assms(2,4,5) du, folded lb'_def]
  have lbc: "load_balancer cfg' = lb'" "routing cfg' = empty_routing" by (simp_all add: cfg'_def)
  have pools: "has_pools (lb_cfg_pools lb') d'" using migrated_has_pools [OF d'] res(1) by (auto simp: lbc)
  note tabs = build_snapshot_tables [OF d', unfolded lbc]
  note ltabs = build_snapshot_tables [OF assms(1)]
  have lb0: "lb_cfg_routes (load_balancer cfg) = []" "trim_space (default_pool_id (load_balancer cfg)) = []"
    using assms(2) by (simp_all add: has_load_balancer_binding_def)
  have d_none: "lb_tables d = ([], [])" "lb_default_route d = None" using ltabs(2,3) by (simp_all add: lb0)
  have "coupled (lb_cfg_pools lb') (lb_tables d') (legacy_tables d)"
    using res(2) tabs(2) ltabs(4) [OF d_none(1)] by simp
  moreover have "rel_option (carries (lb_cfg_pools lb')) (lb_default_route d') (default_route d)"
  proof (cases "default_upstream (routing cfg) = []")
    case True
    then show ?thesis using res(3) tabs(3) ltabs(6) by simp
  next
    case False
    then obtain u where u: "upstream_url (trim_space (default_upstream (routing cfg))) = Some u"
      using du assms(5) by auto
    have "carries (lb_cfg_pools lb') (default_item (default_pool_id lb'))
        \<lparr>ri_domain = ''_default'', ri_force_https = False, ri_target = u\<rparr>"
      using res(3) False u unfolding carries_def default_item_def by (simp) blast
    then show ?thesis using False u res(3) tabs(3) ltabs(6) d_none(2) assms(5) by simp
  qed
  moreover have "default_route d' = None" using tabs(6) by (simp add: empty_routing_def)
  moreover have "legacy_tables d' = ([], [])" using tabs(5) by (simp add: empty_routing_def)
  ultimately have "answer (snd (snapshot_resolve h d')) = answer (resolve_legacy_route h d)"
    using resolve_coupled [OF pools _ assms(6)] by (simp add: legacy_tables_def)
  then show ?thesis using prep d' by (auto simp: resolve_without_lb [OF d_none])
qed

definition legacy_config :: config where
  "legacy_config = zero_config\<lparr>routing := \<lparr>default_upstream = ''http://d:3'', routing_domains =
     [\<lparr>dr_domain = ''a.org'', dr_upstream = ''http://a:1'', dr_force_https = False\<rparr>,
      \<lparr>dr_domain = ''*.b.org'', dr_upstream = ''https://b:2'', dr_force_https = True\<rparr>]\<rparr>\<rparr>"

theorem migration_preserves_routing_witness:
  "\<exists>cfg' d'. prepare_routing_and_load_balancer legacy_config = (cfg', []) \<and>
     build_snapshot sample_system cfg' [] [] [] = Inr d' \<and>
     answer (snd (snapshot_resolve ''x.b.org'' d')) = Some (True, the (url_parse ''https://b:2''))"
proof -
  let ?b = "build_snapshot sample_system legacy_config [] [] []"
  have "case ?b of Inl e \<Rightarrow> False | Inr d \<Rightarrow>
      answer (snd (snapshot_resolve ''x.b.org'' d)) = Some (True, the (url_parse ''https://b:2''))"
    by code_simp
  then obtain d where d: "?b = Inr d"
    "answer (snd (snapshot_resolve ''x.b.org'' d)) = Some (True, the (url_parse ''https://b:2''))"
    by (cases ?b) auto
  have "\<not> has_load_balancer_binding (load_balancer legacy_config)" "has_legacy_routing (routing legacy_config)"
    "list_all rule_trimmed (routing_domains (routing legacy_config))"
    "trim_space (default_upstream (routing legacy_config)) = default_upstream (routing legacy_config)"
    by code_simp+
  from migration_preserves_routing [OF d(1) this, of "''x.b.org''"] d(2) show ?thesis by simp
qed

end
