(* ===== verification/ProviderProps.thy ===== *)
theory ProviderProps
  imports ManagerProps
begin

text \<open>
  The CIDR lists that the providers' synchronisation feeds into the whitelist
  (\<open>UpdateProviderStatus\<close>): what a whitelist by provider lets through, what a failed
  synchronisation does to the whitelist, and what a CIDR that does not parse does to the
  manager.
\<close>

lemma status_prefixes_ex:
  assumes "provider_ok st"
  shows "list_ex (\<lambda>c. prefix_contains c ip) (status_prefixes p st) \<longleftrightarrow>
     p \<noteq> [] \<and> to_lower (trim_space (fst st)) = p \<and> in_cidr_texts (cs_cidrs (snd st)) ip"
proof (cases "p \<noteq> [] \<and> to_lower (trim_space (fst st)) = p")
  case True
  then have blank: "list_all blank_or_cidr (cs_cidrs (snd st))"
    using assms by (auto simp: provider_ok_def)
  have "list_ex (\<lambda>c. prefix_contains c ip) (map parsed_cidr (filter (\<lambda>t. trim_space t \<noteq> []) cs)) =
      in_cidr_texts cs ip" if "list_all blank_or_cidr cs" for cs
    using that by (induction cs) (auto simp: in_cidr_texts_def blank_or_cidr_def cidr_ok_def parsed_cidr_def)
  from this [OF blank] True show ?thesis by (simp add: status_prefixes_def)
qed (auto simp: status_prefixes_def)

lemma statuses_ex:
  "list_all provider_ok sts \<Longrightarrow>
   list_ex (\<lambda>st. list_ex (\<lambda>c. prefix_contains c ip) (status_prefixes p st)) sts \<longleftrightarrow>
     p \<noteq> [] \<and> list_ex (\<lambda>(name, st). to_lower (trim_space name) = p \<and> in_cidr_texts (cs_cidrs st) ip) sts"
  by (induction sts) (auto simp: status_prefixes_ex)

lemma list_ex_concat_map: "list_ex P (concat (map f xs)) = list_ex (\<lambda>x. list_ex P (f x)) xs"
  by (induction xs) simp_all

lemma provider_prefixes_empty: "cdn_provider_cidrs d = [] \<Longrightarrow> provider_prefixes d p = []"
  by (simp add: provider_prefixes_def)

lemma by_providers_iff:
  assumes "mgr_data m = Some d"
  shows "is_ip_allowed_by_providers m ip ps =
     list_ex (\<lambda>raw. list_ex (\<lambda>c. prefix_contains c ip) (provider_prefixes d (to_lower (trim_space raw))) \<and>
       to_lower (trim_space raw) \<noteq> []) ps"
proof (cases "cdn_provider_cidrs d = []")
  case True
  then show ?thesis
    using assms by (simp add: is_ip_allowed_by_providers_def provider_prefixes_empty list_ex_iff)
next
  case False
  then show ?thesis using assms
    by (cases "ps = []") (auto simp: is_ip_allowed_by_providers_def Let_def list_ex_iff)
qed

text \<open>
  The whitelist by provider after a successful \<open>Apply\<close>: an address is let through for a
  list of provider names exactly when it is inside one of the CIDRs recorded under one of
  them, names compared without case and surrounding space, blank names naming nobody.
\<close>

theorem provider_whitelist_meaning:
  assumes "snd (apply_config sys cfg m) = None"
  shows "is_ip_allowed_by_providers (fst (apply_config sys cfg m)) ip ps \<longleftrightarrow>
     list_ex (\<lambda>raw. to_lower (trim_space raw) \<noteq> [] \<and>
       list_ex (\<lambda>(name, st). to_lower (trim_space name) = to_lower (trim_space raw) \<and>
         in_cidr_texts (cs_cidrs st) ip) (cdn_statuses m)) ps"
proof -
  obtain d prepared where d: "mgr_data (fst (apply_config sys cfg m)) = Some d"
    "build_snapshot sys prepared (mgr_path m) (dynamic_cidrs m) (cdn_statuses m) = Inr d"
    using assms by (rule apply_config_filters)
  have ok: "list_all provider_ok (cdn_statuses m)"
    using d(2) build_snapshot_ok_iff [of sys prepared "mgr_path m" "dynamic_cidrs m" "cdn_statuses m"]
    by (auto simp: config_compiles_def)
  show ?thesis
    unfolding by_providers_iff [OF d(1)] build_snapshot_filters(3) [OF d(2)] list_ex_concat_map
      statuses_ex [OF ok]
    by (rule arg_cong2 [where f = list_ex]) auto
qed

text \<open>A manager in which one provider has a CIDR on record.\<close>

definition synced_manager :: manager where
  "synced_manager = record_provider_status ''tencent'' [''10.0.0.0/8''] [] 5 sample_manager"

theorem provider_whitelist_meaning_witness:
  "is_ip_allowed_by_providers (fst (apply_config sample_system zero_config synced_manager))
     (IP4 0x0A000001) ['' TENCENT '']"
proof -
  have ok: "snd (apply_config sample_system zero_config synced_manager) = None" by code_simp
  have "list_ex (\<lambda>raw. to_lower (trim_space raw) \<noteq> [] \<and>
       list_ex (\<lambda>(name, st). to_lower (trim_space name) = to_lower (trim_space raw) \<and>
         in_cidr_texts (cs_cidrs st) (IP4 0x0A000001)) (cdn_statuses synced_manager)) ['' TENCENT '']"
    by code_simp
  with provider_whitelist_meaning [OF ok, of "IP4 0x0A000001" "['' TENCENT '']"] show ?thesis by blast
qed

section \<open>Failed and poisonous synchronisations\<close>

lemma apply_config_error: "snd (apply_config sys cfg m) \<noteq> None \<Longrightarrow> fst (apply_config sys cfg m) = m"
  by (auto simp: apply_config_def split: sum.splits)

lemma update_status_ok:
  assumes "snd (update_provider_status sys p cs err now m) = None"
  defines "name \<equiv> to_lower (trim_space p)"
  defines "m1 \<equiv> record_provider_status name cs (case err of None \<Rightarrow> [] | Some e \<Rightarrow> e) now m"
  shows "name \<noteq> []" "snd (apply_config sys (current_config m) m1) = None"
    "fst (update_provider_status sys p cs err now m) = fst (apply_config sys (current_config m) m1)"
  using assms by (auto simp: update_provider_status_def Let_def split: if_splits)

text \<open>
  C30. A failed synchronisation opens the whitelist. The synchroniser reports a failure with
  an empty list, which replaces the CIDRs the provider had; when there is no static CIDR and
  no other provider with CIDRs, the whitelist then lets every address through.
\<close>

theorem failed_sync_opens_whitelist:
  assumes "snd (update_provider_status sys p [] (Some e) now m) = None"
    and "allowed_cidrs (security (current_config m)) = []"
    and "list_all (\<lambda>(name, st). name = to_lower (trim_space p) \<or> cs_cidrs st = []) (cdn_statuses m)"
    and "distinct (map fst (cdn_statuses m))"
  shows "is_ip_allowed (fst (update_provider_status sys p [] (Some e) now m)) ip"
proof -
  let ?name = "to_lower (trim_space p)"
  let ?m1 = "record_provider_status ?name [] e now m"
  have ok: "snd (apply_config sys (current_config m) ?m1) = None"
    and eq: "fst (update_provider_status sys p [] (Some e) now m) = fst (apply_config sys (current_config m) ?m1)"
    using update_status_ok [OF assms(1)] by simp_all
  have "cs_cidrs st = []" if "(k, st) \<in> set (cdn_statuses ?m1)" for k st
    using that assms(3) set_map_put_distinct [OF assms(4)]
    by (fastforce simp: record_provider_status_def Let_def list_all_iff)
  then have "dynamic_cidrs ?m1 = []"
    by (auto simp: record_provider_status_def Let_def all_dynamic_def)
  with whitelist_open [OF ok] show ?thesis by (simp add: eq assms(2))
qed

theorem failed_sync_opens_whitelist_witness:
  "\<not> is_ip_allowed (fst (apply_config sample_system zero_config synced_manager)) (IP4 0x08080808) \<and>
   is_ip_allowed (fst (update_provider_status sample_system ''tencent'' [] (Some ''timeout'') 9
     (fst (apply_config sample_system zero_config synced_manager)))) (IP4 0x08080808)"
proof -
  let ?m = "fst (apply_config sample_system zero_config synced_manager)"
  have a: "snd (update_provider_status sample_system ''tencent'' [] (Some ''timeout'') 9 ?m) = None"
    by code_simp
  have b: "allowed_cidrs (security (current_config ?m)) = []" by code_simp
  have c: "list_all (\<lambda>(name, st). name = to_lower (trim_space ''tencent'') \<or> cs_cidrs st = []) (cdn_statuses ?m)"
    by code_simp
  have d: "distinct (map fst (cdn_statuses ?m))" by code_simp
  have e: "\<not> is_ip_allowed ?m (IP4 0x08080808)" by code_simp
  show ?thesis using failed_sync_opens_whitelist [OF a b c d] e by blast
qed

text \<open>
  A CIDR that does not parse, once recorded for a provider, makes every later \<open>Apply\<close> fail,
  whatever the configuration, until the provider's list is replaced: \<open>UpdateProviderStatus\<close>
  stores the list before it is parsed.
\<close>

theorem bad_cidr_blocks_apply:
  assumes "t \<in> set cidrs" "\<not> cidr_ok t" "to_lower (trim_space p) \<noteq> []"
  shows "snd (update_provider_status sys p cidrs err now m) \<noteq> None \<and>
     snd (apply_config sys' cfg (fst (update_provider_status sys p cidrs err now m))) \<noteq> None"
proof -
  let ?m1 = "record_provider_status (to_lower (trim_space p)) cidrs (case err of None \<Rightarrow> [] | Some e \<Rightarrow> e) now m"
  have mem: "t \<in> set (dynamic_cidrs ?m1)"
    using assms(1) by (force simp: record_provider_status_def Let_def all_dynamic_def
        intro: map_put_in)
  have bad: "snd (apply_config s c m') \<noteq> None" if "t \<in> set (dynamic_cidrs m')" for s c m'
    using that assms(2) build_snapshot_ok_iff
    by (fastforce simp: apply_config_def compile_config_def config_compiles_def list_all_iff
        split: prod.splits sum.splits if_splits)
  have "fst (update_provider_status sys p cidrs err now m) = ?m1"
    using apply_config_error [OF bad [OF mem]] assms(3) by (simp add: update_provider_status_def Let_def)
  then show ?thesis
    using bad [OF mem] assms(3) by (simp add: update_provider_status_def Let_def)
qed

theorem bad_cidr_blocks_apply_witness:
  "snd (apply_config sample_system default_config
     (fst (update_provider_status sample_system ''tencent'' [''10.0.0.0/8'', []] None 7 sample_manager))) \<noteq> None"
proof -
  have bad: "\<not> cidr_ok []" "to_lower (trim_space ''tencent'') \<noteq> []" by code_simp+
  have mem: "[] \<in> set [''10.0.0.0/8'', []]" by simp
  show ?thesis
    using bad_cidr_blocks_apply [OF mem bad, of sample_system None 7 sample_manager sample_system default_config]
    by blast
qed

end
