(* ===== verification/ValidateProps.thy ===== *)
theory ValidateProps
  imports ManagerProps
begin

text \<open>
  How far validation vouches for \<open>Apply\<close>: with no issues and the side conditions that the
  checks leave out, which are named one by one, \<open>Apply\<close> succeeds; and two of these side
  conditions are shown to be needed.
\<close>

lemma fold_issues_mono:
  assumes "\<And>x st. fst (f x st) = [] \<Longrightarrow> fst st = []"
  shows "fst (fold f xs st) = [] \<Longrightarrow> fst st = []"
proof (induction xs arbitrary: st)
  case (Cons x xs)
  then have "fst (f x st) = []" by simp
  then show ?case by (rule assms)
qed simp

lemma fold_issues_each:
  assumes mono: "\<And>x st. fst (f x st) = [] \<Longrightarrow> fst st = []"
    and each: "\<And>x st. fst (f x st) = [] \<Longrightarrow> P x"
  shows "fst (fold f xs st) = [] \<Longrightarrow> list_all P xs"
proof (induction xs arbitrary: st)
  case (Cons x xs)
  have "fst (f x st) = []"
    using fold_issues_mono [where f = f and xs = xs and st = "f x st", OF mono] Cons.prems by simp
  then have "P x" by (rule each)
  moreover have "list_all P xs" by (rule Cons.IH [of "f x st"]) (use Cons.prems in simp)
  ultimately show ?case by simp
qed simp

lemma concat_map_Nil_iff: "concat (map f xs) = [] \<longleftrightarrow> list_all (\<lambda>x. f x = []) xs"
  by (induction xs) auto

lemma list_all_indexed_snd:
  assumes "list_all P (indexed_from n xs)" "\<And>i x. P (i, x) \<Longrightarrow> Q x"
  shows "list_all Q xs"
  using assms(1)
proof (induction xs arbitrary: n)
  case (Cons x xs)
  then have "P (n, x)" by simp
  moreover have "list_all Q xs" by (rule Cons.IH [of "Suc n"]) (use Cons.prems in simp)
  ultimately show ?case using assms(2) by simp
qed simp

lemma check_node_clean:
  assumes "fst (check_node pidx ix st) = []"
  shows "fst st = []" "pool_node_url (snd ix) \<noteq> None"
  using assms by (cases ix; cases st; auto simp: check_node_def pool_node_url_def Let_def split: if_splits)+

lemma validate_nodes_clean:
  assumes "validate_load_balancer_pool_nodes i pool = []"
  shows "list_all node_ok (pool_nodes pool)"
proof -
  have "list_all (\<lambda>ix. pool_node_url (snd ix) \<noteq> None) (indexed (pool_nodes pool))"
    using assms unfolding validate_load_balancer_pool_nodes_def
    by (rule fold_issues_each [rotated 2]) (auto dest: check_node_clean)
  then show ?thesis unfolding indexed_code
    by (rule list_all_indexed_snd) (simp add: node_ok_def)
qed

lemma check_pool_clean:
  assumes "fst (check_pool ix st) = []"
  shows "fst st = []" "pool_ok (snd ix)"
  using assms
  by (cases ix; cases st; auto simp: check_pool_def pool_ok_def Let_def dest: validate_nodes_clean split: if_splits)+

lemma validate_lb_clean:
  assumes "validate_load_balancer_config lb = []"
  shows "list_all pool_ok (lb_cfg_pools lb)"
proof -
  have "fst (fold check_pool (indexed (lb_cfg_pools lb)) ([], [])) = []"
    using assms by (auto simp: validate_load_balancer_config_def split: prod.splits)
  then have "list_all (\<lambda>ix. pool_ok (snd ix)) (indexed (lb_cfg_pools lb))"
    by (rule fold_issues_each [rotated 2]) (auto dest: check_pool_clean)
  then show ?thesis unfolding indexed_code by (rule list_all_indexed_snd) simp
qed

lemma check_cidr_clean: "check_cidr f (i, t) = [] \<Longrightarrow> blank_or_cidr t"
  by (auto simp: check_cidr_def blank_or_cidr_def cidr_ok_def Let_def split: if_splits)

lemma check_domain_rule_clean:
  "check_domain_rule (i, r) = [] \<Longrightarrow> upstream_url (trim_space (dr_upstream r)) \<noteq> None"
  by (auto simp: check_domain_rule_def Let_def split: if_splits)

lemma check_certificate_clean:
  "check_certificate sys dir (i, c) = [] \<Longrightarrow> normalize_host (cert_domain c) \<noteq> [] \<Longrightarrow> legacy_cert_ok sys dir c"
  by (auto simp: check_certificate_def legacy_cert_ok_def pem_source_eq Let_def
      split: option.splits if_splits)

definition validation_gaps :: "system \<Rightarrow> config \<Rightarrow> manager \<Rightarrow> bool" where
  "validation_gaps sys cfg m \<longleftrightarrow>
     (let prepared = fst (prepare_routing_and_load_balancer (fill_defaults cfg)) in
      list_all (\<lambda>t. trim_space t \<noteq> []) (allowed_cidrs (security cfg)) \<and>
      list_all (\<lambda>r. trim_space (dr_upstream r) = dr_upstream r) (routing_domains (routing prepared)) \<and>
      list_all (\<lambda>c. normalize_host (cert_domain c) \<noteq> []) (certificates cfg) \<and>
      list_all (ssl_cert_ok sys) (ssl_certificates cfg) \<and>
      list_all cidr_ok (dynamic_cidrs m) \<and> list_all provider_ok (cdn_statuses m))"

lemma prepare_certificates [simp]:
  "certificates (fst (prepare_routing_and_load_balancer cfg)) = certificates cfg"
  "ssl_certificates (fst (prepare_routing_and_load_balancer cfg)) = ssl_certificates cfg"
  by (simp_all add: prepare_routing_and_load_balancer_def)

text \<open>
  C16. Validation vouches for \<open>Apply\<close>: when \<open>Validate\<close> reports nothing, and the static CIDRs are
  not blank, the upstreams of the legacy rules that are left are trimmed, the certificate
  domains name a host, the managed certificates load and the providers' CIDRs parse, then
  \<open>Apply\<close> succeeds.
\<close>

theorem validation_sound:
  assumes "manager_validate sys cfg m = []" and "validation_gaps sys cfg m"
  shows "snd (apply_config sys cfg m) = None"
proof (cases "prepare_routing_and_load_balancer (fill_defaults cfg)")
  case (Pair prepared issues)
  have prep: "security prepared = security cfg" "certificates prepared = certificates cfg"
    "ssl_certificates prepared = ssl_certificates cfg"
    using prepare_security [of "fill_defaults cfg"] prepare_certificates [of "fill_defaults cfg"]
    by (simp_all add: Pair)
  have "issues = []" and clean: "validate_config sys prepared (mgr_path m) = []"
    using assms(1) by (simp_all add: manager_validate_def Pair)
  note parts = clean [unfolded validate_config_def Let_def append_is_Nil_conv concat_map_Nil_iff indexed_code
      check_security_def]
  have "list_all blank_or_cidr (allowed_cidrs (security cfg))"
    using parts prep by (auto intro: list_all_indexed_snd check_cidr_clean)
  then have "list_all cidr_ok (allowed_cidrs (security cfg))"
    using assms(2) by (auto simp: validation_gaps_def Let_def blank_or_cidr_def list_all_iff)
  moreover have "list_all pool_ok (lb_cfg_pools (load_balancer prepared))"
    using parts by (auto intro: validate_lb_clean)
  moreover have "list_all (\<lambda>r. upstream_url (trim_space (dr_upstream r)) \<noteq> None) (routing_domains (routing prepared))"
    by (rule list_all_indexed_snd [where P = "\<lambda>x. check_domain_rule x = []" and n = 0])
      (use parts in simp, rule check_domain_rule_clean)
  then have "list_all rule_ok (routing_domains (routing prepared))"
    using assms(2) by (auto simp: validation_gaps_def Pair Let_def list_all_iff rule_ok_def)
  moreover have "default_ok prepared"
    using parts by (auto simp: check_default_upstream_def default_ok_def split: if_splits)
  moreover have "list_all (legacy_cert_ok sys (path_dir (mgr_path m))) (certificates prepared)"
  proof -
    have "list_all (\<lambda>c. normalize_host (cert_domain c) \<noteq> [] \<longrightarrow> legacy_cert_ok sys (path_dir (mgr_path m)) c)
        (certificates prepared)"
      using parts by (auto intro!: list_all_indexed_snd [where P = "\<lambda>x. check_certificate sys (path_dir (mgr_path m)) x = []"]
          check_certificate_clean)
    then show ?thesis
      using assms(2) prep by (auto simp: validation_gaps_def Let_def list_all_iff)
  qed
  ultimately have "config_compiles sys prepared (mgr_path m) (dynamic_cidrs m) (cdn_statuses m)"
    using assms(2) prep by (simp add: config_compiles_def validation_gaps_def Let_def)
  then show ?thesis
    using build_snapshot_ok_iff [of sys prepared "mgr_path m" "dynamic_cidrs m" "cdn_statuses m"] \<open>issues = []\<close>
    by (auto simp: apply_config_def compile_config_def Pair)
qed

definition blank_cidr_config :: config where
  "blank_cidr_config = sample_lb_config\<lparr>security := (security zero_config)\<lparr>allowed_cidrs := ['' '']\<rparr>\<rparr>"

definition untrimmed_config :: config where
  "untrimmed_config = sample_lb_config\<lparr>routing := \<lparr>default_upstream = [], routing_domains =
     [\<lparr>dr_domain = ''c.org'', dr_upstream = '' http://c:1'', dr_force_https = False\<rparr>]\<rparr>\<rparr>"

text \<open>
  Two of these conditions are needed: a blank static CIDR passes \<open>Validate\<close> and makes
  \<open>Apply\<close> fail, and so does the upstream of a legacy rule with a leading space next to a load
  balancer.
\<close>

theorem validation_incomplete:
  "manager_validate sample_system blank_cidr_config sample_manager = [] \<and>
   snd (apply_config sample_system blank_cidr_config sample_manager) = Some (InvalidCidr '' '') \<and>
   manager_validate sample_system untrimmed_config sample_manager = [] \<and>
   snd (apply_config sample_system untrimmed_config sample_manager) =
     Some (InvalidRuleUpstream ''c.org'' '' http://c:1'')"
  by code_simp

theorem validation_sound_witness:
  "snd (apply_config sample_system sample_lb_config sample_manager) = None"
proof -
  have a: "manager_validate sample_system sample_lb_config sample_manager = []" by code_simp
  have b: "validation_gaps sample_system sample_lb_config sample_manager" by code_simp
  show ?thesis by (rule validation_sound [OF a b])
qed

end
