(* ===== verification/CertProps.thy ===== *)
theory CertProps
  imports ManagerProps
begin

text \<open>
  Which certificate a TLS handshake gets (\<open>GetCertificate\<close> on a snapshot built by
  \<open>loadCertificates\<close>): the table of certificates by domain and the default certificate.
\<close>

section \<open>The table\<close>

definition has_pem :: "ssl_certificate \<Rightarrow> bool" where
  "has_pem c \<longleftrightarrow> ssl_cert_pem c \<noteq> [] \<and> ssl_key_pem c \<noteq> []"

definition ssl_covers :: "string \<Rightarrow> ssl_certificate \<Rightarrow> bool" where
  "ssl_covers n c \<longleftrightarrow> n \<noteq> [] \<and> has_pem c \<and> list_ex (\<lambda>d. normalize_host d = n) (ssl_domains c)"

definition ssl_loaded :: "system \<Rightarrow> ssl_certificate \<Rightarrow> tls_certificate option" where
  "ssl_loaded sys c = sys_key_pair sys (ssl_cert_pem c) (ssl_key_pem c)"

definition legacy_loaded :: "system \<Rightarrow> string \<Rightarrow> certificate \<Rightarrow> tls_certificate option" where
  "legacy_loaded sys dir c =
     (case (pem_of sys dir (cert_pem c) (cert_file c), pem_of sys dir (cert_key_pem c) (cert_key_file c)) of
        (Some a, Some b) \<Rightarrow> sys_key_pair sys a b
      | _ \<Rightarrow> None)"

text \<open>The last managed certificate that lists the name, else the last legacy one for it.\<close>

definition cert_for :: "system \<Rightarrow> string \<Rightarrow> config \<Rightarrow> string \<Rightarrow> tls_certificate option" where
  "cert_for sys dir cfg n =
     (case find (ssl_covers n) (rev (ssl_certificates cfg)) of
        Some c \<Rightarrow> ssl_loaded sys c
      | None \<Rightarrow>
          (case find (\<lambda>c. normalize_host (cert_domain c) = n) (rev (certificates cfg)) of
             Some c \<Rightarrow> legacy_loaded sys dir c
           | None \<Rightarrow> None))"

lemma set_default_cert_table [simp]: "snap_certificates (set_default_cert i c s) = snap_certificates s"
  by (simp add: set_default_cert_def)

lemma register_domains_get:
  "map_get (snap_certificates (fold (register_domain c) ds s)) n =
     (if n \<noteq> [] \<and> list_ex (\<lambda>d. normalize_host d = n) ds then Some c else map_get (snap_certificates s) n)"
  by (induction ds arbitrary: s) (auto simp: register_domain_def Let_def)

lemma load_ssl_step:
  assumes "load_ssl_certificate sys ix s = Inr t"
  shows "map_get (snap_certificates t) n =
    (if ssl_covers n (snd ix) then ssl_loaded sys (snd ix) else map_get (snap_certificates s) n)"
  using assms
  by (cases ix) (auto simp: load_ssl_certificate_def ssl_covers_def has_pem_def ssl_loaded_def
      register_domains_get split: option.splits if_splits)

lemma load_ssl_loop:
  assumes "fold_res (load_ssl_certificate sys) (indexed_from i cs) s = Inr t"
  shows "map_get (snap_certificates t) n =
    (case find (ssl_covers n) (rev cs) of Some c \<Rightarrow> ssl_loaded sys c
     | None \<Rightarrow> map_get (snap_certificates s) n)"
  using assms
proof (induction cs arbitrary: i s)
  case (Cons c cs)
  then obtain u where u: "load_ssl_certificate sys (i, c) s = Inr u"
      "fold_res (load_ssl_certificate sys) (indexed_from (Suc i) cs) u = Inr t"
    by (auto simp: res_bind_Inr_iff)
  show ?case
    using Cons.IH [OF u(2)] load_ssl_step [OF u(1)] by (simp add: find_append split: option.split)
qed simp

lemma load_legacy_step:
  assumes "load_legacy_certificate sys dir ix s = Inr t"
  shows "map_get (snap_certificates t) n =
      (if normalize_host (cert_domain (snd ix)) = n then legacy_loaded sys dir (snd ix)
       else map_get (snap_certificates s) n) \<and>
    normalize_host (cert_domain (snd ix)) \<noteq> [] \<and> legacy_loaded sys dir (snd ix) \<noteq> None"
  using assms
  by (cases ix) (auto simp: load_legacy_certificate_def legacy_loaded_def pem_source_eq res_bind_Inr_iff Let_def
      split: option.splits if_splits)

lemma load_legacy_loop:
  assumes "fold_res (load_legacy_certificate sys dir) (indexed_from i cs) s = Inr t"
  shows "map_get (snap_certificates t) n =
    (case find (\<lambda>c. normalize_host (cert_domain c) = n) (rev cs) of Some c \<Rightarrow> legacy_loaded sys dir c
     | None \<Rightarrow> map_get (snap_certificates s) n)"
  using assms
proof (induction cs arbitrary: i s)
  case (Cons c cs)
  then obtain u where u: "load_legacy_certificate sys dir (i, c) s = Inr u"
      "fold_res (load_legacy_certificate sys dir) (indexed_from (Suc i) cs) u = Inr t"
    by (auto simp: res_bind_Inr_iff)
  show ?case
    using Cons.IH [OF u(2)] load_legacy_step [OF u(1), of n] by (simp add: find_append split: option.split)
qed simp

section \<open>The default certificate\<close>

definition default_for :: "system \<Rightarrow> string \<Rightarrow> config \<Rightarrow> tls_certificate option" where
  "default_for sys dir cfg =
     (case certificates cfg of
        c # _ \<Rightarrow> legacy_loaded sys dir c
      | [] \<Rightarrow> (case ssl_certificates cfg of
                 c # _ \<Rightarrow> if has_pem c then ssl_loaded sys c else None
               | [] \<Rightarrow> None))"

lemma register_domains_default [simp]: "default_cert (fold (register_domain c) ds s) = default_cert s"
  by (rule fold_keeps) (simp add: register_domain_def Let_def)

lemma load_ssl_default:
  assumes "load_ssl_certificate sys ix s = Inr t"
  shows "default_cert t = (if fst ix = 0 \<and> default_cert s = None \<and> has_pem (snd ix)
      then ssl_loaded sys (snd ix) else default_cert s)"
  using assms
  by (cases ix) (auto simp: load_ssl_certificate_def has_pem_def ssl_loaded_def set_default_cert_def
      split: option.splits if_splits)

lemma load_legacy_default:
  assumes "load_legacy_certificate sys dir ix s = Inr t"
  shows "default_cert t = (if fst ix = 0 \<and> default_cert s = None
      then legacy_loaded sys dir (snd ix) else default_cert s)"
  using assms
  by (cases ix) (auto simp: load_legacy_certificate_def legacy_loaded_def pem_source_eq res_bind_Inr_iff
      Let_def set_default_cert_def split: option.splits if_splits)

lemma tail_keeps_default:
  assumes "\<And>ix s t. f ix s = Inr t \<Longrightarrow> 0 < fst ix \<Longrightarrow> default_cert t = default_cert s"
  shows "fold_res f (indexed_from (Suc i) cs) s = Inr t \<Longrightarrow> default_cert t = default_cert s"
proof (induction cs arbitrary: i s)
  case (Cons c cs)
  then obtain u where u: "f (Suc i, c) s = Inr u" "fold_res f (indexed_from (Suc (Suc i)) cs) u = Inr t"
    by (auto simp: res_bind_Inr_iff)
  show ?case using Cons.IH [OF u(2)] assms [OF u(1)] by simp
qed simp

lemma load_legacy_loop_default:
  assumes "fold_res (load_legacy_certificate sys dir) (indexed_from 0 cs) s = Inr t" "default_cert s = None"
  shows "default_cert t = (case cs of [] \<Rightarrow> None | c # _ \<Rightarrow> legacy_loaded sys dir c) \<and>
    (cs \<noteq> [] \<longrightarrow> default_cert t \<noteq> None)"
proof (cases cs)
  case (Cons c cs')
  then obtain u where u: "load_legacy_certificate sys dir (0, c) s = Inr u"
      "fold_res (load_legacy_certificate sys dir) (indexed_from (Suc 0) cs') u = Inr t"
    using assms(1) by (auto simp: res_bind_Inr_iff)
  have "default_cert t = default_cert u"
    using load_legacy_default
    by (intro tail_keeps_default [where f = "load_legacy_certificate sys dir", OF _ u(2)]) fastforce
  then show ?thesis
    using load_legacy_default [OF u(1)] load_legacy_step [OF u(1)] assms(2) Cons by simp
qed (use assms in simp)

lemma load_ssl_loop_default:
  assumes "fold_res (load_ssl_certificate sys) (indexed_from 0 cs) s = Inr t"
  shows "default_cert t = (if default_cert s \<noteq> None then default_cert s
    else case cs of [] \<Rightarrow> None | c # _ \<Rightarrow> if has_pem c then ssl_loaded sys c else None)"
proof (cases cs)
  case (Cons c cs')
  then obtain u where u: "load_ssl_certificate sys (0, c) s = Inr u"
      "fold_res (load_ssl_certificate sys) (indexed_from (Suc 0) cs') u = Inr t"
    using assms(1) by (auto simp: res_bind_Inr_iff)
  have "default_cert t = default_cert u"
    using load_ssl_default
    by (intro tail_keeps_default [where f = "load_ssl_certificate sys", OF _ u(2)]) fastforce
  then show ?thesis using load_ssl_default [OF u(1)] Cons by auto
qed (use assms in simp)

section \<open>Properties\<close>

lemma build_snapshot_certs:
  assumes "build_snapshot sys cfg path dyn sts = Inr d"
  shows "map_get (snap_certificates d) n = cert_for sys (path_dir path) cfg n"
    and "default_cert d = default_for sys (path_dir path) cfg"
proof -
  obtain d1 d2 d3 d4 d5 where d:
      "compile_allowed_cidrs (allowed_cidrs (security cfg) @ dyn) (empty_snapshot cfg) = Inr d1"
      "fold_res add_provider sts d1 = Inr d2" "compile_load_balancer_config d2 (load_balancer cfg) = Inr d3"
      "fold_res add_domain_rule (routing_domains (routing cfg)) d3 = Inr d4"
      "add_default_route (default_upstream (routing cfg)) d4 = Inr d5" "load_certificates sys path d5 = Inr d"
    using assms unfolding build_snapshot_stages by blast
  have d5: "snap_cfg d5 = cfg" "snap_certificates d5 = []" "default_cert d5 = None"
    using compile_allowed_cidrs_cfg [OF d(1)] add_providers_frame [OF d(2)] compile_lb_cfg(1,3) [OF d(3)]
      add_domain_rules_frame [OF d(4)] add_default_route_frame [OF d(5)]
    by (simp_all add: empty_snapshot_def but_providers_def but_domain_routes_def but_default_route_def certs_of_def)
  obtain e where e: "fold_res (load_legacy_certificate sys (path_dir path)) (indexed_from 0 (certificates cfg)) d5 = Inr e"
    and e2: "fold_res (load_ssl_certificate sys) (indexed_from 0 (ssl_certificates (snap_cfg e))) e = Inr d"
    using d(6) d5(1) by (auto simp: load_certificates_def res_bind_Inr_iff)
  have "but_certs e = but_certs d5"
    by (rule fold_res_keeps [where f = "load_legacy_certificate sys (path_dir path)", OF load_legacy_certificate_frame e])
  then have "snap_cfg e = cfg" using d5(1) by (simp add: but_certs_def)
  then have e2': "fold_res (load_ssl_certificate sys) (indexed_from 0 (ssl_certificates cfg)) e = Inr d"
    using e2 by simp
  show "map_get (snap_certificates d) n = cert_for sys (path_dir path) cfg n"
    using load_ssl_loop [OF e2', of n] load_legacy_loop [OF e, of n] d5(2)
    by (simp add: cert_for_def split: option.split)
  show "default_cert d = default_for sys (path_dir path) cfg"
    using load_ssl_loop_default [OF e2'] load_legacy_loop_default [OF e d5(3)]
    by (auto simp: default_for_def split: list.split)
qed

text \<open>
  C17. Certificate selection after a successful \<open>Apply\<close>. A handshake gets the certificate for
  the exact name (the last managed certificate that lists it, else the last legacy one),
  else the one for the wildcard of its first label, else the default: the first legacy
  certificate, or the first managed one, but only when it is first in the list.
\<close>

theorem certificate_selection:
  assumes "snd (apply_config sys cfg m) = None"
  shows "get_certificate (fst (apply_config sys cfg m)) hello =
     (let n = normalize_host hello; dir = path_dir (mgr_path m);
          wild = ''*'' @ from_first (CHR ''.'') n
      in case cert_for sys dir cfg n of
           Some c \<Rightarrow> Inr c
         | None \<Rightarrow>
             (case (if CHR ''.'' \<in> set n then cert_for sys dir cfg wild else None) of
                Some c \<Rightarrow> Inr c
              | None \<Rightarrow> (case default_for sys dir cfg of Some c \<Rightarrow> Inr c | None \<Rightarrow> Inl NoCertificate)))"
proof -
  obtain d prepared where d: "mgr_data (fst (apply_config sys cfg m)) = Some d"
    "prepared = fst (prepare_routing_and_load_balancer (fill_defaults cfg))"
    "build_snapshot sys prepared (mgr_path m) (dynamic_cidrs m) (cdn_statuses m) = Inr d"
    using assms by (rule apply_config_filters)
  have same: "certificates prepared = certificates cfg" "ssl_certificates prepared = ssl_certificates cfg"
    by (simp_all add: d(2) prepare_routing_and_load_balancer_def)
  have "cert_for sys dir prepared = cert_for sys dir cfg" "default_for sys dir prepared = default_for sys dir cfg" for dir
    by (intro ext, simp only: cert_for_def same) (simp only: default_for_def same)
  then show ?thesis
    by (simp add: get_certificate_def d(1) build_snapshot_certs [OF d(3)] Let_def cong: option.case_cong)
qed

definition cert_config :: config where
  "cert_config = zero_config\<lparr>
     certificates := [\<lparr>cert_domain = ''Old.org'', cert_pem = ''c0'', cert_key_pem = ''k0'', cert_file = [],
       cert_key_file = []\<rparr>],
     ssl_certificates := [\<lparr>ssl_id = ''1'', ssl_name = ''n'', ssl_domains = [''*.x.org'', ''old.org''],
       ssl_not_after = 0, ssl_issuer = [], ssl_cert_pem = ''c1'', ssl_key_pem = ''k1'', ssl_created_at = 0\<rparr>]\<rparr>"

theorem certificate_selection_witness:
  "get_certificate (fst (apply_config sample_system cert_config sample_manager)) ''a.x.org:443'' =
     Inr (TlsCertificate ''c1'' ''k1'') \<and>
   get_certificate (fst (apply_config sample_system cert_config sample_manager)) ''nowhere'' =
     Inr (TlsCertificate ''c0'' ''k0'')"
proof -
  have ok: "snd (apply_config sample_system cert_config sample_manager) = None" by code_simp
  show ?thesis
    unfolding certificate_selection [OF ok, of "''a.x.org:443''"] certificate_selection [OF ok, of "''nowhere''"]
    by code_simp
qed

end
