(* ===== verification/SiteCDN.thy ===== *)
theory SiteCDN
  imports ManagerProps
begin

text \<open>
  The CIDR lists of a site's CDN providers (\<open>internal/config/site_cdn.go\<close>): a table by site
  and provider that the synchroniser fills and the gateway consults, with the age of each
  list bounded by the caller. The clock is an argument.
\<close>

section \<open>Operations\<close>

datatype site_cdn_error = SiteProviderEmpty | InvalidSiteCidr string

definition add_site_prefix :: "string \<Rightarrow> ip_prefix list \<Rightarrow> site_cdn_error + ip_prefix list" where
  "add_site_prefix item prefixes =
     (let v = trim_space item in
      if v = [] then Inr prefixes
      else (case parse_prefix v of
              None \<Rightarrow> Inl (InvalidSiteCidr v) | Some p \<Rightarrow> Inr (prefixes @ [p])))"

definition site_snapshots :: "manager \<Rightarrow> string \<Rightarrow> site_cdn_snapshot gomap" where
  "site_snapshots m site =
     (case map_get (site_cdn_snapshots m) site of None \<Rightarrow> [] | Some t \<Rightarrow> t)"

definition update_site_cdn_provider_snapshot ::
  "string \<Rightarrow> string \<Rightarrow> string list \<Rightarrow> gotime \<Rightarrow> manager \<Rightarrow> manager \<times> site_cdn_error option" where
  "update_site_cdn_provider_snapshot site0 provider0 cidrs last_success m =
     (let site = trim_space site0; provider = to_lower (trim_space provider0) in
      if site = [] \<or> provider = [] then (m, Some SiteProviderEmpty)
      else
        (case fold_res add_site_prefix cidrs [] of
           Inl e \<Rightarrow> (m, Some e)
         | Inr prefixes \<Rightarrow>
             (m\<lparr>site_cdn_snapshots :=
                map_put site
                  (map_put provider \<lparr>scs_prefixes = prefixes, scs_last_success = last_success\<rparr>
                     (site_snapshots m site))
                  (site_cdn_snapshots m)\<rparr>, None)))"

text \<open>A provider's list is usable when it has entries, was fetched and is not too old.\<close>

definition fresh_enough :: "gotime \<Rightarrow> (string \<Rightarrow> duration) option \<Rightarrow> string \<Rightarrow> site_cdn_snapshot \<Rightarrow> bool" where
  "fresh_enough now max_staleness provider sn \<longleftrightarrow>
     scs_last_success sn \<noteq> 0 \<and> scs_prefixes sn \<noteq> [] \<and>
     (let staleness = (case max_staleness of None \<Rightarrow> 0 | Some f \<Rightarrow> f provider) in
      \<not> (staleness > 0 \<and> time_sub now (scs_last_success sn) > staleness))"

definition is_ip_allowed_by_site_providers ::
  "manager \<Rightarrow> string \<Rightarrow> ip_addr \<Rightarrow> string list \<Rightarrow> (string \<Rightarrow> duration) option \<Rightarrow> gotime \<Rightarrow> bool" where
  "is_ip_allowed_by_site_providers m site ip providers max_staleness now =
     (if \<not> ip_is_valid ip \<or> providers = [] then False
      else
        let local_snapshots = site_snapshots m site in
        if local_snapshots = [] then False
        else list_ex (\<lambda>name.
               let provider = to_lower (trim_space name) in
               provider \<noteq> [] \<and>
               (case map_get local_snapshots provider of
                  None \<Rightarrow> False
                | Some sn \<Rightarrow> fresh_enough now max_staleness provider sn \<and>
                    list_ex (\<lambda>p. prefix_contains p ip) (scs_prefixes sn))) providers)"

section \<open>Facts\<close>

lemma add_site_prefixes_loop:
  "fold_res add_site_prefix cs ps = Inr qs \<Longrightarrow>
   qs = ps @ map parsed_cidr (filter (\<lambda>t. trim_space t \<noteq> []) cs) \<and> list_all blank_or_cidr cs"
proof (induction cs arbitrary: ps)
  case (Cons c cs)
  then obtain us where us: "add_site_prefix c ps = Inr us" "fold_res add_site_prefix cs us = Inr qs"
    by (auto simp: res_bind_Inr_iff)
  show ?case
    using Cons.IH [OF us(2)] us(1)
    by (auto simp: add_site_prefix_def blank_or_cidr_def cidr_ok_def parsed_cidr_def Let_def
        split: option.splits if_splits)
qed simp

lemma site_snapshots_update:
  assumes "update_site_cdn_provider_snapshot s p cs t m = (m', None)"
  shows "site_snapshots m' site =
    (if site = trim_space s
     then map_put (to_lower (trim_space p))
            \<lparr>scs_prefixes = map parsed_cidr (filter (\<lambda>t. trim_space t \<noteq> []) cs), scs_last_success = t\<rparr>
            (site_snapshots m site)
     else site_snapshots m site)"
  using assms
  by (auto simp: update_site_cdn_provider_snapshot_def site_snapshots_def Let_def
      dest!: add_site_prefixes_loop split: if_splits sum.splits)

lemma site_allowed_iff:
  "is_ip_allowed_by_site_providers m site ip ps ms now \<longleftrightarrow>
     list_ex (\<lambda>name. let provider = to_lower (trim_space name) in provider \<noteq> [] \<and>
       (case map_get (site_snapshots m site) provider of
          None \<Rightarrow> False
        | Some sn \<Rightarrow> fresh_enough now ms provider sn \<and> list_ex (\<lambda>p. prefix_contains p ip) (scs_prefixes sn))) ps"
proof (cases "ip = NoIP \<or> ps = [] \<or> site_snapshots m site = []")
  case True
  then show ?thesis
    by (auto simp: is_ip_allowed_by_site_providers_def ip_is_valid_def Let_def list_ex_iff split: option.splits)
next
  case False
  then show ?thesis by (simp add: is_ip_allowed_by_site_providers_def ip_is_valid_def Let_def)
qed

section \<open>Properties\<close>

text \<open>
  A site's own CDN lists: after \<open>UpdateSiteCDNProviderSnapshot\<close> an address is let through
  for that site and provider exactly when it is inside one of the CIDRs that are not blank,
  the list was fetched at a known time, and a positive age limit is not exceeded.
\<close>

theorem site_provider_lookup:
  assumes "update_site_cdn_provider_snapshot s p cs t m = (m', None)"
    and "\<bar>now - t\<bar> < 2 ^ 63"
  shows "is_ip_allowed_by_site_providers m' (trim_space s) ip [p] (Some limit) now \<longleftrightarrow>
     t \<noteq> 0 \<and> (limit (to_lower (trim_space p)) \<le> 0 \<or> now - t \<le> limit (to_lower (trim_space p))) \<and>
     in_cidr_texts (filter (\<lambda>c. trim_space c \<noteq> []) cs) ip"
proof -
  let ?cs = "filter (\<lambda>c. trim_space c \<noteq> []) cs"
  have p: "trim_space p \<noteq> []"
    using assms(1) by (auto simp: update_site_cdn_provider_snapshot_def Let_def split: if_splits)
  have "list_all blank_or_cidr cs"
    using assms(1)
    by (auto simp: update_site_cdn_provider_snapshot_def Let_def dest!: add_site_prefixes_loop
        split: if_splits sum.splits)
  then have "list_all cidr_ok ?cs" by (auto simp: list_all_iff blank_or_cidr_def)
  note texts = in_cidr_texts_iff [OF this, of ip]
  have ne: "in_cidr_texts ?cs ip \<Longrightarrow> ?cs \<noteq> []" by (auto simp: in_cidr_texts_def)
  show ?thesis
    using p texts ne time_sub_id [OF assms(2)]
    by (auto simp: site_allowed_iff site_snapshots_update [OF assms(1)] fresh_enough_def Let_def)
qed

theorem site_provider_lookup_witness:
  "is_ip_allowed_by_site_providers (fst (update_site_cdn_provider_snapshot '' s1 '' ''Tencent'' [''10.0.0.0/8'', '' ''] 1000 sample_manager))
     (trim_space '' s1 '') (IP4 0x0A000001) [''Tencent''] (Some (\<lambda>_. 3600 * 1000000000)) (1000 + 60 * 1000000000)"
proof -
  obtain m' where m': "update_site_cdn_provider_snapshot '' s1 '' ''Tencent'' [''10.0.0.0/8'', '' ''] 1000 sample_manager = (m', None)"
  proof -
    have "snd (update_site_cdn_provider_snapshot '' s1 '' ''Tencent'' [''10.0.0.0/8'', '' ''] 1000 sample_manager) = None"
      by code_simp
    then show ?thesis using that by (metis prod.collapse)
  qed
  have t: "\<bar>(1000 + 60 * 1000000000) - 1000\<bar> < (2 ^ 63 :: int)" by simp
  have "in_cidr_texts (filter (\<lambda>c. trim_space c \<noteq> []) [''10.0.0.0/8'', '' '']) (IP4 0x0A000001)" by code_simp
  with site_provider_lookup [OF m' t, of "IP4 0x0A000001" "\<lambda>_. 3600 * 1000000000"] show ?thesis
    by (simp add: m')
qed

text \<open>
  The table is keyed: an update for one site and provider changes no answer for another
  site, and one that fails changes nothing.
\<close>

theorem site_provider_frame:
  "case update_site_cdn_provider_snapshot s p cs t m of
     (m', Some e) \<Rightarrow> m' = m
   | (m', None) \<Rightarrow> site \<noteq> trim_space s \<longrightarrow>
       is_ip_allowed_by_site_providers m' site ip ps limit now =
       is_ip_allowed_by_site_providers m site ip ps limit now"
proof (cases "update_site_cdn_provider_snapshot s p cs t m")
  case (Pair m' r)
  show ?thesis
  proof (cases r)
    case None
    with Pair show ?thesis
      by (simp add: site_allowed_iff site_snapshots_update)
  next
    case (Some e)
    with Pair show ?thesis
      by (auto simp: update_site_cdn_provider_snapshot_def Let_def split: if_splits sum.splits)
  qed
qed

theorem site_provider_frame_witness:
  "is_ip_allowed_by_site_providers
     (fst (update_site_cdn_provider_snapshot ''s1'' ''tencent'' [''10.0.0.0/8''] 1000 sample_manager))
     ''s2'' (IP4 0x0A000001) [''tencent''] None 2000 =
   is_ip_allowed_by_site_providers sample_manager ''s2'' (IP4 0x0A000001) [''tencent''] None 2000"
proof -
  have ok: "snd (update_site_cdn_provider_snapshot ''s1'' ''tencent'' [''10.0.0.0/8''] 1000 sample_manager) = None"
    by code_simp
  have ne: "''s2'' \<noteq> trim_space ''s1''" by code_simp
  from site_provider_frame [where s = "''s1''" and p = "''tencent''" and cs = "[''10.0.0.0/8'']" and t = 1000
      and m = sample_manager and site = "''s2''" and ip = "IP4 0x0A000001" and ps = "[''tencent'']"
      and limit = None and now = 2000] ok ne
  show ?thesis by (simp split: prod.splits)
qed

end
