(* ===== verification/Logging.thy ===== *)
theory Logging
  imports GoStrings "HOL-Library.Word"
begin

text \<open>
  The log pipeline (\<open>internal/logging/pipeline.go\<close>) and the run-time log level
  (\<open>runtime.go\<close>). \<open>Emit\<close> runs on the goroutines of the requests, the worker and \<open>Close\<close> on
  their own: besides the operations run alone there is the step relation of their
  interleavings, one atomic operation or channel operation a step. The channel is a queue
  with a capacity; a send on a closed channel panics.
\<close>

section \<open>Levels\<close>

datatype log_level =
  DebugLevel | InfoLevel | WarnLevel | ErrorLevel | DPanicLevel | PanicLevel | FatalLevel

datatype level_error = UnsupportedLevel string

definition parse_level :: "string \<Rightarrow> level_error + log_level" where
  "parse_level t =
     (let v = to_lower (trim_space t) in
      if v = ''debug'' then Inr DebugLevel
      else if v = ''info'' then Inr InfoLevel
      else if v = ''warn'' \<or> v = ''warning'' then Inr WarnLevel
      else if v = ''error'' then Inr ErrorLevel
      else if v = ''dpanic'' then Inr DPanicLevel
      else if v = ''panic'' then Inr PanicLevel
      else if v = ''fatal'' then Inr FatalLevel
      else Inl (UnsupportedLevel t))"

definition env_or_fallback :: "(string \<Rightarrow> string) \<Rightarrow> string \<Rightarrow> string \<Rightarrow> string" where
  "env_or_fallback env key fallback = (let v = trim_space (env key) in if v = [] then fallback else v)"

record log_runtime =
  rt_level :: log_level
  rt_stacktrace :: log_level

definition new_runtime_from_env :: "(string \<Rightarrow> string) \<Rightarrow> level_error + log_runtime" where
  "new_runtime_from_env env =
     res_bind (parse_level (env_or_fallback env ''LOG_LEVEL'' ''info''))
       (\<lambda>l. res_bind (parse_level (env_or_fallback env ''LOG_STACKTRACE_LEVEL'' ''error''))
          (\<lambda>s. Inr \<lparr>rt_level = l, rt_stacktrace = s\<rparr>))"

definition set_level :: "string \<Rightarrow> log_runtime \<Rightarrow> log_runtime \<times> level_error option" where
  "set_level t rt =
     (case parse_level t of Inl e \<Rightarrow> (rt, Some e) | Inr l \<Rightarrow> (rt\<lparr>rt_level := l\<rparr>, None))"

section \<open>The pipeline\<close>

record log_event =
  ev_level :: string
  ev_type :: string
  ev_request_id :: string
  ev_client_ip :: string
  ev_host :: string
  ev_method :: string
  ev_path :: string
  ev_status :: int
  ev_message :: string

record log_stats =
  st_total :: "64 word"
  st_blocked :: "64 word"
  st_proxied :: "64 word"
  st_dropped :: "64 word"

text \<open>What the worker passes to the console logger: the method it calls and the message.\<close>

datatype log_call = LogDebug string | LogInfo string | LogWarn string | LogError string

definition level_event_text :: string where
  "level_event_text = [CHR 0xE7, CHR 0xBA, CHR 0xA7, CHR 0xE5, CHR 0x88, CHR 0xAB, CHR 0xE4,
     CHR 0xBA, CHR 0x8B, CHR 0xE4, CHR 0xBB, CHR 0xB6, CHR 0x3A, CHR 0x20]"

definition log_call_of :: "log_event \<Rightarrow> log_call" where
  "log_call_of e =
     (let l = to_lower (trim_space (ev_level e)); msg = ev_message e in
      if l = ''debug'' then LogDebug msg
      else if l = ''warn'' \<or> l = ''warning'' then LogWarn msg
      else if l = ''error'' then LogError msg
      else if l = ''dpanic'' then LogError (''dpanic '' @ level_event_text @ msg)
      else if l = ''panic'' then LogError (''panic '' @ level_event_text @ msg)
      else if l = ''fatal'' then LogError (''fatal '' @ level_event_text @ msg)
      else LogInfo msg)"

record pipeline =
  pl_queue :: "log_event list"
  pl_capacity :: nat
  pl_closed :: bool
  pl_chan_closed :: bool
  pl_stats :: log_stats
  pl_calls :: "log_call list"

definition new_pipeline :: "nat \<Rightarrow> pipeline" where
  "new_pipeline buffer = \<lparr>pl_queue = [], pl_capacity = buffer, pl_closed = False,
     pl_chan_closed = False, pl_stats = \<lparr>st_total = 0, st_blocked = 0, st_proxied = 0, st_dropped = 0\<rparr>,
     pl_calls = []\<rparr>"

definition count_type :: "log_event \<Rightarrow> pipeline \<Rightarrow> pipeline" where
  "count_type e p =
     (let st = pl_stats p in
      if ev_type e = ''blocked'' then p\<lparr>pl_stats := st\<lparr>st_blocked := st_blocked st + 1\<rparr>\<rparr>
      else if ev_type e = ''proxy'' then p\<lparr>pl_stats := st\<lparr>st_proxied := st_proxied st + 1\<rparr>\<rparr>
      else p)"

definition count_total :: "pipeline \<Rightarrow> pipeline" where
  "count_total p = p\<lparr>pl_stats := (pl_stats p)\<lparr>st_total := st_total (pl_stats p) + 1\<rparr>\<rparr>"

definition try_send :: "log_event \<Rightarrow> pipeline \<Rightarrow> pipeline" where
  "try_send e p =
     (if length (pl_queue p) < pl_capacity p then p\<lparr>pl_queue := pl_queue p @ [e]\<rparr>
      else p\<lparr>pl_stats := (pl_stats p)\<lparr>st_dropped := st_dropped (pl_stats p) + 1\<rparr>\<rparr>)"

definition emit :: "log_event \<Rightarrow> pipeline \<Rightarrow> pipeline" where
  "emit e p = (if pl_closed p then p else try_send e (count_total (count_type e p)))"

definition stats_snapshot :: "pipeline \<Rightarrow> log_stats" where
  "stats_snapshot p = pl_stats p"

definition close_pipeline :: "pipeline \<Rightarrow> pipeline" where
  "close_pipeline p = (if pl_closed p then p else p\<lparr>pl_closed := True, pl_chan_closed := True\<rparr>)"

definition worker_step :: "pipeline \<Rightarrow> pipeline" where
  "worker_step p =
     (case pl_queue p of [] \<Rightarrow> p
      | e # es \<Rightarrow> p\<lparr>pl_queue := es, pl_calls := pl_calls p @ [log_call_of e]\<rparr>)"

section \<open>Interleavings\<close>

text \<open>How far a goroutine is in \<open>Emit\<close>, and the goroutine that closes in \<open>Close\<close>.\<close>

datatype emitter =
  Starting log_event | Checked log_event | Typed log_event | Counted log_event | Emitted | Panicked

datatype closer = NotClosing | Swapped | ClosedChannel

record log_system =
  ls_pipe :: pipeline
  ls_emitters :: "emitter list"
  ls_closer :: closer

inductive emit_step :: "pipeline \<Rightarrow> emitter \<Rightarrow> pipeline \<Rightarrow> emitter \<Rightarrow> bool" where
  emit_closed: "pl_closed p \<Longrightarrow> emit_step p (Starting e) p Emitted"
| emit_open: "\<not> pl_closed p \<Longrightarrow> emit_step p (Starting e) p (Checked e)"
| emit_type: "emit_step p (Checked e) (count_type e p) (Typed e)"
| emit_total: "emit_step p (Typed e) (count_total p) (Counted e)"
| emit_send: "\<not> pl_chan_closed p \<Longrightarrow> emit_step p (Counted e) (try_send e p) Emitted"
| emit_panic: "pl_chan_closed p \<Longrightarrow> emit_step p (Counted e) p Panicked"

inductive_cases emit_stepE: "emit_step p m p' m'"

inductive log_step :: "log_system \<Rightarrow> log_system \<Rightarrow> bool" where
  ls_request: "log_step s (s\<lparr>ls_emitters := ls_emitters s @ [Starting e]\<rparr>)"
| ls_emit: "i < length (ls_emitters s) \<Longrightarrow> emit_step (ls_pipe s) (ls_emitters s ! i) p' m' \<Longrightarrow>
    log_step s (s\<lparr>ls_pipe := p', ls_emitters := (ls_emitters s)[i := m']\<rparr>)"
| ls_work: "log_step s (s\<lparr>ls_pipe := worker_step (ls_pipe s)\<rparr>)"
| ls_swap: "ls_closer s = NotClosing \<Longrightarrow> \<not> pl_closed (ls_pipe s) \<Longrightarrow>
    log_step s (s\<lparr>ls_pipe := (ls_pipe s)\<lparr>pl_closed := True\<rparr>, ls_closer := Swapped\<rparr>)"
| ls_close: "ls_closer s = Swapped \<Longrightarrow>
    log_step s (s\<lparr>ls_pipe := (ls_pipe s)\<lparr>pl_chan_closed := True\<rparr>, ls_closer := ClosedChannel\<rparr>)"

definition log_init :: "nat \<Rightarrow> log_system" where
  "log_init buffer = \<lparr>ls_pipe = new_pipeline buffer, ls_emitters = [], ls_closer = NotClosing\<rparr>"

inductive log_reachable :: "nat \<Rightarrow> log_system \<Rightarrow> bool" for buffer where
  lr_init: "log_reachable buffer (log_init buffer)"
| lr_step: "log_reachable buffer s \<Longrightarrow> log_step s t \<Longrightarrow> log_reachable buffer t"

section \<open>Accounting\<close>

text \<open>An emitter whose event is counted but not yet in the queue, or never will be.\<close>

fun in_flight :: "emitter \<Rightarrow> bool" where
  "in_flight (Counted e) = True"
| "in_flight Panicked = True"
| "in_flight _ = False"

definition flights :: "emitter list \<Rightarrow> nat" where
  "flights ms = length (filter in_flight ms)"

definition accounted :: "log_system \<Rightarrow> bool" where
  "accounted s \<longleftrightarrow>
     (let p = ls_pipe s; st = pl_stats p in
      st_total st = of_nat (length (pl_calls p) + length (pl_queue p) + flights (ls_emitters s)) + st_dropped st \<and>
      length (pl_queue p) \<le> pl_capacity p \<and>
      (pl_chan_closed p \<longrightarrow> pl_closed p \<and> ls_closer s = ClosedChannel) \<and>
      (ls_closer s \<noteq> NotClosing \<longrightarrow> pl_closed p))"

lemma flights_update:
  "i < length ms \<Longrightarrow>
   flights (ms[i := m]) + (if in_flight (ms ! i) then 1 else 0) = flights ms + (if in_flight m then 1 else 0)"
proof (induction ms arbitrary: i)
  case (Cons a ms)
  then show ?case by (cases i) (auto simp: flights_def)
qed simp

lemma flights_snoc: "flights (ms @ [m]) = flights ms + (if in_flight m then 1 else 0)"
  by (simp add: flights_def)

lemma log_step_capacity: "log_step s t \<Longrightarrow> pl_capacity (ls_pipe t) = pl_capacity (ls_pipe s)"
  by (erule log_step.cases)
    (auto elim!: emit_stepE simp: worker_step_def count_type_def count_total_def try_send_def Let_def
      split: list.split)

lemma worker_step_accounted:
  "accounted s \<Longrightarrow> accounted (s\<lparr>ls_pipe := worker_step (ls_pipe s)\<rparr>)"
  by (cases "pl_queue (ls_pipe s)") (auto simp: accounted_def worker_step_def Let_def)

lemma emit_step_accounted:
  assumes "accounted s" "i < length (ls_emitters s)" "emit_step (ls_pipe s) (ls_emitters s ! i) p' m'"
  shows "accounted (s\<lparr>ls_pipe := p', ls_emitters := (ls_emitters s)[i := m']\<rparr>)"
  using assms(3)
proof (cases rule: emit_step.cases)
  case (emit_closed e)
  then show ?thesis using assms(1) flights_update [OF assms(2), of m'] by (simp add: accounted_def)
next
  case (emit_open e)
  then show ?thesis using assms(1) flights_update [OF assms(2), of m'] by (simp add: accounted_def)
next
  case (emit_type e)
  then show ?thesis using assms(1) flights_update [OF assms(2), of m']
    by (simp add: accounted_def count_type_def Let_def)
next
  case (emit_total e)
  then show ?thesis using assms(1) flights_update [OF assms(2), of m']
    by (simp add: accounted_def count_total_def Let_def)
next
  case (emit_send e)
  then have "flights (ls_emitters s) = Suc (flights ((ls_emitters s)[i := m']))"
    using flights_update [OF assms(2), of m'] by simp
  then show ?thesis using assms(1) emit_send
    by (auto simp: accounted_def try_send_def Let_def)
next
  case (emit_panic e)
  then show ?thesis using assms(1) flights_update [OF assms(2), of m'] by (simp add: accounted_def)
qed

lemma log_step_accounted: "log_step s t \<Longrightarrow> accounted s \<Longrightarrow> accounted t"
proof (induction rule: log_step.induct)
  case (ls_request s e)
  then show ?case by (simp add: accounted_def flights_snoc)
next
  case (ls_emit i s p' m')
  then show ?case by (intro emit_step_accounted)
next
  case (ls_work s)
  then show ?case by (rule worker_step_accounted)
qed (simp_all add: accounted_def Let_def)

lemma log_reachable_accounted: "log_reachable buffer s \<Longrightarrow> accounted s"
proof (induction rule: log_reachable.induct)
  case lr_init
  show ?case by (simp add: accounted_def log_init_def new_pipeline_def flights_def)
next
  case (lr_step s t)
  then show ?case using log_step_accounted by blast
qed

lemma log_reachable_capacity: "log_reachable buffer s \<Longrightarrow> pl_capacity (ls_pipe s) = buffer"
  by (induction rule: log_reachable.induct)
    (simp_all add: log_init_def new_pipeline_def log_step_capacity)

definition no_early_panic :: "log_system \<Rightarrow> bool" where
  "no_early_panic s \<longleftrightarrow> (Panicked \<in> set (ls_emitters s) \<longrightarrow> ls_closer s = ClosedChannel)"

lemma log_step_panic: "log_step s t \<Longrightarrow> accounted s \<Longrightarrow> no_early_panic s \<Longrightarrow> no_early_panic t"
proof (induction rule: log_step.induct)
  case (ls_emit i s p' m')
  have "m' = Panicked \<Longrightarrow> pl_chan_closed (ls_pipe s)"
    using ls_emit.hyps(2) by (auto elim: emit_stepE)
  then show ?case
    using ls_emit.prems set_update_subset_insert [of "ls_emitters s" i m']
    by (auto simp: no_early_panic_def accounted_def Let_def)
qed (auto simp: no_early_panic_def)

lemma log_reachable_panic: "log_reachable buffer s \<Longrightarrow> no_early_panic s"
proof (induction rule: log_reachable.induct)
  case lr_init
  show ?case by (simp add: no_early_panic_def log_init_def)
next
  case (lr_step s t)
  then show ?case using log_step_panic log_reachable_accounted by blast
qed

section \<open>Properties\<close>

definition sample_event :: log_event where
  "sample_event = \<lparr>ev_level = ''info'', ev_type = ''proxy'', ev_request_id = [], ev_client_ip = [],
     ev_host = [], ev_method = ''GET'', ev_path = ''/'', ev_status = 200, ev_message = ''ok''\<rparr>"

text \<open>
  C31. The pipeline loses no event unaccounted. In every interleaving of the emitting
  goroutines, the worker and \<open>Close\<close>, the total counter is (modulo its 64 bits) the number of
  events written, queued, dropped and in flight; the queue never exceeds its capacity; and an
  emitter panics only after the channel was closed.
\<close>

theorem pipeline_accounting:
  assumes "log_reachable buffer s"
  shows "st_total (pl_stats (ls_pipe s)) =
      of_nat (length (pl_calls (ls_pipe s)) + length (pl_queue (ls_pipe s)) + flights (ls_emitters s)) +
      st_dropped (pl_stats (ls_pipe s)) \<and>
    length (pl_queue (ls_pipe s)) \<le> buffer \<and>
    (ls_closer s \<noteq> ClosedChannel \<longrightarrow> Panicked \<notin> set (ls_emitters s))"
  using log_reachable_accounted [OF assms] log_reachable_capacity [OF assms] log_reachable_panic [OF assms]
  by (auto simp: accounted_def no_early_panic_def Let_def)

lemma reach_one_emitted:
  "log_reachable 1 \<lparr>ls_pipe = new_pipeline 1, ls_emitters = [Starting sample_event], ls_closer = NotClosing\<rparr>"
  using lr_step [OF lr_init ls_request [of "log_init 1" sample_event]] by (simp add: log_init_def)

theorem pipeline_accounting_witness:
  "st_total (pl_stats (new_pipeline 1)) = 0 \<and>
   Panicked \<notin> set [Starting sample_event]"
  using pipeline_accounting [OF reach_one_emitted] by (simp add: new_pipeline_def flights_def)

text \<open>
  \<open>Close\<close> can make a request panic: an emitter that has seen the pipeline open sends after
  another goroutine has closed the channel, a state that is reached from the start.
\<close>

theorem close_races_with_emit:
  "\<exists>s. log_reachable 1 s \<and> Panicked \<in> set (ls_emitters s)"
proof -
  let ?p0 = "new_pipeline 1"
  let ?p1 = "count_type sample_event ?p0"
  let ?p2 = "count_total ?p1"
  let ?st = "\<lambda>p m c. \<lparr>ls_pipe = p, ls_emitters = [m], ls_closer = c\<rparr>"
  have step: "log_reachable 1 (?st p' m' c)"
    if "log_reachable 1 (?st p m c)" "emit_step p m p' m'" for p m c p' m'
    using lr_step [OF that(1) ls_emit [of 0 "?st p m c" p' m']] that(2) by simp
  have a: "log_reachable 1 (?st ?p0 (Checked sample_event) NotClosing)"
    by (rule step [OF reach_one_emitted], rule emit_open) (simp add: new_pipeline_def)
  have b: "log_reachable 1 (?st ?p1 (Typed sample_event) NotClosing)" by (rule step [OF a], rule emit_type)
  have c: "log_reachable 1 (?st ?p2 (Counted sample_event) NotClosing)" by (rule step [OF b], rule emit_total)
  have d: "log_reachable 1 (?st (?p2\<lparr>pl_closed := True\<rparr>) (Counted sample_event) Swapped)"
    using lr_step [OF c ls_swap] by (simp add: new_pipeline_def count_type_def count_total_def Let_def)
  have e: "log_reachable 1 (?st (?p2\<lparr>pl_closed := True, pl_chan_closed := True\<rparr>) (Counted sample_event) ClosedChannel)"
    using lr_step [OF d ls_close] by simp
  have "log_reachable 1 (?st (?p2\<lparr>pl_closed := True, pl_chan_closed := True\<rparr>) Panicked ClosedChannel)"
    by (rule step [OF e], rule emit_panic) simp
  then show ?thesis by force
qed

definition level_names :: "string list" where
  "level_names = [''debug'', ''info'', ''warn'', ''warning'', ''error'', ''dpanic'', ''panic'', ''fatal'']"

lemma parse_level_Inr_iff: "(\<exists>l. parse_level t = Inr l) \<longleftrightarrow> to_lower (trim_space t) \<in> set level_names"
  by (auto simp: parse_level_def level_names_def Let_def)

text \<open>
  Levels: a text that names no level is rejected and leaves the level alone, and one that
  names a level, in any case and with surrounding space, is accepted.
\<close>

theorem set_level_accepts:
  "(snd (set_level t rt) = None \<longleftrightarrow> to_lower (trim_space t) \<in> set level_names) \<and>
   (if to_lower (trim_space t) \<in> set level_names
    then parse_level t = Inr (rt_level (fst (set_level t rt)))
    else fst (set_level t rt) = rt \<and> snd (set_level t rt) = Some (UnsupportedLevel t))"
proof (cases "parse_level t")
  case (Inr l)
  then show ?thesis using parse_level_Inr_iff [of t] by (auto simp: set_level_def)
next
  case (Inl e)
  then have "to_lower (trim_space t) \<notin> set level_names" "e = UnsupportedLevel t"
    using parse_level_Inr_iff [of t] by (auto simp: parse_level_def Let_def split: if_splits)
  with Inl show ?thesis by (simp add: set_level_def)
qed

end
