(* ===== verification/Gateway.thy ===== *)
theory Gateway
  imports SiteCDN RoutingProps Logging
begin

text \<open>
  The data plane (\<open>internal/gateway/handler.go\<close>): finding the client address behind trusted
  proxies, the access decision by site or by the global whitelist, and the whole of
  \<open>ServeHTTP\<close> as a step of the state it works on: the manager, the log pipeline and the
  traffic log of the sites. What the store answers, the upstream's answer and the clock are
  arguments. Of the block page only what is filled into it is kept.
\<close>

record http_request =
  rq_host :: string
  rq_remote_addr :: string
  rq_xff :: string
  rq_real_ip :: string
  rq_method :: string
  rq_path :: string
  rq_uri :: string
  rq_tls :: bool

section \<open>Client addresses\<close>

definition gw_normalize_host :: "string \<Rightarrow> string" where
  "gw_normalize_host raw = before (CHR '':'') (trim_space (to_lower raw))"

definition parse_ip_token :: "string \<Rightarrow> ip_addr" where
  "parse_ip_token raw =
     (let v = trim_space raw in
      if v = [] then ipv4_unspecified
      else
        (case parse_addr v of
           Some ip \<Rightarrow> ip_unmap ip
         | None \<Rightarrow>
             (case split_host_port v of
                None \<Rightarrow> ipv4_unspecified
              | Some (host, port) \<Rightarrow>
                  (case parse_addr (trim_space host) of
                     Some ip \<Rightarrow> ip_unmap ip | None \<Rightarrow> ipv4_unspecified))))"

definition is_trusted_proxy_ip :: "ip_addr \<Rightarrow> string list \<Rightarrow> bool" where
  "is_trusted_proxy_ip ip cidrs =
     list_ex (\<lambda>c. case parse_prefix (trim_space c) of
        None \<Rightarrow> False | Some p \<Rightarrow> prefix_contains p ip) cidrs"

definition parse_forwarded_for_ips :: "string \<Rightarrow> ip_addr list" where
  "parse_forwarded_for_ips raw =
     (if trim_space raw = [] then []
      else filter (\<lambda>ip. ip \<noteq> ipv4_unspecified) (map parse_ip_token (split_on (CHR '','') raw)))"

definition parse_client_ip :: "http_request \<Rightarrow> string list \<Rightarrow> ip_addr" where
  "parse_client_ip r trusted =
     (let remote = parse_ip_token (rq_remote_addr r) in
      if remote = ipv4_unspecified then remote
      else if \<not> is_trusted_proxy_ip remote trusted then remote
      else
        let xff = parse_forwarded_for_ips (rq_xff r) in
        if xff \<noteq> [] then
          (case find (\<lambda>ip. \<not> is_trusted_proxy_ip ip trusted) (rev xff) of
             Some ip \<Rightarrow> ip | None \<Rightarrow> hd xff)
        else
          let real = parse_ip_token (rq_real_ip r) in
          if real \<noteq> ipv4_unspecified then real else remote)"

definition append_x_forwarded_for :: "string \<Rightarrow> string \<Rightarrow> string" where
  "append_x_forwarded_for original ip = (if original = [] then ip else original @ '', '' @ ip)"

section \<open>The access decision\<close>

text \<open>What the store says of a host: the site's identifier and its configuration.\<close>

record site_view =
  sv_site_id :: "string option"
  sv_config :: "config option"

definition max_staleness_of :: "config \<Rightarrow> string \<Rightarrow> duration" where
  "max_staleness_of cfg provider =
     (case cdn_provider_settings (security cfg) of
        None \<Rightarrow> 3 * hour
      | Some m \<Rightarrow>
          (case map_get m provider of
             None \<Rightarrow> 3 * hour
           | Some st \<Rightarrow>
               if max_staleness_seconds st > 0 then wrap64 (max_staleness_seconds st * second)
               else
                 let interval = (if refresh_interval_seconds st > 0
                                 then wrap64 (refresh_interval_seconds st * second) else hour)
                 in wrap64 (interval * 3)))"

definition in_site_cidrs :: "config \<Rightarrow> ip_addr \<Rightarrow> bool" where
  "in_site_cidrs cfg ip =
     list_ex (\<lambda>c. case parse_prefix c of None \<Rightarrow> False | Some p \<Rightarrow> prefix_contains p ip)
       (allowed_cidrs (security cfg))"

definition has_cdn_rules :: "config \<Rightarrow> bool" where
  "has_cdn_rules cfg \<longleftrightarrow> allowed_cdn_providers (security cfg) \<noteq> [] \<and>
     to_lower (trim_space (origin_protection_mode (security cfg))) \<noteq> ''disabled''"

definition has_cidr_rules :: "config \<Rightarrow> bool" where
  "has_cidr_rules cfg \<longleftrightarrow> allowed_cidrs (security cfg) \<noteq> []"

definition site_decision ::
  "manager \<Rightarrow> string \<Rightarrow> config \<Rightarrow> ip_addr \<Rightarrow> gotime \<Rightarrow> bool \<times> string" where
  "site_decision m site_id cfg ip now =
     (if \<not> has_cdn_rules cfg \<and> \<not> has_cidr_rules cfg then (True, [])
      else
        let (allowed1, reason1) =
              (if has_cdn_rules cfg then
                 (if site_id \<noteq> [] \<and>
                     is_ip_allowed_by_site_providers m site_id ip (allowed_cdn_providers (security cfg))
                       (Some (max_staleness_of cfg)) now
                  then (True, []) else (False, ''cdn source check failed''))
               else (False, []))
        in if \<not> allowed1 \<and> has_cidr_rules cfg then
             (if in_site_cidrs cfg ip then (True, reason1)
              else (False, if reason1 \<noteq> [] then ''both cdn and ip whitelist check failed''
                           else ''ip whitelist check failed''))
           else (allowed1, reason1))"

definition access_decision ::
  "manager \<Rightarrow> site_view \<Rightarrow> ip_addr \<Rightarrow> gotime \<Rightarrow> bool \<times> string" where
  "access_decision m site ip now =
     (case sv_config site of
        Some cfg \<Rightarrow>
          site_decision m (case sv_site_id site of None \<Rightarrow> [] | Some i \<Rightarrow> i) cfg ip now
      | None \<Rightarrow>
          if is_ip_allowed m ip then (True, []) else (False, ''global ip whitelist check failed''))"

definition trusted_proxies :: "manager \<Rightarrow> site_view \<Rightarrow> string list" where
  "trusted_proxies m site =
     (case sv_config site of
        Some cfg \<Rightarrow>
          if trusted_proxy_cidrs (security cfg) \<noteq> [] then trusted_proxy_cidrs (security cfg)
          else trusted_proxy_cidrs (security (current_config m))
      | None \<Rightarrow> trusted_proxy_cidrs (security (current_config m)))"

section \<open>Serving a request\<close>

text \<open>The request sent upstream, as the director leaves it.\<close>

record forwarded =
  fw_target :: url
  fw_host :: string
  fw_real_ip :: ip_addr
  fw_request_id :: string
  fw_xff :: string
  fw_proto :: string

datatype response =
    Forbidden string ip_addr
  | BadGateway
  | Redirected string
  | Proxied forwarded int

record gateway =
  gw_manager :: manager
  gw_logs :: "pipeline option"
  gw_traffic :: "(string \<times> log_event) list"

definition emit_log :: "site_view \<Rightarrow> log_event \<Rightarrow> gateway \<Rightarrow> gateway" where
  "emit_log site e g =
     g\<lparr>gw_logs := map_option (emit e) (gw_logs g),
       gw_traffic := (case sv_site_id site of
          None \<Rightarrow> gw_traffic g
        | Some i \<Rightarrow> if i = [] then gw_traffic g else gw_traffic g @ [(i, e)])\<rparr>"

definition gw_event ::
  "http_request \<Rightarrow> string \<Rightarrow> string \<Rightarrow> string \<Rightarrow> string \<Rightarrow> string \<Rightarrow> int \<Rightarrow> string \<Rightarrow> log_event" where
  "gw_event r req_id client host level typ status msg =
     \<lparr>ev_level = level, ev_type = typ, ev_request_id = req_id, ev_client_ip = client, ev_host = host,
      ev_method = rq_method r, ev_path = rq_path r, ev_status = status, ev_message = msg\<rparr>"

definition forward ::
  "(ip_addr \<Rightarrow> string) \<Rightarrow> http_request \<Rightarrow> string \<Rightarrow> ip_addr \<Rightarrow> ip_addr \<Rightarrow> route_match \<Rightarrow> forwarded" where
  "forward ip_text r req_id client peer route =
     \<lparr>fw_target = rm_target route, fw_host = rq_host r, fw_real_ip = client, fw_request_id = req_id,
      fw_xff = append_x_forwarded_for (rq_xff r) (ip_text peer),
      fw_proto = (if rq_tls r then ''https'' else ''http'')\<rparr>"

text \<open>What is left to do for a request that is let through.\<close>

definition serve_route ::
  "(ip_addr \<Rightarrow> string) \<Rightarrow> site_view \<Rightarrow> (forwarded \<Rightarrow> int option) \<Rightarrow> string \<Rightarrow> http_request \<Rightarrow>
   ip_addr \<Rightarrow> ip_addr \<Rightarrow> string \<Rightarrow> gateway \<Rightarrow> gateway \<times> response" where
  "serve_route ip_text site upstream req_id r client peer host g =
     (let event = gw_event r req_id (ip_text client) host in
      case resolve_route host (gw_manager g) of
        (m2, None) \<Rightarrow>
          (emit_log site (event ''error'' ''proxy'' 502 ''route not found'') (g\<lparr>gw_manager := m2\<rparr>),
           BadGateway)
      | (m2, Some route) \<Rightarrow>
          if rm_force_https route \<and> \<not> rq_tls r then
            (emit_log site (event ''info'' ''proxy'' 301 ''http redirected to https'')
               (g\<lparr>gw_manager := m2\<rparr>),
             Redirected (''https://'' @ host @ rq_uri r))
          else
            let fwd = forward ip_text r req_id client peer route;
                status = (case upstream fwd of None \<Rightarrow> 502 | Some s \<Rightarrow> s)
            in (emit_log site (event ''info'' ''proxy'' status ''request proxied'')
                  (g\<lparr>gw_manager := m2\<rparr>),
                Proxied fwd status))"

definition denial_message :: "bool \<Rightarrow> bool \<Rightarrow> string \<Rightarrow> string" where
  "denial_message allowed authorized reason =
     (let reason1 = (if \<not> authorized \<and> allowed then ''host not authorized'' else reason) in
      if reason1 \<noteq> [] then reason1 else ''source check failed'')"

definition peer_of :: "http_request \<Rightarrow> ip_addr \<Rightarrow> ip_addr" where
  "peer_of r client =
     (let peer = parse_ip_token (rq_remote_addr r) in
      if peer = ipv4_unspecified then client else peer)"

definition serve_http ::
  "(ip_addr \<Rightarrow> string) \<Rightarrow> (string \<Rightarrow> site_view) \<Rightarrow> (forwarded \<Rightarrow> int option) \<Rightarrow>
   string \<Rightarrow> gotime \<Rightarrow> http_request \<Rightarrow> gateway \<Rightarrow> gateway \<times> response" where
  "serve_http ip_text sites upstream req_id now r g =
     (let host = gw_normalize_host (rq_host r);
          site = sites host;
          client = parse_client_ip r (trusted_proxies (gw_manager g) site);
          (allowed, reason) = access_decision (gw_manager g) site client now;
          (m1, authorized) = is_host_authorized host (gw_manager g);
          g1 = g\<lparr>gw_manager := m1\<rparr>
      in if \<not> allowed \<or> \<not> authorized then
           (emit_log site (gw_event r req_id (ip_text client) host ''warn'' ''blocked'' 403
              (denial_message allowed authorized reason)) g1,
            Forbidden req_id client)
         else serve_route ip_text site upstream req_id r client (peer_of r client) host g1)"

end
