(* ===== verification/GatewayProps.thy ===== *)
theory GatewayProps
  imports Gateway
begin

text \<open>
  What the gateway guarantees of each request: which address it takes for the client's, when
  a request is let through, what it answers and logs, and what repeated requests do to the
  pools behind the hosts.
\<close>

section \<open>The client's address\<close>

lemma split_on_append: "split_on c (a @ c # b) = split_on c a @ split_on c b"
  by (induction a) (auto split: list.splits)

lemma parse_ip_token_blank: "trim_space s = [] \<Longrightarrow> parse_ip_token s = ipv4_unspecified"
  by (simp add: parse_ip_token_def)

lemma trim_by_Nil_iff: "trim_by P s = [] \<longleftrightarrow> list_all P s"
proof
  assume "trim_by P s = []"
  then have "dropWhile P (rev (dropWhile P s)) = []" by (simp add: trim_by_def)
  then have "\<forall>x\<in>set (dropWhile P s). P x" by (simp add: dropWhile_eq_Nil_conv)
  then have "dropWhile P s = []" using hd_dropWhile [of P s] by (metis list.set_sel(1))
  then show "list_all P s" by (simp add: dropWhile_eq_Nil_conv list_all_iff)
next
  assume "list_all P s"
  then have none: "dropWhile P s = []" by (simp add: dropWhile_eq_Nil_conv list_all_iff)
  show "trim_by P s = []" unfolding trim_by_def none by simp
qed

lemma not_space_comma: "\<not> is_space (CHR '','')"
  by (simp add: is_space_def)

lemma forwarded_for_blank: "trim_space s = [] \<Longrightarrow>
  filter (\<lambda>ip. ip \<noteq> ipv4_unspecified) (map parse_ip_token (split_on (CHR '','') s)) = []"
proof -
  assume blank: "trim_space s = []"
  then have "CHR '','' \<notin> set s"
    using not_space_comma by (auto simp: trim_space_def trim_by_Nil_iff list_all_iff)
  then show ?thesis by (simp add: split_on_no_sep parse_ip_token_blank [OF blank])
qed

lemma parse_forwarded_for_eq:
  "parse_forwarded_for_ips s =
     filter (\<lambda>ip. ip \<noteq> ipv4_unspecified) (map parse_ip_token (split_on (CHR '','') s))"
  using forwarded_for_blank [of s] by (simp add: parse_forwarded_for_ips_def)

lemma parse_forwarded_for_append:
  "parse_forwarded_for_ips (a @ CHR '','' # b) = parse_forwarded_for_ips a @ parse_forwarded_for_ips b"
  by (simp add: parse_forwarded_for_eq split_on_append)

lemma find_rev_append:
  "find P (rev ys) = Some x \<Longrightarrow> find P (rev (xs @ ys)) = Some x"
proof -
  have "find P (as @ bs) = (case find P as of None \<Rightarrow> find P bs | Some x \<Rightarrow> Some x)" for as bs
    by (induction as) simp_all
  then show "find P (rev ys) = Some x \<Longrightarrow> find P (rev (xs @ ys)) = Some x" by simp
qed

lemma find_in_set: "find P xs = Some x \<Longrightarrow> x \<in> set xs"
  by (auto simp: find_Some_iff)

definition sample_request :: http_request where
  "sample_request = \<lparr>rq_host = ''App.x.org:80'', rq_remote_addr = ''10.0.0.9:5000'', rq_xff = ''8.8.8.8, 10.0.0.7'',
     rq_real_ip = [], rq_method = ''GET'', rq_path = ''/'', rq_uri = ''/?q=1'', rq_tls = True\<rparr>"

text \<open>
  C27. A client cannot forge its address. A peer that is not a trusted proxy is taken at its
  own address whatever its headers say; and behind trusted proxies, whatever a client puts
  in front of an \<open>X-Forwarded-For\<close> list in which the proxies recorded an untrusted address
  leaves the result as it was.
\<close>

theorem client_ip_not_forgeable:
  "(\<not> is_trusted_proxy_ip (parse_ip_token (rq_remote_addr r)) trusted \<longrightarrow>
      parse_client_ip r trusted = parse_ip_token (rq_remote_addr r)) \<and>
   (list_ex (\<lambda>ip. \<not> is_trusted_proxy_ip ip trusted) (parse_forwarded_for_ips (rq_xff r)) \<longrightarrow>
      parse_client_ip (r\<lparr>rq_xff := forged @ CHR '','' # rq_xff r\<rparr>) trusted = parse_client_ip r trusted)"
proof -
  let ?P = "\<lambda>ip. \<not> is_trusted_proxy_ip ip trusted"
  have "parse_client_ip (r\<lparr>rq_xff := forged @ CHR '','' # rq_xff r\<rparr>) trusted = parse_client_ip r trusted"
    if some: "list_ex ?P (parse_forwarded_for_ips (rq_xff r))"
  proof -
    obtain ip where ip: "find ?P (rev (parse_forwarded_for_ips (rq_xff r))) = Some ip"
      using some by (cases "find ?P (rev (parse_forwarded_for_ips (rq_xff r)))")
        (auto simp: find_None_iff list_ex_iff)
    have "parse_forwarded_for_ips (rq_xff r) \<noteq> []" using ip by auto
    with find_rev_append [OF ip] ip show ?thesis
      by (simp add: parse_client_ip_def parse_forwarded_for_append Let_def)
  qed
  then show ?thesis by (simp add: parse_client_ip_def Let_def)
qed

theorem client_ip_not_forgeable_witness:
  "parse_client_ip (sample_request\<lparr>rq_xff := ''1.1.1.1'' @ CHR '','' # rq_xff sample_request\<rparr>) [''10.0.0.0/8''] =
     IP4 0x08080808 \<and>
   parse_client_ip sample_request [''192.168.0.0/16''] = IP4 0x0A000009"
proof -
  have a: "list_ex (\<lambda>ip. \<not> is_trusted_proxy_ip ip [''10.0.0.0/8'']) (parse_forwarded_for_ips (rq_xff sample_request))"
    by code_simp
  have b: "parse_client_ip sample_request [''10.0.0.0/8''] = IP4 0x08080808" by code_simp
  have c: "\<not> is_trusted_proxy_ip (parse_ip_token (rq_remote_addr sample_request)) [''192.168.0.0/16'']" by code_simp
  have d: "parse_ip_token (rq_remote_addr sample_request) = IP4 0x0A000009" by code_simp
  show ?thesis
    using client_ip_not_forgeable [of sample_request "[''10.0.0.0/8'']" "''1.1.1.1''"]
      client_ip_not_forgeable [of sample_request "[''192.168.0.0/16'']" "[]"] a b c d by simp
qed

text \<open>
  The address that is found is one the gateway was told: the peer's, one of the
  \<open>X-Forwarded-For\<close> list or \<open>X-Real-IP\<close>; and the list is read only when the peer is a
  trusted proxy.
\<close>

theorem client_ip_source:
  "parse_client_ip r trusted = parse_ip_token (rq_remote_addr r) \<or>
   (is_trusted_proxy_ip (parse_ip_token (rq_remote_addr r)) trusted \<and>
    (parse_client_ip r trusted \<in> set (parse_forwarded_for_ips (rq_xff r)) \<or>
     (parse_forwarded_for_ips (rq_xff r) = [] \<and> parse_client_ip r trusted = parse_ip_token (rq_real_ip r))))"
proof (cases "find (\<lambda>ip. \<not> is_trusted_proxy_ip ip trusted) (rev (parse_forwarded_for_ips (rq_xff r)))")
  case None
  then show ?thesis by (simp add: parse_client_ip_def Let_def)
next
  case (Some ip)
  then have "ip \<in> set (parse_forwarded_for_ips (rq_xff r))" using find_in_set by fastforce
  with Some show ?thesis by (auto simp: parse_client_ip_def Let_def)
qed

section \<open>Outcomes\<close>

text \<open>The parts of a request's treatment, named.\<close>

definition site_of :: "(string \<Rightarrow> site_view) \<Rightarrow> http_request \<Rightarrow> site_view" where
  "site_of sites r = sites (gw_normalize_host (rq_host r))"

definition client_of :: "(string \<Rightarrow> site_view) \<Rightarrow> http_request \<Rightarrow> gateway \<Rightarrow> ip_addr" where
  "client_of sites r g =
     parse_client_ip r (trusted_proxies (gw_manager g) (site_of sites r))"

definition admitted :: "(string \<Rightarrow> site_view) \<Rightarrow> gotime \<Rightarrow> http_request \<Rightarrow> gateway \<Rightarrow> bool" where
  "admitted sites now r g \<longleftrightarrow>
     fst (access_decision (gw_manager g) (site_of sites r) (client_of sites r g) now) \<and>
     manager_knows (gw_manager g) (gw_normalize_host (rq_host r))"

fun response_status :: "response \<Rightarrow> int" where
  "response_status (Forbidden _ _) = 403"
| "response_status BadGateway = 502"
| "response_status (Redirected _) = 301"
| "response_status (Proxied _ s) = s"

lemma authorized_eq: "is_host_authorized h m = (fst (resolve_route h m), snd (resolve_route h m) \<noteq> None)"
  by (simp add: is_host_authorized_def split: prod.split)

definition after_check :: "http_request \<Rightarrow> gateway \<Rightarrow> gateway" where
  "after_check r g = g\<lparr>gw_manager := fst (resolve_route (gw_normalize_host (rq_host r)) (gw_manager g))\<rparr>"

lemma serve_http_eq:
  assumes "manager_inv (gw_manager g)"
  shows "\<exists>msg. serve_http ip_text sites upstream req_id now r g =
    (if admitted sites now r g then
       serve_route ip_text (site_of sites r) upstream req_id r (client_of sites r g)
         (peer_of r (client_of sites r g)) (gw_normalize_host (rq_host r)) (after_check r g)
     else (emit_log (site_of sites r) (gw_event r req_id (ip_text (client_of sites r g))
             (gw_normalize_host (rq_host r)) ''warn'' ''blocked'' 403 msg) (after_check r g),
           Forbidden req_id (client_of sites r g)))"
proof -
  obtain al reason where acc: "access_decision (gw_manager g) (site_of sites r) (client_of sites r g) now = (al, reason)"
    by fastforce
  have auth: "(snd (resolve_route (gw_normalize_host (rq_host r)) (gw_manager g)) \<noteq> None) =
      manager_knows (gw_manager g) (gw_normalize_host (rq_host r))"
    by (rule mgr_router.found_iff [OF assms])
  show ?thesis
    unfolding serve_http_def Let_def client_of_def [symmetric] site_of_def [symmetric] acc authorized_eq auth
      prod.case after_check_def [symmetric] admitted_def fst_conv
    by auto
qed

lemma after_check_route:
  assumes "manager_inv (gw_manager g)" "admitted sites now r g"
  shows "snd (resolve_route (gw_normalize_host (rq_host r)) (gw_manager (after_check r g))) \<noteq> None"
proof -
  have "gw_manager (after_check r g) = fst (resolve_route (gw_normalize_host (rq_host r)) (gw_manager g))"
    by (simp add: after_check_def)
  then show ?thesis
    using mgr_router.resolve_again [OF assms(1)] mgr_router.found_iff [OF assms(1)] assms(2)
    by (simp only: admitted_def)
qed

lemma serve_route_found:
  assumes "snd (resolve_route host (gw_manager g)) = Some route"
  shows "serve_route ip_text site upstream req_id r client peer host g =
    (let g2 = g\<lparr>gw_manager := fst (resolve_route host (gw_manager g))\<rparr>;
         event = gw_event r req_id (ip_text client) host;
         fwd = forward ip_text r req_id client peer route;
         status = (case upstream fwd of None \<Rightarrow> 502 | Some s \<Rightarrow> s)
     in if rm_force_https route \<and> \<not> rq_tls r
        then (emit_log site (event ''info'' ''proxy'' 301 ''http redirected to https'') g2,
              Redirected (''https://'' @ host @ rq_uri r))
        else (emit_log site (event ''info'' ''proxy'' status ''request proxied'') g2, Proxied fwd status))"
proof -
  obtain m2 where "resolve_route host (gw_manager g) = (m2, Some route)"
    using assms by (cases "resolve_route host (gw_manager g)") simp
  then show ?thesis by (simp add: serve_route_def Let_def)
qed

text \<open>
  The three ways a request ends, with the state left behind, from a manager whose pools are
  well formed.
\<close>

lemma serve_http_ends:
  fixes ip_text sites upstream req_id now r g
  defines "host \<equiv> gw_normalize_host (rq_host r)" and "client \<equiv> client_of sites r g"
  defines "g2 \<equiv> g\<lparr>gw_manager := fst (resolve_route host (fst (resolve_route host (gw_manager g))))\<rparr>"
  assumes "manager_inv (gw_manager g)"
  shows "(\<exists>msg. \<not> admitted sites now r g \<and> serve_http ip_text sites upstream req_id now r g =
      (emit_log (site_of sites r) (gw_event r req_id (ip_text client) host ''warn'' ''blocked'' 403 msg)
         (after_check r g), Forbidden req_id client)) \<or>
    (\<exists>route. admitted sites now r g \<and>
       snd (resolve_route host (fst (resolve_route host (gw_manager g)))) = Some route \<and>
       (if rm_force_https route \<and> \<not> rq_tls r then
          serve_http ip_text sites upstream req_id now r g =
            (emit_log (site_of sites r) (gw_event r req_id (ip_text client) host ''info'' ''proxy'' 301
               ''http redirected to https'') g2, Redirected (''https://'' @ host @ rq_uri r))
        else
          (\<exists>status. (case upstream (forward ip_text r req_id client (peer_of r client) route) of
               None \<Rightarrow> 502 | Some s \<Rightarrow> s) = status \<and>
             serve_http ip_text sites upstream req_id now r g =
               (emit_log (site_of sites r) (gw_event r req_id (ip_text client) host ''info'' ''proxy'' status
                  ''request proxied'') g2,
                Proxied (forward ip_text r req_id client (peer_of r client) route) status))))"
proof (cases "admitted sites now r g")
  case False
  then show ?thesis
    using serve_http_eq [OF assms(4), of ip_text sites upstream req_id now r]
    unfolding host_def client_def by auto
next
  case True
  have m1: "gw_manager (after_check r g) = fst (resolve_route host (gw_manager g))"
    by (simp add: after_check_def host_def)
  obtain route where route: "snd (resolve_route host (gw_manager (after_check r g))) = Some route"
    using after_check_route [OF assms(4) True] by (auto simp: host_def)
  have g2: "(after_check r g)\<lparr>gw_manager := fst (resolve_route host (fst (resolve_route host (gw_manager g))))\<rparr> = g2"
    by (simp add: after_check_def g2_def host_def)
  have eq: "serve_http ip_text sites upstream req_id now r g =
      serve_route ip_text (site_of sites r) upstream req_id r client (peer_of r client) host (after_check r g)"
    using serve_http_eq [OF assms(4), of ip_text sites upstream req_id now r] True
    by (simp add: host_def client_def)
  show ?thesis
    using serve_route_found [OF route, of ip_text "site_of sites r" upstream req_id r client "peer_of r client"]
      route True
    unfolding eq Let_def m1 g2 by auto
qed

section \<open>Properties of serving\<close>


text \<open>
  Every request leaves one event, on the pipeline when there is one and in the traffic log
  of its site when it has one, with the status that was answered, under the normalised host
  and of the type \<open>blocked\<close> exactly when it was refused.
\<close>

theorem serve_logs_once:
  assumes "manager_inv (gw_manager g)"
  shows "\<exists>e. fst (serve_http ip_text sites upstream req_id now r g) =
      emit_log (site_of sites r) e
        (g\<lparr>gw_manager := gw_manager (fst (serve_http ip_text sites upstream req_id now r g))\<rparr>) \<and>
    ev_status e = response_status (snd (serve_http ip_text sites upstream req_id now r g)) \<and>
    ev_host e = gw_normalize_host (rq_host r) \<and> ev_request_id e = req_id \<and>
    (ev_type e = ''blocked'' \<longleftrightarrow> \<not> admitted sites now r g)"
proof -
  have mgr: "gw_manager (emit_log s e x) = gw_manager x" for s e x by (simp add: emit_log_def)
  show ?thesis
    using serve_http_ends [OF assms, of sites now r ip_text upstream req_id]
    by (fastforce simp: mgr gw_event_def after_check_def split: if_splits)
qed

lemma resolve_route_fields:
  "site_cdn_snapshots (fst (resolve_route h m)) = site_cdn_snapshots m"
  "current_config (fst (resolve_route h m)) = current_config m"
  by (simp_all add: fst_resolve_route current_config_def snapshot_resolve_frame split: option.split)

lemma resolve_route_decisions:
  assumes "manager_inv m"
  shows "access_decision (fst (resolve_route h m)) = access_decision m"
    "trusted_proxies (fst (resolve_route h m)) = trusted_proxies m"
    "manager_knows (fst (resolve_route h m)) = manager_knows m"
    "manager_inv (fst (resolve_route h m))"
proof -
  have site: "is_ip_allowed_by_site_providers (fst (resolve_route h m)) = is_ip_allowed_by_site_providers m"
    by (intro ext) (simp add: site_allowed_iff site_snapshots_def resolve_route_fields)
  have "site_decision (fst (resolve_route h m)) = site_decision m"
    by (intro ext) (simp add: site_decision_def site)
  then show "access_decision (fst (resolve_route h m)) = access_decision m"
    by (intro ext) (simp add: access_decision_def mgr_router.resolve_allowed cong: option.case_cong)
  show "trusted_proxies (fst (resolve_route h m)) = trusted_proxies m"
    by (intro ext) (simp add: trusted_proxies_def resolve_route_fields split: option.split)
qed (rule mgr_router.resolve_known [OF assms] mgr_router.resolve_inv [OF assms])+

lemma served_manager:
  assumes "manager_inv (gw_manager g)"
  obtains "gw_manager (fst (serve_http ip_text sites upstream req_id now r g)) =
      fst (resolve_route (gw_normalize_host (rq_host r)) (gw_manager g))"
  | "gw_manager (fst (serve_http ip_text sites upstream req_id now r g)) =
      fst (resolve_route (gw_normalize_host (rq_host r))
        (fst (resolve_route (gw_normalize_host (rq_host r)) (gw_manager g))))"
proof -
  have mgr: "gw_manager (emit_log s e x) = gw_manager x" for s e x by (simp add: emit_log_def)
  show thesis
    using serve_http_ends [OF assms, of sites now r ip_text upstream req_id] that
    by (auto simp: mgr after_check_def split: if_splits)
qed

text \<open>
  Requests do not disturb each other's access: serving one keeps the pools well formed and
  changes neither whether any other request is let through nor which address it is taken to
  come from.
\<close>

theorem serving_keeps_decisions:
  assumes "manager_inv (gw_manager g)"
  shows "let g' = fst (serve_http ip_text sites upstream req_id now r g) in
    manager_inv (gw_manager g') \<and> client_of sites r' g' = client_of sites r' g \<and>
    admitted sites now' r' g' = admitted sites now' r' g"
proof -
  note step = resolve_route_decisions [OF assms]
  note step2 = resolve_route_decisions [OF step(4)]
  show ?thesis
    by (rule served_manager [OF assms, where sites = sites and r = r and ip_text = ip_text and
          upstream = upstream and req_id = req_id and now = now])
      (simp_all add: Let_def client_of_def admitted_def step step2)
qed

definition no_sites :: "string \<Rightarrow> site_view" where
  "no_sites h = \<lparr>sv_site_id = None, sv_config = None\<rparr>"

definition paired_gateway :: gateway where
  "paired_gateway = \<lparr>gw_manager = sample_manager\<lparr>mgr_data := Some (paired_snapshot\<lparr>allow_all := True,
     lb_exact_routes := [(''app.x.org'', \<lparr>lri_domain = ''app.x.org'', lri_force_https = False,
       lri_pool_id = ''p'', lri_fallback_pool_id = []\<rparr>)]\<rparr>)\<rparr>,
     gw_logs = None, gw_traffic = []\<rparr>"


theorem serve_logs_once_witness:
  "\<exists>e. ev_status e = 200 \<and> ev_type e \<noteq> ''blocked'' \<and>
     fst (serve_http (\<lambda>_. []) no_sites (\<lambda>_. Some 200) ''id'' 0 sample_request paired_gateway) =
       emit_log (site_of no_sites sample_request) e (paired_gateway\<lparr>gw_manager :=
         gw_manager (fst (serve_http (\<lambda>_. []) no_sites (\<lambda>_. Some 200) ''id'' 0 sample_request paired_gateway))\<rparr>)"
proof -
  have inv: "manager_inv (gw_manager paired_gateway)" by code_simp
  have st: "response_status (snd (serve_http (\<lambda>_. []) no_sites (\<lambda>_. Some 200) ''id'' 0 sample_request paired_gateway)) = 200"
    by code_simp
  have adm: "admitted no_sites 0 sample_request paired_gateway" by code_simp
  show ?thesis
    using serve_logs_once [OF inv, where ip_text = "\<lambda>_. []" and sites = no_sites and upstream = "\<lambda>_. Some 200"
        and req_id = "''id''" and now = 0 and r = sample_request] st adm
    by auto
qed

theorem serving_keeps_decisions_witness:
  "admitted no_sites 5 sample_request
     (fst (serve_http (\<lambda>_. []) no_sites (\<lambda>_. Some 200) ''id'' 0 sample_request paired_gateway))"
proof -
  have inv: "manager_inv (gw_manager paired_gateway)" by code_simp
  have adm: "admitted no_sites 5 sample_request paired_gateway" by code_simp
  show ?thesis
    using serving_keeps_decisions [OF inv, where ip_text = "\<lambda>_. []" and sites = no_sites and
        upstream = "\<lambda>_. Some 200" and req_id = "''id''" and now = 0 and r = sample_request and
        r' = sample_request and now' = 5] adm
    by (simp add: Let_def)
qed

fun serve_all ::
  "(string \<Rightarrow> site_view) \<Rightarrow> (forwarded \<Rightarrow> int option) \<Rightarrow> http_request list \<Rightarrow> gateway \<Rightarrow> response list" where
  "serve_all sites upstream [] g = []"
| "serve_all sites upstream (r # rs) g =
     (case serve_http (\<lambda>_. []) sites upstream [] 0 r g of
        (g', resp) \<Rightarrow> resp # serve_all sites upstream rs g')"

definition target_of :: "response \<Rightarrow> string" where
  "target_of resp = (case resp of Proxied fwd _ \<Rightarrow> url_host (fw_target fwd) | _ \<Rightarrow> [])"

text \<open>
  Two nodes of equal weight behind a host are not balanced: of six requests, every one
  is proxied to the first node, since the authorization check already takes every other turn
  of the pool.
\<close>

theorem second_node_starves:
  "map target_of (serve_all no_sites (\<lambda>_. Some 200) (replicate 6 sample_request) paired_gateway) =
     replicate 6 ''a:1'' \<and>
   map cpn_target (cp_nodes (pool_spec sample_pair)) =
     [the (url_parse ''http://a:1''), the (url_parse ''http://b:2'')]"
  by code_simp

text \<open>
  C28. Who gets in. With a site configuration an address is let through exactly when the site
  has neither provider nor CIDR rules, or is on a fresh list of one of its providers, or is
  inside one of its CIDRs; the global whitelist has no say in it, so a site without rules is
  open to everybody. Only a host without a site configuration falls under the global list.
\<close>

theorem site_access_meaning:
  "fst (access_decision m site ip now) \<longleftrightarrow>
     (case sv_config site of
        None \<Rightarrow> is_ip_allowed m ip
      | Some cfg \<Rightarrow>
          (\<not> has_cdn_rules cfg \<and> \<not> has_cidr_rules cfg) \<or>
          (has_cdn_rules cfg \<and> (\<exists>i. sv_site_id site = Some i \<and> i \<noteq> [] \<and>
             is_ip_allowed_by_site_providers m i ip (allowed_cdn_providers (security cfg))
               (Some (max_staleness_of cfg)) now)) \<or>
          in_site_cidrs cfg ip)"
proof (cases "sv_config site")
  case (Some cfg)
  have "in_site_cidrs cfg ip \<Longrightarrow> has_cidr_rules cfg"
    by (auto simp: in_site_cidrs_def has_cidr_rules_def)
  with Some show ?thesis
    by (auto simp: access_decision_def site_decision_def Let_def split: option.splits if_splits)
qed (simp add: access_decision_def)

end
