(* ===== verification/KeyedTable.thy ===== *)
theory KeyedTable
  imports Prelude
begin

text \<open>
  The interface of a table of per-client state: an operation reads and writes the entry of
  the key it is called with and nothing else but a fixed configuration. What follows for a
  client, that the answers it gets do not depend on what other clients do, is proved here
  once for any such table.
\<close>

fun run_ops :: "('a \<Rightarrow> string \<Rightarrow> 't \<Rightarrow> 't \<times> 'r) \<Rightarrow> ('a \<times> string) list \<Rightarrow> 't \<Rightarrow> 't \<times> (string \<times> 'r) list" where
  "run_ops f [] t = (t, [])"
| "run_ops f ((a, k) # rest) t =
     (let (t1, r) = f a k t; (t2, rs) = run_ops f rest t1 in (t2, (k, r) # rs))"

definition answers_of :: "string \<Rightarrow> (string \<times> 'r) list \<Rightarrow> 'r list" where
  "answers_of k rs = map snd (filter (\<lambda>p. fst p = k) rs)"

lemma answers_of_simps [simp]:
  "answers_of k [] = []"
  "answers_of k ((k', r) # rs) = (if k' = k then r # answers_of k rs else answers_of k rs)"
  by (simp_all add: answers_of_def)

lemma snd_run_ops_Cons:
  "snd (run_ops f ((a, k) # rest) t) = (k, snd (f a k t)) # snd (run_ops f rest (fst (f a k t)))"
  by (simp add: Let_def split: prod.split)

lemma fst_run_ops_Cons:
  "fst (run_ops f ((a, k) # rest) t) = fst (run_ops f rest (fst (f a k t)))"
  by (simp add: Let_def split: prod.split)

locale keyed_table =
  fixes op :: "'a \<Rightarrow> string \<Rightarrow> 't \<Rightarrow> 't \<times> 'r"
    and entry :: "'t \<Rightarrow> string \<Rightarrow> 'e option"
    and conf :: "'t \<Rightarrow> 'c"
  assumes other_key: "k' \<noteq> k \<Longrightarrow> entry (fst (op a k t)) k' = entry t k'"
    and conf_kept: "conf (fst (op a k t)) = conf t"
    and answer_local: "entry t k = entry u k \<Longrightarrow> conf t = conf u \<Longrightarrow> snd (op a k t) = snd (op a k u)"
    and entry_local: "entry t k = entry u k \<Longrightarrow> conf t = conf u \<Longrightarrow>
      entry (fst (op a k t)) k = entry (fst (op a k u)) k"
begin

lemma run_ops_other:
  "list_all (\<lambda>(a, k'). k' \<noteq> k) ops \<Longrightarrow> entry (fst (run_ops op ops t)) k = entry t k"
proof (induction ops arbitrary: t)
  case (Cons p ops)
  obtain a k' where p: "p = (a, k')" by fastforce
  with Cons.prems have "k' \<noteq> k" by simp
  then have "entry (fst (op a k' t)) k = entry t k" by (intro other_key) simp
  moreover have "entry (fst (run_ops op ops (fst (op a k' t)))) k = entry (fst (op a k' t)) k"
    by (rule Cons.IH) (use Cons.prems in simp)
  ultimately show ?case unfolding p fst_run_ops_Cons by simp
qed simp

lemma run_ops_conf: "conf (fst (run_ops op ops t)) = conf t"
proof (induction ops arbitrary: t)
  case (Cons p ops)
  obtain a k' where p: "p = (a, k')" by fastforce
  show ?case unfolding p fst_run_ops_Cons using Cons [of "fst (op a k' t)"] by (simp add: conf_kept)
qed simp

lemma client_isolation:
  assumes "entry t k = entry u k" "conf t = conf u"
  shows "answers_of k (snd (run_ops op ops t)) =
    answers_of k (snd (run_ops op (filter (\<lambda>p. snd p = k) ops) u))"
  using assms
proof (induction ops arbitrary: t u)
  case (Cons p ops)
  obtain a k' where p: "p = (a, k')" by fastforce
  show ?case
  proof (cases "k' = k")
    case True
    have e: "entry (fst (op a k t)) k = entry (fst (op a k u)) k"
      by (rule entry_local [OF Cons.prems])
    have c: "conf (fst (op a k t)) = conf (fst (op a k u))"
      using Cons.prems(2) by (simp add: conf_kept)
    show ?thesis
      using Cons.IH [OF e c] answer_local [OF Cons.prems, of a]
      unfolding p True by (simp add: snd_run_ops_Cons del: run_ops.simps)
  next
    case False
    have "entry (fst (op a k' t)) k = entry t k" using False by (intro other_key) simp
    then have "entry (fst (op a k' t)) k = entry u k" using Cons.prems(1) by simp
    moreover have "conf (fst (op a k' t)) = conf u" using Cons.prems(2) by (simp add: conf_kept)
    ultimately show ?thesis
      using Cons.IH [of "fst (op a k' t)" u] False
      unfolding p by (simp add: snd_run_ops_Cons del: run_ops.simps)
  qed
qed simp

end

end
