(* ===== verification/AdminAuth.thy ===== *)
theory AdminAuth
  imports ManagerProps KeyedTable
begin

text \<open>
  How the control plane lets a client in (\<open>internal/admin\<close>: \<open>server.go\<close>,
  \<open>login_guard.go\<close>, \<open>auth_handlers.go\<close>): the key of a client, the fixed-window rate
  limiter, the bearer token, and the login with its guard against guessing. The clock and the
  verdict of the captcha service, a third-party package, are arguments.
\<close>

record admin_request =
  aq_method :: string
  aq_remote_addr :: string
  aq_xff :: string
  aq_real_ip :: string
  aq_authorization :: string
  aq_operator :: string

section \<open>Clients\<close>

definition client_key :: "admin_request \<Rightarrow> string" where
  "client_key r =
     (let xff = trim_space (aq_xff r); first = trim_space (hd (split_on (CHR '','') xff)) in
      if xff \<noteq> [] \<and> first \<noteq> [] then first
      else if trim_space (aq_real_ip r) \<noteq> [] then trim_space (aq_real_ip r)
      else
        (case split_host_port (aq_remote_addr r) of
           Some (host, _) \<Rightarrow>
             if host \<noteq> [] then host
             else if aq_remote_addr r \<noteq> [] then aq_remote_addr r else ''unknown''
         | None \<Rightarrow> if aq_remote_addr r \<noteq> [] then aq_remote_addr r else ''unknown''))"

definition operator_from_request :: "string option \<Rightarrow> admin_request option \<Rightarrow> string" where
  "operator_from_request authenticated req =
     (case req of
        None \<Rightarrow> ''unknown''
      | Some r \<Rightarrow>
          (case authenticated of
             Some operator \<Rightarrow>
               if trim_space operator \<noteq> [] then trim_space operator
               else if trim_space (aq_operator r) = [] then ''unknown'' else trim_space (aq_operator r)
           | None \<Rightarrow> if trim_space (aq_operator r) = [] then ''unknown'' else trim_space (aq_operator r)))"

definition parse_positive_int :: "string \<Rightarrow> int \<Rightarrow> int" where
  "parse_positive_int value fallback =
     (let t = trim_space value in
      if t = [] then fallback
      else (case atoi t of None \<Rightarrow> fallback | Some n \<Rightarrow> if n \<le> 0 then fallback else n))"

section \<open>Rate limiter\<close>

record rate_entry =
  re_count :: int
  re_reset :: gotime

record rate_limiter =
  rl_limit :: int
  rl_window :: duration
  rl_entries :: "rate_entry gomap"

definition new_rate_limiter :: "int \<Rightarrow> duration \<Rightarrow> rate_limiter option" where
  "new_rate_limiter limit window =
     (if limit \<le> 0 then None else Some \<lparr>rl_limit = limit, rl_window = window, rl_entries = []\<rparr>)"

record rate_answer =
  ra_remaining :: int
  ra_reset :: gotime
  ra_allowed :: bool

definition current_entry :: "gotime \<Rightarrow> duration \<Rightarrow> rate_entry option \<Rightarrow> rate_entry" where
  "current_entry now window found =
     (case found of
        Some e \<Rightarrow> if now > re_reset e then \<lparr>re_count = 0, re_reset = now + window\<rparr> else e
      | None \<Rightarrow> \<lparr>re_count = 0, re_reset = now + window\<rparr>)"

definition limiter_allow :: "gotime \<Rightarrow> string \<Rightarrow> rate_limiter \<Rightarrow> rate_limiter \<times> rate_answer" where
  "limiter_allow now key l =
     (if rl_limit l \<le> 0 then (l, \<lparr>ra_remaining = 0, ra_reset = now + minute, ra_allowed = True\<rparr>)
      else
        let entry = current_entry now (rl_window l) (map_get (rl_entries l) key)
        in if re_count entry \<ge> rl_limit l then
             (l\<lparr>rl_entries := map_put key entry (rl_entries l)\<rparr>,
              \<lparr>ra_remaining = 0, ra_reset = re_reset entry, ra_allowed = False\<rparr>)
           else
             let entry' = entry\<lparr>re_count := re_count entry + 1\<rparr> in
             (l\<lparr>rl_entries := map_put key entry' (rl_entries l)\<rparr>,
              \<lparr>ra_remaining = rl_limit l - re_count entry', ra_reset = re_reset entry', ra_allowed = True\<rparr>))"

text \<open>\<open>withRateLimit\<close>: without a limiter every request passes.\<close>

definition with_rate_limit ::
  "gotime \<Rightarrow> admin_request \<Rightarrow> rate_limiter option \<Rightarrow> rate_limiter option \<times> rate_answer option \<times> bool" where
  "with_rate_limit now r lim =
     (case lim of
        None \<Rightarrow> (None, None, True)
      | Some l \<Rightarrow>
          (case limiter_allow now (client_key r) l of
             (l', ans) \<Rightarrow> (Some l', Some ans, ra_allowed ans)))"

section \<open>Bearer token\<close>

datatype auth_outcome =
    AuthNotConfigured
  | Unauthorized string
  | Authenticated "string option"

definition with_auth :: "auth_config \<Rightarrow> admin_request \<Rightarrow> auth_outcome" where
  "with_auth auth r =
     (let header = trim_space (aq_authorization r) in
      if auth_token auth = [] then AuthNotConfigured
      else if header = [] then Unauthorized ''missing authorization header''
      else if CHR '' '' \<notin> set header \<or> \<not> equal_fold (before (CHR '' '') header) ''Bearer'' then
        Unauthorized ''invalid authorization scheme''
      else if trim_space (drop 1 (from_first (CHR '' '') header)) \<noteq> auth_token auth then
        Unauthorized ''invalid token''
      else
        let operator = trim_space (auth_username auth) in
        Authenticated (if operator \<noteq> [] then Some operator else None))"

section \<open>Login\<close>

record guard_entry =
  ge_failed :: int
  ge_updated_at :: gotime

record login_guard =
  lg_ttl :: duration
  lg_entries :: "guard_entry gomap"

definition new_login_guard :: "duration \<Rightarrow> login_guard" where
  "new_login_guard ttl = \<lparr>lg_ttl = (if ttl \<le> 0 then 30 * minute else ttl), lg_entries = []\<rparr>"

definition require_captcha :: "gotime \<Rightarrow> string \<Rightarrow> login_guard \<Rightarrow> login_guard \<times> bool" where
  "require_captcha now key g =
     (case map_get (lg_entries g) key of
        None \<Rightarrow> (g, False)
      | Some e \<Rightarrow>
          if time_sub now (ge_updated_at e) > lg_ttl g then
            (g\<lparr>lg_entries := map_del key (lg_entries g)\<rparr>, False)
          else (g, ge_failed e \<ge> 1))"

definition on_failure :: "gotime \<Rightarrow> string \<Rightarrow> login_guard \<Rightarrow> login_guard" where
  "on_failure now key g =
     (let failed = (case map_get (lg_entries g) key of None \<Rightarrow> 0 | Some e \<Rightarrow> ge_failed e) in
      g\<lparr>lg_entries := map_put key \<lparr>ge_failed = wrap64 (failed + 1), ge_updated_at = now\<rparr> (lg_entries g)\<rparr>)"

definition on_success :: "string \<Rightarrow> login_guard \<Rightarrow> login_guard" where
  "on_success key g = g\<lparr>lg_entries := map_del key (lg_entries g)\<rparr>"

record credentials =
  cr_username :: string
  cr_password :: string
  cr_captcha_id :: string
  cr_captcha_code :: string

datatype login_response =
    MethodNotAllowed
  | InvalidJson
  | LoginNotConfigured
  | CaptchaUnavailable
  | CaptchaRequired
  | InvalidCaptcha
  | InvalidCredentials
  | LoggedIn string string

text \<open>
  The handler at the instant \<open>now\<close>, on the decoded body and the captcha service's verdict on
  an identifier and a code, \<open>None\<close> for a missing service.
\<close>

definition login ::
  "auth_config \<Rightarrow> (string \<Rightarrow> string \<Rightarrow> bool) option \<Rightarrow> gotime \<Rightarrow> admin_request \<Rightarrow> credentials option \<Rightarrow>
   login_guard \<Rightarrow> login_guard \<times> login_response" where
  "login auth captcha now r body g =
     (if aq_method r \<noteq> ''POST'' then (g, MethodNotAllowed)
      else
        (case body of
           None \<Rightarrow> (g, InvalidJson)
         | Some creds \<Rightarrow>
             if auth_username auth = [] \<or> auth_password auth = [] then (g, LoginNotConfigured)
             else
               let key = client_key r;
                   (g1, needed) = require_captcha now key g;
                   check = (if \<not> needed then None
                            else
                              (case captcha of
                                 None \<Rightarrow> Some (g1, CaptchaUnavailable)
                               | Some verify \<Rightarrow>
                                   if cr_captcha_id creds = [] \<or> cr_captcha_code creds = [] then
                                     Some (g1, CaptchaRequired)
                                   else if \<not> verify (cr_captcha_id creds) (cr_captcha_code creds) then
                                     Some (on_failure now key g1, InvalidCaptcha)
                                   else None))
               in (case check of
                     Some res \<Rightarrow> res
                   | None \<Rightarrow>
                       if cr_username creds \<noteq> auth_username auth \<or> cr_password creds \<noteq> auth_password auth
                       then (on_failure now key g1, InvalidCredentials)
                       else (on_success key g1, LoggedIn (auth_token auth) (auth_username auth)))))"

definition login_captcha_requirement :: "gotime \<Rightarrow> admin_request \<Rightarrow> login_guard \<Rightarrow> login_guard \<times> bool option" where
  "login_captcha_requirement now r g =
     (if aq_method r \<noteq> ''GET'' then (g, None)
      else (case require_captcha now (client_key r) g of (g', b) \<Rightarrow> (g', Some b)))"

end
