(* ===== verification/AdminAuthProps.thy ===== *)
theory AdminAuthProps
  imports AdminAuth
begin

text \<open>
  What the control plane's entry guarantees: the quota of a client in a window, the isolation
  of the clients from each other, when a token is accepted, and that a failed login calls for
  a captcha until it expires or a login succeeds.
\<close>

section \<open>The limiter and the guard as keyed tables\<close>

interpretation limiter_table: keyed_table limiter_allow
  "\<lambda>l k. map_get (rl_entries l) k" "\<lambda>l. (rl_limit l, rl_window l)"
  by unfold_locales (auto simp: limiter_allow_def Let_def)

datatype guard_call = Require gotime | Failure gotime | Success

definition guard_op :: "guard_call \<Rightarrow> string \<Rightarrow> login_guard \<Rightarrow> login_guard \<times> bool" where
  "guard_op c key g =
     (case c of
        Require now \<Rightarrow> require_captcha now key g
      | Failure now \<Rightarrow> (on_failure now key g, False)
      | Success \<Rightarrow> (on_success key g, False))"

interpretation guard_table: keyed_table guard_op "\<lambda>g k. map_get (lg_entries g) k" lg_ttl
  by unfold_locales
    (auto simp: guard_op_def require_captcha_def on_failure_def on_success_def Let_def
      split: guard_call.splits option.splits)

text \<open>
  Clients do not affect each other: the answers a client gets from the rate limiter are
  those it would get if nobody else had called, and so are the answers of the login guard.
\<close>

theorem clients_isolated:
  "answers_of k (snd (run_ops limiter_allow calls l)) =
     answers_of k (snd (run_ops limiter_allow (filter (\<lambda>p. snd p = k) calls) l)) \<and>
   answers_of k (snd (run_ops guard_op gcalls g)) =
     answers_of k (snd (run_ops guard_op (filter (\<lambda>p. snd p = k) gcalls) g))"
  by (intro conjI limiter_table.client_isolation guard_table.client_isolation refl)

section \<open>The quota\<close>

lemma limiter_allow_inside:
  assumes "map_get (rl_entries l) k = Some e" "now \<le> re_reset e" "0 < rl_limit l"
  shows "ra_allowed (snd (limiter_allow now k l)) = (re_count e < rl_limit l)"
    "map_get (rl_entries (fst (limiter_allow now k l))) k =
       Some (if re_count e < rl_limit l then e\<lparr>re_count := re_count e + 1\<rparr> else e)"
    "rl_limit (fst (limiter_allow now k l)) = rl_limit l"
  using assms by (auto simp: limiter_allow_def current_entry_def Let_def)

definition allowed_count :: "rate_answer list \<Rightarrow> int" where
  "allowed_count as = int (length (filter ra_allowed as))"

lemma allowed_count_simps [simp]:
  "allowed_count [] = 0"
  "allowed_count (a # as) = (if ra_allowed a then 1 else 0) + allowed_count as"
  by (simp_all add: allowed_count_def)

lemma allowed_in_window:
  assumes "map_get (rl_entries l) k = Some e" "list_all (\<lambda>t. t \<le> re_reset e) ts" "0 < rl_limit l"
    and "re_count e \<le> rl_limit l"
  shows "allowed_count (answers_of k (snd (run_ops limiter_allow (map (\<lambda>t. (t, k)) ts) l))) =
    min (int (length ts)) (rl_limit l - re_count e)"
  using assms
proof (induction ts arbitrary: l e)
  case (Cons t ts)
  note inside = limiter_allow_inside [OF Cons.prems(1) _ Cons.prems(3), of t]
  let ?l = "fst (limiter_allow t k l)"
  let ?e = "if re_count e < rl_limit l then e\<lparr>re_count := re_count e + 1\<rparr> else e"
  have t: "t \<le> re_reset e" using Cons.prems(2) by simp
  have "allowed_count (answers_of k (snd (run_ops limiter_allow (map (\<lambda>t. (t, k)) ts) ?l))) =
      min (int (length ts)) (rl_limit ?l - re_count ?e)"
    by (rule Cons.IH [OF inside(2) [OF t]]) (use Cons.prems inside(3) [OF t] in auto)
  then show ?case
    using inside(1,3) [OF t] Cons.prems(4)
    by (cases "re_count e < rl_limit l") (simp_all add: snd_run_ops_Cons min_def del: run_ops.simps)
qed simp

text \<open>
  The quota. From the request that opens a window of a client, of all its requests up to
  the end of the window exactly as many are let through as there are, up to the limit.
\<close>

theorem window_quota:
  assumes "0 < rl_limit l" "0 \<le> rl_window l"
    and "case map_get (rl_entries l) k of None \<Rightarrow> True | Some e \<Rightarrow> t0 > re_reset e"
    and "list_all (\<lambda>t. t \<le> t0 + rl_window l) ts"
  shows "allowed_count (answers_of k (snd (run_ops limiter_allow (map (\<lambda>t. (t, k)) (t0 # ts)) l))) =
     min (int (length (t0 # ts))) (rl_limit l)"
proof -
  let ?l = "fst (limiter_allow t0 k l)"
  have l1: "ra_allowed (snd (limiter_allow t0 k l))" "rl_limit ?l = rl_limit l"
    "map_get (rl_entries ?l) k = Some \<lparr>re_count = 1, re_reset = t0 + rl_window l\<rparr>"
    using assms(1,3) by (auto simp: limiter_allow_def current_entry_def Let_def split: option.splits)
  have "allowed_count (answers_of k (snd (run_ops limiter_allow (map (\<lambda>t. (t, k)) ts) ?l))) =
      min (int (length ts)) (rl_limit l - 1)"
    using allowed_in_window [OF l1(3), of ts] assms(1,4) l1(2) by simp
  then show ?thesis using l1(1) assms(1) by (simp add: snd_run_ops_Cons del: run_ops.simps)
qed

definition sample_limiter :: rate_limiter where
  "sample_limiter = \<lparr>rl_limit = 2, rl_window = minute, rl_entries = []\<rparr>"

theorem window_quota_witness:
  "allowed_count (answers_of ''c'' (snd (run_ops limiter_allow
     (map (\<lambda>t. (t, ''c'')) (5 # [6, 7, 8])) sample_limiter))) = 2"
proof -
  have a: "0 < rl_limit sample_limiter" "0 \<le> rl_window sample_limiter" by code_simp+
  have b: "case map_get (rl_entries sample_limiter) ''c'' of None \<Rightarrow> True | Some e \<Rightarrow> 5 > re_reset e"
    by code_simp
  have c: "list_all (\<lambda>t. t \<le> 5 + rl_window sample_limiter) [6, 7, 8]" by code_simp
  show ?thesis using window_quota [OF a b c] by (simp add: sample_limiter_def)
qed

section \<open>The key is the client's to choose\<close>

lemma client_key_forged:
  assumes "trim_space v = v" "v \<noteq> []" "CHR '','' \<notin> set v"
  shows "client_key (r\<lparr>aq_xff := v\<rparr>) = v"
  using assms by (simp add: client_key_def split_on_no_sep Let_def)

lemma limiter_allow_fresh:
  assumes "map_get (rl_entries l) k = None" "0 < rl_limit l"
  shows "ra_allowed (snd (limiter_allow now k l))"
    "k' \<noteq> k \<Longrightarrow> map_get (rl_entries (fst (limiter_allow now k l))) k' = map_get (rl_entries l) k'"
    "rl_limit (fst (limiter_allow now k l)) = rl_limit l"
  using assms by (simp_all add: limiter_allow_def current_entry_def Let_def)

lemma fresh_keys_allowed:
  assumes "distinct ks" "list_all (\<lambda>k. map_get (rl_entries l) k = None) ks" "0 < rl_limit l"
  shows "list_all (\<lambda>p. ra_allowed (snd p)) (snd (run_ops limiter_allow (map (\<lambda>k. (now, k)) ks) l))"
  using assms
proof (induction ks arbitrary: l)
  case (Cons k ks)
  let ?l = "fst (limiter_allow now k l)"
  have k: "map_get (rl_entries l) k = None" using Cons.prems(2) by simp
  note fresh = limiter_allow_fresh [OF k Cons.prems(3), where now = now]
  have "list_all (\<lambda>k'. map_get (rl_entries ?l) k' = None) ks"
    unfolding list_all_iff
  proof
    fix k' assume "k' \<in> set ks"
    then have "k' \<noteq> k" "map_get (rl_entries l) k' = None"
      using Cons.prems(1,2) by (auto simp: list_all_iff)
    then show "map_get (rl_entries ?l) k' = None" using fresh(2) by simp
  qed
  then have "list_all (\<lambda>p. ra_allowed (snd p)) (snd (run_ops limiter_allow (map (\<lambda>k. (now, k)) ks) ?l))"
    using Cons.IH Cons.prems(1,3) fresh(3) by simp
  with fresh(1) show ?case by (simp add: snd_run_ops_Cons del: run_ops.simps)
qed simp

definition forgeable :: "string \<Rightarrow> bool" where
  "forgeable v \<longleftrightarrow> trim_space v = v \<and> v \<noteq> [] \<and> CHR '','' \<notin> set v"

text \<open>
  The quota can be evaded: the key is the first entry of a header that any client may
  send, so a client that sends a new value with each request is let through every time,
  however many requests it makes.
\<close>

theorem forged_header_evades_quota:
  assumes "distinct vs" "list_all forgeable vs" "0 < rl_limit l"
    and "list_all (\<lambda>v. map_get (rl_entries l) v = None) vs"
  shows "list_all (\<lambda>p. ra_allowed (snd p))
    (snd (run_ops limiter_allow (map (\<lambda>v. (now, client_key (r\<lparr>aq_xff := v\<rparr>))) vs) l))"
proof -
  have *: "map (\<lambda>v. (now, client_key (r\<lparr>aq_xff := v\<rparr>))) vs = map (\<lambda>k. (now, k)) vs"
    using assms(2) by (intro map_cong) (auto simp: forgeable_def list_all_iff client_key_forged)
  show ?thesis unfolding * by (rule fresh_keys_allowed [OF assms(1,4,3)])
qed

definition sample_admin_request :: admin_request where
  "sample_admin_request = \<lparr>aq_method = ''POST'', aq_remote_addr = ''9.9.9.9:1'', aq_xff = [],
     aq_real_ip = [], aq_authorization = ''bearer  s3cret '', aq_operator = []\<rparr>"

theorem forged_header_evades_quota_witness:
  "list_all (\<lambda>p. ra_allowed (snd p)) (snd (run_ops limiter_allow
     (map (\<lambda>v. (0, client_key (sample_admin_request\<lparr>aq_xff := v\<rparr>))) [''1'', ''2'', ''3'', ''4'']) sample_limiter))"
proof -
  have "distinct [''1'', ''2'', ''3'', ''4'']" "list_all forgeable [''1'', ''2'', ''3'', ''4'']"
    "0 < rl_limit sample_limiter"
    "list_all (\<lambda>v. map_get (rl_entries sample_limiter) v = None) [''1'', ''2'', ''3'', ''4'']"
    by code_simp+
  then show ?thesis by (rule forged_header_evades_quota)
qed

section \<open>The token\<close>

lemma before_after: "c \<in> set s \<Longrightarrow> s = before c s @ c # drop 1 (from_first c s)"
  by (induction s) (auto simp: before_def from_first_def)

text \<open>
  A request is authenticated exactly when a token is configured and its trimmed header is
  the word Bearer, in any case, a space, and text that is the token once trimmed; a
  configured token is never empty for it.
\<close>

theorem auth_iff:
  "(\<exists>operator. with_auth auth r = Authenticated operator) \<longleftrightarrow>
     auth_token auth \<noteq> [] \<and>
     (\<exists>scheme rest. trim_space (aq_authorization r) = scheme @ CHR '' '' # rest \<and> CHR '' '' \<notin> set scheme \<and>
        equal_fold scheme ''Bearer'' \<and> trim_space rest = auth_token auth)" (is "?L = ?R")
proof
  assume ?L
  then have *: "auth_token auth \<noteq> []" "CHR '' '' \<in> set (trim_space (aq_authorization r))"
    "equal_fold (before (CHR '' '') (trim_space (aq_authorization r))) ''Bearer''"
    "trim_space (drop 1 (from_first (CHR '' '') (trim_space (aq_authorization r)))) = auth_token auth"
    by (auto simp: with_auth_def Let_def split: if_splits)
  with before_after [OF *(2)] not_in_before show ?R by blast
next
  assume ?R
  then obtain scheme rest where h: "trim_space (aq_authorization r) = scheme @ CHR '' '' # rest"
    "CHR '' '' \<notin> set scheme" "equal_fold scheme ''Bearer''" "trim_space rest = auth_token auth"
    "auth_token auth \<noteq> []" by blast
  have "before (CHR '' '') (scheme @ CHR '' '' # rest) = scheme"
    "from_first (CHR '' '') (scheme @ CHR '' '' # rest) = CHR '' '' # rest"
    using h(2) by (induction scheme) (auto simp: before_def from_first_def)
  with h show ?L by (simp add: with_auth_def Let_def)
qed

section \<open>The login guard\<close>

definition guard_ok :: "login_guard \<Rightarrow> bool" where
  "guard_ok g \<longleftrightarrow> list_all (\<lambda>(k, e). 0 \<le> ge_failed e \<and> ge_failed e < 2 ^ 63 - 1) (lg_entries g)"

lemma on_failure_entry:
  assumes "guard_ok g"
  shows "\<exists>n. 1 \<le> n \<and> map_get (lg_entries (on_failure now k g)) k = Some \<lparr>ge_failed = n, ge_updated_at = now\<rparr>"
proof (cases "map_get (lg_entries g) k")
  case None
  then show ?thesis by (simp add: on_failure_def wrap64_id)
next
  case (Some e)
  then have "0 \<le> ge_failed e" "ge_failed e < 2 ^ 63 - 1"
    using assms by (auto simp: guard_ok_def list_all_iff dest!: map_of_SomeD)
  with Some show ?thesis by (simp add: on_failure_def wrap64_id)
qed

lemma require_captcha_ok: "guard_ok g \<Longrightarrow> guard_ok (fst (require_captcha now k g))"
  by (auto simp: require_captcha_def guard_ok_def list_all_iff AList.delete_eq split: option.split)

lemma require_captcha_conf: "lg_ttl (fst (require_captcha now k g)) = lg_ttl g"
  by (simp add: require_captcha_def split: option.split)

lemma login_steps:
  assumes "aq_method r = ''POST''" "auth_username auth \<noteq> []" "auth_password auth \<noteq> []"
    and "require_captcha now (client_key r) g = (g1, needed)"
  shows "login auth captcha now r (Some creds) g =
    (if needed \<and> captcha = None then (g1, CaptchaUnavailable)
     else if needed \<and> (cr_captcha_id creds = [] \<or> cr_captcha_code creds = []) then (g1, CaptchaRequired)
     else if needed \<and> \<not> the captcha (cr_captcha_id creds) (cr_captcha_code creds) then
       (on_failure now (client_key r) g1, InvalidCaptcha)
     else if cr_username creds \<noteq> auth_username auth \<or> cr_password creds \<noteq> auth_password auth
       then (on_failure now (client_key r) g1, InvalidCredentials)
     else (on_success (client_key r) g1, LoggedIn (auth_token auth) (auth_username auth)))"
  using assms by (cases captcha) (simp_all add: login_def Let_def)

lemma login_refused:
  assumes "aq_method r \<noteq> ''POST'' \<or> body = None \<or> auth_username auth = [] \<or> auth_password auth = []"
  shows "snd (login auth captcha now r body g) \<in> {MethodNotAllowed, InvalidJson, LoginNotConfigured}"
  using assms by (auto simp: login_def split: option.split)

lemma login_reached:
  assumes "snd (login auth captcha now r body g) \<notin> {MethodNotAllowed, InvalidJson, LoginNotConfigured}"
  obtains creds where "body = Some creds" "aq_method r = ''POST''" "auth_username auth \<noteq> []"
    "auth_password auth \<noteq> []"
  using assms login_refused [of r body auth captcha now g] by (cases body) blast+

lemma login_invalid:
  assumes "login auth cap t0 r body g = (g1, InvalidCredentials)"
  shows "g1 = on_failure t0 (client_key r) (fst (require_captcha t0 (client_key r) g))"
proof -
  obtain g2 needed where q: "require_captcha t0 (client_key r) g = (g2, needed)" by fastforce
  have "snd (login auth cap t0 r body g) \<notin> {MethodNotAllowed, InvalidJson, LoginNotConfigured}"
    using assms by simp
  then obtain creds where b: "body = Some creds" "aq_method r = ''POST''" "auth_username auth \<noteq> []"
    "auth_password auth \<noteq> []" by (rule login_reached)
  show ?thesis
    using assms unfolding b(1) login_steps [OF b(2-4) q] by (auto simp: q split: if_splits)
qed

lemma failed_login_entry:
  assumes "guard_ok g" "login auth cap t0 r body g = (g1, InvalidCredentials)"
  shows "\<exists>n. 1 \<le> n \<and> map_get (lg_entries g1) (client_key r) = Some \<lparr>ge_failed = n, ge_updated_at = t0\<rparr>"
    and "lg_ttl g1 = lg_ttl g"
proof -
  note g1 = login_invalid [OF assms(2)]
  show "\<exists>n. 1 \<le> n \<and> map_get (lg_entries g1) (client_key r) = Some \<lparr>ge_failed = n, ge_updated_at = t0\<rparr>"
    unfolding g1 by (rule on_failure_entry [OF require_captcha_ok [OF assms(1)]])
  show "lg_ttl g1 = lg_ttl g"
    unfolding g1 by (simp add: on_failure_def Let_def require_captcha_conf)
qed

text \<open>
  C34. After a failed login of a client, whatever other clients do meanwhile, a login from the
  same key within the guard's time to live succeeds only with a captcha that the captcha
  service verified.
\<close>

theorem captcha_after_failure:
  assumes "guard_ok g" and "login auth cap t0 r body g = (g1, InvalidCredentials)"
    and "list_all (\<lambda>(c, k). k \<noteq> client_key r) others"
    and "client_key r' = client_key r" "time_sub t1 t0 \<le> lg_ttl g"
    and "snd (login auth' cap' t1 r' (Some creds) (fst (run_ops guard_op others g1))) = LoggedIn tok usr"
  shows "\<exists>verify. cap' = Some verify \<and> cr_captcha_id creds \<noteq> [] \<and> cr_captcha_code creds \<noteq> [] \<and>
    verify (cr_captcha_id creds) (cr_captcha_code creds)"
proof -
  let ?g = "fst (run_ops guard_op others g1)"
  obtain n where n: "1 \<le> n" "map_get (lg_entries g1) (client_key r) = Some \<lparr>ge_failed = n, ge_updated_at = t0\<rparr>"
    using failed_login_entry(1) [OF assms(1,2)] by auto
  have e: "map_get (lg_entries ?g) (client_key r) = Some \<lparr>ge_failed = n, ge_updated_at = t0\<rparr>"
    using guard_table.run_ops_other [OF assms(3)] n(2) by simp
  have ttl: "lg_ttl ?g = lg_ttl g"
    using guard_table.run_ops_conf failed_login_entry(2) [OF assms(1,2)] by metis
  have "require_captcha t1 (client_key r') ?g = (?g, True)"
    using e n(1) assms(4,5) ttl by (simp add: require_captcha_def)
  note q = this
  have "snd (login auth' cap' t1 r' (Some creds) ?g) \<notin> {MethodNotAllowed, InvalidJson, LoginNotConfigured}"
    using assms(6) by simp
  then obtain creds' where b: "Some creds = Some creds'" "aq_method r' = ''POST''"
    "auth_username auth' \<noteq> []" "auth_password auth' \<noteq> []" by (rule login_reached)
  show ?thesis
    using assms(6) unfolding login_steps [OF b(2-4) q] by (auto split: if_splits)
qed

definition sample_auth :: auth_config where
  "sample_auth = \<lparr>auth_username = ''u'', auth_password = ''p'', auth_token = ''t''\<rparr>"

definition wrong_credentials :: credentials where
  "wrong_credentials = \<lparr>cr_username = ''u'', cr_password = ''x'', cr_captcha_id = [], cr_captcha_code = []\<rparr>"

definition right_credentials :: credentials where
  "right_credentials = \<lparr>cr_username = ''u'', cr_password = ''p'', cr_captcha_id = ''1'', cr_captcha_code = ''2''\<rparr>"

definition failed_guard :: login_guard where
  "failed_guard = on_failure 5 ''9.9.9.9'' (new_login_guard 0)"

theorem captcha_after_failure_witness:
  "snd (login sample_auth (Some (\<lambda>i c. i = ''1'')) 7 sample_admin_request (Some right_credentials)
     (fst (run_ops guard_op [(Success, ''8.8.8.8'')] failed_guard))) = LoggedIn ''t'' ''u'' \<and>
   (\<exists>verify. Some (\<lambda>i c. i = ''1'') = Some verify \<and> cr_captcha_id right_credentials \<noteq> [] \<and>
     cr_captcha_code right_credentials \<noteq> [] \<and>
     verify (cr_captcha_id right_credentials) (cr_captcha_code right_credentials))"
proof -
  have a: "guard_ok (new_login_guard 0)" by code_simp
  have b: "login sample_auth None 5 sample_admin_request (Some wrong_credentials) (new_login_guard 0) =
    (failed_guard, InvalidCredentials)" by code_simp
  have c: "list_all (\<lambda>(c, k). k \<noteq> client_key sample_admin_request) [(Success, ''8.8.8.8'')]" by code_simp
  have d: "time_sub 7 5 \<le> lg_ttl (new_login_guard 0)" by code_simp
  have e: "snd (login sample_auth (Some (\<lambda>i c. i = ''1'')) 7 sample_admin_request (Some right_credentials)
     (fst (run_ops guard_op [(Success, ''8.8.8.8'')] failed_guard))) = LoggedIn ''t'' ''u''" by code_simp
  show ?thesis using captcha_after_failure [OF a b c refl d e] e by simp
qed

end
