(* ===== verification/GoTime.thy ===== *)
theory GoTime
  imports GoStrings
begin

text \<open>
  How the program writes instants: \<open>t.UTC().Format(time.RFC3339)\<close> and
  \<open>t.UTC().Format(time.RFC3339Nano)\<close>. The second form cuts trailing zeros off the fraction, and
  the fraction away when it is zero, so that the length of the text varies.
\<close>

text \<open>Days are counted from the first of January of year 1, as instants are.\<close>

definition year_start :: "int \<Rightarrow> int" where
  "year_start y = 365 * (y - 1) + (y - 1) div 4 - (y - 1) div 100 + (y - 1) div 400"

definition year_of :: "int \<Rightarrow> int" where
  "year_of d =
     (let y = d * 400 div 146097 + 1 in
      if year_start y > d then y - 1 else if year_start (y + 1) \<le> d then y + 1 else y)"

definition leap :: "int \<Rightarrow> bool" where
  "leap y \<longleftrightarrow> year_start (y + 1) - year_start y = 366"

definition month_starts :: "int \<Rightarrow> int list" where
  "month_starts y =
     (let k = (if leap y then 1 else 0) in
      [0, 31, 59 + k, 90 + k, 120 + k, 151 + k, 181 + k, 212 + k, 243 + k, 273 + k, 304 + k, 334 + k])"

text \<open>The last \<open>n\<close> digits: all of them for the years up to 9999.\<close>

fun zero_padded :: "nat \<Rightarrow> int \<Rightarrow> string" where
  "zero_padded 0 k = []"
| "zero_padded (Suc n) k = zero_padded n (k div 10) @ [digit (nat (k mod 10))]"

definition date_text :: "int \<Rightarrow> string" where
  "date_text d =
     (let y = year_of d; doy = d - year_start y; started = filter (\<lambda>s. s \<le> doy) (month_starts y) in
      zero_padded 4 y @ ''-'' @ zero_padded 2 (int (length started)) @ ''-'' @
      zero_padded 2 (doy - last started + 1))"

definition clock_text :: "int \<Rightarrow> string" where
  "clock_text s = zero_padded 2 (s div 3600) @ '':'' @ zero_padded 2 (s div 60 mod 60) @ '':'' @
     zero_padded 2 (s mod 60)"

text \<open>Up to the seconds; an argument in seconds since the zero instant.\<close>

definition second_text :: "int \<Rightarrow> string" where
  "second_text s = date_text (s div 86400) @ ''T'' @ clock_text (s mod 86400)"

definition rfc3339 :: "int \<Rightarrow> string" where
  "rfc3339 s = second_text s @ ''Z''"

definition fraction_text :: "int \<Rightarrow> string" where
  "fraction_text ns =
     (if ns = 0 then []
      else ''.'' @ rev (dropWhile (\<lambda>c. c = CHR ''0'') (rev (zero_padded 9 ns))))"

definition rfc3339_nano :: "gotime \<Rightarrow> string" where
  "rfc3339_nano t = second_text (t div second) @ fraction_text (t mod second) @ ''Z''"

lemma whole_seconds: "rfc3339_nano (s * second) = rfc3339 s"
  by (simp add: rfc3339_nano_def rfc3339_def fraction_text_def duration_units)


end
