(* ===== verification/Store.thy ===== *)
theory Store
  imports ConfigTypes GoTime "HOL-Library.Multiset" "HOL-Library.List_Lexorder" "HOL-Library.Char_ord"
begin

text \<open>
  The tables of the store (\<open>internal/store\<close>) and the operations on configuration versions,
  audits, sites and their versions (\<open>sqlite.go\<close>, \<open>site.go\<close>, \<open>site_version.go\<close>). A table is
  the list of its rows, a statement is what its SQL text says, and what lies outside the
  repository is the record \<open>world\<close>: the clock, random identifiers, JSON, the cipher, whether
  a statement succeeds, and the order the engine gives to rows with equal sort keys. A time
  text of RFC 3339 is the number of seconds it denotes: for the years up to 9999 the texts
  are ordered as the numbers.
\<close>

section \<open>Rows, errors and the world\<close>

datatype sql_stmt =
    InsertConfigVersion | SelectConfigVersions | SelectVersionConfig | InsertAudit | InsertSystemLog
  | InsertSite | UpdateSiteRow | SelectSite | SelectSites | SelectSiteConfig | SelectSiteByHost
  | BeginTx | CommitTx | DeleteVersionsOfSite | DeleteSnapshotsOfSite | DeleteStatusOfSite
  | DeleteStreamOfSite | DeleteSiteRow | UpdateSiteConfigRow | InsertSiteVersion | PruneSiteVersions
  | SelectSiteVersions | SelectSiteVersionConfig | DeleteSiteVersionRow | SelectLogStream
  | UpsertLogStream | InsertTrafficLog | InsertSnapshot | SelectSnapshot | UpsertStatus
  | SelectStatus | SelectStatuses | CountAuditLogs | SelectAuditLogs | SelectTrafficLogs
  | SelectSystemLogs | InsertDraft | UpdateDraftRow | SelectDraft | SelectDrafts | InsertCertificate
  | CountCertificates | SelectCertificates | SelectCertificate | DeleteCertificateRow

datatype store_error =
    DbNotReady | SiteIdEmpty | VersionIdEmpty | SiteFieldsMissing | FilterEmpty | SiteOrProviderEmpty
  | SiteNotFound | SiteVersionMissing | SiteLogNotFound | NoRows | BadJson | RandomFailed
  | EncryptFailed | DraftIdEmpty | DraftNameEmpty | DraftContentEmpty | DraftNotFound
  | SqlFailed sql_stmt

record config_version =
  cv_id :: string
  cv_created_at :: int
  cv_operator :: string
  cv_source :: string

record site =
  site_id :: string
  site_name :: string
  site_hostname :: string
  site_ip :: string
  site_created_at :: int
  site_updated_at :: int

record site_row =
  sr_site :: site
  sr_config :: string

record version_row =
  vr_site :: string
  vr_version :: config_version
  vr_config :: string

record audit_row =
  au_id :: string
  au_action :: string
  au_target :: string
  au_operator :: string
  au_detail :: string
  au_created_at :: int

record system_log_row =
  sl_id :: string
  sl_site :: string
  sl_level :: string
  sl_action :: string
  sl_operator :: string
  sl_detail :: string
  sl_created_at :: int

record traffic_log =
  tl_level :: string
  tl_type :: string
  tl_message :: string
  tl_request_id :: string
  tl_client_ip :: string
  tl_host :: string
  tl_method :: string
  tl_path :: string
  tl_status :: int
  tl_latency :: int

record snapshot_row =
  sn_id :: string
  sn_site :: string
  sn_provider :: string
  sn_cidrs :: "string list"
  sn_fetched_at :: int
  sn_source :: string
  sn_created_at :: int

record status_row =
  ss_site :: string
  ss_provider :: string
  ss_last_attempt :: "int option"
  ss_last_success :: "int option"
  ss_failures :: int
  ss_error :: string
  ss_updated_at :: int

record log_stream =
  ls_site :: string
  ls_filter :: string
  ls_updated_at :: int

text \<open>The inputs and the mapping of a draft are raw JSON texts.\<close>

record weaver_draft =
  wv_id :: string
  wv_name :: string
  wv_inputs :: string
  wv_mapping :: string
  wv_created_at :: int
  wv_updated_at :: int
  wv_operator :: string

record store =
  db_ready :: bool
  config_versions :: "(config_version \<times> string) list"
  audit_logs :: "audit_row list"
  sites :: "site_row list"
  site_versions :: "version_row list"
  cdn_snapshots :: "snapshot_row list"
  cdn_origin_status :: "status_row list"
  log_streams :: "log_stream list"
  traffic_logs :: "(string \<times> string \<times> traffic_log \<times> gotime) list"
  system_logs :: "system_log_row list"
  weaver_drafts :: "weaver_draft list"
  stored_certificates :: "ssl_certificate list"

definition init_store :: store where
  "init_store = \<lparr>db_ready = True, config_versions = [], audit_logs = [], sites = [], site_versions = [],
     cdn_snapshots = [], cdn_origin_status = [], log_streams = [], traffic_logs = [], system_logs = [],
     weaver_drafts = [], stored_certificates = []\<rparr>"

record world =
  wd_now :: gotime
  wd_random :: "nat \<Rightarrow> string option"
  wd_sql :: "sql_stmt \<Rightarrow> bool"
  wd_order :: "int list \<Rightarrow> nat list"
  wd_marshal :: "config \<Rightarrow> string"
  wd_unmarshal :: "string \<Rightarrow> config option"
  wd_has_key :: bool
  wd_encrypt :: "string \<Rightarrow> string option"
  wd_decrypt :: "string \<Rightarrow> string option"

definition unix_seconds :: "gotime \<Rightarrow> int" where
  "unix_seconds t = t div second"

text \<open>\<open>ORDER BY key DESC\<close>: the engine picks the order of the rows from their keys.\<close>

definition order_desc :: "world \<Rightarrow> ('r \<Rightarrow> int) \<Rightarrow> 'r list \<Rightarrow> 'r list" where
  "order_desc w key rows = map (nth rows) (wd_order w (map key rows))"

definition orders_desc :: "(int list \<Rightarrow> nat list) \<Rightarrow> bool" where
  "orders_desc pick \<longleftrightarrow> (\<forall>ks. mset (pick ks) = mset [0..<length ks] \<and>
     sorted_wrt (\<lambda>i j. ks ! i \<ge> ks ! j) (pick ks))"

text \<open>The same for a column of texts, which compare byte by byte: a text counts by its rank.\<close>

definition text_rank :: "string list \<Rightarrow> string \<Rightarrow> int" where
  "text_rank ks k = int (length (filter (\<lambda>x. x < k) ks))"

definition order_desc_text :: "world \<Rightarrow> ('r \<Rightarrow> string) \<Rightarrow> 'r list \<Rightarrow> 'r list" where
  "order_desc_text w key rows = order_desc w (\<lambda>r. text_rank (map key rows) (key r)) rows"

definition newest_first :: "int list \<Rightarrow> nat list" where
  "newest_first ks = sort_key (\<lambda>i. - (ks ! i)) [0..<length ks]"

definition new_id :: "world \<Rightarrow> nat \<Rightarrow> store_error + string" where
  "new_id w n = (case wd_random w n of None \<Rightarrow> Inl RandomFailed | Some i \<Rightarrow> Inr i)"

definition run_sql :: "world \<Rightarrow> sql_stmt \<Rightarrow> bool \<Rightarrow> store_error + unit" where
  "run_sql w s possible = (if wd_sql w s \<and> possible then Inr () else Inl (SqlFailed s))"

text \<open>An operation that fails leaves the store alone; one that succeeds returns the next.\<close>

definition commit :: "store \<Rightarrow> store_error + (store \<times> 'a) \<Rightarrow> store \<times> (store_error + 'a)" where
  "commit st res = (case res of Inl e \<Rightarrow> (st, Inl e) | Inr (st', x) \<Rightarrow> (st', Inr x))"

definition guarded :: "store \<Rightarrow> store_error + 'a \<Rightarrow> store_error + 'a" where
  "guarded st res = (if db_ready st then res else Inl DbNotReady)"

section \<open>Configuration versions and audits\<close>

definition save_version ::
  "world \<Rightarrow> config \<Rightarrow> string \<Rightarrow> string \<Rightarrow> store \<Rightarrow> store \<times> (store_error + config_version)" where
  "save_version w cfg operator source st = commit st (guarded st
     (res_bind (new_id w 0) (\<lambda>i.
        let v = \<lparr>cv_id = i, cv_created_at = unix_seconds (wd_now w), cv_operator = operator,
                  cv_source = source\<rparr> in
        res_bind (run_sql w InsertConfigVersion (i \<notin> cv_id ` fst ` set (config_versions st)))
          (\<lambda>_. Inr (st\<lparr>config_versions := config_versions st @ [(v, wd_marshal w cfg)]\<rparr>, v)))))"

definition list_versions :: "world \<Rightarrow> int \<Rightarrow> store \<Rightarrow> store_error + config_version list" where
  "list_versions w limit st = guarded st
     (res_bind (run_sql w SelectConfigVersions True)
       (\<lambda>_. Inr (take (nat (if limit \<le> 0 then 20 else limit))
                   (order_desc w cv_created_at (map fst (config_versions st))))))"

definition get_version_config :: "world \<Rightarrow> string \<Rightarrow> store \<Rightarrow> store_error + config" where
  "get_version_config w vid st = guarded st
     (res_bind (run_sql w SelectVersionConfig True)
       (\<lambda>_. case find (\<lambda>p. cv_id (fst p) = vid) (config_versions st) of
              None \<Rightarrow> Inl NoRows
            | Some (_, json) \<Rightarrow>
                (case wd_unmarshal w json of None \<Rightarrow> Inl BadJson | Some cfg \<Rightarrow> Inr cfg)))"

fun contains_text :: "string \<Rightarrow> string \<Rightarrow> bool" where
  "contains_text sub [] \<longleftrightarrow> sub = []"
| "contains_text sub (c # cs) \<longleftrightarrow> has_prefix (c # cs) sub \<or> contains_text sub cs"

text \<open>
  A map of texts as \<open>json.Marshal\<close> writes it, given with its keys in order: the escapes of the
  characters that it escapes in a text of valid UTF-8.
\<close>

definition json_char :: "char \<Rightarrow> string" where
  "json_char c =
     (if c = CHR 0x22 \<or> c = CHR 0x5C then [CHR 0x5C, c]
      else if c = CHR 0x08 then [CHR 0x5C, CHR ''b'']
      else if c = CHR 0x0C then [CHR 0x5C, CHR ''f'']
      else if c = CHR 0x0A then [CHR 0x5C, CHR ''n'']
      else if c = CHR 0x0D then [CHR 0x5C, CHR ''r'']
      else if c = CHR 0x09 then [CHR 0x5C, CHR ''t'']
      else if code c < 32 \<or> c \<in> {CHR ''<'', CHR ''>'', CHR ''&''} then
        CHR 0x5C # ''u00'' @ [hex_lower (code c div 16), hex_lower (code c mod 16)]
      else [c])"

definition json_string :: "string \<Rightarrow> string" where
  "json_string s = [CHR 0x22] @ concat (map json_char s) @ [CHR 0x22]"

definition json_object :: "(string \<times> string) list \<Rightarrow> string" where
  "json_object kvs =
     ''{'' @ join_with '','' (map (\<lambda>(k, v). json_string k @ '':'' @ json_string v) kvs) @ ''}''"

text \<open>
  \<open>SaveAudit\<close> runs its two inserts outside a transaction: when the second one fails, the
  first one stays.
\<close>

definition audit_level :: "string \<Rightarrow> string" where
  "audit_level action =
     (if contains_text ''delete'' action \<or> contains_text ''rollback'' action then ''warn'' else ''info'')"

definition save_audit ::
  "world \<Rightarrow> string \<Rightarrow> string \<Rightarrow> string \<Rightarrow> string \<Rightarrow> store \<Rightarrow> store \<times> store_error option" where
  "save_audit w action target operator detail st =
     (if \<not> db_ready st then (st, Some DbNotReady)
      else
        case new_id w 1 of
          Inl e \<Rightarrow> (st, Some e)
        | Inr aid \<Rightarrow>
            if \<not> wd_sql w InsertAudit \<or> aid \<in> au_id ` set (audit_logs st) then (st, Some (SqlFailed InsertAudit))
            else
              let at = unix_seconds (wd_now w);
                  st1 = st\<lparr>audit_logs := audit_logs st @ [\<lparr>au_id = aid, au_action = action,
                    au_target = target, au_operator = operator, au_detail = detail, au_created_at = at\<rparr>]\<rparr>
              in if has_prefix action ''site_'' \<and> target \<noteq> [] then
                   (case new_id w 2 of
                      Inl e \<Rightarrow> (st1, Some e)
                    | Inr sid \<Rightarrow>
                        if \<not> wd_sql w InsertSystemLog \<or> sid \<in> sl_id ` set (system_logs st1) then
                          (st1, Some (SqlFailed InsertSystemLog))
                        else
                          (st1\<lparr>system_logs := system_logs st1 @ [\<lparr>sl_id = sid, sl_site = target,
                             sl_level = audit_level action, sl_action = action, sl_operator = operator,
                             sl_detail = detail, sl_created_at = at\<rparr>]\<rparr>, None))
                 else (st1, None))"

end
