(* ===== verification/SiteStore.thy ===== *)
theory SiteStore
  imports Store
begin

text \<open>
  Sites, their configurations and the versions kept of them (\<open>internal/store/site.go\<close>,
  \<open>site_version.go\<close>), and the secrets inside a site configuration
  (\<open>site_config_secret.go\<close>): a secret that is submitted is encrypted before it is stored, a
  blank one keeps the stored one, and reading decrypts.
\<close>

section \<open>Secrets\<close>

definition secret_prefix :: string where
  "secret_prefix = ''enc:v1:''"

definition is_sealed :: "string \<Rightarrow> bool" where
  "is_sealed s \<longleftrightarrow> has_prefix s secret_prefix"

text \<open>
  The cipher of the world works on what follows the prefix. Without a key neither direction
  gives anything.
\<close>

definition encrypt_site_config_secret :: "world \<Rightarrow> string \<Rightarrow> string option" where
  "encrypt_site_config_secret w plain =
     (if \<not> wd_has_key w then None
      else map_option (\<lambda>c. secret_prefix @ c) (wd_encrypt w plain))"

definition decrypt_site_config_secret :: "world \<Rightarrow> string \<Rightarrow> string option" where
  "decrypt_site_config_secret w v =
     (if \<not> wd_has_key w then None
      else if \<not> is_sealed v then Some v
      else wd_decrypt w (trim_prefix v secret_prefix))"

definition unseal :: "world \<Rightarrow> cdn_provider_setting \<Rightarrow> cdn_provider_setting" where
  "unseal w s =
     (let secret = trim_space (secret_key s) in
      if is_sealed secret then
        (case decrypt_site_config_secret w secret of
           None \<Rightarrow> s\<lparr>secret_key := []\<rparr> | Some plain \<Rightarrow> s\<lparr>secret_key := plain\<rparr>)
      else s)"

definition map_settings ::
  "(string \<Rightarrow> cdn_provider_setting \<Rightarrow> cdn_provider_setting) \<Rightarrow> config \<Rightarrow> config" where
  "map_settings f cfg =
     (case cdn_provider_settings (security cfg) of
        None \<Rightarrow> cfg
      | Some m \<Rightarrow> cfg\<lparr>security := (security cfg)\<lparr>cdn_provider_settings :=
          Some (map (\<lambda>(p, s). (p, f p s)) m)\<rparr>\<rparr>)"

definition apply_decrypted_cdn_secrets :: "world \<Rightarrow> config \<Rightarrow> config" where
  "apply_decrypted_cdn_secrets w cfg = map_settings (\<lambda>_. unseal w) cfg"

definition stored_secret :: "config \<Rightarrow> string \<Rightarrow> string option" where
  "stored_secret cfg provider =
     (case cdn_provider_settings (security cfg) of
        None \<Rightarrow> None | Some m \<Rightarrow> map_option secret_key (map_get m provider))"

definition seal ::
  "world \<Rightarrow> config \<Rightarrow> string \<Rightarrow> cdn_provider_setting \<Rightarrow> store_error + cdn_provider_setting" where
  "seal w existing provider s =
     (let secret = trim_space (secret_key s) in
      if secret = [] then
        (case stored_secret existing provider of
           None \<Rightarrow> Inr s | Some previous \<Rightarrow> Inr (s\<lparr>secret_key := previous\<rparr>))
      else if \<not> is_sealed secret then
        (case encrypt_site_config_secret w secret of
           None \<Rightarrow> Inl EncryptFailed | Some c \<Rightarrow> Inr (s\<lparr>secret_key := c\<rparr>))
      else Inr s)"

definition seal_step ::
  "world \<Rightarrow> config \<Rightarrow> string \<times> cdn_provider_setting \<Rightarrow> cdn_provider_setting gomap
   \<Rightarrow> store_error + cdn_provider_setting gomap" where
  "seal_step w existing ps acc =
     (case ps of (provider, s) \<Rightarrow>
        res_bind (seal w existing provider s) (\<lambda>s'. Inr (acc @ [(provider, s')])))"

definition merge_and_encrypt_cdn_secrets :: "world \<Rightarrow> config \<Rightarrow> config \<Rightarrow> store_error + config" where
  "merge_and_encrypt_cdn_secrets w existing incoming =
     (case cdn_provider_settings (security incoming) of
        None \<Rightarrow> Inr incoming
      | Some m \<Rightarrow> res_bind (fold_res (seal_step w existing) m [])
          (\<lambda>m'. Inr (incoming\<lparr>security := (security incoming)\<lparr>cdn_provider_settings := Some m'\<rparr>\<rparr>)))"

section \<open>Sites\<close>

definition find_site :: "string \<Rightarrow> store \<Rightarrow> site_row option" where
  "find_site i st = find (\<lambda>r. site_id (sr_site r) = i) (sites st)"

definition create_site :: "world \<Rightarrow> site \<Rightarrow> store \<Rightarrow> store \<times> (store_error + site)" where
  "create_site w s st = commit st (guarded st
     (if site_name s = [] \<or> site_hostname s = [] \<or> site_ip s = [] then Inl SiteFieldsMissing
      else res_bind (new_id w 0) (\<lambda>i.
        let at = unix_seconds (wd_now w);
            s' = s\<lparr>site_id := i, site_created_at := at, site_updated_at := at\<rparr> in
        res_bind (run_sql w InsertSite (find_site i st = None))
          (\<lambda>_. Inr (st\<lparr>sites := sites st @ [\<lparr>sr_site = s', sr_config = []\<rparr>]\<rparr>, s')))))"

definition get_site :: "world \<Rightarrow> string \<Rightarrow> store \<Rightarrow> store_error + site" where
  "get_site w i st = guarded st
     (res_bind (run_sql w SelectSite True)
       (\<lambda>_. case find_site i st of None \<Rightarrow> Inl SiteNotFound | Some r \<Rightarrow> Inr (sr_site r)))"

definition update_rows :: "string \<Rightarrow> (site_row \<Rightarrow> site_row) \<Rightarrow> site_row list \<Rightarrow> site_row list" where
  "update_rows i f rows = map (\<lambda>r. if site_id (sr_site r) = i then f r else r) rows"

definition keep_or :: "string \<Rightarrow> string \<Rightarrow> string" where
  "keep_or new old = (if new \<noteq> [] then new else old)"

definition update_site :: "world \<Rightarrow> string \<Rightarrow> site \<Rightarrow> store \<Rightarrow> store \<times> (store_error + site)" where
  "update_site w i payload st = commit st (guarded st
     (if i = [] then Inl SiteIdEmpty
      else res_bind (get_site w i st) (\<lambda>current.
        let current' = current\<lparr>site_name := keep_or (site_name payload) (site_name current),
              site_hostname := keep_or (site_hostname payload) (site_hostname current),
              site_ip := keep_or (site_ip payload) (site_ip current),
              site_updated_at := unix_seconds (wd_now w)\<rparr> in
        res_bind (run_sql w UpdateSiteRow True)
          (\<lambda>_. Inr (st\<lparr>sites := update_rows (site_id current) (\<lambda>r. r\<lparr>sr_site := current'\<rparr>) (sites st)\<rparr>,
                   current')))))"

text \<open>The five deletions of a site run in one transaction.\<close>

definition run_all :: "world \<Rightarrow> sql_stmt list \<Rightarrow> store_error + unit" where
  "run_all w stmts = fold_res (\<lambda>s _. run_sql w s True) stmts ()"

definition purge_site :: "string \<Rightarrow> store \<Rightarrow> store" where
  "purge_site i st = st\<lparr>
     site_versions := filter (\<lambda>v. vr_site v \<noteq> i) (site_versions st),
     cdn_snapshots := filter (\<lambda>r. sn_site r \<noteq> i) (cdn_snapshots st),
     cdn_origin_status := filter (\<lambda>r. ss_site r \<noteq> i) (cdn_origin_status st),
     log_streams := filter (\<lambda>r. ls_site r \<noteq> i) (log_streams st),
     sites := filter (\<lambda>r. site_id (sr_site r) \<noteq> i) (sites st)\<rparr>"

definition delete_site :: "world \<Rightarrow> string \<Rightarrow> store \<Rightarrow> store \<times> (store_error + site)" where
  "delete_site w i st = commit st (guarded st
     (if i = [] then Inl SiteIdEmpty
      else res_bind (get_site w i st) (\<lambda>s.
        res_bind (run_all w [BeginTx, DeleteVersionsOfSite, DeleteSnapshotsOfSite, DeleteStatusOfSite,
                    DeleteStreamOfSite, DeleteSiteRow, CommitTx])
          (\<lambda>_. Inr (purge_site i st, s)))))"

definition list_sites :: "world \<Rightarrow> string \<Rightarrow> string \<Rightarrow> store \<Rightarrow> store_error + site list" where
  "list_sites w hostname ip st = guarded st
     (res_bind (run_sql w SelectSites True)
       (\<lambda>_. Inr (order_desc w site_updated_at
               (filter (\<lambda>s. (hostname = [] \<or> site_hostname s = hostname) \<and> (ip = [] \<or> site_ip s = ip))
                 (map sr_site (sites st))))))"

definition normalize_hostname :: "string \<Rightarrow> string" where
  "normalize_hostname h = to_lower (trim_space h)"

text \<open>\<open>LIMIT 1\<close> without an order: the row that is found first.\<close>

definition site_by_host :: "string \<Rightarrow> store \<Rightarrow> site_row option" where
  "site_by_host h st = find (\<lambda>r. to_lower (site_hostname (sr_site r)) = h) (sites st)"

definition get_site_id_by_hostname :: "world \<Rightarrow> string \<Rightarrow> store \<Rightarrow> store_error + string" where
  "get_site_id_by_hostname w hostname st = guarded st
     (let h = normalize_hostname hostname in
      if h = [] then Inl SiteNotFound
      else res_bind (run_sql w SelectSiteByHost True)
        (\<lambda>_. case site_by_host h st of None \<Rightarrow> Inl SiteNotFound | Some r \<Rightarrow> Inr (site_id (sr_site r))))"

section \<open>Site configurations\<close>

text \<open>A site that was never configured has the empty text, which reads as the zero configuration.\<close>

definition read_site_config :: "world \<Rightarrow> string \<Rightarrow> store_error + config" where
  "read_site_config w json =
     (if json = [] then Inr zero_config
      else (case wd_unmarshal w json of
              None \<Rightarrow> Inl BadJson | Some cfg \<Rightarrow> Inr (apply_decrypted_cdn_secrets w cfg)))"

definition get_site_config_by_hostname ::
  "world \<Rightarrow> string \<Rightarrow> store \<Rightarrow> store_error + config" where
  "get_site_config_by_hostname w hostname st = guarded st
     (let h = normalize_hostname hostname in
      if h = [] then Inl SiteNotFound
      else res_bind (run_sql w SelectSiteConfig True)
        (\<lambda>_. case site_by_host h st of
               None \<Rightarrow> Inl SiteNotFound | Some r \<Rightarrow> read_site_config w (sr_config r)))"

definition get_site_config :: "world \<Rightarrow> string \<Rightarrow> store \<Rightarrow> store_error + config" where
  "get_site_config w i st = guarded st
     (res_bind (run_sql w SelectSiteConfig True)
       (\<lambda>_. case find_site i st of
              None \<Rightarrow> Inl SiteNotFound | Some r \<Rightarrow> read_site_config w (sr_config r)))"

definition site_rows :: "string \<Rightarrow> version_row list \<Rightarrow> version_row list" where
  "site_rows i vs = filter (\<lambda>v. vr_site v = i) vs"

definition newest_ids :: "world \<Rightarrow> nat \<Rightarrow> version_row list \<Rightarrow> string list" where
  "newest_ids w n vs =
     map (cv_id \<circ> vr_version) (take n (order_desc w (cv_created_at \<circ> vr_version) vs))"

definition prune_site_versions :: "world \<Rightarrow> string \<Rightarrow> version_row list \<Rightarrow> version_row list" where
  "prune_site_versions w i vs =
     filter (\<lambda>v. \<not> (vr_site v = i \<and> cv_id (vr_version v) \<notin> set (newest_ids w 10 (site_rows i vs)))) vs"

definition existing_config :: "world \<Rightarrow> string \<Rightarrow> store_error + config" where
  "existing_config w json =
     (if trim_space json = [] then Inr zero_config
      else (case wd_unmarshal w json of None \<Rightarrow> Inl BadJson | Some cfg \<Rightarrow> Inr cfg))"

text \<open>The transaction of \<open>UpdateSiteConfig\<close>: the site's row, a new version, the oldest versions.\<close>

definition store_site_config ::
  "world \<Rightarrow> string \<Rightarrow> string \<Rightarrow> config_version \<Rightarrow> store \<Rightarrow> store" where
  "store_site_config w i payload v st = st\<lparr>
     sites := update_rows i (\<lambda>r. r\<lparr>sr_config := payload,
       sr_site := (sr_site r)\<lparr>site_updated_at := cv_created_at v\<rparr>\<rparr>) (sites st),
     site_versions := prune_site_versions w i
       (site_versions st @ [\<lparr>vr_site = i, vr_version = v, vr_config = payload\<rparr>])\<rparr>"

definition update_site_config ::
  "world \<Rightarrow> string \<Rightarrow> config \<Rightarrow> string \<Rightarrow> string \<Rightarrow> store \<Rightarrow> store \<times> (store_error + config_version)" where
  "update_site_config w i cfg operator source st = commit st (guarded st
     (if i = [] then Inl SiteIdEmpty
      else res_bind (run_sql w SelectSiteConfig True) (\<lambda>_.
        case find_site i st of
          None \<Rightarrow> Inl SiteNotFound
        | Some r \<Rightarrow>
            res_bind (existing_config w (sr_config r)) (\<lambda>existing.
            res_bind (merge_and_encrypt_cdn_secrets w existing cfg) (\<lambda>merged.
            res_bind (new_id w 0) (\<lambda>vid.
            let v = \<lparr>cv_id = vid, cv_created_at = unix_seconds (wd_now w), cv_operator = operator,
                      cv_source = source\<rparr> in
            res_bind (run_all w [BeginTx, UpdateSiteConfigRow]) (\<lambda>_.
            res_bind (run_sql w InsertSiteVersion (vid \<notin> (cv_id \<circ> vr_version) ` set (site_versions st))) (\<lambda>_.
            res_bind (run_all w [PruneSiteVersions, CommitTx]) (\<lambda>_.
              Inr (store_site_config w i (wd_marshal w merged) v st, v))))))))))"

definition list_site_versions ::
  "world \<Rightarrow> string \<Rightarrow> int \<Rightarrow> store \<Rightarrow> store_error + config_version list" where
  "list_site_versions w i limit st = guarded st
     (if i = [] then Inl SiteIdEmpty
      else res_bind (run_sql w SelectSiteVersions True)
        (\<lambda>_. Inr (take (nat (if limit \<le> 0 then 10 else limit))
               (order_desc w cv_created_at (map vr_version (site_rows i (site_versions st)))))))"

definition find_version :: "string \<Rightarrow> string \<Rightarrow> store \<Rightarrow> version_row option" where
  "find_version i vid st = find (\<lambda>v. vr_site v = i \<and> cv_id (vr_version v) = vid) (site_versions st)"

definition get_site_version_config ::
  "world \<Rightarrow> string \<Rightarrow> string \<Rightarrow> store \<Rightarrow> store_error + config" where
  "get_site_version_config w i vid st = guarded st
     (res_bind (run_sql w SelectSiteVersionConfig True)
       (\<lambda>_. case find_version i vid st of
              None \<Rightarrow> Inl SiteVersionMissing
            | Some v \<Rightarrow>
                (case wd_unmarshal w (vr_config v) of
                   None \<Rightarrow> Inl BadJson | Some cfg \<Rightarrow> Inr (apply_decrypted_cdn_secrets w cfg))))"

definition rollback_site_version ::
  "world \<Rightarrow> string \<Rightarrow> string \<Rightarrow> string \<Rightarrow> store \<Rightarrow> store \<times> (store_error + config_version)" where
  "rollback_site_version w i vid operator st =
     (case get_site_version_config w i vid st of
        Inl e \<Rightarrow> (st, Inl e)
      | Inr cfg \<Rightarrow> update_site_config w i cfg operator ''rollback'' st)"

definition delete_site_version :: "world \<Rightarrow> string \<Rightarrow> string \<Rightarrow> store \<Rightarrow> store \<times> (store_error + unit)" where
  "delete_site_version w i vid st = commit st (guarded st
     (if i = [] then Inl SiteIdEmpty
      else if vid = [] then Inl VersionIdEmpty
      else res_bind (run_sql w DeleteSiteVersionRow True) (\<lambda>_.
        if find_version i vid st = None then Inl SiteVersionMissing
        else Inr (st\<lparr>site_versions := filter (\<lambda>v. \<not> (vr_site v = i \<and> cv_id (vr_version v) = vid))
                     (site_versions st)\<rparr>, ()))))"

section \<open>Log streams and traffic logs\<close>

definition get_site_log_stream :: "world \<Rightarrow> string \<Rightarrow> store \<Rightarrow> store_error + log_stream" where
  "get_site_log_stream w i st = guarded st
     (res_bind (run_sql w SelectLogStream True)
       (\<lambda>_. case find (\<lambda>r. ls_site r = i) (log_streams st) of
              None \<Rightarrow> Inl SiteLogNotFound | Some r \<Rightarrow> Inr r))"

definition update_site_log_stream ::
  "world \<Rightarrow> string \<Rightarrow> string \<Rightarrow> store \<Rightarrow> store \<times> (store_error + log_stream)" where
  "update_site_log_stream w i q st = commit st (guarded st
     (if i = [] then Inl SiteIdEmpty
      else if q = [] then Inl FilterEmpty
      else
        let r = \<lparr>ls_site = i, ls_filter = q, ls_updated_at = unix_seconds (wd_now w)\<rparr> in
        res_bind (run_sql w UpsertLogStream True)
          (\<lambda>_. Inr (st\<lparr>log_streams := (if find (\<lambda>x. ls_site x = i) (log_streams st) = None
                     then log_streams st @ [r]
                     else map (\<lambda>x. if ls_site x = i then r else x) (log_streams st))\<rparr>, r))))"

definition save_site_traffic_log ::
  "world \<Rightarrow> string \<Rightarrow> traffic_log \<Rightarrow> store \<Rightarrow> store \<times> (store_error + unit)" where
  "save_site_traffic_log w i e st = commit st (guarded st
     (if i = [] then Inl SiteIdEmpty
      else res_bind (new_id w 0) (\<lambda>lid.
        let e' = e\<lparr>tl_level := (if tl_level e = [] then ''info'' else tl_level e),
                   tl_type := (if tl_type e = [] then ''proxy'' else tl_type e)\<rparr> in
        res_bind (run_sql w InsertTrafficLog (lid \<notin> fst ` set (traffic_logs st)))
          (\<lambda>_. Inr (st\<lparr>traffic_logs := traffic_logs st @ [(lid, i, e', wd_now w)]\<rparr>, ())))))"

end
