(* ===== verification/SiteStoreProps.thy ===== *)
theory SiteStoreProps
  imports SiteStore
begin

text \<open>
  What the store keeps of a site: which versions survive an update, that no secret is stored
  in the clear, that a configuration is read back as it was written, what a deletion removes.
\<close>

section \<open>Calculus of outcomes\<close>

lemma commit_simps [simp]:
  "commit st r = (st', Inr x) \<longleftrightarrow> r = Inr (st', x)"
  "commit st r = (st', Inl e) \<longleftrightarrow> r = Inl e \<and> st' = st"
  by (auto simp: commit_def split: sum.splits)

lemma guarded_Inr [simp]: "guarded st r = Inr x \<longleftrightarrow> db_ready st \<and> r = Inr x"
  by (simp add: guarded_def)

lemma run_sql_Inr [simp]: "run_sql w s b = Inr u \<longleftrightarrow> wd_sql w s \<and> b"
  by (simp add: run_sql_def)

lemma new_id_Inr [simp]: "new_id w n = Inr i \<longleftrightarrow> wd_random w n = Some i"
  by (auto simp: new_id_def split: option.splits)

lemma run_all_Inr [simp]: "run_all w ss = Inr u \<longleftrightarrow> list_all (wd_sql w) ss"
proof -
  have "fold_res (\<lambda>s _. run_sql w s True) ss a = Inr u \<longleftrightarrow> list_all (wd_sql w) ss" for a
    by (induction ss arbitrary: a) (auto simp: res_bind_Inr_iff)
  then show ?thesis by (simp add: run_all_def)
qed

section \<open>\<open>ORDER BY ... DESC\<close>\<close>

lemma newest_first_orders: "orders_desc newest_first"
  unfolding orders_desc_def newest_first_def
proof (intro allI conjI)
  fix ks :: "int list"
  have "sorted (map (\<lambda>i. - (ks ! i)) (sort_key (\<lambda>i. - (ks ! i)) [0..<length ks]))"
    by (rule sorted_sort_key)
  then show "sorted_wrt (\<lambda>i j. ks ! i \<ge> ks ! j) (sort_key (\<lambda>i. - (ks ! i)) [0..<length ks])"
    by (simp add: sorted_wrt_map)
qed simp

lemma mset_order_desc: "orders_desc (wd_order w) \<Longrightarrow> mset (order_desc w key rows) = mset rows"
proof -
  assume "orders_desc (wd_order w)"
  then have "mset (wd_order w (map key rows)) = mset [0..<length rows]"
    by (simp add: orders_desc_def)
  then have "mset (order_desc w key rows) = image_mset (nth rows) (mset [0..<length rows])"
    by (simp add: order_desc_def)
  also have "\<dots> = mset (map (nth rows) [0..<length rows])" by simp
  finally show ?thesis by (simp only: map_nth)
qed

lemma sorted_order_desc:
  assumes "orders_desc (wd_order w)"
  shows "sorted_wrt (\<lambda>a b. key a \<ge> key b) (order_desc w key rows)"
proof -
  let ?is = "wd_order w (map key rows)"
  have m: "mset ?is = mset [0..<length (map key rows)]"
    and s: "sorted_wrt (\<lambda>i j. map key rows ! i \<ge> map key rows ! j) ?is"
    using assms unfolding orders_desc_def by blast+
  have bound: "i < length rows" if "i \<in> set ?is" for i
    using mset_eq_setD [OF m] that by simp
  have "sorted_wrt (\<lambda>i j. key (rows ! i) \<ge> key (rows ! j)) ?is"
    by (rule sorted_wrt_mono_rel [OF _ s]) (use bound in auto)
  then show ?thesis by (simp add: order_desc_def sorted_wrt_map)
qed

section \<open>Versions\<close>

abbreviation row_id :: "version_row \<Rightarrow> string" where
  "row_id \<equiv> cv_id \<circ> vr_version"

abbreviation row_time :: "version_row \<Rightarrow> int" where
  "row_time \<equiv> cv_created_at \<circ> vr_version"

definition versions_ok :: "store \<Rightarrow> bool" where
  "versions_ok st \<longleftrightarrow> distinct (map row_id (site_versions st))"

definition kept :: "world \<Rightarrow> nat \<Rightarrow> version_row list \<Rightarrow> version_row list" where
  "kept w n vs = filter (\<lambda>v. row_id v \<in> set (newest_ids w n vs)) vs"

lemma kept_subset: "set (kept w n vs) \<subseteq> set vs"
  unfolding kept_def by (rule filter_is_subset)

lemma kept_newest:
  assumes "orders_desc (wd_order w)" "distinct (map row_id vs)"
  shows "length (kept w n vs) = min n (length vs)"
    and "k \<in> set (kept w n vs) \<Longrightarrow> d \<in> set vs - set (kept w n vs) \<Longrightarrow> row_time d \<le> row_time k"
proof -
  let ?O = "order_desc w row_time vs"
  have m: "mset ?O = mset vs" by (rule mset_order_desc [OF assms(1)])
  have vs: "distinct vs" "inj_on row_id (set vs)"
    using assms(2) by (simp_all add: distinct_map)
  have O: "set ?O = set vs" "distinct ?O" "length ?O = length vs"
    using m vs(1) by (auto dest: mset_eq_setD mset_eq_length mset_eq_imp_distinct_iff)
  have T: "set (take n ?O) \<subseteq> set vs" using set_take_subset [of n ?O] O(1) by blast
  have ids: "set (newest_ids w n vs) = row_id ` set (take n ?O)"
    by (simp add: newest_ids_def)
  have K: "set (kept w n vs) = set (take n ?O)"
  proof (intro set_eqI iffI)
    fix x assume "x \<in> set (kept w n vs)"
    then obtain y where y: "x \<in> set vs" "y \<in> set (take n ?O)" "row_id x = row_id y"
      by (auto simp: kept_def ids)
    with T vs(2) have "x = y" by (meson inj_onD subsetD)
    with y(2) show "x \<in> set (take n ?O)" by simp
  qed (use T in \<open>auto simp: kept_def ids\<close>)
  have "distinct (kept w n vs)" using vs(1) by (simp add: kept_def)
  then show "length (kept w n vs) = min n (length vs)"
    using K O distinct_card [of "kept w n vs"] distinct_card [of "take n ?O"] by simp
  have "sorted_wrt (\<lambda>a b. row_time a \<ge> row_time b) (take n ?O @ drop n ?O)"
    using sorted_order_desc [OF assms(1), of row_time vs] by simp
  then have sep: "\<forall>a\<in>set (take n ?O). \<forall>b\<in>set (drop n ?O). row_time a \<ge> row_time b"
    unfolding sorted_wrt_append by blast
  assume k: "k \<in> set (kept w n vs)" and d: "d \<in> set vs - set (kept w n vs)"
  have "set ?O = set (take n ?O) \<union> set (drop n ?O)"
    by (metis append_take_drop_id set_append)
  then have "d \<in> set (drop n ?O)" using d K O(1) by auto
  then show "row_time d \<le> row_time k" using sep k K by auto
qed

lemma site_rows_prune:
  "site_rows i (prune_site_versions w i vs) = kept w 10 (site_rows i vs)"
  "j \<noteq> i \<Longrightarrow> site_rows j (prune_site_versions w i vs) = site_rows j vs"
  by (auto simp: prune_site_versions_def kept_def site_rows_def intro!: filter_cong)

lemma distinct_site_rows: "distinct (map row_id vs) \<Longrightarrow> distinct (map row_id (site_rows i vs))"
  unfolding site_rows_def by (rule distinct_map_filter)

lemma update_site_config_Inr:
  assumes "update_site_config w i cfg op src st = (st', Inr v)"
  obtains r existing merged where "find_site i st = Some r" "i \<noteq> []" "db_ready st"
    "existing_config w (sr_config r) = Inr existing"
    "merge_and_encrypt_cdn_secrets w existing cfg = Inr merged"
    "cv_id v \<notin> row_id ` set (site_versions st)" "cv_created_at v = unix_seconds (wd_now w)"
    "st' = store_site_config w i (wd_marshal w merged) v st"
    "cv_operator v = op" "cv_source v = src" "wd_sql w SelectSiteConfig"
  using assms
  by (auto simp: update_site_config_def res_bind_Inr_iff Let_def split: if_splits option.splits)

lemma find_by_id:
  "distinct (map f xs) \<Longrightarrow> x \<in> set xs \<Longrightarrow> find (\<lambda>y. P y \<and> f y = f x) xs = (if P x then Some x else None)"
proof (induction xs)
  case (Cons y ys)
  have "find (\<lambda>y. P y \<and> f y = f x) ys = None" if "f x \<notin> f ` set ys"
    unfolding find_None_iff using that by (auto simp: image_iff)
  with Cons show ?case by (auto simp: image_iff)
qed simp

text \<open>
  C38. What an update keeps. After \<open>UpdateSiteConfig\<close> a site has at most ten versions: as many
  of its old ones and the new one as there are, up to ten, none of them older than one that
  was dropped; other sites keep theirs, and identifiers stay unique. When every version of
  the site is older than the clock's second, the new version is found under its identifier.
\<close>

theorem version_retention:
  assumes "update_site_config w i cfg op src st = (st', Inr v)"
    and "versions_ok st" "orders_desc (wd_order w)"
  shows "\<exists>new. vr_version new = v \<and> vr_site new = i \<and> versions_ok st' \<and>
    (let old = site_rows i (site_versions st); rows = site_rows i (site_versions st') in
     set rows \<subseteq> set (old @ [new]) \<and> length rows = min 10 (Suc (length old)) \<and>
     (\<forall>k\<in>set rows. \<forall>d\<in>set (old @ [new]) - set rows. row_time d \<le> row_time k) \<and>
     (list_all (\<lambda>r. row_time r < row_time new) old \<longrightarrow> find_version i (cv_id v) st' = Some new)) \<and>
    (\<forall>j. j \<noteq> i \<longrightarrow> site_rows j (site_versions st') = site_rows j (site_versions st))"
proof -
  from assms(1) obtain merged where v: "cv_id v \<notin> row_id ` set (site_versions st)"
    "st' = store_site_config w i (wd_marshal w merged) v st" by (rule update_site_config_Inr)
  define new where "new = \<lparr>vr_site = i, vr_version = v, vr_config = wd_marshal w merged\<rparr>"
  let ?vs = "site_versions st @ [new]" and ?old = "site_rows i (site_versions st)"
  have st': "site_versions st' = prune_site_versions w i ?vs"
    by (simp add: v(2) store_site_config_def new_def)
  have d: "distinct (map row_id ?vs)"
    using assms(2) v(1) by (simp add: versions_ok_def new_def)
  have ok: "versions_ok st'"
    unfolding versions_ok_def st' prune_site_versions_def by (rule distinct_map_filter [OF d])
  have rows: "site_rows i (site_versions st') = kept w 10 (?old @ [new])"
    unfolding st' site_rows_prune(1) by (simp add: site_rows_def new_def)
  have do: "distinct (map row_id (?old @ [new]))"
    using distinct_site_rows [OF d, of i] by (simp add: site_rows_def new_def)
  note k = kept_newest(2) [OF assms(3) do, where n = 10]
  have found: "find_version i (cv_id v) st' = Some new" if "list_all (\<lambda>r. row_time r < row_time new) ?old"
  proof -
    have "new \<in> set (kept w 10 (?old @ [new]))"
    proof (rule ccontr)
      assume n: "new \<notin> set (kept w 10 (?old @ [new]))"
      have "kept w 10 (?old @ [new]) \<noteq> []" using kept_newest(1) [OF assms(3) do, of 10] by auto
      then obtain x where x: "x \<in> set (kept w 10 (?old @ [new]))" by (meson last_in_set)
      with n have "x \<noteq> new" "x \<in> set (?old @ [new])" using kept_subset by blast+
      then have "x \<in> set ?old" by simp
      then show False using k [OF x] n that by (fastforce simp: list_all_iff)
    qed
    then have "new \<in> set (site_versions st')"
      unfolding rows [symmetric] by (simp add: site_rows_def)
    from find_by_id [OF ok [unfolded versions_ok_def] this, of "\<lambda>x. vr_site x = i"]
    show ?thesis by (simp add: find_version_def new_def)
  qed
  have other: "site_rows j (site_versions st') = site_rows j (site_versions st)" if "j \<noteq> i" for j
    unfolding st' site_rows_prune(2) [OF that] using that by (simp add: site_rows_def new_def)
  note sub = kept_subset [of w 10 "?old @ [new]"]
  have sep: "\<forall>x\<in>set (kept w 10 (?old @ [new])). \<forall>y\<in>set (?old @ [new]) - set (kept w 10 (?old @ [new])).
      row_time y \<le> row_time x"
    using k by blast
  show ?thesis
    by (intro exI [of _ new])
      (use ok found other sub sep kept_newest(1) [OF assms(3) do, of 10] in
        \<open>simp add: rows Let_def new_def [THEN arg_cong [where f = vr_version]]
          new_def [THEN arg_cong [where f = vr_site]]\<close>)
qed

definition sample_world :: world where
  "sample_world = \<lparr>wd_now = 100 * second, wd_random = (\<lambda>n. Some (''id'' @ itoa n)), wd_sql = (\<lambda>_. True),
     wd_order = newest_first, wd_marshal = (\<lambda>_. ''{}''), wd_unmarshal = (\<lambda>_. Some zero_config),
     wd_has_key = True, wd_encrypt = (\<lambda>p. if list_all (\<lambda>c. \<not> is_space c) p then Some p else None),
     wd_decrypt = Some\<rparr>"

definition sample_site :: site where
  "sample_site = \<lparr>site_id = ''s'', site_name = ''shop'', site_hostname = ''Shop.org'', site_ip = ''10.0.0.1'',
     site_created_at = 1, site_updated_at = 1\<rparr>"

definition sample_version :: "int \<Rightarrow> nat \<Rightarrow> version_row" where
  "sample_version t n = \<lparr>vr_site = ''s'', vr_version = \<lparr>cv_id = ''v'' @ itoa n, cv_created_at = t,
     cv_operator = ''op'', cv_source = ''update''\<rparr>, vr_config = ''{}''\<rparr>"

definition sample_store :: "int \<Rightarrow> store" where
  "sample_store t = init_store\<lparr>sites := [\<lparr>sr_site = sample_site, sr_config = ''{}''\<rparr>],
     site_versions := map (sample_version t) [0..<10]\<rparr>"

definition next_version :: config_version where
  "next_version = \<lparr>cv_id = ''id0'', cv_created_at = 100, cv_operator = ''op'', cv_source = ''update''\<rparr>"

theorem version_retention_witness:
  "find_version ''s'' ''id0''
     (fst (update_site_config sample_world ''s'' zero_config ''op'' ''update'' (sample_store 7))) \<noteq> None \<and>
   length (site_rows ''s'' (site_versions
     (fst (update_site_config sample_world ''s'' zero_config ''op'' ''update'' (sample_store 7))))) = 10"
proof -
  let ?r = "update_site_config sample_world ''s'' zero_config ''op'' ''update'' (sample_store 7)"
  have r: "?r = (fst ?r, Inr next_version)" by code_simp
  have ok: "versions_ok (sample_store 7)" by code_simp
  have old: "list_all (\<lambda>r. row_time r < 100) (site_rows ''s'' (site_versions (sample_store 7)))"
    "length (site_rows ''s'' (site_versions (sample_store 7))) = 10" by code_simp+
  have w: "orders_desc (wd_order sample_world)" by (simp add: sample_world_def newest_first_orders)
  show ?thesis
    using version_retention [OF r ok w] old by (auto simp: Let_def next_version_def)
qed

text \<open>
  A version can be lost as it is made. The ten kept versions are chosen by the second they
  were made in, so an eleventh one of the same second can be the one that is dropped: the
  update returns an identifier to which there is no version, and rolling back to it fails.
\<close>

theorem same_second_version_lost:
  "snd (update_site_config sample_world ''s'' zero_config ''op'' ''update'' (sample_store 100)) =
     Inr next_version \<and>
   find_version ''s'' ''id0''
     (fst (update_site_config sample_world ''s'' zero_config ''op'' ''update'' (sample_store 100))) = None \<and>
   snd (rollback_site_version sample_world ''s'' ''id0'' ''op''
     (fst (update_site_config sample_world ''s'' zero_config ''op'' ''update'' (sample_store 100)))) =
     Inl SiteVersionMissing"
  by code_simp

section \<open>Secrets\<close>

definition sealed_setting :: "cdn_provider_setting \<Rightarrow> bool" where
  "sealed_setting s \<longleftrightarrow> trim_space (secret_key s) = [] \<or> is_sealed (trim_space (secret_key s))"

definition sealed_config :: "config \<Rightarrow> bool" where
  "sealed_config cfg \<longleftrightarrow>
     (case cdn_provider_settings (security cfg) of
        None \<Rightarrow> True | Some m \<Rightarrow> list_all (\<lambda>(p, s). sealed_setting s) m)"

definition no_spaces :: "string \<Rightarrow> bool" where
  "no_spaces s \<longleftrightarrow> list_all (\<lambda>c. \<not> is_space c) s"

definition cipher_ok :: "world \<Rightarrow> bool" where
  "cipher_ok w \<longleftrightarrow> (\<forall>p c. wd_encrypt w p = Some c \<longrightarrow> wd_decrypt w c = Some p \<and> no_spaces c)"

lemma trim_space_no_spaces: "no_spaces s \<Longrightarrow> trim_space s = s"
proof -
  have "dropWhile is_space s = s" if "list_all (\<lambda>c. \<not> is_space c) s" for s
    using that by (cases s) auto
  then show "no_spaces s \<Longrightarrow> trim_space s = s"
    by (simp add: no_spaces_def trim_space_def trim_by_def)
qed

lemma sealed_text:
  "is_sealed (secret_prefix @ c)" "trim_prefix (secret_prefix @ c) secret_prefix = c" "\<not> is_sealed []"
  by (simp_all add: is_sealed_def has_prefix_def trim_prefix_def secret_prefix_def)

lemma sealed_no_spaces: "no_spaces c \<Longrightarrow> no_spaces (secret_prefix @ c)"
proof -
  have "no_spaces secret_prefix" by code_simp
  then show "no_spaces c \<Longrightarrow> no_spaces (secret_prefix @ c)" by (simp add: no_spaces_def)
qed

text \<open>What is read after a setting was written over the stored configuration.\<close>

definition read_back :: "world \<Rightarrow> config \<Rightarrow> string \<Rightarrow> cdn_provider_setting \<Rightarrow> cdn_provider_setting" where
  "read_back w existing p s =
     (let t = trim_space (secret_key s) in
      if t = [] then
        (case stored_secret existing p of None \<Rightarrow> s | Some previous \<Rightarrow> unseal w (s\<lparr>secret_key := previous\<rparr>))
      else if is_sealed t then unseal w s
      else s\<lparr>secret_key := t\<rparr>)"

lemma unseal_seal:
  assumes "seal w existing p s = Inr s'" "cipher_ok w"
  shows "unseal w s' = read_back w existing p s"
proof -
  let ?t = "trim_space (secret_key s)"
  consider "?t = []" | "?t \<noteq> []" "is_sealed ?t" | c where "?t \<noteq> []" "\<not> is_sealed ?t" "wd_has_key w"
      "wd_encrypt w ?t = Some c" "s' = s\<lparr>secret_key := secret_prefix @ c\<rparr>"
    using assms(1)
    by (auto simp: seal_def Let_def encrypt_site_config_secret_def split: if_splits option.splits)
  then show ?thesis
  proof cases
    case 1
    then show ?thesis
      using assms(1) by (auto simp: seal_def read_back_def unseal_def sealed_text split: option.splits)
  next
    case 2
    then show ?thesis using assms(1) by (simp add: seal_def read_back_def)
  next
    case 3
    then have c: "wd_decrypt w c = Some ?t" "no_spaces c" using assms(2) by (auto simp: cipher_ok_def)
    with 3 show ?thesis
      by (simp add: unseal_def read_back_def trim_space_no_spaces sealed_no_spaces sealed_text
          decrypt_site_config_secret_def)
  qed
qed

lemma seal_sealed:
  assumes "seal w existing p s = Inr s'" "sealed_config existing" "cipher_ok w"
  shows "sealed_setting s'"
proof -
  let ?t = "trim_space (secret_key s)"
  have prev: "trim_space x = [] \<or> is_sealed (trim_space x)" if "stored_secret existing p = Some x" for x
    using that assms(2)
    by (auto simp: stored_secret_def sealed_config_def sealed_setting_def list_all_iff
        split: option.splits dest!: map_of_SomeD)
  show ?thesis
    using assms(1,3) prev
    by (auto simp: seal_def Let_def sealed_setting_def encrypt_site_config_secret_def cipher_ok_def
        trim_space_no_spaces sealed_no_spaces sealed_text split: if_splits option.splits)
qed

lemma seal_step_pair:
  "seal_step w existing (p, s) acc = res_bind (seal w existing p s) (\<lambda>s'. Inr (acc @ [(p, s')]))"
  by (simp add: seal_step_def)

lemma seal_loop:
  "fold_res (seal_step w existing) m acc = Inr m' \<Longrightarrow>
   \<exists>m2. m' = acc @ m2 \<and> list_all2 (\<lambda>(p, s) (q, s'). q = p \<and> seal w existing p s = Inr s') m m2"
proof (induction m arbitrary: acc)
  case (Cons ps m)
  obtain p s where ps: "ps = (p, s)" by fastforce
  from Cons.prems obtain s' where s': "seal w existing p s = Inr s'"
    "fold_res (seal_step w existing) m (acc @ [(p, s')]) = Inr m'"
    by (auto simp: ps seal_step_pair res_bind_Inr_iff)
  from Cons.IH [OF s'(2)] obtain m2 where "m' = (acc @ [(p, s')]) @ m2"
    "list_all2 (\<lambda>(p, s) (q, s'). q = p \<and> seal w existing p s = Inr s') m m2" by blast
  with s'(1) show ?case by (intro exI [of _ "(p, s') # m2"]) (simp add: ps)
qed simp

lemma merge_sealed:
  assumes "merge_and_encrypt_cdn_secrets w existing cfg = Inr merged"
    and "sealed_config existing" "cipher_ok w"
  shows "sealed_config merged"
proof (cases "cdn_provider_settings (security cfg)")
  case None
  then show ?thesis using assms(1) by (simp add: merge_and_encrypt_cdn_secrets_def sealed_config_def)
next
  case (Some m)
  with assms(1) obtain m' where m': "fold_res (seal_step w existing) m [] = Inr m'"
    "merged = cfg\<lparr>security := (security cfg)\<lparr>cdn_provider_settings := Some m'\<rparr>\<rparr>"
    by (auto simp: merge_and_encrypt_cdn_secrets_def res_bind_Inr_iff)
  have "list_all2 (\<lambda>(p, s) (q, s'). q = p \<and> seal w existing p s = Inr s') m m'"
    using seal_loop [OF m'(1)] by simp
  then have "list_all (\<lambda>(p, s). sealed_setting s) m'"
    by (induction rule: list_all2_induct) (auto dest: seal_sealed [OF _ assms(2,3)])
  then show ?thesis by (simp add: sealed_config_def m'(2))
qed

lemma merge_read_back:
  assumes "merge_and_encrypt_cdn_secrets w existing cfg = Inr merged" "cipher_ok w"
  shows "apply_decrypted_cdn_secrets w merged = map_settings (read_back w existing) cfg"
proof (cases "cdn_provider_settings (security cfg)")
  case None
  then show ?thesis
    using assms(1)
    by (simp add: merge_and_encrypt_cdn_secrets_def apply_decrypted_cdn_secrets_def map_settings_def)
next
  case (Some m)
  with assms(1) obtain m' where m': "fold_res (seal_step w existing) m [] = Inr m'"
    "merged = cfg\<lparr>security := (security cfg)\<lparr>cdn_provider_settings := Some m'\<rparr>\<rparr>"
    by (auto simp: merge_and_encrypt_cdn_secrets_def res_bind_Inr_iff)
  have "list_all2 (\<lambda>(p, s) (q, s'). q = p \<and> seal w existing p s = Inr s') m m'"
    using seal_loop [OF m'(1)] by simp
  then have "map (\<lambda>(p, s). (p, unseal w s)) m' = map (\<lambda>(p, s). (p, read_back w existing p s)) m"
    by (induction rule: list_all2_induct) (auto dest: unseal_seal [OF _ assms(2)])
  then show ?thesis
    by (simp add: apply_decrypted_cdn_secrets_def map_settings_def m'(2) Some)
qed

definition secrets_ok :: "world \<Rightarrow> store \<Rightarrow> bool" where
  "secrets_ok w st \<longleftrightarrow> list_all (\<lambda>r. case existing_config w (sr_config r) of
     Inl _ \<Rightarrow> True | Inr c \<Rightarrow> sealed_config c) (sites st)"

lemma find_update_rows:
  assumes "\<And>r. site_id (sr_site r) = i \<Longrightarrow> site_id (sr_site (f r)) = i"
  shows "find (\<lambda>r. site_id (sr_site r) = i) (update_rows i f rows) =
    map_option f (find (\<lambda>r. site_id (sr_site r) = i) rows)"
  unfolding update_rows_def by (induction rows) (auto simp: assms)

lemma find_other_rows: "j \<noteq> i \<Longrightarrow>
  find (\<lambda>r. site_id (sr_site r) = j) (filter (\<lambda>r. site_id (sr_site r) \<noteq> i) rows) =
  find (\<lambda>r. site_id (sr_site r) = j) rows"
  by (induction rows) auto

lemma find_site_stored:
  assumes "find_site i st = Some r"
  shows "find_site i (store_site_config w i json v st) =
    Some (r\<lparr>sr_config := json, sr_site := (sr_site r)\<lparr>site_updated_at := cv_created_at v\<rparr>\<rparr>)"
  using assms by (simp add: find_site_def store_site_config_def find_update_rows)

lemma secrets_ok_site: "secrets_ok w st \<Longrightarrow> find_site i st = Some r \<Longrightarrow>
  existing_config w (sr_config r) = Inr c \<Longrightarrow> sealed_config c"
  unfolding secrets_ok_def list_all_iff find_site_def find_Some_iff
  by (metis nth_mem sum.simps(6))

text \<open>
  No secret is stored in the clear. When the secrets that are stored are sealed, what
  \<open>UpdateSiteConfig\<close> writes, to the site and as its new version, is the text of one
  configuration in which every provider secret is blank or sealed; nothing else is written.
\<close>

theorem secrets_stay_sealed:
  assumes "update_site_config w i cfg op src st = (st', Inr v)"
    and "secrets_ok w st" "cipher_ok w"
  shows "\<exists>merged. sealed_config merged \<and>
    map_option sr_config (find_site i st') = Some (wd_marshal w merged) \<and>
    list_all (\<lambda>x. x \<in> set (site_versions st) \<or> vr_config x = wd_marshal w merged) (site_versions st') \<and>
    list_all (\<lambda>r. site_id (sr_site r) = i \<or> r \<in> set (sites st)) (sites st')"
proof -
  from assms(1) obtain r existing merged where u: "find_site i st = Some r"
    "existing_config w (sr_config r) = Inr existing"
    "merge_and_encrypt_cdn_secrets w existing cfg = Inr merged"
    "st' = store_site_config w i (wd_marshal w merged) v st" by (rule update_site_config_Inr)
  have "sealed_config merged"
    by (rule merge_sealed [OF u(3) secrets_ok_site [OF assms(2) u(1,2)] assms(3)])
  moreover have "map_option sr_config (find_site i st') = Some (wd_marshal w merged)"
    by (simp add: u(4) find_site_stored [OF u(1)])
  ultimately show ?thesis
    by (intro exI [of _ merged])
      (auto simp: u(4) list_all_iff store_site_config_def prune_site_versions_def update_rows_def)
qed

definition keyed_config :: config where
  "keyed_config = zero_config\<lparr>security := (security zero_config)\<lparr>
     allowed_cdn_providers := [''aliyun''],
     cdn_provider_settings := Some [(''aliyun'', zero_setting\<lparr>secret_key := '' top ''\<rparr>),
       (''tencent'', zero_setting)]\<rparr>\<rparr>"

definition sealed_sample :: config where
  "sealed_sample = zero_config\<lparr>security := (security zero_config)\<lparr>
     allowed_cdn_providers := [''aliyun''],
     cdn_provider_settings := Some [(''aliyun'', zero_setting\<lparr>secret_key := ''enc:v1:top''\<rparr>),
       (''tencent'', zero_setting)]\<rparr>\<rparr>"

definition sealing_world :: world where
  "sealing_world = sample_world\<lparr>wd_unmarshal := (\<lambda>_. Some sealed_sample)\<rparr>"

lemma sample_cipher: "cipher_ok sealing_world"
  by (auto simp: cipher_ok_def sealing_world_def sample_world_def no_spaces_def split: if_splits)

theorem secrets_stay_sealed_witness:
  "map_option sr_config (find_site ''s''
     (fst (update_site_config sealing_world ''s'' keyed_config ''op'' ''update'' (sample_store 7)))) = Some ''{}''"
proof -
  let ?r = "update_site_config sealing_world ''s'' keyed_config ''op'' ''update'' (sample_store 7)"
  have r: "?r = (fst ?r, Inr next_version)" by code_simp
  have ok: "secrets_ok sealing_world (sample_store 7)" by code_simp
  show ?thesis
    using secrets_stay_sealed [OF r ok sample_cipher] by (auto simp: sealing_world_def sample_world_def)
qed

section \<open>Reading back\<close>

lemma get_site_config_stored:
  assumes "find_site i st = Some r" "merge_and_encrypt_cdn_secrets w existing cfg = Inr merged"
    and "cipher_ok w" "wd_unmarshal w (wd_marshal w merged) = Some merged" "wd_marshal w merged \<noteq> []"
    and "db_ready st" "wd_sql w SelectSiteConfig"
  shows "get_site_config w i (store_site_config w i (wd_marshal w merged) v st) =
    Inr (map_settings (read_back w existing) cfg)"
proof -
  have "db_ready (store_site_config w i json v st)" for json
    using assms(6) by (simp add: store_site_config_def)
  then show ?thesis
    using assms(4,5,7) merge_read_back [OF assms(2,3)]
    by (simp add: get_site_config_def guarded_def run_sql_def find_site_stored [OF assms(1)] read_site_config_def)
qed

text \<open>
  C37. Write and read. After \<open>UpdateSiteConfig\<close> reading the site gives the configuration that
  was written with each provider's secret trimmed; a secret that was left blank reads as the
  one stored before, one that came sealed as what it opens to. Of the JSON text only that it
  decodes to what it encodes is used, of the cipher that it opens what it sealed.
\<close>

theorem site_config_roundtrip:
  assumes "update_site_config w i cfg op src st = (st', Inr v)" "cipher_ok w"
    and "find_site i st = Some r" "existing_config w (sr_config r) = Inr existing"
    and "merge_and_encrypt_cdn_secrets w existing cfg = Inr merged"
    and "wd_unmarshal w (wd_marshal w merged) = Some merged" "wd_marshal w merged \<noteq> []"
  shows "get_site_config w i st' = Inr (map_settings (read_back w existing) cfg)"
proof -
  from assms(1) obtain m where u: "db_ready st" "wd_sql w SelectSiteConfig"
    "merge_and_encrypt_cdn_secrets w existing cfg = Inr m"
    "st' = store_site_config w i (wd_marshal w m) v st"
    by (rule update_site_config_Inr) (use assms(3,4) in auto)
  then show ?thesis
    using get_site_config_stored [OF assms(3,5,2,6,7) u(1,2)] assms(5) by simp
qed

theorem site_config_roundtrip_witness:
  "get_site_config sealing_world ''s''
     (fst (update_site_config sealing_world ''s'' keyed_config ''op'' ''update'' (sample_store 7))) =
   Inr (map_settings (\<lambda>p s. s\<lparr>secret_key := trim_space (secret_key s)\<rparr>) keyed_config)"
proof -
  let ?r = "update_site_config sealing_world ''s'' keyed_config ''op'' ''update'' (sample_store 7)"
  have r: "?r = (fst ?r, Inr next_version)" by code_simp
  have f: "find_site ''s'' (sample_store 7) = Some \<lparr>sr_site = sample_site, sr_config = ''{}''\<rparr>" by code_simp
  have e: "existing_config sealing_world (sr_config \<lparr>sr_site = sample_site, sr_config = ''{}''\<rparr>) =
    Inr sealed_sample" by code_simp
  have m: "merge_and_encrypt_cdn_secrets sealing_world sealed_sample keyed_config = Inr sealed_sample"
    by code_simp
  have j: "wd_unmarshal sealing_world (wd_marshal sealing_world sealed_sample) = Some sealed_sample"
    "wd_marshal sealing_world sealed_sample \<noteq> []"
    by (simp_all add: sealing_world_def sample_world_def)
  have b: "map_settings (read_back sealing_world sealed_sample) keyed_config =
    map_settings (\<lambda>p s. s\<lparr>secret_key := trim_space (secret_key s)\<rparr>) keyed_config" by code_simp
  show ?thesis using site_config_roundtrip [OF r sample_cipher f e m j] by (simp only: b)
qed

section \<open>Deletion\<close>

text \<open>
  What \<open>DeleteSite\<close> removes: the site, its versions, CIDR snapshots, synchronisation
  status and log stream, all of them or, when it fails, none; nothing of any other site. The
  site's traffic and system logs stay in the store.
\<close>

theorem delete_site_removes:
  "case delete_site w i st of
     (st', Inl e) \<Rightarrow> st' = st
   | (st', Inr s) \<Rightarrow>
       map_option sr_site (find_site i st) = Some s \<and> find_site i st' = None \<and>
       site_rows i (site_versions st') = [] \<and> filter (\<lambda>r. sn_site r = i) (cdn_snapshots st') = [] \<and>
       filter (\<lambda>r. ss_site r = i) (cdn_origin_status st') = [] \<and>
       (\<forall>j. j \<noteq> i \<longrightarrow> find_site j st' = find_site j st \<and>
          site_rows j (site_versions st') = site_rows j (site_versions st) \<and>
          filter (\<lambda>r. sn_site r = j) (cdn_snapshots st') = filter (\<lambda>r. sn_site r = j) (cdn_snapshots st)) \<and>
       traffic_logs st' = traffic_logs st \<and> system_logs st' = system_logs st"
proof (cases "delete_site w i st")
  case (Pair st' res)
  show ?thesis
  proof (cases res)
    case (Inl e)
    with Pair have "st' = st" by (simp add: delete_site_def)
    then show ?thesis unfolding Pair Inl by simp
  next
    case (Inr s)
    with Pair obtain r where r: "st' = purge_site i st" "find_site i st = Some r" "sr_site r = s"
      by (auto simp: delete_site_def res_bind_Inr_iff get_site_def split: if_splits option.splits)
    have gone: "find_site i (purge_site i st) = None"
      by (auto simp: find_site_def purge_site_def find_None_iff)
    have stay: "find_site j (purge_site i st) = find_site j st" if "j \<noteq> i" for j
      using that by (simp add: find_site_def purge_site_def find_other_rows)
    have logs: "traffic_logs (purge_site i st) = traffic_logs st" "system_logs (purge_site i st) = system_logs st"
      by (simp_all add: purge_site_def)
    have rows: "site_rows i (site_versions (purge_site i st)) = []"
      "filter (\<lambda>r. sn_site r = i) (cdn_snapshots (purge_site i st)) = []"
      "filter (\<lambda>r. ss_site r = i) (cdn_origin_status (purge_site i st)) = []"
      by (simp_all add: purge_site_def site_rows_def filter_empty_conv)
    have others: "site_rows j (site_versions (purge_site i st)) = site_rows j (site_versions st)"
      "filter (\<lambda>r. sn_site r = j) (cdn_snapshots (purge_site i st)) = filter (\<lambda>r. sn_site r = j) (cdn_snapshots st)"
      if "j \<noteq> i" for j
      using that by (auto simp: purge_site_def site_rows_def intro!: filter_cong)
    show ?thesis
      unfolding Pair Inr r(1) using r(2,3) gone stay logs rows others by simp
  qed
qed

definition other_row :: site_row where
  "other_row = \<lparr>sr_site = sample_site\<lparr>site_id := ''t''\<rparr>, sr_config = []\<rparr>"

theorem delete_site_removes_witness:
  "find_site ''t'' (fst (delete_site sample_world ''s''
     (sample_store 7\<lparr>sites := [other_row, \<lparr>sr_site = sample_site, sr_config = []\<rparr>]\<rparr>))) = Some other_row"
proof -
  let ?st = "sample_store 7\<lparr>sites := [other_row, \<lparr>sr_site = sample_site, sr_config = []\<rparr>]\<rparr>"
  let ?r = "delete_site sample_world ''s'' ?st"
  have r: "?r = (fst ?r, Inr sample_site)" by code_simp
  have o: "find_site ''t'' ?st = Some other_row" by code_simp
  have "\<forall>j. j \<noteq> ''s'' \<longrightarrow> find_site j (fst ?r) = find_site j ?st"
    using delete_site_removes [where w = sample_world and i = "''s''" and st = ?st] by (subst (asm) r) auto
  then show ?thesis using o by simp
qed

end
