(* ===== verification/SiteAccess.thy ===== *)
theory SiteAccess
  imports GatewayProps SiteStoreProps
begin

text \<open>
  The gateway on top of the store: what \<open>ServeHTTP\<close> makes of the site's record, and what
  creating and configuring a site through the store does to the access to its host.
\<close>

definition site_view_of :: "world \<Rightarrow> store option \<Rightarrow> string \<Rightarrow> site_view" where
  "site_view_of w db host =
     (case db of
        None \<Rightarrow> \<lparr>sv_site_id = None, sv_config = None\<rparr>
      | Some st \<Rightarrow>
          \<lparr>sv_site_id = (case get_site_id_by_hostname w host st of Inl _ \<Rightarrow> None | Inr i \<Rightarrow> Some i),
           sv_config = (case get_site_config_by_hostname w host st of Inl _ \<Rightarrow> None | Inr c \<Rightarrow> Some c)\<rparr>)"

lemma normalize_hostname_nonempty:
  "trim_space h = h \<Longrightarrow> h \<noteq> [] \<Longrightarrow> normalize_hostname (to_lower h) = to_lower h \<and> to_lower h \<noteq> []"
  by (simp add: normalize_hostname_def trim_space_to_lower)

lemma create_site_Inr:
  assumes "create_site w s st = (st', Inr s')"
  shows "st' = st\<lparr>sites := sites st @ [\<lparr>sr_site = s', sr_config = []\<rparr>]\<rparr>"
    "site_hostname s' = site_hostname s" "site_hostname s \<noteq> []" "db_ready st"
  using assms by (auto simp: create_site_def res_bind_Inr_iff Let_def split: if_splits)

lemma zero_config_ruleless: "\<not> has_cdn_rules zero_config" "\<not> has_cidr_rules zero_config"
  by (simp_all add: has_cdn_rules_def has_cidr_rules_def zero_config_def)

text \<open>
  C35. Creating a site opens its host. Before, requests for the host fall under the global
  whitelist; \<open>CreateSite\<close> stores no configuration, which the gateway reads as one without
  rules, so afterwards every address is let through to it. And while the store cannot be
  read, the global whitelist decides, whatever rules the site has.
\<close>

theorem new_site_opens_host:
  assumes "create_site w s st = (st', Inr s')"
    and "trim_space (site_hostname s) = site_hostname s"
    and "site_by_host (to_lower (site_hostname s)) st = None"
  shows "let host = to_lower (site_hostname s) in
    fst (access_decision m (site_view_of w' (Some st) host) ip now) = is_ip_allowed m ip \<and>
    fst (access_decision m (site_view_of w' (Some st') host) ip now) =
      (if wd_sql w' SelectSiteConfig then True else is_ip_allowed m ip)"
proof -
  note c = create_site_Inr [OF assms(1)]
  note h = normalize_hostname_nonempty [OF assms(2) c(3)]
  have now: "site_by_host (to_lower (site_hostname s)) st' = Some \<lparr>sr_site = s', sr_config = []\<rparr>"
    using assms(3) c(2) by (simp add: c(1) site_by_host_def find_append)
  have cfg: "get_site_config_by_hostname w' (to_lower (site_hostname s)) st =
      (if wd_sql w' SelectSiteConfig then Inl SiteNotFound else Inl (SqlFailed SelectSiteConfig))"
    "get_site_config_by_hostname w' (to_lower (site_hostname s)) st' =
      (if wd_sql w' SelectSiteConfig then Inr zero_config else Inl (SqlFailed SelectSiteConfig))"
    using h c(1,4) assms(3) now
    by (simp_all add: get_site_config_by_hostname_def guarded_def run_sql_def read_site_config_def)
  show ?thesis
    by (simp add: Let_def site_view_of_def cfg site_access_meaning zero_config_ruleless)
qed

definition shop_site :: site where
  "shop_site = \<lparr>site_id = [], site_name = ''shop'', site_hostname = ''Shop.org'', site_ip = ''10.0.0.1'',
     site_created_at = 0, site_updated_at = 0\<rparr>"

definition guarded_manager :: manager where
  "guarded_manager = fst (apply_config sample_system
     (zero_config\<lparr>security := (security zero_config)\<lparr>allowed_cidrs := [''10.0.0.0/8'']\<rparr>\<rparr>) sample_manager)"

theorem new_site_opens_host_witness:
  "fst (access_decision guarded_manager (site_view_of sample_world (Some init_store) ''shop.org'')
     (IP4 0x08080808) 5) = False \<and>
   fst (access_decision guarded_manager
     (site_view_of sample_world (Some (fst (create_site sample_world shop_site init_store))) ''shop.org'')
     (IP4 0x08080808) 5) = True"
proof -
  let ?r = "create_site sample_world shop_site init_store"
  let ?s = "shop_site\<lparr>site_id := ''id0'', site_created_at := 100, site_updated_at := 100\<rparr>"
  have r: "?r = (fst ?r, Inr ?s)" by code_simp
  have t: "trim_space (site_hostname shop_site) = site_hostname shop_site" by code_simp
  have n: "site_by_host (to_lower (site_hostname shop_site)) init_store = None" by code_simp
  have h: "to_lower (site_hostname shop_site) = ''shop.org''" "wd_sql sample_world SelectSiteConfig"
    "\<not> is_ip_allowed guarded_manager (IP4 0x08080808)" by code_simp+
  show ?thesis
    using new_site_opens_host [OF r t n, where m = guarded_manager and w' = sample_world
        and ip = "IP4 0x08080808" and now = 5]
    by (simp add: Let_def h)
qed

section \<open>A configured site\<close>

lemma map_settings_rules:
  "allowed_cidrs (security (map_settings f cfg)) = allowed_cidrs (security cfg)"
  "allowed_cdn_providers (security (map_settings f cfg)) = allowed_cdn_providers (security cfg)"
  "origin_protection_mode (security (map_settings f cfg)) = origin_protection_mode (security cfg)"
  by (simp_all add: map_settings_def split: option.split)

lemma map_of_map_snd: "map_of (map (\<lambda>(k, v). (k, f k v)) m) k = map_option (f k) (map_of m k)"
  by (induction m) auto

lemma read_back_ages:
  "max_staleness_seconds (read_back w e p s) = max_staleness_seconds s"
  "refresh_interval_seconds (read_back w e p s) = refresh_interval_seconds s"
  by (simp_all add: read_back_def unseal_def Let_def split: option.split)

lemma staleness_read_back: "max_staleness_of (map_settings (read_back w e) cfg) = max_staleness_of cfg"
proof
  fix p
  show "max_staleness_of (map_settings (read_back w e) cfg) p = max_staleness_of cfg p"
  proof (cases "cdn_provider_settings (security cfg)")
    case (Some l)
    then show ?thesis
      by (cases "map_of l p")
        (simp_all add: max_staleness_of_def map_settings_def map_of_map_snd read_back_ages)
  qed (simp add: max_staleness_of_def map_settings_def)
qed

lemma decision_read_back:
  "site_decision m i (map_settings (read_back w e) cfg) ip now = site_decision m i cfg ip now"
  unfolding site_decision_def has_cdn_rules_def has_cidr_rules_def in_site_cidrs_def
    map_settings_rules staleness_read_back by (rule refl)

text \<open>
  C36. A site's configuration governs from the next request on. After \<open>UpdateSiteConfig\<close> of the
  site that answers for a host, the gateway decides access to the host by the configuration
  as it was written: storing it, with its secrets sealed, and reading it back changes no
  verdict and no message.
\<close>

theorem written_config_governs:
  assumes "update_site_config w i cfg op src st = (st', Inr v)" "cipher_ok w"
    and "site_by_host host st = Some r" "find_site i st = Some r" "normalize_hostname host = host" "host \<noteq> []"
    and "existing_config w (sr_config r) = Inr existing"
    and "merge_and_encrypt_cdn_secrets w existing cfg = Inr merged"
    and "wd_unmarshal w (wd_marshal w merged) = Some merged" "wd_marshal w merged \<noteq> []"
    and "wd_sql w SelectSiteByHost"
  shows "access_decision m (site_view_of w (Some st') host) ip now =
    access_decision m \<lparr>sv_site_id = Some i, sv_config = Some cfg\<rparr> ip now"
proof -
  obtain r0 e0 m0 where u0: "find_site i st = Some r0" "existing_config w (sr_config r0) = Inr e0"
    "merge_and_encrypt_cdn_secrets w e0 cfg = Inr m0" "db_ready st" "wd_sql w SelectSiteConfig"
    "st' = store_site_config w i (wd_marshal w m0) v st"
    by (rule update_site_config_Inr [OF assms(1)])
  have "site_id (sr_site r) = i" using assms(4) by (auto simp: find_site_def find_Some_iff)
  with u0 assms(4,7,8) have u: "db_ready st" "wd_sql w SelectSiteConfig" "i = site_id (sr_site r)"
    "st' = store_site_config w i (wd_marshal w merged) v st" by simp_all
  let ?r = "r\<lparr>sr_config := wd_marshal w merged, sr_site := (sr_site r)\<lparr>site_updated_at := cv_created_at v\<rparr>\<rparr>"
  have rows: "site_by_host host st' = Some ?r"
  proof -
    have "find (\<lambda>r. to_lower (site_hostname (sr_site r)) = host) (update_rows i f rows) =
        map_option (\<lambda>r. if site_id (sr_site r) = i then f r else r)
          (find (\<lambda>r. to_lower (site_hostname (sr_site r)) = host) rows)"
      if "\<And>r. site_hostname (sr_site (f r)) = site_hostname (sr_site r)" for f rows
      unfolding update_rows_def by (induction rows) (auto simp: that)
    then show ?thesis
      using assms(3) by (simp add: u(4) site_by_host_def store_site_config_def u(3))
  qed
  have "db_ready st'" using u(1) by (simp add: u(4) store_site_config_def)
  then have "site_view_of w (Some st') host =
      \<lparr>sv_site_id = Some i, sv_config = Some (map_settings (read_back w existing) cfg)\<rparr>"
    using rows u(2,3) assms(5,6,9-11) merge_read_back [OF assms(8,2)]
    by (simp add: site_view_of_def get_site_id_by_hostname_def get_site_config_by_hostname_def
        guarded_def run_sql_def read_site_config_def)
  then show ?thesis by (simp add: access_decision_def decision_read_back)
qed

definition ruled_config :: config where
  "ruled_config = keyed_config\<lparr>security := (security keyed_config)\<lparr>allowed_cidrs := [''10.0.0.0/8'']\<rparr>\<rparr>"

definition ruled_sealed :: config where
  "ruled_sealed = sealed_sample\<lparr>security := (security sealed_sample)\<lparr>allowed_cidrs := [''10.0.0.0/8'']\<rparr>\<rparr>"

definition ruling_world :: world where
  "ruling_world = sample_world\<lparr>wd_unmarshal := (\<lambda>_. Some ruled_sealed)\<rparr>"

theorem written_config_governs_witness:
  "fst (access_decision guarded_manager (site_view_of ruling_world
     (Some (fst (update_site_config ruling_world ''s'' ruled_config ''op'' ''update'' (sample_store 7))))
     ''shop.org'') (IP4 0x08080808) 5) = False"
proof -
  let ?r = "update_site_config ruling_world ''s'' ruled_config ''op'' ''update'' (sample_store 7)"
  let ?row = "\<lparr>sr_site = sample_site, sr_config = ''{}''\<rparr>"
  have r: "?r = (fst ?r, Inr next_version)" by code_simp
  have c: "cipher_ok ruling_world"
    by (auto simp: cipher_ok_def ruling_world_def sample_world_def no_spaces_def split: if_splits)
  have h: "site_by_host ''shop.org'' (sample_store 7) = Some ?row" "find_site ''s'' (sample_store 7) = Some ?row"
    "normalize_hostname ''shop.org'' = ''shop.org''" "''shop.org'' \<noteq> []"
    "existing_config ruling_world (sr_config ?row) = Inr ruled_sealed" by code_simp+
  have m: "merge_and_encrypt_cdn_secrets ruling_world ruled_sealed ruled_config = Inr ruled_sealed"
    by code_simp
  have j: "wd_unmarshal ruling_world (wd_marshal ruling_world ruled_sealed) = Some ruled_sealed"
    "wd_marshal ruling_world ruled_sealed \<noteq> []" "wd_sql ruling_world SelectSiteByHost"
    by (simp_all add: ruling_world_def sample_world_def)
  have d: "fst (access_decision guarded_manager \<lparr>sv_site_id = Some ''s'', sv_config = Some ruled_config\<rparr>
    (IP4 0x08080808) 5) = False" by code_simp
  show ?thesis
    using written_config_governs [OF r c h m j, where m = guarded_manager and ip = "IP4 0x08080808" and now = 5] d
    by simp
qed

end
