(* ===== verification/GoSlices.thy ===== *)
theory GoSlices
  imports Prelude
begin

text \<open>
  Go slices that share an array. A configuration that is read from the manager is a copy of
  its struct, but its slices point to the arrays of the live snapshot, so a write through the
  copy is seen there. Each operation gives what the writer's slice holds afterwards and what
  a slice over the same array that kept its length holds.
\<close>

definition overwrite :: "nat \<Rightarrow> 'a list \<Rightarrow> 'a list \<Rightarrow> 'a list" where
  "overwrite at ys xs = take at xs @ ys @ drop (at + length ys) xs"

text \<open>\<open>s[i] = x\<close>\<close>

definition slice_set :: "nat \<Rightarrow> 'a \<Rightarrow> 'a list \<Rightarrow> 'a list \<times> 'a list" where
  "slice_set i x xs = (xs[i := x], xs[i := x])"

text \<open>
  \<open>s = append(s[:i], s[i+1:]...)\<close> copies the tail one place down in the same array, whose
  capacity suffices; the last element stays behind the end of the shorter slice.
\<close>

definition slice_delete :: "nat \<Rightarrow> 'a list \<Rightarrow> 'a list \<times> 'a list" where
  "slice_delete i xs =
     (let arr = overwrite i (drop (Suc i) xs) xs in (take (length xs - 1) arr, arr))"

text \<open>\<open>s = append(s, x)\<close> writes behind the end of every other slice, or to a new array.\<close>

definition slice_append :: "'a \<Rightarrow> 'a list \<Rightarrow> 'a list \<times> 'a list" where
  "slice_append x xs = (xs @ [x], xs)"

lemma drop_last: "xs \<noteq> [] \<Longrightarrow> drop (length xs - 1) xs = [last xs]"
  by (metis append_butlast_last_id append_eq_conv_conj length_butlast)

lemma slice_delete_eq:
  assumes "i < length xs"
  shows "slice_delete i xs =
    (take i xs @ drop (Suc i) xs, take i xs @ drop (Suc i) xs @ [last xs])"
proof -
  have "i + length (drop (Suc i) xs) = length xs - 1" "xs \<noteq> []" using assms by auto
  note last = drop_last [OF this(2)]
  from \<open>i + length (drop (Suc i) xs) = length xs - 1\<close> have arr: "overwrite i (drop (Suc i) xs) xs = (take i xs @ drop (Suc i) xs) @ [last xs]"
    by (simp only: overwrite_def last append_assoc)
  have "take (length xs - 1) ((take i xs @ drop (Suc i) xs) @ [last xs]) = take i xs @ drop (Suc i) xs"
    using assms by (subst take_append) (auto simp: min_def intro: arg_cong2 [where f = take])
  then show ?thesis unfolding slice_delete_def arr by (simp add: Let_def)
qed

lemma length_slice_delete: "i < length xs \<Longrightarrow> length (snd (slice_delete i xs)) = length xs"
  by (simp add: slice_delete_eq)

end
