(* ===== verification/ControlPlane.thy ===== *)
theory ControlPlane
  imports AdminAuth SiteStore GoSlices Logging
begin

text \<open>
  The control plane's handlers of the global configuration (\<open>internal/admin/server.go\<close>,
  \<open>lb.go\<close>): reading, replacing, validating, rolling back and reloading it, and editing the
  pools and routes of the load balancer in place. A handler is a function of the decoded
  body, the authenticated operator and the state of the server; it returns the next state and
  the reply. Decoding of JSON is outside: \<open>None\<close> stands for a body that does not decode.
\<close>

record admin =
  ad_manager :: manager
  ad_store :: "store option"

datatype reply =
    Failed int string
  | Invalid "validation_issue list"
  | ConfigReply config
  | IssuesReply bool "validation_issue list"
  | VersionsReply "config_version list"
  | CdnReply cdn_sync_config "cdn_status gomap"
  | PoolsReply "lb_pool list"
  | PoolReply lb_pool
  | RoutesReply "lb_route_rule list" string
  | RouteReply lb_route_rule
  | LevelReply log_level
  | StatsReply log_stats
  | Done string string

definition method_not_allowed :: reply where
  "method_not_allowed = Failed 405 ''method_not_allowed''"

definition invalid_request :: reply where
  "invalid_request = Failed 400 ''invalid_request''"

section \<open>Applying a configuration\<close>

text \<open>
  The sequence that the handlers share: validate, apply, save a version, save an audit. The
  manager has the new configuration as soon as it was applied; a version that cannot be saved
  turns the reply into a failure but leaves the configuration in force.
\<close>

definition save_version_and_audit ::
  "world \<Rightarrow> config \<Rightarrow> string \<Rightarrow> string \<Rightarrow> string \<Rightarrow> string \<Rightarrow> reply \<Rightarrow> admin \<Rightarrow> admin \<times> reply" where
  "save_version_and_audit w cfg operator source action detail ok ad =
     (case ad_store ad of
        None \<Rightarrow> (ad, ok)
      | Some st \<Rightarrow>
          (case save_version w cfg operator source st of
             (st1, Inl _) \<Rightarrow> (ad\<lparr>ad_store := Some st1\<rparr>, Failed 500 ''config_version_failed'')
           | (st1, Inr v) \<Rightarrow>
               (ad\<lparr>ad_store := Some (fst (save_audit w action (cv_id v) operator detail st1))\<rparr>, ok)))"

definition validate_and_apply ::
  "system \<Rightarrow> config \<Rightarrow> (admin \<Rightarrow> admin \<times> reply) \<Rightarrow> admin \<Rightarrow> admin \<times> reply" where
  "validate_and_apply sys cfg after ad =
     (let issues = manager_validate sys cfg (ad_manager ad) in
      if issues \<noteq> [] then (ad, Invalid issues)
      else
        (case apply_config sys cfg (ad_manager ad) of
           (m1, Some _) \<Rightarrow> (ad\<lparr>ad_manager := m1\<rparr>, Failed 400 ''config_apply_failed'')
         | (m1, None) \<Rightarrow> after (ad\<lparr>ad_manager := m1\<rparr>)))"

section \<open>The configuration as a whole\<close>

definition config_handler ::
  "system \<Rightarrow> world \<Rightarrow> string \<Rightarrow> string \<Rightarrow> config option \<Rightarrow> admin \<Rightarrow> admin \<times> reply" where
  "config_handler sys w http_method operator body ad =
     (if http_method = ''GET'' then (ad, ConfigReply (current_config (ad_manager ad)))
      else if http_method = ''PUT'' then
        (case body of
           None \<Rightarrow> (ad, invalid_request)
         | Some cfg \<Rightarrow>
             validate_and_apply sys cfg
               (save_version_and_audit w cfg operator ''update'' ''config_update''
                  (json_object [(''source'', ''update'')])
                  (Done ''updated'' [])) ad)
      else (ad, method_not_allowed))"

definition validate_config_handler ::
  "system \<Rightarrow> string \<Rightarrow> config option \<Rightarrow> admin \<Rightarrow> reply" where
  "validate_config_handler sys http_method body ad =
     (if http_method \<noteq> ''POST'' then method_not_allowed
      else
        (case body of
           None \<Rightarrow> invalid_request
         | Some cfg \<Rightarrow>
             let issues = manager_validate sys cfg (ad_manager ad) in IssuesReply (issues = []) issues))"

definition config_versions_handler :: "world \<Rightarrow> string \<Rightarrow> string \<Rightarrow> admin \<Rightarrow> reply" where
  "config_versions_handler w http_method limit_text ad =
     (if http_method \<noteq> ''GET'' then method_not_allowed
      else
        (case ad_store ad of
           None \<Rightarrow> Failed 503 ''store_unavailable''
         | Some st \<Rightarrow>
             (case list_versions w (parse_positive_int limit_text 20) st of
                Inl _ \<Rightarrow> Failed 500 ''store_query_failed'' | Inr items \<Rightarrow> VersionsReply items)))"

definition rollback_config ::
  "system \<Rightarrow> world \<Rightarrow> string \<Rightarrow> string \<Rightarrow> string option \<Rightarrow> admin \<Rightarrow> admin \<times> reply" where
  "rollback_config sys w http_method operator body ad =
     (if http_method \<noteq> ''POST'' then (ad, method_not_allowed)
      else
        (case ad_store ad of
           None \<Rightarrow> (ad, Failed 503 ''store_unavailable'')
         | Some st \<Rightarrow>
             (case body of
                None \<Rightarrow> (ad, invalid_request)
              | Some vid \<Rightarrow>
                  if vid = [] then (ad, invalid_request)
                  else
                    (case get_version_config w vid st of
                       Inl _ \<Rightarrow> (ad, Failed 400 ''version_not_found'')
                     | Inr cfg \<Rightarrow>
                         validate_and_apply sys cfg
                           (save_version_and_audit w cfg operator ''rollback'' ''config_rollback''
                              (json_object [(''origin_id'', vid), (''source'', ''rollback'')])
                              (Done ''rolled_back'' vid)) ad))))"

definition cdn_config_handler ::
  "system \<Rightarrow> string \<Rightarrow> cdn_sync_config option \<Rightarrow> admin \<Rightarrow> admin \<times> reply" where
  "cdn_config_handler sys http_method body ad =
     (if http_method = ''GET'' then
        (ad, CdnReply (cdn_sync (current_config (ad_manager ad))) (get_cdn_status (ad_manager ad)))
      else if http_method = ''PUT'' then
        (case body of
           None \<Rightarrow> (ad, invalid_request)
         | Some payload \<Rightarrow>
             (case apply_config sys ((current_config (ad_manager ad))\<lparr>cdn_sync := payload\<rparr>) (ad_manager ad) of
                (m1, Some _) \<Rightarrow> (ad\<lparr>ad_manager := m1\<rparr>, Failed 400 ''config_apply_failed'')
              | (m1, None) \<Rightarrow> (ad\<lparr>ad_manager := m1\<rparr>, Done ''updated'' [])))
      else (ad, method_not_allowed))"

definition reload_handler :: "system \<Rightarrow> string \<Rightarrow> admin \<Rightarrow> admin \<times> reply" where
  "reload_handler sys http_method ad =
     (if http_method \<noteq> ''POST'' then (ad, method_not_allowed)
      else
        (case reload sys (ad_manager ad) of
           (m1, Some _) \<Rightarrow> (ad\<lparr>ad_manager := m1\<rparr>, Failed 400 ''config_reload_failed'')
         | (m1, None) \<Rightarrow> (ad\<lparr>ad_manager := m1\<rparr>, Done ''reloaded'' [])))"

definition log_level_handler ::
  "string \<Rightarrow> string option \<Rightarrow> log_runtime option \<Rightarrow> log_runtime option \<times> reply" where
  "log_level_handler http_method body runtime =
     (case runtime of
        None \<Rightarrow> (None, Failed 503 ''logger_unavailable'')
      | Some rt \<Rightarrow>
          if http_method = ''GET'' then (Some rt, LevelReply (rt_level rt))
          else if http_method = ''PUT'' then
            (case body of
               None \<Rightarrow> (Some rt, invalid_request)
             | Some text \<Rightarrow>
                 (case set_level text rt of
                    (rt1, Some _) \<Rightarrow> (Some rt1, Failed 400 ''log_level_invalid'')
                  | (rt1, None) \<Rightarrow> (Some rt1, LevelReply (rt_level rt1))))
          else (Some rt, method_not_allowed))"

definition log_stats_handler :: "string \<Rightarrow> pipeline option \<Rightarrow> reply" where
  "log_stats_handler http_method pl =
     (if http_method \<noteq> ''GET'' then method_not_allowed
      else (case pl of None \<Rightarrow> Failed 503 ''log_pipeline_unavailable'' | Some p \<Rightarrow> StatsReply (stats_snapshot p)))"

section \<open>Pools and routes\<close>

definition normalize_pool_id :: "string \<Rightarrow> string" where
  "normalize_pool_id v = trim_space v"

definition normalize_domain :: "string \<Rightarrow> string" where
  "normalize_domain v = to_lower (trim_space v)"

definition normalize_strategy :: "string \<Rightarrow> string" where
  "normalize_strategy v = (if trim_space v = [] then ''weighted_rr'' else trim_space (to_lower v))"

definition extract_tail :: "string \<Rightarrow> string \<Rightarrow> string" where
  "extract_tail path pre =
     (if \<not> has_prefix path pre then []
      else trim_space (trim_by (\<lambda>c. c = CHR ''/'') (drop (length pre) path)))"

fun find_index :: "('a \<Rightarrow> bool) \<Rightarrow> 'a list \<Rightarrow> nat option" where
  "find_index P [] = None"
| "find_index P (x # xs) = (if P x then Some 0 else map_option Suc (find_index P xs))"

definition find_pool_index :: "lb_pool list \<Rightarrow> string \<Rightarrow> nat option" where
  "find_pool_index items pid =
     find_index (\<lambda>p. equal_fold (normalize_pool_id (pool_id p)) (normalize_pool_id pid)) items"

definition find_route_index :: "lb_route_rule list \<Rightarrow> string \<Rightarrow> nat option" where
  "find_route_index items domain =
     find_index (\<lambda>r. normalize_domain (rule_domain r) = normalize_domain domain) items"

definition remove_routes_by_pool_id :: "lb_route_rule list \<Rightarrow> string \<Rightarrow> lb_route_rule list" where
  "remove_routes_by_pool_id items pid =
     filter (\<lambda>r. \<not> (normalize_pool_id (rule_pool_id r) = normalize_pool_id pid \<or>
       normalize_pool_id (rule_fallback_pool_id r) = normalize_pool_id pid)) items"

definition with_lb :: "(load_balancer_config \<Rightarrow> load_balancer_config) \<Rightarrow> config \<Rightarrow> config" where
  "with_lb f cfg = cfg\<lparr>load_balancer := f (load_balancer cfg)\<rparr>"

text \<open>What a write through a copy of the live configuration does to the live snapshot.\<close>

definition write_live :: "(load_balancer_config \<Rightarrow> load_balancer_config) \<Rightarrow> admin \<Rightarrow> admin" where
  "write_live f ad = ad\<lparr>ad_manager := (ad_manager ad)\<lparr>mgr_data :=
     map_option (\<lambda>d. d\<lparr>snap_cfg := with_lb f (snap_cfg d)\<rparr>) (mgr_data (ad_manager ad))\<rparr>\<rparr>"

definition apply_lb_config ::
  "system \<Rightarrow> world \<Rightarrow> config \<Rightarrow> string \<Rightarrow> string \<Rightarrow> reply \<Rightarrow> admin \<Rightarrow> admin \<times> reply" where
  "apply_lb_config sys w cfg operator source ok ad =
     validate_and_apply sys cfg (save_version_and_audit w cfg operator source source
       (json_object [(''source'', source)]) ok) ad"

definition lb_pools_handler ::
  "system \<Rightarrow> world \<Rightarrow> string \<Rightarrow> string \<Rightarrow> string \<Rightarrow> lb_pool option \<Rightarrow> admin \<Rightarrow> admin \<times> reply" where
  "lb_pools_handler sys w http_method operator random_id body ad =
     (let cfg = current_config (ad_manager ad) in
      if http_method = ''GET'' then (ad, PoolsReply (lb_cfg_pools (load_balancer cfg)))
      else if http_method = ''POST'' then
        (case body of
           None \<Rightarrow> (ad, invalid_request)
         | Some payload \<Rightarrow>
             let pid = normalize_pool_id (pool_id payload);
                 pid1 = (if pid = [] then ''pool_'' @ take 12 random_id else pid);
                 p = payload\<lparr>pool_id := pid1, pool_strategy := normalize_strategy (pool_strategy payload)\<rparr>;
                 (local_pools, live_pools) = slice_append p (lb_cfg_pools (load_balancer cfg))
             in apply_lb_config sys w (with_lb (\<lambda>lb. lb\<lparr>lb_cfg_pools := local_pools\<rparr>) cfg) operator
                  ''lb_pool_create'' (Done ''created'' pid1)
                  (write_live (\<lambda>lb. lb\<lparr>lb_cfg_pools := live_pools\<rparr>) ad))
      else (ad, method_not_allowed))"

definition update_pool ::
  "system \<Rightarrow> world \<Rightarrow> string \<Rightarrow> string \<Rightarrow> nat \<Rightarrow> lb_pool \<Rightarrow> admin \<Rightarrow> admin \<times> reply" where
  "update_pool sys w operator pid index payload ad =
     (let cfg = current_config (ad_manager ad);
          p = payload\<lparr>pool_id := pid, pool_strategy := normalize_strategy (pool_strategy payload)\<rparr>;
          (local_pools, live_pools) = slice_set index p (lb_cfg_pools (load_balancer cfg))
      in apply_lb_config sys w (with_lb (\<lambda>lb. lb\<lparr>lb_cfg_pools := local_pools\<rparr>) cfg) operator
           ''lb_pool_update'' (Done ''updated'' pid)
           (write_live (\<lambda>lb. lb\<lparr>lb_cfg_pools := live_pools\<rparr>) ad))"

definition delete_pool :: "system \<Rightarrow> world \<Rightarrow> string \<Rightarrow> string \<Rightarrow> nat \<Rightarrow> admin \<Rightarrow> admin \<times> reply" where
  "delete_pool sys w operator pid index ad =
     (let cfg = current_config (ad_manager ad); lb = load_balancer cfg;
          (local_pools, live_pools) = slice_delete index (lb_cfg_pools lb);
          lb1 = lb\<lparr>lb_cfg_pools := local_pools,
                  lb_cfg_routes := remove_routes_by_pool_id (lb_cfg_routes lb) pid,
                  default_pool_id := (if equal_fold (trim_space (default_pool_id lb)) pid then []
                                      else default_pool_id lb)\<rparr>
      in apply_lb_config sys w (with_lb (\<lambda>_. lb1) cfg) operator ''lb_pool_delete'' (Done ''deleted'' pid)
           (write_live (\<lambda>lb. lb\<lparr>lb_cfg_pools := live_pools\<rparr>) ad))"

definition lb_pool_detail_handler ::
  "system \<Rightarrow> world \<Rightarrow> string \<Rightarrow> string \<Rightarrow> string \<Rightarrow> lb_pool option \<Rightarrow> admin \<Rightarrow> admin \<times> reply" where
  "lb_pool_detail_handler sys w http_method operator path body ad =
     (let pid = extract_tail path ''/api/v1/lb/pools/'';
          pools = lb_cfg_pools (load_balancer (current_config (ad_manager ad))) in
      if pid = [] then (ad, invalid_request)
      else
        (case find_pool_index pools pid of
           None \<Rightarrow> (ad, Failed 404 ''pool_not_found'')
         | Some index \<Rightarrow>
             if http_method = ''GET'' then (ad, PoolReply (pools ! index))
             else if http_method = ''PUT'' then
               (case body of
                  None \<Rightarrow> (ad, invalid_request)
                | Some payload \<Rightarrow> update_pool sys w operator pid index payload ad)
             else if http_method = ''DELETE'' then delete_pool sys w operator pid index ad
             else (ad, method_not_allowed)))"

definition lb_routes_handler :: "string \<Rightarrow> admin \<Rightarrow> reply" where
  "lb_routes_handler http_method ad =
     (if http_method \<noteq> ''GET'' then method_not_allowed
      else
        let lb = load_balancer (current_config (ad_manager ad)) in
        RoutesReply (lb_cfg_routes lb) (default_pool_id lb))"

definition upsert_route ::
  "system \<Rightarrow> world \<Rightarrow> string \<Rightarrow> string \<Rightarrow> lb_route_rule \<Rightarrow> admin \<Rightarrow> admin \<times> reply" where
  "upsert_route sys w operator domain payload ad =
     (let cfg = current_config (ad_manager ad); routes = lb_cfg_routes (load_balancer cfg);
          r = payload\<lparr>rule_domain := domain, rule_pool_id := normalize_pool_id (rule_pool_id payload),
                rule_fallback_pool_id := normalize_pool_id (rule_fallback_pool_id payload)\<rparr>;
          (local_routes, live_routes) =
            (case find_route_index routes domain of
               Some index \<Rightarrow> slice_set index r routes | None \<Rightarrow> slice_append r routes)
      in apply_lb_config sys w (with_lb (\<lambda>lb. lb\<lparr>lb_cfg_routes := local_routes\<rparr>) cfg) operator
           ''lb_route_upsert'' (Done ''updated'' domain)
           (write_live (\<lambda>lb. lb\<lparr>lb_cfg_routes := live_routes\<rparr>) ad))"

definition delete_route :: "system \<Rightarrow> world \<Rightarrow> string \<Rightarrow> string \<Rightarrow> nat \<Rightarrow> admin \<Rightarrow> admin \<times> reply" where
  "delete_route sys w operator domain index ad =
     (let cfg = current_config (ad_manager ad);
          (local_routes, live_routes) = slice_delete index (lb_cfg_routes (load_balancer cfg))
      in apply_lb_config sys w (with_lb (\<lambda>lb. lb\<lparr>lb_cfg_routes := local_routes\<rparr>) cfg) operator
           ''lb_route_delete'' (Done ''deleted'' domain)
           (write_live (\<lambda>lb. lb\<lparr>lb_cfg_routes := live_routes\<rparr>) ad))"

definition lb_route_detail_handler ::
  "system \<Rightarrow> world \<Rightarrow> string \<Rightarrow> string \<Rightarrow> string \<Rightarrow> lb_route_rule option \<Rightarrow> admin \<Rightarrow> admin \<times> reply" where
  "lb_route_detail_handler sys w http_method operator path body ad =
     (let domain = normalize_domain (extract_tail path ''/api/v1/lb/routes/'');
          routes = lb_cfg_routes (load_balancer (current_config (ad_manager ad)));
          index = find_route_index routes domain in
      if domain = [] then (ad, invalid_request)
      else if http_method = ''GET'' then
        (case index of None \<Rightarrow> (ad, Failed 404 ''route_not_found'') | Some i \<Rightarrow> (ad, RouteReply (routes ! i)))
      else if http_method = ''PUT'' then
        (case body of
           None \<Rightarrow> (ad, invalid_request) | Some payload \<Rightarrow> upsert_route sys w operator domain payload ad)
      else if http_method = ''DELETE'' then
        (case index of
           None \<Rightarrow> (ad, Failed 404 ''route_not_found'') | Some i \<Rightarrow> delete_route sys w operator domain i ad)
      else (ad, method_not_allowed))"

end
