(* ===== verification/ControlPlaneProps.thy ===== *)
theory ControlPlaneProps
  imports ControlPlane ValidateProps SiteStoreProps
begin

text \<open>
  What the handlers of the control plane guarantee: after an edit that is reported as done the
  load balancer's references are sound and the newest version is the configuration that was
  sent; and what they do not: an edit that is refused has been written into the live
  configuration all the same.
\<close>

section \<open>References inside a load balancer configuration\<close>

definition pool_ids :: "lb_pool list \<Rightarrow> string list" where
  "pool_ids pools = map (trim_space \<circ> pool_id) pools"

definition refs_ok :: "load_balancer_config \<Rightarrow> bool" where
  "refs_ok lb \<longleftrightarrow>
     (let ids = pool_ids (lb_cfg_pools lb) in
      distinct ids \<and> [] \<notin> set ids \<and>
      (default_pool_id lb \<noteq> [] \<longrightarrow> trim_space (default_pool_id lb) \<in> set ids) \<and>
      list_all (\<lambda>r. trim_space (rule_domain r) \<noteq> [] \<and> trim_space (rule_pool_id r) \<in> set ids \<and>
        trim_space (rule_fallback_pool_id r) \<in> set ([] # ids)) (lb_cfg_routes lb))"

lemma check_pool_step:
  assumes "fst (check_pool (i, p) (issues, index)) = []"
  shows "issues = []" "trim_space (pool_id p) \<noteq> []" "map_get index (trim_space (pool_id p)) = None"
    "snd (check_pool (i, p) (issues, index)) = map_put (trim_space (pool_id p)) i index"
  using assms by (auto simp: check_pool_def Let_def split: if_splits option.splits)

lemma check_pools_index:
  assumes "fold check_pool (indexed_from n pools) (issues, index) = ([], index')"
  shows "distinct (pool_ids pools)" "[] \<notin> set (pool_ids pools)" "dom (map_get index) \<inter> set (pool_ids pools) = {}"
    "dom (map_get index') = dom (map_get index) \<union> set (pool_ids pools)"
proof -
  have "distinct (pool_ids pools) \<and> [] \<notin> set (pool_ids pools) \<and>
      dom (map_get index) \<inter> set (pool_ids pools) = {} \<and>
      dom (map_get index') = dom (map_get index) \<union> set (pool_ids pools)"
    using assms
  proof (induction pools arbitrary: n issues index)
    case (Cons p pools)
    let ?st = "check_pool (n, p) (issues, index)"
    have f: "fold check_pool (indexed_from (Suc n) pools) (fst ?st, snd ?st) = ([], index')"
      using Cons.prems by simp
    have "fst ?st = []"
      using fold_issues_mono [where f = check_pool and xs = "indexed_from (Suc n) pools" and st = ?st]
        check_pool_clean(1) f by (metis fst_conv prod.collapse)
    note s = check_pool_step [OF this]
    from Cons.IH [OF f] have "dom (map_get (snd ?st)) = insert (trim_space (pool_id p)) (dom (map_get index)) \<and>
        distinct (pool_ids pools) \<and> [] \<notin> set (pool_ids pools) \<and>
        dom (map_get (snd ?st)) \<inter> set (pool_ids pools) = {} \<and>
        dom (map_get index') = dom (map_get (snd ?st)) \<union> set (pool_ids pools)"
      by (auto simp: s(4) dom_def)
    then show ?case using s(2,3) by (auto simp: pool_ids_def)
  qed (simp add: pool_ids_def)
  then show "distinct (pool_ids pools)" "[] \<notin> set (pool_ids pools)"
    "dom (map_get index) \<inter> set (pool_ids pools) = {}"
    "dom (map_get index') = dom (map_get index) \<union> set (pool_ids pools)" by blast+
qed

lemma validate_lb_refs:
  assumes "validate_load_balancer_config lb = []"
  shows "refs_ok lb"
proof -
  obtain index where f: "fold check_pool (indexed_from 0 (lb_cfg_pools lb)) ([], []) = ([], index)"
    and d: "default_pool_id lb \<noteq> [] \<longrightarrow> map_get index (trim_space (default_pool_id lb)) \<noteq> None"
    and r: "list_all (\<lambda>ix. check_lb_route index ix = []) (indexed_from 0 (lb_cfg_routes lb))"
    using assms
    by (auto simp: validate_load_balancer_config_def list_all_iff split: prod.splits if_splits)
  note ids = check_pools_index [OF f]
  have known: "map_get index k \<noteq> None \<longleftrightarrow> k \<in> set (pool_ids (lb_cfg_pools lb))" for k
    using ids(4) by (auto simp: dom_def)
  have "list_all (\<lambda>r. trim_space (rule_domain r) \<noteq> [] \<and>
      trim_space (rule_pool_id r) \<in> set (pool_ids (lb_cfg_pools lb)) \<and>
      trim_space (rule_fallback_pool_id r) \<in> set ([] # pool_ids (lb_cfg_pools lb))) (lb_cfg_routes lb)"
    using r by (rule list_all_indexed_snd)
      (auto simp: check_lb_route_def Let_def known [symmetric] split: if_splits)
  then show ?thesis using ids(1,2) d known by (auto simp: refs_ok_def Let_def)
qed

section \<open>What a handler reports as done\<close>

lemma apply_config_current:
  assumes "apply_config sys cfg m = (m', None)"
  shows "current_config m' = fst (prepare_routing_and_load_balancer (fill_defaults cfg))"
proof -
  have "snd (apply_config sys cfg m) = None" using assms by simp
  then obtain d prepared where "mgr_data (fst (apply_config sys cfg m)) = Some d"
    "prepared = fst (prepare_routing_and_load_balancer (fill_defaults cfg))"
    "build_snapshot sys prepared (mgr_path m) (dynamic_cidrs m) (cdn_statuses m) = Inr d"
    by (rule apply_config_filters)
  with assms show ?thesis by (simp add: current_config_def build_snapshot_cfg)
qed

lemma save_version_and_audit_frame [simp, frame_simps]:
  "ad_manager (fst (save_version_and_audit w cfg op src act det ok ad)) = ad_manager ad"
  by (auto simp: save_version_and_audit_def split: option.split prod.split sum.split)

text \<open>A reply other than a refusal comes only from what runs after validation and \<open>Apply\<close>.\<close>

lemma validate_and_apply_Done:
  assumes "validate_and_apply sys cfg after ad = (ad', Done a b)"
  obtains m1 where "manager_validate sys cfg (ad_manager ad) = []"
    "apply_config sys cfg (ad_manager ad) = (m1, None)" "after (ad\<lparr>ad_manager := m1\<rparr>) = (ad', Done a b)"
  using assms by (auto simp: validate_and_apply_def Let_def split: if_splits prod.splits option.splits)

lemma manager_validate_refs:
  assumes "manager_validate sys cfg m = []"
  shows "refs_ok (load_balancer (fst (prepare_routing_and_load_balancer (fill_defaults cfg))))"
  using assms by (auto simp: manager_validate_def validate_config_def Let_def intro: validate_lb_refs split: prod.splits)

lemma done_refs:
  assumes "validate_and_apply sys cfg (save_version_and_audit w c op src act det ok) ad = (ad', Done a b)"
  shows "refs_ok (load_balancer (current_config (ad_manager ad')))"
proof -
  from assms obtain m1 where v: "manager_validate sys cfg (ad_manager ad) = []"
    "apply_config sys cfg (ad_manager ad) = (m1, None)"
    "save_version_and_audit w c op src act det ok (ad\<lparr>ad_manager := m1\<rparr>) = (ad', Done a b)"
    by (rule validate_and_apply_Done)
  have "ad_manager ad' = m1" using arg_cong [OF v(3), of "ad_manager \<circ> fst"] by simp
  then show ?thesis using manager_validate_refs [OF v(1)] apply_config_current [OF v(2)] by simp
qed


text \<open>A server whose manager runs one pool, with an empty store.\<close>

definition sample_admin :: admin where
  "sample_admin = \<lparr>ad_manager = fst (apply_config sample_system sample_lb_config sample_manager),
     ad_store = Some init_store\<rparr>"

definition pool_path :: string where
  "pool_path = ''/api/v1/lb/pools/p''"

definition one_node_pool :: "string \<Rightarrow> int \<Rightarrow> lb_pool" where
  "one_node_pool upstream weight = sample_pool\<lparr>pool_nodes :=
     [\<lparr>node_id = ''n'', node_upstream = upstream, node_weight = weight, node_enabled = True\<rparr>]\<rparr>"


section \<open>Refused edits\<close>

lemma validate_and_apply_Invalid:
  assumes "validate_and_apply sys cfg (save_version_and_audit w c op src act det ok) ad = (ad', Invalid is)"
    and "\<And>is. ok \<noteq> Invalid is"
  shows "ad' = ad"
  using assms
  by (auto simp: validate_and_apply_def save_version_and_audit_def Let_def
      split: if_splits option.splits prod.splits sum.splits)

lemma write_live_config:
  "mgr_data (ad_manager ad) \<noteq> None \<Longrightarrow>
   current_config (ad_manager (write_live f ad)) = with_lb f (current_config (ad_manager ad))"
  by (auto simp: write_live_def current_config_def)

lemma update_pool_refused:
  assumes "update_pool sys w op pid i payload ad = (ad', Invalid issues)"
  shows "ad' = write_live (\<lambda>lb. lb\<lparr>lb_cfg_pools :=
    (lb_cfg_pools (load_balancer (current_config (ad_manager ad))))
      [i := payload\<lparr>pool_id := pid, pool_strategy := normalize_strategy (pool_strategy payload)\<rparr>]\<rparr>) ad"
  by (rule validate_and_apply_Invalid
      [OF assms [unfolded update_pool_def apply_lb_config_def slice_set_def Let_def prod.case]]) simp

lemma delete_pool_refused:
  assumes "delete_pool sys w op pid i ad = (ad', Invalid issues)"
  shows "ad' = write_live (\<lambda>lb. lb\<lparr>lb_cfg_pools :=
    snd (slice_delete i (lb_cfg_pools (load_balancer (current_config (ad_manager ad)))))\<rparr>) ad"
proof (cases "slice_delete i (lb_cfg_pools (load_balancer (current_config (ad_manager ad))))")
  case (Pair a b)
  show ?thesis
    unfolding Pair snd_conv
    by (rule validate_and_apply_Invalid
        [OF assms [unfolded delete_pool_def apply_lb_config_def Let_def Pair prod.case]]) simp
qed

text \<open>
  C40. A refused edit is written all the same. \<open>lbPoolDetail\<close> edits the pools of its copy of the
  configuration, whose slices are those of the live snapshot, before the edit is validated:
  when validation refuses it, the live configuration has the refused pool in its place, and
  after a refused deletion it has lost the pool and has its last pool twice. The compiled
  tables that requests are routed by, and the store, are as before.
\<close>

theorem refused_edit_is_written:
  assumes "mgr_data (ad_manager ad) = Some d" "i < length (lb_cfg_pools (load_balancer (snap_cfg d)))"
  shows "(update_pool sys w op pid i payload ad = (ad', Invalid issues) \<longrightarrow>
      ad_store ad' = ad_store ad \<and>
      mgr_data (ad_manager ad') = Some (d\<lparr>snap_cfg := with_lb (\<lambda>lb. lb\<lparr>lb_cfg_pools := (lb_cfg_pools lb)
        [i := payload\<lparr>pool_id := pid, pool_strategy := normalize_strategy (pool_strategy payload)\<rparr>]\<rparr>)
        (snap_cfg d)\<rparr>)) \<and>
    (delete_pool sys w op pid i ad = (ad', Invalid issues) \<longrightarrow>
      ad_store ad' = ad_store ad \<and>
      mgr_data (ad_manager ad') = Some (d\<lparr>snap_cfg := with_lb (\<lambda>lb. lb\<lparr>lb_cfg_pools :=
        take i (lb_cfg_pools lb) @ drop (Suc i) (lb_cfg_pools lb) @ [last (lb_cfg_pools lb)]\<rparr>)
        (snap_cfg d)\<rparr>))"
proof -
  have cfg: "current_config (ad_manager ad) = snap_cfg d" using assms(1) by (simp add: current_config_def)
  have live: "write_live f ad = ad\<lparr>ad_manager := (ad_manager ad)\<lparr>mgr_data :=
      Some (d\<lparr>snap_cfg := with_lb f (snap_cfg d)\<rparr>)\<rparr>\<rparr>" for f
    using assms(1) by (simp add: write_live_def)
  show ?thesis
    using update_pool_refused [of sys w op pid i payload ad ad' issues]
      delete_pool_refused [of sys w op pid i ad ad' issues] assms(2)
    by (auto simp: cfg live with_lb_def slice_delete_eq)
qed

theorem refused_edit_is_written_witness:
  "map (map node_weight \<circ> pool_nodes) (lb_cfg_pools (load_balancer (current_config (ad_manager (fst
     (update_pool sample_system sample_world ''op'' ''p'' 0 (one_node_pool ''http://c:1'' 0) sample_admin)))))) =
   [[0]]"
proof -
  let ?r = "update_pool sample_system sample_world ''op'' ''p'' 0 (one_node_pool ''http://c:1'' 0) sample_admin"
  let ?d = "the (mgr_data (ad_manager sample_admin))"
  have d: "mgr_data (ad_manager sample_admin) = Some ?d" by code_simp
  have l: "0 < length (lb_cfg_pools (load_balancer (snap_cfg ?d)))" by code_simp
  obtain issues where r: "?r = (fst ?r, Invalid issues)"
  proof -
    have "case snd ?r of Invalid is \<Rightarrow> True | _ \<Rightarrow> False" by code_simp
    then show ?thesis using that by (cases ?r; cases "snd ?r") auto
  qed
  have n: "length (lb_cfg_pools (load_balancer (snap_cfg ?d))) = 1" by code_simp
  have "mgr_data (ad_manager (fst ?r)) = Some (?d\<lparr>snap_cfg := with_lb (\<lambda>lb. lb\<lparr>lb_cfg_pools := (lb_cfg_pools lb)
      [0 := (one_node_pool ''http://c:1'' 0)\<lparr>pool_id := ''p'',
        pool_strategy := normalize_strategy (pool_strategy (one_node_pool ''http://c:1'' 0))\<rparr>]\<rparr>) (snap_cfg ?d)\<rparr>)"
    using refused_edit_is_written [OF d l] r by blast
  then show ?thesis
    using n by (auto simp: current_config_def with_lb_def one_node_pool_def length_Suc_conv)
qed

text \<open>
  A refused update goes into service. A pool whose node has weight 0 is refused, requests
  keep their old upstream, and then the next report of a CDN provider, which applies the live
  configuration again without validating it, sends them to the refused one.
\<close>

theorem refused_update_goes_live:
  "(let (ad, answer) = lb_pool_detail_handler sample_system sample_world ''PUT'' ''op'' pool_path
          (Some (one_node_pool ''http://c:1'' 0)) sample_admin;
        (m, err) = update_provider_status sample_system ''cloudflare'' [''10.0.0.0/8''] None 5 (ad_manager ad) in
    (case answer of Invalid issues \<Rightarrow> map issue_message issues | _ \<Rightarrow> []) = [Msg ''weight must be positive''] \<and>
    err = None \<and>
    map_option rm_target (snd (resolve_route ''a.x.org'' (ad_manager ad))) = url_parse ''http://a:1'' \<and>
    map_option rm_target (snd (resolve_route ''a.x.org'' m)) = url_parse ''http://c:1'')"
  by code_simp

end
