(* ===== verification/Syncer.thy ===== *)
theory Syncer
  imports SiteStore SiteCDN
begin

text \<open>
  Keeping the CIDR lists of the CDN providers up to date (\<open>internal/syncer/service.go\<close>) and
  the store behind it (\<open>internal/store/site_cdn_origin.go\<close>): the global synchroniser, and the
  one by site with its due dates, back-off, jobs and the refill of the memory tables at the
  start. What is fetched, the jitter's floating-point expression, the parser of duration
  texts and, for each call of the store, the world are arguments. Jobs run one after the
  other: each touches only the entries of its own site and provider.
\<close>

section \<open>Snapshots and status in the store\<close>

definition site_and_provider ::
  "string \<Rightarrow> string \<Rightarrow> (string \<Rightarrow> string \<Rightarrow> store_error + 'a) \<Rightarrow> store_error + 'a" where
  "site_and_provider s0 p0 f =
     (let s = trim_space s0; p = to_lower (trim_space p0) in
      if s = [] \<or> p = [] then Inl SiteOrProviderEmpty else f s p)"

definition save_site_cdn_origin_snapshot ::
  "world \<Rightarrow> string \<Rightarrow> string \<Rightarrow> string list \<Rightarrow> gotime \<Rightarrow> string \<Rightarrow> store \<Rightarrow> store \<times> (store_error + snapshot_row)" where
  "save_site_cdn_origin_snapshot w site provider cidrs fetched source st = commit st (guarded st
     (site_and_provider site provider (\<lambda>s p.
        res_bind (new_id w 0) (\<lambda>i.
          let row = \<lparr>sn_id = i, sn_site = s, sn_provider = p, sn_cidrs = cidrs,
                      sn_fetched_at = unix_seconds fetched, sn_source = source,
                      sn_created_at = unix_seconds (wd_now w)\<rparr> in
          res_bind (run_sql w InsertSnapshot (i \<notin> sn_id ` set (cdn_snapshots st)))
            (\<lambda>_. Inr (st\<lparr>cdn_snapshots := cdn_snapshots st @ [row]\<rparr>, row))))))"

definition get_latest_site_cdn_origin_snapshot ::
  "world \<Rightarrow> string \<Rightarrow> string \<Rightarrow> store \<Rightarrow> store_error + snapshot_row" where
  "get_latest_site_cdn_origin_snapshot w site provider st = guarded st
     (site_and_provider site provider (\<lambda>s p.
        res_bind (run_sql w SelectSnapshot True)
          (\<lambda>_. case order_desc w sn_fetched_at
                   (filter (\<lambda>r. sn_site r = s \<and> sn_provider r = p) (cdn_snapshots st)) of
                 [] \<Rightarrow> Inl NoRows | r # _ \<Rightarrow> Inr r)))"

record status_update =
  su_last_attempt :: "gotime option"
  su_last_success :: "gotime option"
  su_failures :: int
  su_error :: string

definition find_status :: "string \<Rightarrow> string \<Rightarrow> store \<Rightarrow> status_row option" where
  "find_status s p st = find (\<lambda>r. ss_site r = s \<and> ss_provider r = p) (cdn_origin_status st)"

definition get_site_cdn_origin_status ::
  "world \<Rightarrow> string \<Rightarrow> string \<Rightarrow> store \<Rightarrow> store_error + status_row" where
  "get_site_cdn_origin_status w site provider st = guarded st
     (site_and_provider site provider (\<lambda>s p.
        res_bind (run_sql w SelectStatus True)
          (\<lambda>_. case find_status s p st of None \<Rightarrow> Inl NoRows | Some r \<Rightarrow> Inr r)))"

text \<open>The update keeps the last success when it does not bring one.\<close>

definition upsert_row :: "world \<Rightarrow> string \<Rightarrow> string \<Rightarrow> status_update \<Rightarrow> status_row option \<Rightarrow> status_row" where
  "upsert_row w s p u old =
     \<lparr>ss_site = s, ss_provider = p,
      ss_last_attempt = map_option unix_seconds (su_last_attempt u),
      ss_last_success = (case su_last_success u of
         Some t \<Rightarrow> Some (unix_seconds t)
       | None \<Rightarrow> (case old of None \<Rightarrow> None | Some r \<Rightarrow> ss_last_success r)),
      ss_failures = su_failures u, ss_error = su_error u, ss_updated_at = unix_seconds (wd_now w)\<rparr>"

definition put_status :: "string \<Rightarrow> string \<Rightarrow> status_row \<Rightarrow> store \<Rightarrow> store" where
  "put_status s p row st = st\<lparr>cdn_origin_status :=
     (if find_status s p st = None then cdn_origin_status st @ [row]
      else map (\<lambda>r. if ss_site r = s \<and> ss_provider r = p then row else r) (cdn_origin_status st))\<rparr>"

text \<open>The row that was written stays when reading it back fails.\<close>

definition upsert_site_cdn_origin_status ::
  "world \<Rightarrow> string \<Rightarrow> string \<Rightarrow> status_update \<Rightarrow> store \<Rightarrow> store \<times> (store_error + status_row)" where
  "upsert_site_cdn_origin_status w site provider u st =
     (case guarded st (site_and_provider site provider (\<lambda>s p.
             res_bind (run_sql w UpsertStatus True)
               (\<lambda>_. Inr (put_status s p (upsert_row w s p u (find_status s p st)) st)))) of
        Inl e \<Rightarrow> (st, Inl e)
      | Inr st1 \<Rightarrow> (st1, get_site_cdn_origin_status w site provider st1))"

definition list_site_cdn_origin_status :: "world \<Rightarrow> string \<Rightarrow> store \<Rightarrow> store_error + status_row list" where
  "list_site_cdn_origin_status w site st = guarded st
     (let s = trim_space site in
      if s = [] then Inl SiteIdEmpty
      else res_bind (run_sql w SelectStatuses True)
        (\<lambda>_. Inr (sort_key ss_provider (filter (\<lambda>r. ss_site r = s) (cdn_origin_status st)))))"

section \<open>The service\<close>

record origin_service =
  os_max_concurrency :: int
  os_tick_interval :: duration
  os_jitter_permille :: int
  os_backoff_base :: duration
  os_backoff_max :: duration

text \<open>The number is accumulated in an \<open>int\<close>, which wraps around.\<close>

fun digits_value :: "string \<Rightarrow> int \<Rightarrow> int option" where
  "digits_value [] n = Some n"
| "digits_value (c # cs) n =
     (if is_digit c then digits_value cs (wrap64 (wrap64 (n * 10) + int (digit_val c))) else None)"

definition sync_parse_positive_int :: "string \<Rightarrow> int \<Rightarrow> int" where
  "sync_parse_positive_int text fallback =
     (let v = trim_space text in
      if v = [] then fallback
      else (case digits_value v 0 of
              None \<Rightarrow> fallback | Some n \<Rightarrow> if n \<le> 0 then fallback else n))"

definition new_site_origin_service :: "environ \<Rightarrow> origin_service" where
  "new_site_origin_service env =
     (let num = (\<lambda>key text fallback. sync_parse_positive_int (env_or_default env key text) fallback);
          permille = num ''SITE_CDN_ORIGIN_SYNC_JITTER_PERMILLE'' ''200'' 200 in
      \<lparr>os_max_concurrency = num ''SITE_CDN_ORIGIN_SYNC_MAX_CONCURRENCY'' ''6'' 6,
       os_tick_interval = wrap64 (num ''SITE_CDN_ORIGIN_SYNC_TICK_SECONDS'' ''15'' 15 * second),
       os_jitter_permille = (if permille > 900 then 900 else permille),
       os_backoff_base = wrap64 (num ''SITE_CDN_ORIGIN_SYNC_BACKOFF_BASE_SECONDS'' ''30'' 30 * second),
       os_backoff_max = wrap64 (num ''SITE_CDN_ORIGIN_SYNC_BACKOFF_MAX_SECONDS'' ''1800'' 1800 * second)\<rparr>)"

text \<open>\<open>wobble\<close> is the floating-point expression: the base plus a random offset.\<close>

definition jitter_duration :: "(duration \<Rightarrow> duration) \<Rightarrow> int \<Rightarrow> duration \<Rightarrow> duration" where
  "jitter_duration wobble permille base =
     (if base \<le> 0 \<or> permille \<le> 0 then base
      else
        let next = wobble base in
        if next < 0 then base else if next < second then second else next)"

fun backoff_loop :: "nat \<Rightarrow> duration \<Rightarrow> duration \<Rightarrow> duration" where
  "backoff_loop 0 limit b = b"
| "backoff_loop (Suc n) limit b =
     (let b2 = wrap64 (b * 2) in if b2 \<ge> limit then limit else backoff_loop n limit b2)"

definition backoff_of :: "origin_service \<Rightarrow> int \<Rightarrow> duration" where
  "backoff_of s failures = backoff_loop (nat (failures - 1)) (os_backoff_max s) (os_backoff_base s)"

definition is_due ::
  "origin_service \<Rightarrow> (nat \<Rightarrow> duration \<Rightarrow> duration) \<Rightarrow> gotime \<Rightarrow> cdn_provider_setting \<Rightarrow> status_row option \<Rightarrow> bool" where
  "is_due s wobble now settings status =
     (let refresh = jitter_duration (wobble 0) (os_jitter_permille s)
            (if refresh_interval_seconds settings > 0
             then wrap64 (refresh_interval_seconds settings * second) else hour)
      in case status of
           None \<Rightarrow> True
         | Some row \<Rightarrow>
             (case ss_last_attempt row of
                None \<Rightarrow> True
              | Some at \<Rightarrow>
                  let backoff = (if ss_failures row > 0
                        then jitter_duration (wobble 1) (os_jitter_permille s) (backoff_of s (ss_failures row))
                        else 0);
                      delay = (if backoff > 0 \<and> backoff < refresh then backoff else refresh)
                  in time_sub now (at * second) \<ge> delay))"

datatype origin_provider =
    Cloudflare string
  | Aliyun string string string string
  | Tencent string string string string

definition build_origin_provider :: "string \<Rightarrow> cdn_provider_setting \<Rightarrow> origin_provider option" where
  "build_origin_provider provider s =
     (let p = to_lower (trim_space provider) in
      if p = ''cloudflare'' then Some (Cloudflare (trim_space (cdn_endpoint s)))
      else if p = ''aliyun'' then
        Some (Aliyun (trim_space (api_key s)) (trim_space (secret_key s)) (trim_space (cdn_endpoint s))
          (trim_space (cdn_option s)))
      else if p = ''tencent'' then
        Some (Tencent (trim_space (api_key s)) (trim_space (secret_key s)) (trim_space (zone_id s))
          (trim_space (cdn_endpoint s)))
      else None)"

fun normalize_providers_from :: "string list \<Rightarrow> string list \<Rightarrow> string list" where
  "normalize_providers_from seen [] = []"
| "normalize_providers_from seen (x # xs) =
     (let v = to_lower (trim_space x) in
      if v = [] \<or> v \<in> set seen then normalize_providers_from seen xs
      else v # normalize_providers_from (v # seen) xs)"

definition normalize_providers :: "string list \<Rightarrow> string list" where
  "normalize_providers items = normalize_providers_from [] items"

section \<open>A job\<close>

record origin_job =
  oj_site :: string
  oj_provider :: string
  oj_settings :: cdn_provider_setting
  oj_status :: "status_row option"
  oj_attempt :: gotime

record sync_state =
  sy_manager :: manager
  sy_store :: store

definition previous_failures :: "origin_job \<Rightarrow> int" where
  "previous_failures j = (case oj_status j of None \<Rightarrow> 0 | Some r \<Rightarrow> ss_failures r)"

definition job_update :: "origin_job \<Rightarrow> int \<Rightarrow> string \<Rightarrow> gotime option \<Rightarrow> status_update" where
  "job_update j failures err success =
     \<lparr>su_last_attempt = Some (oj_attempt j), su_last_success = success, su_failures = failures, su_error = err\<rparr>"

definition record_status :: "world \<Rightarrow> origin_job \<Rightarrow> status_update \<Rightarrow> sync_state \<Rightarrow> sync_state" where
  "record_status w j u s =
     s\<lparr>sy_store := fst (upsert_site_cdn_origin_status w (oj_site j) (oj_provider j) u (sy_store s))\<rparr>"

definition record_failure :: "world \<Rightarrow> origin_job \<Rightarrow> string \<Rightarrow> sync_state \<Rightarrow> sync_state" where
  "record_failure w j err s =
     record_status w j (job_update j (wrap64 (previous_failures j + 1)) err None) s"

definition record_success :: "world \<Rightarrow> origin_job \<Rightarrow> string list \<Rightarrow> sync_state \<Rightarrow> sync_state" where
  "record_success w j cidrs s =
     (let s1 = record_status w j (job_update j 0 [] (Some (oj_attempt j))) s in
      s1\<lparr>sy_manager := fst (update_site_cdn_provider_snapshot (oj_site j) (oj_provider j) cidrs
           (oj_attempt j) (sy_manager s1))\<rparr>)"

definition run_job ::
  "(origin_provider \<Rightarrow> string + string list) \<Rightarrow> (store_error \<Rightarrow> string) \<Rightarrow> (nat \<Rightarrow> world) \<Rightarrow>
   origin_job \<Rightarrow> sync_state \<Rightarrow> sync_state" where
  "run_job fetch error_text ws j s =
     (let s1 = record_status (ws 0) j (job_update j (previous_failures j) [] None) s in
      case build_origin_provider (oj_provider j) (oj_settings j) of
        None \<Rightarrow> record_failure (ws 1) j ''cdn provider is not supported'' s1
      | Some provider \<Rightarrow>
          (case fetch provider of
             Inl err \<Rightarrow> record_failure (ws 1) j err s1
           | Inr cidrs \<Rightarrow>
               (case save_site_cdn_origin_snapshot (ws 1) (oj_site j) (oj_provider j) cidrs (oj_attempt j)
                       ''auto'' (sy_store s1) of
                  (_, Inl e) \<Rightarrow> record_failure (ws 2) j (error_text e) s1
                | (st2, Inr _) \<Rightarrow> record_success (ws 2) j cidrs (s1\<lparr>sy_store := st2\<rparr>))))"

section \<open>A tick\<close>

definition status_map :: "status_row list \<Rightarrow> status_row gomap" where
  "status_map rows = fold (\<lambda>r. map_put (to_lower (trim_space (ss_provider r))) r) rows []"

definition site_jobs ::
  "world \<Rightarrow> origin_service \<Rightarrow> (string \<Rightarrow> string \<Rightarrow> nat \<Rightarrow> duration \<Rightarrow> duration) \<Rightarrow> gotime \<Rightarrow> store \<Rightarrow>
   site \<Rightarrow> origin_job list" where
  "site_jobs w s wobble now st site =
     (case get_site_config w (site_id site) st of
        Inl _ \<Rightarrow> []
      | Inr cfg \<Rightarrow>
          let providers = normalize_providers (allowed_cdn_providers (security cfg)) in
          if providers = [] then []
          else
            (case list_site_cdn_origin_status w (site_id site) st of
               Inl _ \<Rightarrow> []
             | Inr rows \<Rightarrow>
                 concat (map (\<lambda>p.
                   let settings = (case cdn_provider_settings (security cfg) of
                         None \<Rightarrow> zero_setting
                       | Some m \<Rightarrow> (case map_get m p of None \<Rightarrow> zero_setting | Some x \<Rightarrow> x));
                       status = map_get (status_map rows) p
                   in if is_due s (wobble (site_id site) p) now settings status
                      then [\<lparr>oj_site = site_id site, oj_provider = p, oj_settings = settings,
                             oj_status = status, oj_attempt = now\<rparr>]
                      else []) providers)))"

fun run_jobs ::
  "(origin_provider \<Rightarrow> string + string list) \<Rightarrow> (store_error \<Rightarrow> string) \<Rightarrow> (nat \<Rightarrow> nat \<Rightarrow> world) \<Rightarrow>
   nat \<Rightarrow> origin_job list \<Rightarrow> sync_state \<Rightarrow> sync_state" where
  "run_jobs fetch error_text ws n [] s = s"
| "run_jobs fetch error_text ws n (j # js) s =
     run_jobs fetch error_text ws (Suc n) js (run_job fetch error_text (ws n) j s)"

definition tick ::
  "origin_service \<Rightarrow> (origin_provider \<Rightarrow> string + string list) \<Rightarrow> (store_error \<Rightarrow> string) \<Rightarrow>
   (string \<Rightarrow> string \<Rightarrow> nat \<Rightarrow> duration \<Rightarrow> duration) \<Rightarrow> world \<Rightarrow> (nat \<Rightarrow> nat \<Rightarrow> world) \<Rightarrow> sync_state \<Rightarrow> sync_state" where
  "tick service fetch error_text wobble w ws s =
     (case list_sites w [] [] (sy_store s) of
        Inl _ \<Rightarrow> s
      | Inr items \<Rightarrow>
          run_jobs fetch error_text ws 0
            (concat (map (site_jobs w service wobble (wd_now w) (sy_store s)) items)) s)"

section \<open>Filling the memory tables\<close>

definition warm_provider :: "world \<Rightarrow> store \<Rightarrow> string \<Rightarrow> string \<Rightarrow> manager \<Rightarrow> manager" where
  "warm_provider w st site provider m =
     (case get_latest_site_cdn_origin_snapshot w site provider st of
        Inl _ \<Rightarrow> m
      | Inr row \<Rightarrow>
          if sn_fetched_at row = 0 then m
          else fst (update_site_cdn_provider_snapshot site provider (sn_cidrs row)
                 (sn_fetched_at row * second) m))"

definition warm_cache :: "world \<Rightarrow> store \<Rightarrow> manager \<Rightarrow> manager" where
  "warm_cache w st m =
     (case list_sites w [] [] st of
        Inl _ \<Rightarrow> m
      | Inr items \<Rightarrow>
          fold (\<lambda>site m1.
            case get_site_config w (site_id site) st of
              Inl _ \<Rightarrow> m1
            | Inr cfg \<Rightarrow>
                fold (warm_provider w st (site_id site))
                  (normalize_providers (allowed_cdn_providers (security cfg))) m1) items m)"

section \<open>The global synchroniser\<close>

definition should_sync :: "(string \<Rightarrow> duration option) \<Rightarrow> gotime \<Rightarrow> gotime \<Rightarrow> manager \<Rightarrow> bool" where
  "should_sync parse_duration now last_sync m =
     (let c = cdn_sync (current_config m) in
      if \<not> sync_enabled c then False
      else
        let schedule = (if sync_schedule c = [] then ''1h'' else sync_schedule c);
            text = trim_space (trim_prefix schedule ''@every '');
            interval = (case parse_duration text of None \<Rightarrow> hour | Some d \<Rightarrow> d)
        in time_sub now last_sync \<ge> interval)"

definition sync_provider ::
  "system \<Rightarrow> (string \<Rightarrow> string + string list) \<Rightarrow> gotime \<Rightarrow> config \<Rightarrow> string \<Rightarrow> manager \<Rightarrow> manager" where
  "sync_provider sys fetch now cfg name m =
     (if to_lower name = ''cloudflare'' then
        (case fetch (cf_endpoint (sync_cloudflare (cdn_sync cfg))) of
           Inl err \<Rightarrow> fst (update_provider_status sys name [] (Some err) now m)
         | Inr cidrs \<Rightarrow> fst (update_provider_status sys name cidrs None now m))
      else m)"

definition try_sync ::
  "system \<Rightarrow> (string \<Rightarrow> string + string list) \<Rightarrow> gotime \<Rightarrow> manager \<Rightarrow> manager" where
  "try_sync sys fetch now m =
     (let cfg = current_config m in
      if \<not> sync_enabled (cdn_sync cfg) then m
      else fold (sync_provider sys fetch now cfg) (sync_providers (cdn_sync cfg)) m)"

end
