(* ===== verification/SyncerProps.thy ===== *)
theory SyncerProps
  imports Syncer SiteStoreProps
begin

text \<open>
  When a provider's list is fetched again, what a job leaves in the store and in memory on
  every branch, and that a restart finds in the store what the last job put into memory.
\<close>

section \<open>Back-off\<close>

lemma backoff_loop_value:
  assumes "0 < b" "b < 2 ^ 62" "0 < limit" "limit \<le> 2 ^ 62"
  shows "backoff_loop (Suc n) limit b = min limit (b * 2 ^ Suc n)"
  using assms
proof (induction n arbitrary: b)
  case 0
  then show ?case by (simp add: wrap64_id Let_def min_def)
next
  case (Suc n)
  have w: "wrap64 (b * 2) = b * 2" using Suc.prems by (simp add: wrap64_id)
  show ?case
  proof (cases "b * 2 \<ge> limit")
    case True
    have "(1 :: int) \<le> 2 ^ Suc n" by (rule one_le_power) simp
    then have "b * 2 * 1 \<le> b * 2 * 2 ^ Suc n" using Suc.prems(1) by (intro mult_left_mono) simp_all
    then have "limit \<le> b * 2 ^ Suc (Suc n)" using True by simp
    then show ?thesis by (simp only: backoff_loop.simps(2) w Let_def True if_True min_def)
  next
    case False
    have "backoff_loop (Suc n) limit (b * 2) = min limit (b * 2 * 2 ^ Suc n)"
      by (rule Suc.IH) (use Suc.prems False in auto)
    then show ?thesis using False by (subst backoff_loop.simps) (simp add: w Let_def mult.assoc)
  qed
qed

lemma backoff_of_value:
  assumes "0 < os_backoff_base s" "os_backoff_base s < 2 ^ 62" "0 < os_backoff_max s" "os_backoff_max s \<le> 2 ^ 62"
  shows "backoff_of s n =
    (if n \<le> 1 then os_backoff_base s else min (os_backoff_max s) (os_backoff_base s * 2 ^ nat (n - 1)))"
proof (cases "n \<le> 1")
  case False
  then obtain k where "nat (n - 1) = Suc k" by (cases "nat (n - 1)") auto
  with False backoff_loop_value [OF assms, of k] show ?thesis by (simp add: backoff_of_def)
qed (simp add: backoff_of_def)

definition refresh_of :: "cdn_provider_setting \<Rightarrow> duration" where
  "refresh_of settings =
     (if refresh_interval_seconds settings > 0
      then wrap64 (refresh_interval_seconds settings * second) else hour)"

text \<open>
  The retry schedule. Without jitter a provider is due again once its refresh interval has
  passed, or, after \<open>n\<close> failures in a row, already after \<open>base * 2 ^ (n - 1)\<close>, which from the
  second failure on is cut off at the maximum; the first back-off is the base even when that
  is longer. The doubling does not overflow, and failures never delay a fetch beyond the
  refresh interval.
\<close>

theorem retry_schedule:
  assumes "os_jitter_permille s = 0" "ss_last_attempt row = Some t" "\<bar>now - t * second\<bar> < 2 ^ 63"
    and "0 < os_backoff_base s" "os_backoff_base s < 2 ^ 62" "0 < os_backoff_max s" "os_backoff_max s \<le> 2 ^ 62"
  shows "is_due s wobble now settings (Some row) \<longleftrightarrow>
    now - t * second \<ge>
      (let n = ss_failures row in
       if n \<le> 0 then refresh_of settings
       else min (refresh_of settings)
         (if n = 1 then os_backoff_base s
          else min (os_backoff_max s) (os_backoff_base s * 2 ^ nat (n - 1))))"
proof -
  have nojit: "jitter_duration f 0 b = b" for f b by (simp add: jitter_duration_def)
  have pos: "0 < backoff_of s (ss_failures row)"
    using assms(4-7) by (simp add: backoff_of_value min_def)
  show ?thesis
    using assms(1,2) pos backoff_of_value [OF assms(4-7), of "ss_failures row"] time_sub_id [OF assms(3)]
    by (auto simp: is_due_def refresh_of_def nojit Let_def min_def)
qed

definition default_service :: origin_service where
  "default_service = (new_site_origin_service (\<lambda>_. []))\<lparr>os_jitter_permille := 0\<rparr>"

definition failing_row :: "int \<Rightarrow> status_row" where
  "failing_row n = \<lparr>ss_site = ''s'', ss_provider = ''aliyun'', ss_last_attempt = Some 1000,
     ss_last_success = Some 10, ss_failures = n, ss_error = ''timeout'', ss_updated_at = 1000\<rparr>"

theorem retry_schedule_witness:
  "\<not> is_due default_service (\<lambda>_ d. d) (1119 * second) zero_setting (Some (failing_row 3)) \<and>
   is_due default_service (\<lambda>_ d. d) (1120 * second) zero_setting (Some (failing_row 3))"
proof -
  have s: "os_jitter_permille default_service = 0" "os_backoff_base default_service = 30 * second"
    "os_backoff_max default_service = 1800 * second" by code_simp+
  have r: "ss_last_attempt (failing_row 3) = Some 1000" by code_simp
  have b: "0 < os_backoff_base default_service" "os_backoff_base default_service < 2 ^ 62"
    "0 < os_backoff_max default_service" "os_backoff_max default_service \<le> 2 ^ 62"
    by (simp_all add: s duration_units)
  have d: "\<bar>1119 * second - 1000 * second\<bar> < 2 ^ 63" "\<bar>1120 * second - 1000 * second\<bar> < 2 ^ 63"
    by (simp_all add: duration_units)
  have v: "ss_failures (failing_row 3) = 3" "refresh_of zero_setting = hour"
    by (simp_all add: failing_row_def refresh_of_def zero_setting_def)
  show ?thesis
    using retry_schedule [OF s(1) r d(1) b, where wobble = "\<lambda>_ d. d" and settings = zero_setting]
      retry_schedule [OF s(1) r d(2) b, where wobble = "\<lambda>_ d. d" and settings = zero_setting]
    by (simp add: v s duration_units)
qed

section \<open>Status rows\<close>

lemma find_map_put:
  assumes "ss_site row = s" "ss_provider row = p"
  shows "find (\<lambda>r. ss_site r = s' \<and> ss_provider r = p')
      (map (\<lambda>r. if ss_site r = s \<and> ss_provider r = p then row else r) rows) =
    (if s' = s \<and> p' = p
     then map_option (\<lambda>_. row) (find (\<lambda>r. ss_site r = s \<and> ss_provider r = p) rows)
     else find (\<lambda>r. ss_site r = s' \<and> ss_provider r = p') rows)"
  using assms by (induction rows) auto

lemma find_status_put:
  assumes "ss_site row = s" "ss_provider row = p"
  shows "find_status s' p' (put_status s p row st) = (if s' = s \<and> p' = p then Some row else find_status s' p' st)"
proof -
  have app: "find P (xs @ [row]) = (case find P xs of None \<Rightarrow> if P row then Some row else None | Some x \<Rightarrow> Some x)" for P xs
    by (induction xs) auto
  show ?thesis
    using assms by (cases "find_status s p st")
      (auto simp: put_status_def find_status_def find_map_put app split: option.split)
qed

lemma put_status_frame [simp, frame_simps]:
  "db_ready (put_status s p row st) = db_ready st"
  "cdn_snapshots (put_status s p row st) = cdn_snapshots st"
  by (simp_all add: put_status_def)

section \<open>Jobs\<close>

definition job_ok :: "origin_job \<Rightarrow> bool" where
  "job_ok j \<longleftrightarrow> trim_space (oj_site j) = oj_site j \<and> oj_site j \<noteq> [] \<and>
     to_lower (trim_space (oj_provider j)) = oj_provider j \<and> oj_provider j \<noteq> []"

definition status_of :: "origin_job \<Rightarrow> sync_state \<Rightarrow> status_row option" where
  "status_of j s = find_status (oj_site j) (oj_provider j) (sy_store s)"

definition written :: "world \<Rightarrow> origin_job \<Rightarrow> status_update \<Rightarrow> sync_state \<Rightarrow> status_row" where
  "written w j u s = upsert_row w (oj_site j) (oj_provider j) u (status_of j s)"

lemma site_and_provider_ok: "job_ok j \<Longrightarrow> site_and_provider (oj_site j) (oj_provider j) f = f (oj_site j) (oj_provider j)"
  by (simp add: site_and_provider_def job_ok_def Let_def)

lemma record_status_ok:
  assumes "job_ok j" "db_ready (sy_store s)" "wd_sql w UpsertStatus"
  shows "record_status w j u s =
    s\<lparr>sy_store := put_status (oj_site j) (oj_provider j) (written w j u s) (sy_store s)\<rparr>"
  using assms
  by (simp add: record_status_def upsert_site_cdn_origin_status_def guarded_def site_and_provider_ok
      run_sql_def written_def status_of_def)

lemma written_key [simp]: "ss_site (written w j u s) = oj_site j" "ss_provider (written w j u s) = oj_provider j"
  by (simp_all add: written_def upsert_row_def)

lemma record_status_facts:
  assumes "job_ok j" "db_ready (sy_store s)" "wd_sql w UpsertStatus"
  shows "status_of j (record_status w j u s) = Some (written w j u s)"
    "(site, p) \<noteq> (oj_site j, oj_provider j) \<Longrightarrow>
      find_status site p (sy_store (record_status w j u s)) = find_status site p (sy_store s)"
    "sy_manager (record_status w j u s) = sy_manager s" "db_ready (sy_store (record_status w j u s))"
    "cdn_snapshots (sy_store (record_status w j u s)) = cdn_snapshots (sy_store s)"
  using assms by (auto simp: record_status_ok status_of_def find_status_put)

lemma save_snapshot_ok:
  assumes "job_ok j" "db_ready st" "wd_sql w InsertSnapshot" "wd_random w 0 = Some i" "i \<notin> sn_id ` set (cdn_snapshots st)"
  shows "save_site_cdn_origin_snapshot w (oj_site j) (oj_provider j) cidrs t src st =
    (let row = \<lparr>sn_id = i, sn_site = oj_site j, sn_provider = oj_provider j, sn_cidrs = cidrs,
       sn_fetched_at = unix_seconds t, sn_source = src, sn_created_at = unix_seconds (wd_now w)\<rparr> in
     (st\<lparr>cdn_snapshots := cdn_snapshots st @ [row]\<rparr>, Inr row))"
  using assms
  by (simp add: save_site_cdn_origin_snapshot_def site_and_provider_ok guarded_def new_id_def run_sql_def
      commit_def Let_def)

definition calm :: "(nat \<Rightarrow> world) \<Rightarrow> bool" where
  "calm ws \<longleftrightarrow> (\<forall>n stmt. wd_sql (ws n) stmt)"

definition fetched :: "(origin_provider \<Rightarrow> string + string list) \<Rightarrow> origin_job \<Rightarrow> string + string list" where
  "fetched fetch j = (case build_origin_provider (oj_provider j) (oj_settings j) of
     None \<Rightarrow> Inl ''cdn provider is not supported'' | Some p \<Rightarrow> fetch p)"

lemma add_site_prefixes_ok:
  "(\<exists>qs. fold_res add_site_prefix cs ps = Inr qs) \<longleftrightarrow> list_all blank_or_cidr cs"
proof (induction cs arbitrary: ps)
  case (Cons c cs)
  have "(\<exists>us. add_site_prefix c ps = Inr us) \<longleftrightarrow> blank_or_cidr c"
    by (auto simp: add_site_prefix_def blank_or_cidr_def cidr_ok_def Let_def split: option.split)
  then show ?case using Cons.IH by (auto simp: res_bind_Inr_iff)
qed simp

lemma update_snapshot_table:
  assumes "job_ok j"
  shows "site_snapshots (fst (update_site_cdn_provider_snapshot (oj_site j) (oj_provider j) cs t m)) site =
    (if site = oj_site j \<and> list_all blank_or_cidr cs
     then map_put (oj_provider j)
            \<lparr>scs_prefixes = map parsed_cidr (filter (\<lambda>c. trim_space c \<noteq> []) cs), scs_last_success = t\<rparr>
            (site_snapshots m site)
     else site_snapshots m site)"
proof (cases "update_site_cdn_provider_snapshot (oj_site j) (oj_provider j) cs t m")
  case (Pair m' r)
  have names: "trim_space (oj_site j) = oj_site j" "to_lower (trim_space (oj_provider j)) = oj_provider j"
    "oj_site j \<noteq> []" "oj_provider j \<noteq> []" using assms by (auto simp: job_ok_def)
  show ?thesis
  proof (cases r)
    case None
    with Pair have ok: "update_site_cdn_provider_snapshot (oj_site j) (oj_provider j) cs t m = (m', None)" by simp
    then have "list_all blank_or_cidr cs"
      using add_site_prefixes_ok [of cs "[]"] names
      by (auto simp: update_site_cdn_provider_snapshot_def Let_def split: sum.splits)
    then show ?thesis using site_snapshots_update [OF ok, of site] by (simp add: ok names)
  next
    case (Some e)
    with Pair have "m' = m" "\<not> list_all blank_or_cidr cs"
      using add_site_prefixes_ok [of cs "[]"] names
      by (auto simp: update_site_cdn_provider_snapshot_def Let_def split: sum.splits)
    then show ?thesis by (simp add: Pair)
  qed
qed

text \<open>
  What a job leaves behind, when the store works. The attempt is always recorded. A fetch
  that fails, or a provider that is not supported, adds one to the failures and records the
  error; the last success, the snapshots and the memory tables stay. A fetch that succeeds
  resets the failures, saves a snapshot and is reported as a success also when one of its
  CIDRs does not parse, although the memory table then keeps the old list. The status of no
  other site or provider changes.
\<close>

theorem job_outcome:
  assumes "job_ok j" "db_ready (sy_store s)" "calm ws" "wd_random (ws 1) 0 = Some i"
    and "i \<notin> sn_id ` set (cdn_snapshots (sy_store s))"
  shows "let s' = run_job fetch error_text ws j s; tables = site_snapshots (sy_manager s') in
    (\<forall>site p. (site, p) \<noteq> (oj_site j, oj_provider j) \<longrightarrow>
       find_status site p (sy_store s') = find_status site p (sy_store s)) \<and>
    (\<exists>row. status_of j s' = Some row \<and> ss_last_attempt row = Some (unix_seconds (oj_attempt j)) \<and>
     (case fetched fetch j of
        Inl err \<Rightarrow> ss_failures row = wrap64 (previous_failures j + 1) \<and> ss_error row = err \<and>
          ss_last_success row = (case status_of j s of None \<Rightarrow> None | Some r \<Rightarrow> ss_last_success r) \<and>
          cdn_snapshots (sy_store s') = cdn_snapshots (sy_store s) \<and> tables = site_snapshots (sy_manager s)
      | Inr cidrs \<Rightarrow> ss_failures row = 0 \<and> ss_error row = [] \<and>
          ss_last_success row = Some (unix_seconds (oj_attempt j)) \<and>
          map sn_cidrs (cdn_snapshots (sy_store s')) = map sn_cidrs (cdn_snapshots (sy_store s)) @ [cidrs] \<and>
          tables = (\<lambda>site. if site = oj_site j \<and> list_all blank_or_cidr cidrs
            then map_put (oj_provider j)
              \<lparr>scs_prefixes = map parsed_cidr (filter (\<lambda>c. trim_space c \<noteq> []) cidrs),
               scs_last_success = oj_attempt j\<rparr> (site_snapshots (sy_manager s) site)
            else site_snapshots (sy_manager s) site)))"
proof -
  have sql: "wd_sql (ws n) stmt" for n stmt using assms(3) by (simp add: calm_def)
  let ?u = "job_update j (previous_failures j) [] None"
  define s1 where "s1 = record_status (ws 0) j ?u s"
  note f1 = record_status_facts [OF assms(1,2) sql [of 0], where u = ?u, folded s1_def]
  have keeps: "ss_last_success (written (ws 0) j ?u s) =
      (case status_of j s of None \<Rightarrow> None | Some r \<Rightarrow> ss_last_success r)"
    by (simp add: written_def upsert_row_def job_update_def)
  show ?thesis
  proof (cases "fetched fetch j")
    case (Inl err)
    have run: "run_job fetch error_text ws j s = record_failure (ws 1) j err s1"
      using Inl by (auto simp: run_job_def fetched_def s1_def [symmetric] Let_def split: option.splits sum.splits)
    note f2 = record_status_facts [OF assms(1) f1(4) sql [of 1], where u = "job_update j (wrap64 (previous_failures j + 1)) err None"]
    show ?thesis
      unfolding run Let_def Inl record_failure_def
      using f1 f2 keeps by (auto simp: written_def upsert_row_def job_update_def)
  next
    case (Inr cidrs)
    let ?row = "\<lparr>sn_id = i, sn_site = oj_site j, sn_provider = oj_provider j, sn_cidrs = cidrs,
      sn_fetched_at = unix_seconds (oj_attempt j), sn_source = ''auto'',
      sn_created_at = unix_seconds (wd_now (ws 1))\<rparr>"
    define s2 where "s2 = s1\<lparr>sy_store := (sy_store s1)\<lparr>cdn_snapshots := cdn_snapshots (sy_store s1) @ [?row]\<rparr>\<rparr>"
    have i: "i \<notin> sn_id ` set (cdn_snapshots (sy_store s1))" using assms(5) f1(5) by simp
    have run: "run_job fetch error_text ws j s = record_success (ws 2) j cidrs s2"
      using Inr save_snapshot_ok [OF assms(1) f1(4) sql assms(4) i]
      by (auto simp: run_job_def fetched_def s1_def [symmetric] s2_def Let_def split: option.splits sum.splits)
    have s2: "db_ready (sy_store s2)" "sy_manager s2 = sy_manager s"
      "\<And>site p. find_status site p (sy_store s2) = find_status site p (sy_store s1)"
      "cdn_snapshots (sy_store s2) = cdn_snapshots (sy_store s) @ [?row]"
      using f1 by (simp_all add: s2_def find_status_def)
    note f3 = record_status_facts [OF assms(1) s2(1) sql [of 2], where u = "job_update j 0 [] (Some (oj_attempt j))"]
    show ?thesis
      unfolding run Let_def Inr record_success_def
      using f1(2) f3 s2
      by (auto simp: written_def upsert_row_def job_update_def update_snapshot_table [OF assms(1)] status_of_def)
  qed
qed

definition sample_job :: origin_job where
  "sample_job = \<lparr>oj_site = ''s'', oj_provider = ''cloudflare'', oj_settings = zero_setting,
     oj_status = Some (failing_row 3), oj_attempt = 2000 * second\<rparr>"

theorem job_outcome_witness:
  "map_option ss_failures (status_of sample_job
     (run_job (\<lambda>_. Inr [''10.0.0.0/8'', ''junk'']) (\<lambda>_. []) (\<lambda>_. sample_world) sample_job
       \<lparr>sy_manager = sample_manager, sy_store = sample_store 7\<rparr>)) = Some 0 \<and>
   site_snapshots (sy_manager
     (run_job (\<lambda>_. Inr [''10.0.0.0/8'', ''junk'']) (\<lambda>_. []) (\<lambda>_. sample_world) sample_job
       \<lparr>sy_manager = sample_manager, sy_store = sample_store 7\<rparr>)) ''s'' = []"
proof -
  let ?s = "\<lparr>sy_manager = sample_manager, sy_store = sample_store 7\<rparr>"
  have j: "job_ok sample_job" by code_simp
  have r: "db_ready (sy_store ?s)" by code_simp
  have c: "calm (\<lambda>_. sample_world)" by (simp add: calm_def sample_world_def)
  have i: "wd_random sample_world 0 = Some ''id0''" by code_simp
  have n: "''id0'' \<notin> sn_id ` set (cdn_snapshots (sy_store ?s))" by code_simp
  have f: "fetched (\<lambda>_. Inr [''10.0.0.0/8'', ''junk'']) sample_job = Inr [''10.0.0.0/8'', ''junk'']" by code_simp
  have b: "\<not> list_all blank_or_cidr [''10.0.0.0/8'', ''junk'']" by code_simp
  have m: "site_snapshots sample_manager ''s'' = []" by code_simp
  show ?thesis
    using job_outcome [OF j r c i n, where fetch = "\<lambda>_. Inr [''10.0.0.0/8'', ''junk'']" and error_text = "\<lambda>_. []"]
      b m by (auto simp: Let_def f)
qed

end
