(* ===== verification/ConfigDiff.thy ===== *)
theory ConfigDiff
  imports GoStrings
begin

text \<open>
  The differences between two configurations (\<open>internal/admin/config_diff.go\<close>): both are turned
  into generic JSON values and compared field by field. The code ranges over the union of the
  keys in the order the runtime yields them; the model takes the keys of the base and then the
  new ones of the target. What is proved: the items are exactly the places where the two
  documents differ.
\<close>

section \<open>JSON values\<close>

text \<open>
  What \<open>encoding/json\<close> decodes into \<open>any\<close>. A number is a \<open>float64\<close> there; the numbers of a
  configuration are whole, and \<open>JNum\<close> carries the decoded value.
\<close>

datatype json =
    JNull | JBool bool | JNum int | JStr string | JArr "json list" | JObj "(string \<times> json) list"

definition is_object :: "json \<Rightarrow> bool" where
  "is_object v \<longleftrightarrow> (case v of JObj _ \<Rightarrow> True | _ \<Rightarrow> False)"

definition is_list :: "json \<Rightarrow> bool" where
  "is_list v \<longleftrightarrow> (case v of JArr _ \<Rightarrow> True | _ \<Rightarrow> False)"

text \<open>The type assertion to a map: the nil map for any other value. A missing key reads as nil.\<close>

definition obj_fields :: "json \<Rightarrow> (string \<times> json) list" where
  "obj_fields v = (case v of JObj m \<Rightarrow> m | _ \<Rightarrow> [])"

definition field :: "string \<Rightarrow> json \<Rightarrow> json" where
  "field k v = (case map_get (obj_fields v) k of None \<Rightarrow> JNull | Some x \<Rightarrow> x)"

definition as_list :: "json \<Rightarrow> json" where
  "as_list v = (if is_list v then v else JNull)"

lemma size_field_value: "(k, x) \<in> set m \<Longrightarrow> size x < size (JObj m)"
  by (induction m) auto

lemma size_element: "x \<in> set xs \<Longrightarrow> size x < size (JArr xs)"
  by (induction xs) auto

text \<open>\<open>reflect.DeepEqual\<close>: maps are equal when they have the same keys with equal values.\<close>

function deep_equal :: "json \<Rightarrow> json \<Rightarrow> bool" where
  "deep_equal a b =
     (case (a, b) of
        (JObj m, JObj n) \<Rightarrow> length m = length n \<and>
          list_all (\<lambda>(k, x). case map_get n k of None \<Rightarrow> False | Some y \<Rightarrow> deep_equal x y) m
      | (JArr xs, JArr ys) \<Rightarrow> length xs = length ys \<and> list_all (\<lambda>(x, y). deep_equal x y) (zip xs ys)
      | (JObj _, _) \<Rightarrow> False
      | (JArr _, _) \<Rightarrow> False
      | _ \<Rightarrow> a = b)"
  by pat_completeness auto

termination
  by (relation "measure (\<lambda>(a, b). size a)")
    (auto dest: size_field_value size_element set_zip_leftD)

declare deep_equal.simps [simp del]

lemma deep_equal_simps [simp]:
  "deep_equal (JObj m) (JObj n) \<longleftrightarrow> length m = length n \<and>
     list_all (\<lambda>(k, x). case map_get n k of None \<Rightarrow> False | Some y \<Rightarrow> deep_equal x y) m"
  "deep_equal (JArr xs) (JArr ys) \<longleftrightarrow> list_all2 deep_equal xs ys"
  "\<not> is_object a \<Longrightarrow> \<not> is_list a \<Longrightarrow> deep_equal a b \<longleftrightarrow> a = b"
  "\<not> is_object b \<Longrightarrow> \<not> is_list b \<Longrightarrow> deep_equal a b \<longleftrightarrow> a = b"
  by (auto simp: deep_equal.simps [of a] deep_equal.simps [of "JObj m"] deep_equal.simps [of "JArr xs"]
      is_object_def is_list_def list_all_iff list_all2_iff split: json.splits)

section \<open>The differences\<close>

record config_diff_item =
  diff_path :: string
  diff_before :: json
  diff_after :: json

definition next_path :: "string \<Rightarrow> string \<Rightarrow> string" where
  "next_path path key = (if path \<noteq> [] then path @ ''.'' @ key else key)"

definition all_keys :: "json \<Rightarrow> json \<Rightarrow> string list" where
  "all_keys a b = remdups (map fst (obj_fields a) @ map fst (obj_fields b))"

lemma size_field: "size (field k v) \<le> size v"
  by (cases v) (auto simp: field_def obj_fields_def dest!: map_of_SomeD size_field_value split: option.split)

lemma size_field_less: "k \<in> fst ` set (obj_fields v) \<Longrightarrow> size (field k v) < size v"
proof -
  assume k: "k \<in> fst ` set (obj_fields v)"
  then obtain m where v: "v = JObj m" by (cases v) (auto simp: obj_fields_def)
  with k obtain x where "map_get m k = Some x" by (auto simp: obj_fields_def dest: weak_map_of_SomeI)
  then show ?thesis
    using size_field_value map_of_SomeD by (fastforce simp: v field_def obj_fields_def)
qed

function collect_diffs :: "string \<Rightarrow> json \<Rightarrow> json \<Rightarrow> config_diff_item list" where
  "collect_diffs path base target =
     (if deep_equal base target then []
      else if is_object base \<or> is_object target then
        concat (map (\<lambda>k. collect_diffs (next_path path k) (field k base) (field k target))
          (all_keys base target))
      else if is_list base \<or> is_list target then
        [\<lparr>diff_path = path, diff_before = as_list base, diff_after = as_list target\<rparr>]
      else [\<lparr>diff_path = path, diff_before = base, diff_after = target\<rparr>])"
  by pat_completeness auto

termination
proof (relation "measure (\<lambda>(p, a, b). size a + size b)", goal_cases)
  case (2 path base target k)
  then have "k \<in> fst ` set (obj_fields base) \<or> k \<in> fst ` set (obj_fields target)"
    by (simp add: all_keys_def)
  then have "size (field k base) + size (field k target) < size base + size target"
    by (elim disjE) (metis size_field size_field_less add_less_le_mono add_le_less_mono)+
  then show ?case by simp
qed simp

declare collect_diffs.simps [simp del]

text \<open>Marshalling the configuration and reading the text back is \<open>to_map\<close>; it can fail.\<close>

definition build_config_diff ::
  "('c \<Rightarrow> json option) \<Rightarrow> 'c \<Rightarrow> 'c \<Rightarrow> config_diff_item list option" where
  "build_config_diff to_map base target =
     (case to_map base of
        None \<Rightarrow> None
      | Some a \<Rightarrow> (case to_map target of None \<Rightarrow> None | Some b \<Rightarrow> Some (collect_diffs [] a b)))"

section \<open>The items are the differences\<close>

text \<open>Documents as JSON texts have them: the keys of an object are distinct.\<close>

fun document :: "json \<Rightarrow> bool" where
  "document (JObj m) \<longleftrightarrow> distinct (map fst m) \<and> list_all (\<lambda>p. document (snd p)) m"
| "document (JArr xs) \<longleftrightarrow> list_all document xs"
| "document _ \<longleftrightarrow> True"

definition value_at :: "string list \<Rightarrow> json \<Rightarrow> json" where
  "value_at ks v = fold field ks v"

definition path_text :: "string \<Rightarrow> string list \<Rightarrow> string" where
  "path_text path ks = fold (\<lambda>k p. next_path p k) ks path"

definition differ_at :: "string list \<Rightarrow> json \<Rightarrow> json \<Rightarrow> bool" where
  "differ_at ks a b \<longleftrightarrow>
     \<not> is_object (value_at ks a) \<and> \<not> is_object (value_at ks b) \<and> \<not> deep_equal (value_at ks a) (value_at ks b)"

definition item_at :: "string \<Rightarrow> string list \<Rightarrow> json \<Rightarrow> json \<Rightarrow> config_diff_item" where
  "item_at path ks a b =
     (let x = value_at ks a; y = value_at ks b in
      if is_list x \<or> is_list y
      then \<lparr>diff_path = path_text path ks, diff_before = as_list x, diff_after = as_list y\<rparr>
      else \<lparr>diff_path = path_text path ks, diff_before = x, diff_after = y\<rparr>)"

lemma document_field: "document v \<Longrightarrow> document (field k v)"
  by (cases v) (auto simp: field_def obj_fields_def list_all_iff dest!: map_of_SomeD split: option.split)

lemma field_leaf [simp]: "\<not> is_object v \<Longrightarrow> field k v = JNull"
  by (cases v) (auto simp: is_object_def field_def obj_fields_def)

lemma value_at_null [simp]: "value_at ks JNull = JNull"
  by (induction ks) (simp_all add: value_at_def is_object_def)

lemma value_at_Cons: "value_at (k # ks) v = value_at ks (field k v)"
  by (simp add: value_at_def)

lemma deep_equal_keys:
  assumes "deep_equal (JObj m) (JObj n)" "document (JObj m)" "document (JObj n)"
  shows "fst ` set m = fst ` set n"
proof (rule card_subset_eq)
  show "fst ` set m \<subseteq> fst ` set n"
    using assms(1) by (force simp: list_all_iff dest: map_of_SomeD split: option.splits)
  have "card (fst ` set m) = length m" "card (fst ` set n) = length n"
    using assms(2,3) distinct_card [of "map fst m"] distinct_card [of "map fst n"] by simp_all
  then show "card (fst ` set m) = card (fst ` set n)" using assms(1) by simp
qed simp

lemma deep_equal_field:
  assumes "deep_equal a b" "document a" "document b"
  shows "deep_equal (field k a) (field k b)"
proof (cases "is_object a \<and> is_object b")
  case True
  then obtain m n where ab: "a = JObj m" "b = JObj n"
    by (auto simp: is_object_def split: json.splits)
  note keys = deep_equal_keys [OF assms [unfolded ab]]
  show ?thesis
  proof (cases "map_get m k")
    case None
    then have "map_get n k = None" using keys by (simp add: map_of_eq_None_iff)
    with None show ?thesis by (simp add: ab field_def obj_fields_def is_object_def is_list_def)
  next
    case (Some x)
    then have "(k, x) \<in> set m" by (rule map_of_SomeD)
    with assms(1) Some show ?thesis
      by (auto simp: ab field_def obj_fields_def list_all_iff split: option.splits)
  qed
next
  case False
  then have "\<not> is_object a \<and> \<not> is_object b"
    using assms(1) by (cases a; cases b) (auto simp: is_object_def deep_equal.simps)
  then show ?thesis by (simp add: is_object_def is_list_def)
qed

lemma deep_equal_no_difference:
  "deep_equal a b \<Longrightarrow> document a \<Longrightarrow> document b \<Longrightarrow> \<not> differ_at ks a b"
proof (induction ks arbitrary: a b)
  case Nil
  then show ?case by (simp add: differ_at_def value_at_def)
next
  case (Cons k ks)
  then have "\<not> differ_at ks (field k a) (field k b)"
    using deep_equal_field document_field by blast
  then show ?case by (simp add: differ_at_def value_at_Cons)
qed

lemma differ_at_Cons: "differ_at (k # ks) a b \<longleftrightarrow> differ_at ks (field k a) (field k b)"
  by (simp add: differ_at_def value_at_Cons)

lemma item_at_Cons: "item_at path (k # ks) a b = item_at (next_path path k) ks (field k a) (field k b)"
  by (simp add: item_at_def value_at_Cons path_text_def Let_def)

lemma differ_at_key: "differ_at (k # ks) a b \<Longrightarrow> k \<in> set (all_keys a b)"
proof (rule ccontr)
  assume "differ_at (k # ks) a b" "k \<notin> set (all_keys a b)"
  then have "field k a = JNull" "field k b = JNull"
    using map_of_eq_None_iff [of "obj_fields a" k] map_of_eq_None_iff [of "obj_fields b" k]
    by (simp_all add: all_keys_def field_def)
  with \<open>differ_at (k # ks) a b\<close> show False
    by (simp add: differ_at_def value_at_Cons is_object_def is_list_def)
qed

lemma collect_diffs_exact:
  "document base \<Longrightarrow> document target \<Longrightarrow>
   set (collect_diffs path base target) = {item_at path ks base target | ks. differ_at ks base target}"
proof (induction path base target rule: collect_diffs.induct)
  case (1 path base target)
  note rec = collect_diffs.simps [of path base target]
  consider "deep_equal base target" | "\<not> deep_equal base target" "is_object base \<or> is_object target"
    | "\<not> deep_equal base target" "\<not> is_object base" "\<not> is_object target" by blast
  then show ?case
  proof cases
    case a: 1
    then show ?thesis using deep_equal_no_difference [OF a "1.prems"] by (simp add: rec)
  next
    case a: 2
    have IH: "set (collect_diffs (next_path path k) (field k base) (field k target)) =
        {item_at path (k # ks) base target | ks. differ_at (k # ks) base target}" if "k \<in> set (all_keys base target)" for k
      using "1.IH" [OF a that] "1.prems" by (simp add: document_field item_at_Cons differ_at_Cons)
    have "\<not> differ_at [] base target" using a(2) by (auto simp: differ_at_def value_at_def)
    then have "{item_at path ks base target | ks. differ_at ks base target} =
        (\<Union>k\<in>set (all_keys base target). {item_at path (k # ks) base target | ks. differ_at (k # ks) base target})"
      by (auto simp: set_eq_iff) (metis differ_at_key neq_Nil_conv)
    then show ?thesis using a by (simp add: rec IH)
  next
    case a: 3
    have "field k base = JNull" "field k target = JNull" for k using a(2,3) by simp_all
    then have "\<not> differ_at (k # ks) base target" for k ks
      by (simp add: differ_at_def value_at_Cons is_object_def is_list_def)
    then have "differ_at ks base target \<longleftrightarrow> ks = []" for ks
      using a by (cases ks) (auto simp: differ_at_def value_at_def)
    then show ?thesis
      using a by (auto simp: rec item_at_def value_at_def path_text_def Let_def)
  qed
qed

text \<open>
  C22. The list of changes is exact. \<open>buildConfigDiff\<close> returns an item for a path of keys when, and
  only when, neither document has an object there and the two values differ; a value that a
  document does not have counts as null, and a list is compared and shown as a whole.
\<close>

theorem config_diff_exact:
  assumes "to_map base = Some a" "to_map target = Some b" "document a" "document b"
  shows "\<exists>items. build_config_diff to_map base target = Some items \<and>
    set items = {item_at [] ks a b | ks. differ_at ks a b}"
  using assms by (simp add: build_config_diff_def collect_diffs_exact)

definition pool_document :: "int \<Rightarrow> json \<Rightarrow> json" where
  "pool_document weight mode = JObj [(''loadBalancer'', JObj [(''pools'', JArr [JObj [(''weight'', JNum weight)]])]),
     (''security'', JObj [(''enableHsts'', JBool True), (''originProtectionMode'', mode)])]"

theorem config_diff_exact_witness:
  "{item_at [] ks (pool_document 1 JNull) (pool_document 2 (JStr ''enforced'')) | ks.
      differ_at ks (pool_document 1 JNull) (pool_document 2 (JStr ''enforced''))} =
   {\<lparr>diff_path = ''loadBalancer.pools'', diff_before = JArr [JObj [(''weight'', JNum 1)]],
     diff_after = JArr [JObj [(''weight'', JNum 2)]]\<rparr>,
    \<lparr>diff_path = ''security.originProtectionMode'', diff_before = JNull, diff_after = JStr ''enforced''\<rparr>}"
proof -
  let ?a = "pool_document 1 JNull" and ?b = "pool_document 2 (JStr ''enforced'')"
  have d: "document ?a" "document ?b" by code_simp+
  have "build_config_diff Some ?a ?b = Some
    [\<lparr>diff_path = ''loadBalancer.pools'', diff_before = JArr [JObj [(''weight'', JNum 1)]],
       diff_after = JArr [JObj [(''weight'', JNum 2)]]\<rparr>,
     \<lparr>diff_path = ''security.originProtectionMode'', diff_before = JNull, diff_after = JStr ''enforced''\<rparr>]"
    by code_simp
  then show ?thesis using config_diff_exact [where to_map = Some, OF refl refl d] by auto
qed

end
