(* ===== verification/LogQuery.thy ===== *)
theory LogQuery
  imports SiteStoreProps
begin

text \<open>
  Reading audits and site logs back (\<open>internal/store/audit.go\<close>, \<open>site_logs.go\<close>) and the handler of
  the audit list (\<open>internal/admin/audit.go\<close>): filters, pages and the merge of two tables. The
  columns with times are texts, and the bounds of a query are compared with them as texts.
\<close>

section \<open>Audits\<close>

record audit_query =
  al_action :: string
  al_operator_is :: string
  al_target :: string
  al_start :: string
  al_end :: string
  al_limit :: int
  al_page :: int
  al_page_size :: int

text \<open>A condition is only added for a text that is not empty.\<close>

definition text_is :: "string \<Rightarrow> string \<Rightarrow> bool" where
  "text_is wanted v \<longleftrightarrow> wanted = [] \<or> v = wanted"

definition text_between :: "string \<Rightarrow> string \<Rightarrow> string \<Rightarrow> bool" where
  "text_between lo hi v \<longleftrightarrow> (lo = [] \<or> v \<ge> lo) \<and> (hi = [] \<or> v \<le> hi)"

definition audit_time :: "audit_row \<Rightarrow> string" where
  "audit_time r = rfc3339 (au_created_at r)"

definition audit_matches :: "audit_query \<Rightarrow> audit_row \<Rightarrow> bool" where
  "audit_matches q r \<longleftrightarrow> text_is (al_action q) (au_action r) \<and> text_is (al_operator_is q) (au_operator r) \<and>
     text_is (al_target q) (au_target r) \<and> text_between (al_start q) (al_end q) (audit_time r)"

definition page_size_of :: "audit_query \<Rightarrow> int" where
  "page_size_of q =
     (let s = (if al_page_size q \<le> 0 then al_limit q else al_page_size q);
          s1 = (if s \<le> 0 then 15 else s)
      in if s1 > 500 then 500 else s1)"

text \<open>\<open>LIMIT ? OFFSET ?\<close>: the engine takes a negative offset for none. The product is an \<open>int\<close>.\<close>

definition page_offset :: "int \<Rightarrow> int \<Rightarrow> int" where
  "page_offset page per_page = wrap64 (wrap64 (page - 1) * per_page)"

definition limit_offset :: "int \<Rightarrow> int \<Rightarrow> 'r list \<Rightarrow> 'r list" where
  "limit_offset limit off rows = take (nat limit) (drop (nat off) rows)"

definition list_audit_logs ::
  "world \<Rightarrow> audit_query \<Rightarrow> store \<Rightarrow> store_error + (audit_row list \<times> int)" where
  "list_audit_logs w q st = guarded st
     (let page = (if al_page q \<le> 0 then 1 else al_page q); per_page = page_size_of q;
          rows = filter (audit_matches q) (audit_logs st) in
      res_bind (run_sql w CountAuditLogs True) (\<lambda>_.
      res_bind (run_sql w SelectAuditLogs True) (\<lambda>_.
        Inr (limit_offset per_page (page_offset page per_page) (order_desc_text w audit_time rows),
             int (length rows)))))"

section \<open>The handler of the audit list\<close>

text \<open>\<open>time_ok\<close> is the verdict of \<open>time.Parse(time.RFC3339, _)\<close>; a bad number or time is refused.\<close>

definition positive_param :: "string \<Rightarrow> int option" where
  "positive_param text =
     (let v = trim_space text in
      if v = [] then Some 0
      else (case atoi v of None \<Rightarrow> None | Some n \<Rightarrow> if n \<le> 0 then None else Some n))"

definition time_param :: "(string \<Rightarrow> bool) \<Rightarrow> string \<Rightarrow> string option" where
  "time_param time_ok text =
     (let v = trim_space text in if v = [] \<or> time_ok v then Some v else None)"

definition page_defaults :: "audit_query \<Rightarrow> audit_query" where
  "page_defaults q =
     q\<lparr>al_page := (if al_page q \<le> 0 then 1 else al_page q),
       al_page_size := (if al_page_size q \<le> 0 then (if al_limit q > 0 then al_limit q else 15)
                        else al_page_size q)\<rparr>"

definition audit_request :: "(string \<Rightarrow> bool) \<Rightarrow> (string \<Rightarrow> string) \<Rightarrow> audit_query option" where
  "audit_request time_ok param =
     (case (time_param time_ok (param ''start_time''), time_param time_ok (param ''end_time''),
            positive_param (param ''limit''), positive_param (param ''page''), positive_param (param ''pageSize'')) of
        (Some s, Some e, Some l, Some p, Some z) \<Rightarrow>
          Some (page_defaults \<lparr>al_action = trim_space (param ''action''),
            al_operator_is = trim_space (param ''operator''), al_target = trim_space (param ''target''),
            al_start = s, al_end = e, al_limit = l, al_page = p, al_page_size = z\<rparr>)
      | _ \<Rightarrow> None)"

datatype audit_reply = AuditFailed int string | AuditPage "audit_row list" int int int

definition audit_logs_handler ::
  "world \<Rightarrow> (string \<Rightarrow> bool) \<Rightarrow> string \<Rightarrow> (string \<Rightarrow> string) \<Rightarrow> store option \<Rightarrow> audit_reply" where
  "audit_logs_handler w time_ok http_method param store =
     (case store of
        None \<Rightarrow> AuditFailed 503 ''store_unavailable''
      | Some st \<Rightarrow>
          if http_method \<noteq> ''GET'' then AuditFailed 405 ''method_not_allowed''
          else
            (case audit_request time_ok param of
               None \<Rightarrow> AuditFailed 400 ''invalid_request''
             | Some q \<Rightarrow>
                 (case list_audit_logs w q st of
                    Inl _ \<Rightarrow> AuditFailed 500 ''audit_query_failed''
                  | Inr (items, matching) \<Rightarrow> AuditPage items matching (al_page q) (al_page_size q))))"

section \<open>Site logs\<close>

record site_log_query =
  lq_kind :: string
  lq_level :: string
  lq_start :: string
  lq_end :: string
  lq_limit :: int

record site_log_entry =
  le_id :: string
  le_site :: string
  le_kind :: string
  le_level :: string
  le_action :: string
  le_message :: string
  le_request_id :: string
  le_client_ip :: string
  le_host :: string
  le_method :: string
  le_path :: string
  le_status :: int
  le_latency :: int
  le_operator :: string
  le_detail :: string
  le_created_at :: string

definition traffic_entry :: "string \<times> string \<times> traffic_log \<times> gotime \<Rightarrow> site_log_entry" where
  "traffic_entry row =
     (case row of (i, site, e, at) \<Rightarrow>
        \<lparr>le_id = i, le_site = site, le_kind = ''traffic'', le_level = tl_level e, le_action = tl_type e,
         le_message = tl_message e, le_request_id = tl_request_id e, le_client_ip = tl_client_ip e,
         le_host = tl_host e, le_method = tl_method e, le_path = tl_path e, le_status = tl_status e,
         le_latency = tl_latency e, le_operator = [], le_detail = [], le_created_at = rfc3339_nano at\<rparr>)"

definition system_entry :: "system_log_row \<Rightarrow> site_log_entry" where
  "system_entry r =
     \<lparr>le_id = sl_id r, le_site = sl_site r, le_kind = ''system'', le_level = sl_level r,
      le_action = sl_action r, le_message = sl_action r, le_request_id = [], le_client_ip = [],
      le_host = [], le_method = [], le_path = [], le_status = 0, le_latency = 0,
      le_operator = sl_operator r, le_detail = sl_detail r, le_created_at = rfc3339 (sl_created_at r)\<rparr>"

definition log_matches :: "string \<Rightarrow> site_log_query \<Rightarrow> site_log_entry \<Rightarrow> bool" where
  "log_matches site q e \<longleftrightarrow> le_site e = site \<and> text_is (lq_level q) (le_level e) \<and>
     text_between (lq_start q) (lq_end q) (le_created_at e)"

text \<open>One statement: the matching rows of a table, newest first, cut off at the limit.\<close>

definition newest_entries ::
  "world \<Rightarrow> string \<Rightarrow> site_log_query \<Rightarrow> int \<Rightarrow> site_log_entry list \<Rightarrow> site_log_entry list" where
  "newest_entries w site q limit rows =
     take (nat limit) (order_desc_text w le_created_at (filter (log_matches site q) rows))"

definition list_site_traffic_logs ::
  "world \<Rightarrow> string \<Rightarrow> site_log_query \<Rightarrow> int \<Rightarrow> store \<Rightarrow> store_error + site_log_entry list" where
  "list_site_traffic_logs w site q limit st =
     res_bind (run_sql w SelectTrafficLogs True)
       (\<lambda>_. Inr (newest_entries w site q limit (map traffic_entry (traffic_logs st))))"

definition list_site_system_logs ::
  "world \<Rightarrow> string \<Rightarrow> site_log_query \<Rightarrow> int \<Rightarrow> store \<Rightarrow> store_error + site_log_entry list" where
  "list_site_system_logs w site q limit st =
     res_bind (run_sql w SelectSystemLogs True)
       (\<lambda>_. Inr (newest_entries w site q limit (map system_entry (system_logs st))))"

definition log_limit :: "site_log_query \<Rightarrow> int" where
  "log_limit q = (let l = (if lq_limit q \<le> 0 then 100 else lq_limit q) in if l > 500 then 500 else l)"

definition wants_kind :: "site_log_query \<Rightarrow> string \<Rightarrow> bool" where
  "wants_kind q kind \<longleftrightarrow> lq_kind q = [] \<or> lq_kind q = ''all'' \<or> lq_kind q = kind"

text \<open>\<open>sort.Slice\<close> is not stable: like the engine it may order equal times as it likes.\<close>

definition list_site_logs ::
  "world \<Rightarrow> string \<Rightarrow> site_log_query \<Rightarrow> store \<Rightarrow> store_error + site_log_entry list" where
  "list_site_logs w site q st = guarded st
     (if site = [] then Inl SiteIdEmpty
      else
        let limit = log_limit q in
        res_bind (if wants_kind q ''traffic'' then list_site_traffic_logs w site q limit st else Inr []) (\<lambda>traffic.
        res_bind (if wants_kind q ''system'' then list_site_system_logs w site q limit st else Inr []) (\<lambda>system.
          Inr (take (nat limit) (order_desc_text w le_created_at (traffic @ system))))))"

end
