(* ===== verification/SiteAdmin.thy ===== *)
theory SiteAdmin
  imports ControlPlane Syncer ConfigDiff LogQuery
begin

text \<open>
  The control plane's handlers of sites (\<open>internal/admin/sites.go\<close>, \<open>site_log.go\<close>,
  \<open>site_cdn.go\<close>): groups, lists and details of sites, their configurations with versions,
  differences and rollback, their logs, and the fetch of CDN lists on demand. A request comes
  with its method, path, parameters, operator and, for each type a handler decodes, what its
  body decodes to: \<open>None\<close> for a body that does not.
\<close>

record site_body =
  bd_site :: "site option"
  bd_config :: "config option"
  bd_version :: "string option"
  bd_filter :: "string option"
  bd_providers :: "string list option"

record site_request =
  sq_method :: string
  sq_path :: string
  sq_param :: "string \<Rightarrow> string"
  sq_operator :: string
  sq_body :: site_body

text \<open>
  What lies outside: the file system and X.509 (\<open>system\<close>), the world of each call of the
  store (0 for the handler itself), the providers, the texts of store errors, the generic
  decoding of a configuration, and the verdict of \<open>time.Parse\<close>.
\<close>

record outside =
  ou_system :: system
  ou_world :: "nat \<Rightarrow> world"
  ou_fetch :: "origin_provider \<Rightarrow> string + string list"
  ou_error_text :: "store_error \<Rightarrow> string"
  ou_to_map :: "config \<Rightarrow> json option"
  ou_time_ok :: "string \<Rightarrow> bool"

record refresh_result =
  rr_provider :: string
  rr_ok :: bool
  rr_count :: nat
  rr_error :: string

datatype site_reply =
    SiteFailed int string
  | SiteInvalid "validation_issue list"
  | SiteReply site
  | SitesReply "site list"
  | GroupsReply "(string \<times> nat \<times> site list) list"
  | SiteConfigReply config
  | SiteIssuesReply bool "validation_issue list"
  | SiteVersionReply config_version
  | SiteVersionsReply "config_version list"
  | SiteDiffReply "config_diff_item list"
  | LogStreamReply log_stream
  | LogHistoryReply "site_log_entry list"
  | StatusesReply "status_row list"
  | RefreshReply "refresh_result list"
  | SiteDone string string

definition no_method :: site_reply where
  "no_method = SiteFailed 405 ''method_not_allowed''"

definition bad_request :: site_reply where
  "bad_request = SiteFailed 400 ''invalid_request''"

definition not_found :: site_reply where
  "not_found = SiteFailed 404 ''not_found''"

definition site_error :: "store_error \<Rightarrow> site_reply" where
  "site_error e =
     (case e of
        SiteNotFound \<Rightarrow> SiteFailed 404 ''site_not_found''
      | SiteVersionMissing \<Rightarrow> SiteFailed 404 ''version_not_found''
      | SiteLogNotFound \<Rightarrow> SiteFailed 404 ''log_stream_not_found''
      | _ \<Rightarrow> SiteFailed 500 ''store_failed'')"

text \<open>The failure of an audit is ignored.\<close>

definition audited :: "world \<Rightarrow> string \<Rightarrow> string \<Rightarrow> string \<Rightarrow> (string \<times> string) list \<Rightarrow> store \<Rightarrow> store" where
  "audited w action target operator detail st =
     fst (save_audit w action target operator (json_object detail) st)"

definition site_detail_texts :: "site \<Rightarrow> (string \<times> string) list" where
  "site_detail_texts s = [(''hostname'', site_hostname s), (''ip'', site_ip s)]"

section \<open>Sites\<close>

definition group_key :: "string \<Rightarrow> site \<Rightarrow> string" where
  "group_key by s = (if by = ''ip'' then site_ip s else site_hostname s)"

definition group_sites :: "string \<Rightarrow> site list \<Rightarrow> (string \<times> nat \<times> site list) list" where
  "group_sites by items =
     map (\<lambda>k. let members = filter (\<lambda>s. group_key by s = k) items in (k, length members, members))
       (sort (remdups (map (group_key by) items)))"

definition site_groups :: "world \<Rightarrow> site_request \<Rightarrow> store option \<Rightarrow> site_reply" where
  "site_groups w rq store =
     (if sq_method rq \<noteq> ''GET'' then no_method
      else
        (case store of
           None \<Rightarrow> SiteFailed 503 ''store_unavailable''
         | Some st \<Rightarrow>
             let by = trim_space (sq_param rq ''by'') in
             if by \<noteq> ''hostname'' \<and> by \<noteq> ''ip'' then bad_request
             else
               (case list_sites w [] [] st of
                  Inl _ \<Rightarrow> SiteFailed 500 ''store_query_failed''
                | Inr items \<Rightarrow> GroupsReply (group_sites by items))))"

definition sites_handler :: "world \<Rightarrow> site_request \<Rightarrow> store \<Rightarrow> store \<times> site_reply" where
  "sites_handler w rq st =
     (if sq_method rq = ''GET'' then
        (case list_sites w (trim_space (sq_param rq ''hostname'')) (trim_space (sq_param rq ''ip'')) st of
           Inl _ \<Rightarrow> (st, SiteFailed 500 ''store_query_failed'')
         | Inr items \<Rightarrow> (st, SitesReply items))
      else if sq_method rq = ''POST'' then
        (case bd_site (sq_body rq) of
           None \<Rightarrow> (st, bad_request)
         | Some payload \<Rightarrow>
             (case create_site w payload st of
                (st1, Inl _) \<Rightarrow> (st1, SiteFailed 400 ''site_create_failed'')
              | (st1, Inr s) \<Rightarrow>
                  (audited w ''site_create'' (site_id s) (sq_operator rq) (site_detail_texts s) st1,
                   SiteReply s)))
      else (st, no_method))"

definition site_detail :: "world \<Rightarrow> site_request \<Rightarrow> string \<Rightarrow> store \<Rightarrow> store \<times> site_reply" where
  "site_detail w rq i st =
     (if sq_method rq = ''GET'' then
        (case get_site w i st of Inl e \<Rightarrow> (st, site_error e) | Inr s \<Rightarrow> (st, SiteReply s))
      else if sq_method rq = ''PUT'' then
        (case bd_site (sq_body rq) of
           None \<Rightarrow> (st, bad_request)
         | Some payload \<Rightarrow>
             (case update_site w i payload st of
                (st1, Inl e) \<Rightarrow> (st1, site_error e)
              | (st1, Inr s) \<Rightarrow>
                  (audited w ''site_update'' (site_id s) (sq_operator rq) (site_detail_texts s) st1,
                   SiteReply s)))
      else if sq_method rq = ''DELETE'' then
        (case delete_site w i st of
           (st1, Inl e) \<Rightarrow> (st1, site_error e)
         | (st1, Inr s) \<Rightarrow>
             (audited w ''site_delete'' (site_id s) (sq_operator rq) (site_detail_texts s) st1, SiteReply s))
      else (st, no_method))"

section \<open>Configurations of a site\<close>

definition redact_site_config_secrets :: "config \<Rightarrow> config" where
  "redact_site_config_secrets cfg = map_settings (\<lambda>_ s. s\<lparr>secret_key := []\<rparr>) cfg"

definition site_config_handler ::
  "system \<Rightarrow> world \<Rightarrow> manager \<Rightarrow> site_request \<Rightarrow> string \<Rightarrow> store \<Rightarrow> store \<times> site_reply" where
  "site_config_handler sys w m rq i st =
     (if sq_method rq = ''GET'' then
        (case get_site_config w i st of
           Inl e \<Rightarrow> (st, site_error e)
         | Inr cfg \<Rightarrow> (st, SiteConfigReply (redact_site_config_secrets cfg)))
      else if sq_method rq = ''PUT'' then
        (case bd_config (sq_body rq) of
           None \<Rightarrow> (st, bad_request)
         | Some cfg \<Rightarrow>
             let issues = manager_validate sys cfg m in
             if issues \<noteq> [] then (st, SiteInvalid issues)
             else
               (case update_site_config w i cfg (sq_operator rq) ''update'' st of
                  (st1, Inl e) \<Rightarrow> (st1, site_error e)
                | (st1, Inr v) \<Rightarrow>
                    (audited w ''site_config_update'' i (sq_operator rq) [(''version_id'', cv_id v)] st1,
                     SiteVersionReply v)))
      else (st, no_method))"

definition site_config_validate ::
  "system \<Rightarrow> world \<Rightarrow> manager \<Rightarrow> site_request \<Rightarrow> string \<Rightarrow> store \<Rightarrow> site_reply" where
  "site_config_validate sys w m rq i st =
     (if sq_method rq \<noteq> ''POST'' then no_method
      else
        (case get_site w i st of
           Inl e \<Rightarrow> site_error e
         | Inr _ \<Rightarrow>
             (case bd_config (sq_body rq) of
                None \<Rightarrow> bad_request
              | Some cfg \<Rightarrow> let issues = manager_validate sys cfg m in SiteIssuesReply (issues = []) issues)))"

definition site_config_diff ::
  "(config \<Rightarrow> json option) \<Rightarrow> world \<Rightarrow> site_request \<Rightarrow> string \<Rightarrow> store \<Rightarrow> site_reply" where
  "site_config_diff to_map w rq i st =
     (if sq_method rq \<noteq> ''POST'' then no_method
      else
        (case bd_config (sq_body rq) of
           None \<Rightarrow> bad_request
         | Some target \<Rightarrow>
             (case get_site_config w i st of
                Inl e \<Rightarrow> site_error e
              | Inr base \<Rightarrow>
                  (case build_config_diff to_map (redact_site_config_secrets base)
                          (redact_site_config_secrets target) of
                     None \<Rightarrow> SiteFailed 500 ''diff_failed''
                   | Some items \<Rightarrow> SiteDiffReply items))))"

definition site_config_versions :: "world \<Rightarrow> site_request \<Rightarrow> string \<Rightarrow> store \<Rightarrow> site_reply" where
  "site_config_versions w rq i st =
     (if sq_method rq \<noteq> ''GET'' then no_method
      else
        (case list_site_versions w i (parse_positive_int (sq_param rq ''limit'') 10) st of
           Inl e \<Rightarrow> site_error e | Inr items \<Rightarrow> SiteVersionsReply items))"

definition site_config_version_detail :: "world \<Rightarrow> site_request \<Rightarrow> string \<Rightarrow> string \<Rightarrow> store \<Rightarrow> site_reply" where
  "site_config_version_detail w rq i vid st =
     (if sq_method rq \<noteq> ''GET'' then no_method
      else if vid = [] then bad_request
      else
        (case get_site_version_config w i vid st of
           Inl e \<Rightarrow> site_error e | Inr cfg \<Rightarrow> SiteConfigReply (redact_site_config_secrets cfg)))"

definition site_config_version_delete ::
  "world \<Rightarrow> site_request \<Rightarrow> string \<Rightarrow> string \<Rightarrow> store \<Rightarrow> store \<times> site_reply" where
  "site_config_version_delete w rq i vid st =
     (if sq_method rq \<noteq> ''DELETE'' then (st, no_method)
      else if vid = [] then (st, bad_request)
      else
        (case delete_site_version w i vid st of
           (st1, Inl e) \<Rightarrow> (st1, site_error e)
         | (st1, Inr _) \<Rightarrow>
             (audited w ''site_config_version_delete'' i (sq_operator rq) [(''version_id'', vid)] st1,
              SiteDone ''deleted'' vid)))"

definition site_config_rollback :: "world \<Rightarrow> site_request \<Rightarrow> string \<Rightarrow> store \<Rightarrow> store \<times> site_reply" where
  "site_config_rollback w rq i st =
     (if sq_method rq \<noteq> ''POST'' then (st, no_method)
      else
        (case bd_version (sq_body rq) of
           None \<Rightarrow> (st, bad_request)
         | Some vid \<Rightarrow>
             if vid = [] then (st, bad_request)
             else
               (case rollback_site_version w i vid (sq_operator rq) st of
                  (st1, Inl e) \<Rightarrow> (st1, site_error e)
                | (st1, Inr v) \<Rightarrow>
                    (audited w ''site_config_rollback'' i (sq_operator rq)
                       [(''origin_id'', vid), (''version_id'', cv_id v)] st1,
                     SiteDone ''rolled_back'' vid))))"

section \<open>Logs of a site\<close>

definition site_log_stream :: "world \<Rightarrow> site_request \<Rightarrow> string \<Rightarrow> store \<Rightarrow> store \<times> site_reply" where
  "site_log_stream w rq i st =
     (if sq_method rq = ''GET'' then
        (case get_site_log_stream w i st of Inl e \<Rightarrow> (st, site_error e) | Inr r \<Rightarrow> (st, LogStreamReply r))
      else if sq_method rq = ''PUT'' then
        (case bd_filter (sq_body rq) of
           None \<Rightarrow> (st, bad_request)
         | Some q \<Rightarrow>
             (case update_site_log_stream w i (trim_space q) st of
                (st1, Inl e) \<Rightarrow> (st1, site_error e)
              | (st1, Inr r) \<Rightarrow>
                  (audited w ''site_log_stream_update'' i (sq_operator rq) [(''filter_query'', ls_filter r)] st1,
                   LogStreamReply r)))
      else (st, no_method))"

definition site_log_request :: "(string \<Rightarrow> bool) \<Rightarrow> (string \<Rightarrow> string) \<Rightarrow> site_log_query option" where
  "site_log_request time_ok param =
     (case (time_param time_ok (param ''start_time''), time_param time_ok (param ''end_time''),
            positive_param (param ''limit'')) of
        (Some s, Some e, Some l) \<Rightarrow>
          Some \<lparr>lq_kind = trim_space (param ''kind''), lq_level = trim_space (param ''level''),
                lq_start = s, lq_end = e, lq_limit = l\<rparr>
      | _ \<Rightarrow> None)"

definition site_log_history :: "(string \<Rightarrow> bool) \<Rightarrow> world \<Rightarrow> site_request \<Rightarrow> string \<Rightarrow> store \<Rightarrow> site_reply" where
  "site_log_history time_ok w rq i st =
     (if sq_method rq \<noteq> ''GET'' then no_method
      else
        (case site_log_request time_ok (sq_param rq) of
           None \<Rightarrow> bad_request
         | Some q \<Rightarrow> (case list_site_logs w i q st of Inl e \<Rightarrow> site_error e | Inr items \<Rightarrow> LogHistoryReply items)))"

section \<open>CDN lists of a site\<close>

definition shown_status :: "status_row \<Rightarrow> status_row" where
  "shown_status r = r\<lparr>ss_site := trim_space (ss_site r), ss_provider := to_lower (trim_space (ss_provider r)),
     ss_error := trim_space (ss_error r)\<rparr>"

definition site_cdn_origin_status :: "world \<Rightarrow> site_request \<Rightarrow> string \<Rightarrow> store \<Rightarrow> site_reply" where
  "site_cdn_origin_status w rq i st =
     (if sq_method rq \<noteq> ''GET'' then no_method
      else
        (case get_site w i st of
           Inl e \<Rightarrow> site_error e
         | Inr _ \<Rightarrow>
             (case list_site_cdn_origin_status w i st of
                Inl e \<Rightarrow> site_error e | Inr rows \<Rightarrow> StatusesReply (map shown_status rows))))"

definition build_cdn_provider :: "string \<Rightarrow> cdn_provider_setting \<Rightarrow> origin_provider option" where
  "build_cdn_provider p s =
     (if p = ''cloudflare'' then Some (Cloudflare (trim_space (cdn_endpoint s)))
      else if p = ''aliyun'' then
        Some (Aliyun (trim_space (api_key s)) (trim_space (secret_key s)) (trim_space (cdn_endpoint s))
          (trim_space (cdn_option s)))
      else if p = ''tencent'' then
        Some (Tencent (trim_space (api_key s)) (trim_space (secret_key s)) (trim_space (zone_id s))
          (trim_space (cdn_endpoint s)))
      else None)"

definition refresh_failed :: "string \<Rightarrow> string \<Rightarrow> refresh_result" where
  "refresh_failed p err = \<lparr>rr_provider = p, rr_ok = False, rr_count = 0, rr_error = err\<rparr>"

text \<open>
  One provider of a refresh, with the same records of status as a job of the synchroniser; a
  provider that is not supported leaves no record.
\<close>

definition refresh_provider ::
  "outside \<Rightarrow> (nat \<Rightarrow> world) \<Rightarrow> origin_job \<Rightarrow> sync_state \<Rightarrow> sync_state \<times> refresh_result" where
  "refresh_provider ou ws j s =
     (let p = oj_provider j in
      case build_cdn_provider p (oj_settings j) of
        None \<Rightarrow> (s, refresh_failed p ''cdn provider is not supported'')
      | Some provider \<Rightarrow>
          let s1 = record_status (ws 0) j (job_update j (previous_failures j) [] None) s in
          (case ou_fetch ou provider of
             Inl err \<Rightarrow> (record_failure (ws 1) j err s1, refresh_failed p err)
           | Inr cidrs \<Rightarrow>
               (case save_site_cdn_origin_snapshot (ws 1) (oj_site j) p cidrs (oj_attempt j) ''manual''
                       (sy_store s1) of
                  (_, Inl e) \<Rightarrow>
                    (record_failure (ws 2) j (ou_error_text ou e) s1, refresh_failed p (ou_error_text ou e))
                | (st2, Inr _) \<Rightarrow>
                    (record_success (ws 2) j cidrs (s1\<lparr>sy_store := st2\<rparr>),
                     \<lparr>rr_provider = p, rr_ok = True, rr_count = length cidrs, rr_error = []\<rparr>))))"

fun refresh_all ::
  "outside \<Rightarrow> nat \<Rightarrow> origin_job list \<Rightarrow> sync_state \<Rightarrow> sync_state \<times> refresh_result list" where
  "refresh_all ou n [] s = (s, [])"
| "refresh_all ou n (j # js) s =
     (case refresh_provider ou (\<lambda>k. ou_world ou (1 + 3 * n + k)) j s of
        (s1, r) \<Rightarrow> (case refresh_all ou (Suc n) js s1 of (s2, rs) \<Rightarrow> (s2, r # rs)))"

definition wanted_providers :: "string list \<Rightarrow> config \<Rightarrow> string list" where
  "wanted_providers requested cfg =
     (let ps = normalize_providers requested in
      if ps = [] then normalize_providers (allowed_cdn_providers (security cfg)) else ps)"

definition refresh_jobs :: "gotime \<Rightarrow> string \<Rightarrow> config \<Rightarrow> status_row list \<Rightarrow> string list \<Rightarrow> origin_job list" where
  "refresh_jobs now i cfg statuses providers =
     map (\<lambda>p. \<lparr>oj_site = i, oj_provider = p, oj_settings = provider_setting (security cfg) p,
       oj_status = map_get (status_map statuses) p, oj_attempt = now\<rparr>) providers"

definition providers_detail :: "string list \<Rightarrow> string" where
  "providers_detail ps =
     ''{'' @ json_string ''providers'' @ '':['' @ join_with '','' (map json_string ps) @ '']}''"

definition site_cdn_origin_refresh ::
  "outside \<Rightarrow> site_request \<Rightarrow> string \<Rightarrow> sync_state \<Rightarrow> sync_state \<times> site_reply" where
  "site_cdn_origin_refresh ou rq i s =
     (let w = ou_world ou 0; st = sy_store s in
      if sq_method rq \<noteq> ''POST'' then (s, no_method)
      else
        (case get_site w i st of
           Inl e \<Rightarrow> (s, site_error e)
         | Inr _ \<Rightarrow>
             (case bd_providers (sq_body rq) of
                None \<Rightarrow> (s, bad_request)
              | Some requested \<Rightarrow>
                  (case get_site_config w i st of
                     Inl e \<Rightarrow> (s, site_error e)
                   | Inr cfg \<Rightarrow>
                       let providers = wanted_providers requested cfg in
                       if providers = [] then (s, bad_request)
                       else
                         (case list_site_cdn_origin_status w i st of
                            Inl e \<Rightarrow> (s, site_error e)
                          | Inr statuses \<Rightarrow>
                              (case refresh_all ou 0 (refresh_jobs (wd_now w) i cfg statuses providers) s of
                                 (s1, results) \<Rightarrow>
                                   (s1\<lparr>sy_store := fst (save_audit w ''site_cdn_origin_refresh'' i
                                      (sq_operator rq) (providers_detail providers) (sy_store s1))\<rparr>,
                                    RefreshReply results)))))))"

section \<open>Paths\<close>

datatype site_route =
    NoRoute
  | NoSiteId
  | SiteDetail string
  | SiteConfig string
  | SiteConfigValidate string
  | SiteConfigDiff string
  | SiteConfigVersions string
  | SiteConfigVersion string string
  | SiteConfigRollback string
  | SiteLogStream string
  | SiteLogHistory string
  | SiteOriginStatus string
  | SiteOriginRefresh string

definition route_site_config :: "string \<Rightarrow> string list \<Rightarrow> site_route" where
  "route_site_config i parts =
     (case parts of
        [] \<Rightarrow> SiteConfig i
      | p # rest \<Rightarrow>
          if p = ''validate'' then SiteConfigValidate i
          else if p = ''diff'' then SiteConfigDiff i
          else if p = ''versions'' then
            (case rest of [] \<Rightarrow> SiteConfigVersions i | [vid] \<Rightarrow> SiteConfigVersion i vid | _ \<Rightarrow> NoRoute)
          else if p = ''rollback'' then SiteConfigRollback i
          else NoRoute)"

definition route_site_log :: "string \<Rightarrow> string list \<Rightarrow> site_route" where
  "route_site_log i parts =
     (if parts = [''stream''] then SiteLogStream i
      else if parts = [''history''] then SiteLogHistory i
      else NoRoute)"

definition drop_blank_tail :: "string list \<Rightarrow> string list" where
  "drop_blank_tail parts = rev (dropWhile (\<lambda>p. trim_space p = []) (rev parts))"

definition route_site_cdn_origin :: "string \<Rightarrow> string list \<Rightarrow> site_route" where
  "route_site_cdn_origin i parts =
     (let ps = drop_blank_tail parts in
      if ps = [''status''] then SiteOriginStatus i
      else if ps = [''refresh''] then SiteOriginRefresh i
      else NoRoute)"

definition route_site_cdn :: "string \<Rightarrow> string list \<Rightarrow> site_route" where
  "route_site_cdn i parts =
     (case drop_blank_tail parts of
        [] \<Rightarrow> NoRoute
      | p # rest \<Rightarrow> if p = ''origin'' then route_site_cdn_origin i rest else NoRoute)"

definition sites_prefix :: string where
  "sites_prefix = ''/api/v1/sites/''"

definition site_route_of :: "string \<Rightarrow> site_route" where
  "site_route_of path =
     (let tail = trim_prefix path sites_prefix in
      if tail = [] \<or> tail = path then NoRoute
      else
        (case split_on (CHR ''/'') tail of
           [] \<Rightarrow> NoSiteId
         | first # rest \<Rightarrow>
             let i = trim_space first in
             if i = [] then NoSiteId
             else
               (case rest of
                  [] \<Rightarrow> SiteDetail i
                | p # parts \<Rightarrow>
                    if p = ''config'' then route_site_config i parts
                    else if p = ''log'' then route_site_log i parts
                    else if p = ''cdn'' then route_site_cdn i parts
                    else NoRoute)))"

text \<open>An identifier that a path can carry.\<close>

definition plain_id :: "string \<Rightarrow> bool" where
  "plain_id i \<longleftrightarrow> i \<noteq> [] \<and> trim_space i = i \<and> CHR ''/'' \<notin> set i"

text \<open>Handlers that only use the store.\<close>

definition on_store ::
  "(store \<Rightarrow> store \<times> site_reply) \<Rightarrow> admin \<Rightarrow> admin \<times> site_reply" where
  "on_store f ad =
     (case ad_store ad of
        None \<Rightarrow> (ad, SiteFailed 503 ''store_unavailable'')
      | Some st \<Rightarrow> (case f st of (st1, r) \<Rightarrow> (ad\<lparr>ad_store := Some st1\<rparr>, r)))"

definition from_store :: "(store \<Rightarrow> site_reply) \<Rightarrow> admin \<Rightarrow> admin \<times> site_reply" where
  "from_store f ad = on_store (\<lambda>st. (st, f st)) ad"

definition on_server :: "(sync_state \<Rightarrow> sync_state \<times> site_reply) \<Rightarrow> admin \<Rightarrow> admin \<times> site_reply" where
  "on_server f ad =
     (case ad_store ad of
        None \<Rightarrow> (ad, SiteFailed 503 ''store_unavailable'')
      | Some st \<Rightarrow>
          (case f \<lparr>sy_manager = ad_manager ad, sy_store = st\<rparr> of
             (s, r) \<Rightarrow> (ad\<lparr>ad_manager := sy_manager s, ad_store := Some (sy_store s)\<rparr>, r)))"

definition site_router :: "outside \<Rightarrow> site_request \<Rightarrow> admin \<Rightarrow> admin \<times> site_reply" where
  "site_router ou rq ad =
     (let sys = ou_system ou; w = ou_world ou 0; m = ad_manager ad in
      case site_route_of (sq_path rq) of
        NoRoute \<Rightarrow> (ad, not_found)
      | NoSiteId \<Rightarrow> (ad, bad_request)
      | SiteDetail i \<Rightarrow> on_store (site_detail w rq i) ad
      | SiteConfig i \<Rightarrow> on_store (site_config_handler sys w m rq i) ad
      | SiteConfigValidate i \<Rightarrow> from_store (site_config_validate sys w m rq i) ad
      | SiteConfigDiff i \<Rightarrow> from_store (site_config_diff (ou_to_map ou) w rq i) ad
      | SiteConfigVersions i \<Rightarrow> from_store (site_config_versions w rq i) ad
      | SiteConfigVersion i vid \<Rightarrow>
          if sq_method rq = ''DELETE'' then on_store (site_config_version_delete w rq i vid) ad
          else from_store (site_config_version_detail w rq i vid) ad
      | SiteConfigRollback i \<Rightarrow> on_store (site_config_rollback w rq i) ad
      | SiteLogStream i \<Rightarrow> on_store (site_log_stream w rq i) ad
      | SiteLogHistory i \<Rightarrow> from_store (site_log_history (ou_time_ok ou) w rq i) ad
      | SiteOriginStatus i \<Rightarrow> from_store (site_cdn_origin_status w rq i) ad
      | SiteOriginRefresh i \<Rightarrow> on_server (site_cdn_origin_refresh ou rq i) ad)"

end
