(* ===== verification/Audits.thy ===== *)
theory Audits
  imports SiteAdmin
begin

text \<open>
  The audit log under the operations of the store and the handlers of sites: no operation but
  \<open>SaveAudit\<close> touches it, and a handler only appends rows with the operator it was given.
\<close>

section \<open>Appending audits\<close>

definition audits_by :: "string \<Rightarrow> store \<Rightarrow> store \<Rightarrow> bool" where
  "audits_by op st st' \<longleftrightarrow> (\<exists>rows. audit_logs st' = audit_logs st @ rows \<and> list_all (\<lambda>r. au_operator r = op) rows)"

lemma audits_by_same [simp]: "audit_logs st' = audit_logs st \<Longrightarrow> audits_by op st st'"
  by (simp add: audits_by_def)

lemma audits_by_trans: "audits_by op st st1 \<Longrightarrow> audits_by op st1 st2 \<Longrightarrow> audits_by op st st2"
  by (auto simp: audits_by_def)

lemma save_audit_by [simp]: "audits_by op st (fst (save_audit w a t op d st))"
  by (auto simp: audits_by_def save_audit_def Let_def split: sum.split)

lemma audited_by: "audit_logs st1 = audit_logs st \<Longrightarrow> audits_by op st (audited w a t op d st1)"
  unfolding audited_def by (rule audits_by_trans [OF audits_by_same save_audit_by])

lemma save_audit_frame [simp]:
  "sites (fst (save_audit w a t op d st)) = sites st"
  "site_versions (fst (save_audit w a t op d st)) = site_versions st"
  "stored_certificates (fst (save_audit w a t op d st)) = stored_certificates st"
  by (simp_all add: save_audit_def Let_def split: sum.split)

lemma audited_certificates [simp]: "stored_certificates (audited w a t op d st) = stored_certificates st"
  by (simp add: audited_def)

section \<open>The operations of the store\<close>

lemma store_operations_audits:
  "create_site w s st = (st1, r1) \<Longrightarrow> audit_logs st1 = audit_logs st \<and> stored_certificates st1 = stored_certificates st"
  "update_site w i s st = (st1, r2) \<Longrightarrow> audit_logs st1 = audit_logs st \<and> stored_certificates st1 = stored_certificates st"
  "delete_site w i st = (st1, r3) \<Longrightarrow> audit_logs st1 = audit_logs st \<and> stored_certificates st1 = stored_certificates st"
  "update_site_config w i cfg op src st = (st1, r4) \<Longrightarrow> audit_logs st1 = audit_logs st \<and> stored_certificates st1 = stored_certificates st"
  "delete_site_version w i vid st = (st1, r5) \<Longrightarrow> audit_logs st1 = audit_logs st \<and> stored_certificates st1 = stored_certificates st"
  "update_site_log_stream w i q st = (st1, r6) \<Longrightarrow> audit_logs st1 = audit_logs st \<and> stored_certificates st1 = stored_certificates st"
  "save_version w cfg op src st = (st1, r7) \<Longrightarrow> audit_logs st1 = audit_logs st \<and> stored_certificates st1 = stored_certificates st"
  by (auto simp: create_site_def update_site_def delete_site_def purge_site_def update_site_config_def store_site_config_def
      delete_site_version_def update_site_log_stream_def save_version_def commit_def guarded_def res_bind_def Let_def
      split: sum.splits if_splits option.splits)

lemma rollback_audits:
  "rollback_site_version w i vid op st = (st1, r) \<Longrightarrow> audit_logs st1 = audit_logs st \<and> stored_certificates st1 = stored_certificates st"
  by (auto simp: rollback_site_version_def split: sum.splits dest: store_operations_audits)

section \<open>The handlers of sites\<close>

definition kept_by :: "string \<Rightarrow> store \<Rightarrow> store \<Rightarrow> bool" where
  "kept_by op st st' \<longleftrightarrow> audits_by op st st' \<and> stored_certificates st' = stored_certificates st"

lemma kept_by_refl [simp]: "kept_by op st st"
  by (simp add: kept_by_def)

lemma site_handlers_audits:
  "kept_by (sq_operator rq) st (fst (sites_handler w rq st))"
  "kept_by (sq_operator rq) st (fst (site_detail w rq i st))"
  "kept_by (sq_operator rq) st (fst (site_config_handler sys w m rq i st))"
  "kept_by (sq_operator rq) st (fst (site_config_version_delete w rq i vid st))"
  "kept_by (sq_operator rq) st (fst (site_config_rollback w rq i st))"
  "kept_by (sq_operator rq) st (fst (site_log_stream w rq i st))"
  by (auto simp: sites_handler_def site_detail_def site_config_handler_def site_config_version_delete_def
      site_config_rollback_def site_log_stream_def kept_by_def audited_by Let_def
      split: sum.splits option.splits prod.splits dest: store_operations_audits rollback_audits)

section \<open>A refresh of CDN lists\<close>

lemma upsert_status_frame [simp]:
  "sites (fst (upsert_site_cdn_origin_status w i p u st)) = sites st"
  "site_versions (fst (upsert_site_cdn_origin_status w i p u st)) = site_versions st"
  "audit_logs (fst (upsert_site_cdn_origin_status w i p u st)) = audit_logs st"
  "stored_certificates (fst (upsert_site_cdn_origin_status w i p u st)) = stored_certificates st"
  by (auto simp: upsert_site_cdn_origin_status_def guarded_def site_and_provider_def put_status_def res_bind_def
      run_sql_def Let_def split: sum.splits if_splits)

lemma save_snapshot_frame [simp]:
  "sites (fst (save_site_cdn_origin_snapshot w i p cs t src st)) = sites st"
  "site_versions (fst (save_site_cdn_origin_snapshot w i p cs t src st)) = site_versions st"
  "audit_logs (fst (save_site_cdn_origin_snapshot w i p cs t src st)) = audit_logs st"
  "stored_certificates (fst (save_site_cdn_origin_snapshot w i p cs t src st)) = stored_certificates st"
  by (auto simp: save_site_cdn_origin_snapshot_def commit_def guarded_def site_and_provider_def res_bind_def
      run_sql_def new_id_def Let_def split: sum.splits if_splits option.splits)

lemma update_snapshot_path [simp]:
  "mgr_path (fst (update_site_cdn_provider_snapshot i p cs t m)) = mgr_path m"
  "mgr_data (fst (update_site_cdn_provider_snapshot i p cs t m)) = mgr_data m"
  by (auto simp: update_site_cdn_provider_snapshot_def Let_def split: sum.splits if_splits)

text \<open>What a refresh leaves: only the CDN tables, the memory of lists and the audits change.\<close>

definition sync_kept :: "string \<Rightarrow> sync_state \<Rightarrow> sync_state \<Rightarrow> bool" where
  "sync_kept op s t \<longleftrightarrow> mgr_path (sy_manager t) = mgr_path (sy_manager s) \<and>
     mgr_data (sy_manager t) = mgr_data (sy_manager s) \<and> sites (sy_store t) = sites (sy_store s) \<and> site_versions (sy_store t) = site_versions (sy_store s) \<and>
     stored_certificates (sy_store t) = stored_certificates (sy_store s) \<and> audits_by op (sy_store s) (sy_store t)"

lemma sync_kept_trans: "sync_kept op s t \<Longrightarrow> sync_kept op t u \<Longrightarrow> sync_kept op s u"
  by (auto simp: sync_kept_def intro: audits_by_trans)

lemma sync_kept_record [simp]:
  "sync_kept op s (record_status w j u s)" "sync_kept op s (record_failure w j err s)"
  "sync_kept op s (record_success w j cs s)"
  by (simp_all add: sync_kept_def record_status_def record_failure_def record_success_def Let_def)

lemma sync_kept_snapshot:
  "save_site_cdn_origin_snapshot w i p cs t src (sy_store s) = (st, r) \<Longrightarrow> sync_kept op s (s\<lparr>sy_store := st\<rparr>)"
  using save_snapshot_frame [of w i p cs t src "sy_store s"] by (simp add: sync_kept_def)

lemma sync_kept_refresh: "sync_kept op s (fst (refresh_provider ou ws j s))"
proof (cases "build_cdn_provider (oj_provider j) (oj_settings j)")
  case None
  then show ?thesis by (simp add: refresh_provider_def sync_kept_def)
next
  case p: (Some p)
  define s1 where "s1 = record_status (ws 0) j (job_update j (previous_failures j) [] None) s"
  have s1: "sync_kept op s s1" by (simp add: s1_def)
  note def = refresh_provider_def [of ou ws j s, unfolded Let_def, folded s1_def]
  show ?thesis
  proof (cases "ou_fetch ou p")
    case (Inl err)
    then show ?thesis using sync_kept_trans [OF s1 sync_kept_record(2)] by (simp add: def p)
  next
    case (Inr cs)
    obtain st r where save: "save_site_cdn_origin_snapshot (ws 1) (oj_site j) (oj_provider j) cs (oj_attempt j)
        ''manual'' (sy_store s1) = (st, r)" by fastforce
    show ?thesis
      using sync_kept_trans [OF s1 sync_kept_record(2)]
        sync_kept_trans [OF sync_kept_trans [OF s1 sync_kept_snapshot [OF save]] sync_kept_record(3)]
      by (cases r) (simp_all add: def p Inr save del: One_nat_def)
  qed
qed

lemma sync_kept_refresh_all: "sync_kept op s (fst (refresh_all ou n js s))"
proof (induction js arbitrary: n s)
  case (Cons j js)
  show ?case
    using sync_kept_trans [OF sync_kept_refresh Cons.IH] by (simp add: split_def)
qed (simp add: sync_kept_def)

lemma sync_kept_site_refresh: "sync_kept (sq_operator rq) s (fst (site_cdn_origin_refresh ou rq i s))"
proof -
  have "sync_kept op s t \<Longrightarrow> sync_kept op s (t\<lparr>sy_store := fst (save_audit w a i op d (sy_store t))\<rparr>)" for op t w a d
    using audits_by_trans [OF _ save_audit_by] by (auto simp: sync_kept_def)
  then show ?thesis
    unfolding site_cdn_origin_refresh_def Let_def
    by (auto split: sum.split option.split prod.split simp: sync_kept_def [of _ s s])
      (metis fst_conv sync_kept_refresh_all)
qed

end
