(* ===== verification/LogQueryProps.thy ===== *)
theory LogQueryProps
  imports LogQuery
begin

text \<open>
  What the listings of audits and site logs guarantee: pages follow one another without gap or
  overlap, the merge of the two log tables is the newest part of their union; and where
  comparing times as texts goes wrong.
\<close>

section \<open>Order by text\<close>

lemma filter_less_mono:
  "(k :: 'a :: linorder) \<le> k' \<Longrightarrow> length (filter (\<lambda>x. x < k) ks) \<le> length (filter (\<lambda>x. x < k') ks)"
  by (induction ks) auto

lemma text_rank_less:
  assumes "k < k'" "k \<in> set ks"
  shows "text_rank ks k < text_rank ks k'"
proof -
  obtain as bs where ks: "ks = as @ k # bs" using assms(2) split_list by fast
  have "length (filter (\<lambda>x. x < k) ks) < length (filter (\<lambda>x. x < k') ks)"
    using filter_less_mono [OF less_imp_le [OF assms(1)], of as]
      filter_less_mono [OF less_imp_le [OF assms(1)], of bs] assms(1) by (simp add: ks)
  then show ?thesis by (simp add: text_rank_def)
qed

lemma text_rank_le:
  assumes "text_rank ks k \<le> text_rank ks k'" "k' \<in> set ks"
  shows "k \<le> k'"
  using text_rank_less [of k' k ks] assms by (meson leD leI)

lemma mset_order_desc_text: "orders_desc (wd_order w) \<Longrightarrow> mset (order_desc_text w key rows) = mset rows"
  unfolding order_desc_text_def by (rule mset_order_desc)

lemma sorted_order_desc_text:
  assumes "orders_desc (wd_order w)"
  shows "sorted_wrt (\<lambda>a b. key a \<ge> key b) (order_desc_text w key rows)"
proof -
  have rows: "set (order_desc_text w key rows) = set rows"
    using mset_order_desc_text [OF assms] by (metis set_mset_mset)
  have "sorted_wrt (\<lambda>a b. text_rank (map key rows) (key a) \<ge> text_rank (map key rows) (key b))
      (order_desc_text w key rows)"
    unfolding order_desc_text_def by (rule sorted_order_desc [OF assms])
  then show ?thesis
    by (rule sorted_wrt_mono_rel [rotated]) (auto simp: rows intro: text_rank_le)
qed

section \<open>The newest part of a table\<close>

definition newest_part :: "('r \<Rightarrow> string) \<Rightarrow> nat \<Rightarrow> 'r list \<Rightarrow> 'r list \<Rightarrow> bool" where
  "newest_part key n rows out \<longleftrightarrow> length out = min n (length rows) \<and> sorted_wrt (\<lambda>a b. key a \<ge> key b) out \<and>
     (\<exists>rest. mset rows = mset (out @ rest) \<and> (\<forall>x\<in>set out. \<forall>y\<in>set rest. key y \<le> key x))"

lemma newest_part_take:
  assumes "orders_desc (wd_order w)"
  shows "newest_part key n rows (take n (order_desc_text w key rows))"
proof -
  let ?O = "order_desc_text w key rows"
  have m: "mset ?O = mset rows" by (rule mset_order_desc_text [OF assms])
  have s: "sorted_wrt (\<lambda>a b. key a \<ge> key b) (take n ?O @ drop n ?O)"
    using sorted_order_desc_text [OF assms] by simp
  then have "sorted_wrt (\<lambda>a b. key a \<ge> key b) (take n ?O)"
    "\<forall>x\<in>set (take n ?O). \<forall>y\<in>set (drop n ?O). key y \<le> key x"
    unfolding sorted_wrt_append by blast+
  moreover have "length ?O = length rows" using m by (rule mset_eq_length)
  moreover have "mset rows = mset (take n ?O @ drop n ?O)" by (simp add: m)
  ultimately show ?thesis unfolding newest_part_def by (intro conjI exI [of _ "drop n ?O"]) auto
qed

lemma newest_part_bound:
  assumes "newest_part key n rows out" "y \<in># mset rows - mset out"
  shows "length out = n" "\<forall>x\<in>set out. key y \<le> key x"
proof -
  from assms(1) obtain rest where r: "mset rows = mset (out @ rest)"
    "\<forall>x\<in>set out. \<forall>y\<in>set rest. key y \<le> key x" "length out = min n (length rows)"
    unfolding newest_part_def by blast
  have "y \<in> set rest" using assms(2) r(1) by simp
  then show "\<forall>x\<in>set out. key y \<le> key x" using r(2) by blast
  have "length rows = length out + length rest" using mset_eq_length [OF r(1)] by simp
  moreover have "length rest > 0" using \<open>y \<in> set rest\<close> by (rule length_pos_if_in_set)
  ultimately show "length out = n" using r(3) by (simp add: min_def split: if_splits)
qed

text \<open>A row that one table left out is not newer than any row of the merged part.\<close>

lemma left_out_not_newer:
  assumes a: "newest_part key n A a" and c: "newest_part key n (a @ b) c"
    and y: "y \<in># mset A - mset a" and x: "x \<in> set c"
  shows "key y \<le> key x"
proof (rule ccontr)
  assume less: "\<not> key y \<le> key x"
  note n = newest_part_bound [OF a y]
  have newer: "key x < key z" if "z \<in> set a" for z using n(2) that less by fastforce
  have "z \<notin># mset (a @ b) - mset c" if "z \<in> set a" for z
    using newest_part_bound(2) [OF c, of z] x newer [OF that] by (meson leD)
  then have "count (mset (a @ b)) z \<le> count (mset c) z" if "z \<in> set a" for z
    using that by (metis count_diff diff_is_0_eq not_in_iff)
  then have "mset a \<subseteq># mset c"
    by (intro mset_subset_eqI) (metis count_mset_0_iff count_union le_add1 le_trans mset_append zero_le)
  moreover have "size (mset c) \<le> size (mset a)" using c n(1) by (simp add: newest_part_def)
  ultimately have "mset a = mset c"
    by (metis add_cancel_left_right diff_is_0_eq le_antisym size_eq_0_iff_empty size_Diff_submset size_mset_mono subset_mset.add_diff_inverse)
  then have "x \<in> set a" using x by (metis set_mset_mset)
  then show False using newer by blast
qed

lemma newest_part_merge:
  assumes a: "newest_part key n A a" and b: "newest_part key n B b" and c: "newest_part key n (a @ b) c"
  shows "newest_part key n (A @ B) c"
proof -
  obtain ra rb rc where r: "mset A = mset (a @ ra)" "mset B = mset (b @ rb)" "mset (a @ b) = mset (c @ rc)"
    and rc: "\<forall>x\<in>set c. \<forall>y\<in>set rc. key y \<le> key x"
    using a b c unfolding newest_part_def by metis
  have c': "newest_part key n (b @ a) c" using c by (simp add: newest_part_def union_commute)
  have "key y \<le> key x" if "x \<in> set c" "y \<in> set (ra @ rb @ rc)" for x y
    using that left_out_not_newer [OF a c, of y x] left_out_not_newer [OF b c', of y x] rc
    by (auto simp: r(1,2))
  moreover have "mset (A @ B) = mset (c @ ra @ rb @ rc)"
    using r by (simp add: ac_simps)
  moreover have "length c = min n (length (A @ B))"
    using a b c by (auto simp: newest_part_def)
  moreover have "sorted_wrt (\<lambda>a b. key a \<ge> key b) c" using c by (simp add: newest_part_def)
  ultimately show ?thesis unfolding newest_part_def by blast
qed

section \<open>Site logs\<close>

definition log_rows :: "site_log_query \<Rightarrow> store \<Rightarrow> site_log_entry list" where
  "log_rows q st =
     (if wants_kind q ''traffic'' then map traffic_entry (traffic_logs st) else []) @
     (if wants_kind q ''system'' then map system_entry (system_logs st) else [])"

lemma newest_entries_part:
  "orders_desc (wd_order w) \<Longrightarrow>
   newest_part le_created_at (nat limit) (filter (log_matches site q) rows) (newest_entries w site q limit rows)"
  unfolding newest_entries_def by (rule newest_part_take)

lemma newest_part_Nil: "newest_part key n [] []"
  by (simp add: newest_part_def)


definition log_at :: "string \<Rightarrow> gotime \<Rightarrow> string \<times> string \<times> traffic_log \<times> gotime" where
  "log_at i t = (i, ''s'', \<lparr>tl_level = ''info'', tl_type = ''proxy'', tl_message = [], tl_request_id = [],
     tl_client_ip = [], tl_host = [], tl_method = [], tl_path = [], tl_status = 200, tl_latency = 1\<rparr>, t)"

definition shown_log :: "string \<Rightarrow> string \<Rightarrow> site_log_entry" where
  "shown_log i at = (traffic_entry (log_at i 0))\<lparr>le_created_at := at\<rparr>"

lemma traffic_entry_log_at: "traffic_entry (log_at i t) = shown_log i (rfc3339_nano t)"
  by (simp add: traffic_entry_def log_at_def shown_log_def)

lemma shown_log_fields [simp]:
  "le_id (shown_log i at) = i" "le_site (shown_log i at) = ''s''" "le_level (shown_log i at) = ''info''"
  "le_created_at (shown_log i at) = at"
  by (simp_all add: shown_log_def traffic_entry_def log_at_def)

definition traffic_of_two :: "gotime \<Rightarrow> gotime \<Rightarrow> store" where
  "traffic_of_two t1 t2 = init_store\<lparr>traffic_logs := [log_at ''a'' t1, log_at ''b'' t2]\<rparr>"

definition two_logs :: site_log_query where
  "two_logs = \<lparr>lq_kind = ''traffic'', lq_level = [], lq_start = [], lq_end = [], lq_limit = 2\<rparr>"

text \<open>The listing of two entries of which the texts of the times are known.\<close>

lemma list_two_logs:
  assumes "rfc3339_nano t1 = a" "rfc3339_nano t2 = b" "lq_kind q = ''traffic''"
  shows "map_sum id (map le_id) (list_site_logs sample_world ''s'' q (traffic_of_two t1 t2)) =
    Inr (map le_id (take (nat (log_limit q)) (order_desc_text sample_world le_created_at
      (newest_entries sample_world ''s'' q (log_limit q) [shown_log ''a'' a, shown_log ''b'' b]))))"
  using assms
  by (simp add: list_site_logs_def list_site_traffic_logs_def guarded_def run_sql_def traffic_of_two_def
      init_store_def sample_world_def traffic_entry_log_at wants_kind_def Let_def)

lemma order_two:
  "order_desc_text sample_world le_created_at [x, y] =
     (if le_created_at x < le_created_at y then [y, x] else [x, y])"
  by (auto simp: order_desc_text_def order_desc_def text_rank_def sample_world_def newest_first_def
      upt_rec insort_key.simps)

lemma order_one: "order_desc_text sample_world le_created_at [x] = [x]"
  by (simp add: order_desc_text_def order_desc_def text_rank_def sample_world_def newest_first_def)

lemma order_none: "order_desc_text sample_world le_created_at [] = []"
  by (simp add: order_desc_text_def order_desc_def sample_world_def newest_first_def)


text \<open>
  Times that are compared as texts. A request at half past a second is not found by a query
  that starts at that second, because the point of the fraction sorts before the \<open>Z\<close>; and of
  two requests in one second the one at 0.51 s is listed as older than the one at 0.5 s, so
  that with a limit of one the newer is not shown.
\<close>

theorem text_order_of_times:
  "let at = (\<lambda>ms. 63839664000 * second + ms * 1000000);
       ids = (\<lambda>q. map_sum id (map le_id)
         (list_site_logs sample_world ''s'' q (traffic_of_two (at 500) (at 510)))) in
   ids (two_logs\<lparr>lq_start := rfc3339 63839664000\<rparr>) = Inr [] \<and>
   ids (two_logs\<lparr>lq_start := rfc3339 63839663999\<rparr>) = Inr [''a'', ''b''] \<and>
   ids (two_logs\<lparr>lq_limit := 1\<rparr>) = Inr [''a'']"
proof -
  have t: "rfc3339_nano (63839664000 * second + 500 * 1000000) = ''2024-01-01T00:00:00.5Z''"
    "rfc3339_nano (63839664000 * second + 510 * 1000000) = ''2024-01-01T00:00:00.51Z''"
    "rfc3339 63839664000 = ''2024-01-01T00:00:00Z''" "rfc3339 63839663999 = ''2023-12-31T23:59:59Z''"
    by code_simp+
  have c: "\<not> ''2024-01-01T00:00:00.5Z'' < ''2024-01-01T00:00:00.51Z''"
    "\<not> ''2024-01-01T00:00:00Z'' \<le> ''2024-01-01T00:00:00.5Z''"
    "\<not> ''2024-01-01T00:00:00Z'' \<le> ''2024-01-01T00:00:00.51Z''"
    "''2023-12-31T23:59:59Z'' \<le> ''2024-01-01T00:00:00.5Z''"
    "''2023-12-31T23:59:59Z'' \<le> ''2024-01-01T00:00:00.51Z''"
    by code_simp+
  have k: "lq_kind (two_logs\<lparr>lq_start := s\<rparr>) = ''traffic''" "lq_kind (two_logs\<lparr>lq_limit := n\<rparr>) = ''traffic''"
    "log_limit (two_logs\<lparr>lq_start := s\<rparr>) = 2" "log_limit (two_logs\<lparr>lq_limit := 1\<rparr>) = 1" for s n
    by (simp_all add: two_logs_def log_limit_def)
  show ?thesis
    unfolding Let_def list_two_logs [OF t(1,2) k(1)] list_two_logs [OF t(1,2) k(2)] k(3,4) t(3,4)
    by (simp add: newest_entries_def log_matches_def text_is_def text_between_def c order_two order_one
        order_none two_logs_def)
qed

section \<open>Audit pages\<close>

lemma concat_pages: "concat (map (\<lambda>p. take k (drop ((p - 1) * k) xs)) [1..<Suc n]) = take (n * k) xs"
proof (induction n)
  case (Suc n)
  have "concat (map (\<lambda>p. take k (drop ((p - 1) * k) xs)) [1..<Suc (Suc n)]) =
      take (n * k) xs @ take k (drop (n * k) xs)"
    using Suc.IH by simp
  also have "\<dots> = take (Suc n * k) xs" by (metis take_add add.commute mult_Suc)
  finally show ?case .
qed simp

lemma page_size_bounds: "0 < page_size_of q \<and> page_size_of q \<le> 500"
  by (simp add: page_size_of_def Let_def)

lemma page_offset_exact:
  assumes "0 < p" "int p * k < 2 ^ 63" "0 < k"
  shows "page_offset (int p) k = int (p - 1) * k"
proof -
  have "int (p - 1) * k \<le> int p * k" using assms(3) by (intro mult_right_mono) auto
  moreover have "int (p - 1) * 1 \<le> int (p - 1) * k" using assms(3) by (intro mult_left_mono) auto
  moreover have "0 \<le> int (p - 1)" "0 \<le> int (p - 1) * k" using assms(3) by simp_all
  moreover have "int p - 1 = int (p - 1)" using assms(1) by simp
  ultimately show ?thesis
    using assms(2) wrap64_id [of "int (p - 1)"] wrap64_id [of "int (p - 1) * k"]
    by (simp add: page_offset_def del: of_nat_diff)
qed

text \<open>
  The pages of the audit list. As long as the page number times the page size fits an
  \<open>int\<close>, the pages one after the other are the matching audits, each once and newest first,
  every page reports the same total, and no page is longer than 500.
\<close>

theorem audit_pages:
  assumes "db_ready st" "wd_sql w CountAuditLogs" "wd_sql w SelectAuditLogs" "orders_desc (wd_order w)"
    and "int n * page_size_of q < 2 ^ 63"
  shows "\<exists>rows page. mset rows = mset (filter (audit_matches q) (audit_logs st)) \<and>
    sorted_wrt (\<lambda>a b. audit_time a \<ge> audit_time b) rows \<and>
    (\<forall>p\<in>set [1..<Suc n]. list_audit_logs w (q\<lparr>al_page := int p\<rparr>) st = Inr (page p, int (length rows)) \<and>
       length (page p) \<le> 500) \<and>
    concat (map page [1..<Suc n]) = take (n * nat (page_size_of q)) rows"
proof -
  let ?k = "nat (page_size_of q)"
  let ?rows = "order_desc_text w audit_time (filter (audit_matches q) (audit_logs st))"
  let ?page = "\<lambda>p. take ?k (drop ((p - 1) * ?k) ?rows)"
  have m: "mset ?rows = mset (filter (audit_matches q) (audit_logs st))"
    by (rule mset_order_desc_text [OF assms(4)])
  have s: "sorted_wrt (\<lambda>a b. audit_time a \<ge> audit_time b) ?rows"
    by (rule sorted_order_desc_text [OF assms(4)])
  have same: "audit_matches (q\<lparr>al_page := p\<rparr>) = audit_matches q" "page_size_of (q\<lparr>al_page := p\<rparr>) = page_size_of q" for p
    by (simp_all add: fun_eq_iff audit_matches_def page_size_of_def)
  have len: "length (filter (audit_matches q) (audit_logs st)) = length ?rows"
    using mset_eq_length [OF m] by simp
  have page: "list_audit_logs w (q\<lparr>al_page := int p\<rparr>) st = Inr (?page p, int (length ?rows))"
    if "p \<in> set [1..<Suc n]" for p
  proof -
    have "int p * page_size_of q \<le> int n * page_size_of q"
      using that page_size_bounds [of q] by (intro mult_right_mono) auto
    then have "int p * page_size_of q < 2 ^ 63" using assms(5) by (rule le_less_trans)
    then have "page_offset (int p) (page_size_of q) = int (p - 1) * page_size_of q"
      using that page_size_bounds [of q] by (intro page_offset_exact) auto
    moreover have "nat (int (p - 1) * page_size_of q) = (p - 1) * ?k"
      by (simp add: nat_mult_distrib)
    moreover have "0 < p" using that by auto
    ultimately show ?thesis
      using assms(1-3)
      by (simp del: of_nat_diff One_nat_def add: list_audit_logs_def guarded_def run_sql_def same limit_offset_def len Let_def)
  qed
  have "length (?page p) \<le> 500" for p using page_size_bounds [of q] by (auto intro: min.coboundedI2)
  then show ?thesis
    by (intro exI [of _ ?rows] exI [of _ ?page]) (use m s page concat_pages in blast)
qed

definition numbered_audits :: "nat \<Rightarrow> store" where
  "numbered_audits n = init_store\<lparr>audit_logs := map (\<lambda>i. \<lparr>au_id = itoa i, au_action = ''site_update'',
     au_target = ''s'', au_operator = ''op'', au_detail = [], au_created_at = int i\<rparr>) [0..<n]\<rparr>"

definition pages_of_two :: audit_query where
  "pages_of_two = \<lparr>al_action = ''site_update'', al_operator_is = [], al_target = [], al_start = [], al_end = [],
     al_limit = 0, al_page = 1, al_page_size = 2\<rparr>"

theorem audit_pages_witness:
  "\<exists>page1 page2 page3. list_audit_logs sample_world (pages_of_two\<lparr>al_page := 1\<rparr>) (numbered_audits 5) = Inr (page1, 5) \<and>
     list_audit_logs sample_world (pages_of_two\<lparr>al_page := 2\<rparr>) (numbered_audits 5) = Inr (page2, 5) \<and>
     list_audit_logs sample_world (pages_of_two\<lparr>al_page := 3\<rparr>) (numbered_audits 5) = Inr (page3, 5) \<and>
     mset (page1 @ page2 @ page3) = mset (audit_logs (numbered_audits 5))"
proof -
  have p: "db_ready (numbered_audits 5)" "wd_sql sample_world CountAuditLogs" "wd_sql sample_world SelectAuditLogs"
    "page_size_of pages_of_two = 2"
    by (simp_all add: numbered_audits_def init_store_def sample_world_def page_size_of_def pages_of_two_def)
  have o: "orders_desc (wd_order sample_world)" by (simp add: sample_world_def newest_first_orders)
  have all: "filter (audit_matches pages_of_two) (audit_logs (numbered_audits 5)) = audit_logs (numbered_audits 5)"
    by (simp add: numbered_audits_def audit_matches_def pages_of_two_def text_is_def text_between_def filter_id_conv)
  have "int 3 * page_size_of pages_of_two < 2 ^ 63" by (simp add: p(4))
  from audit_pages [OF p(1-3) o this] obtain rows page where r: "mset rows = mset (audit_logs (numbered_audits 5))"
    "\<forall>k\<in>set [1..<Suc 3]. list_audit_logs sample_world (pages_of_two\<lparr>al_page := int k\<rparr>) (numbered_audits 5) =
       Inr (page k, int (length rows))" "concat (map page [1..<Suc 3]) = take 6 rows"
    by (auto simp: all p(4))
  have "length rows = 5" using mset_eq_length [OF r(1)] by (simp add: numbered_audits_def)
  have upt: "[1..<Suc 3] = [1, 2, 3]" by code_simp
  have "page 1 @ page 2 @ page 3 = rows" using r(3) \<open>length rows = 5\<close> unfolding upt by simp
  then have "mset (page 1 @ page 2 @ page 3) = mset (audit_logs (numbered_audits 5))" using r(1) by simp
  moreover have "{1, 2, 3} \<subseteq> set [1..<Suc 3]" by simp
  ultimately show ?thesis using r(2) \<open>length rows = 5\<close> by fastforce
qed

text \<open>
  Beyond that bound the product wraps around: the page \<open>2 ^ 62 + 1\<close> of four is the first page.
\<close>

lemma far_page_is_first_page: "page_offset (2 ^ 62 + 1) 4 = page_offset 1 4"
  by code_simp

end
