(* ===== verification/Codec.thy ===== *)
theory Codec
  imports Store "HOL-Library.Countable"
begin

text \<open>
  Configurations are countable, so there is a text format that every one of them can be read
  back from: a concrete pair of functions for the place where the theorems have the JSON
  encoder and its decoder.
\<close>

instance auth_config_ext :: (countable) countable
  by (rule countable_classI [of "\<lambda>r. to_nat (auth_username r, auth_password r, auth_token r, auth_config.more r)"]) auto

instance data_plane_config_ext :: (countable) countable
  by (rule countable_classI [of "\<lambda>r. to_nat (http_listen_addr r, https_listen_addr r, enable_https r, dp_cert_id r,
    data_plane_config.more r)"]) auto

instance control_plane_config_ext :: (countable) countable
  by (rule countable_classI [of "\<lambda>r. to_nat (admin_listen_addr r, cp_auth r, control_plane_config.more r)"]) auto

instance cloudflare_config_ext :: (countable) countable
  by (rule countable_classI [of "\<lambda>r. to_nat (cf_endpoint r, cf_api_token r, cf_zone_id r, cloudflare_config.more r)"]) auto

instance cdn_sync_config_ext :: (countable) countable
  by (rule countable_classI [of "\<lambda>r. to_nat (sync_enabled r, sync_providers r, sync_schedule r, sync_cloudflare r,
    cdn_sync_config.more r)"]) auto

instance cdn_provider_setting_ext :: (countable) countable
  by (rule countable_classI [of "\<lambda>r. to_nat (api_key r, secret_key r, cdn_option r, account_id r, zone_id r,
    cdn_endpoint r, refresh_interval_seconds r, max_staleness_seconds r, cdn_provider_setting.more r)"]) auto

instance security_config_ext :: (countable) countable
  by (rule countable_classI [of "\<lambda>r. to_nat (allowed_cidrs r, trusted_proxy_cidrs r, allowed_cdn_providers r,
    cdn_provider_settings r, origin_protection_mode r, enable_hsts r, security_config.more r)"]) auto

instance domain_rule_ext :: (countable) countable
  by (rule countable_classI [of "\<lambda>r. to_nat (dr_domain r, dr_upstream r, dr_force_https r, domain_rule.more r)"]) auto

instance routing_config_ext :: (countable) countable
  by (rule countable_classI [of "\<lambda>r. to_nat (default_upstream r, routing_domains r, routing_config.more r)"]) auto

instance lb_node_ext :: (countable) countable
  by (rule countable_classI [of "\<lambda>r. to_nat (node_id r, node_upstream r, node_weight r, node_enabled r, lb_node.more r)"]) auto

instance lb_pool_ext :: (countable) countable
  by (rule countable_classI [of "\<lambda>r. to_nat (pool_id r, pool_name r, pool_strategy r, pool_nodes r, lb_pool.more r)"]) auto

instance lb_route_rule_ext :: (countable) countable
  by (rule countable_classI [of "\<lambda>r. to_nat (rule_domain r, rule_pool_id r, rule_fallback_pool_id r,
    rule_force_https r, lb_route_rule.more r)"]) auto

instance load_balancer_config_ext :: (countable) countable
  by (rule countable_classI [of "\<lambda>r. to_nat (default_pool_id r, lb_cfg_pools r, lb_cfg_routes r,
    load_balancer_config.more r)"]) auto

instance certificate_ext :: (countable) countable
  by (rule countable_classI [of "\<lambda>r. to_nat (cert_domain r, cert_pem r, cert_key_pem r, cert_file r, cert_key_file r,
    certificate.more r)"]) auto

instance ssl_certificate_ext :: (countable) countable
  by (rule countable_classI [of "\<lambda>r. to_nat (ssl_id r, ssl_name r, ssl_domains r, ssl_not_after r, ssl_issuer r,
    ssl_cert_pem r, ssl_key_pem r, ssl_created_at r, ssl_certificate.more r)"]) auto

instance config_ext :: (countable) countable
  by (rule countable_classI [of "\<lambda>r. to_nat (data_plane r, control_plane r, security r, routing r, load_balancer r,
    cdn_sync r, certificates r, ssl_certificates r, config.more r)"]) auto

definition tally_marshal :: "config \<Rightarrow> string" where
  "tally_marshal c = replicate (Suc (to_nat c)) CHR ''1''"

definition tally_unmarshal :: "string \<Rightarrow> config option" where
  "tally_unmarshal s = (if s = [] then None else Some (from_nat (length s - 1)))"

lemma tally_roundtrip [simp]: "tally_unmarshal (tally_marshal c) = Some c"
  by (simp add: tally_unmarshal_def tally_marshal_def)

lemma tally_not_Nil [simp]: "tally_marshal c \<noteq> []"
  by (simp add: tally_marshal_def)

end
