(* ===== verification/SiteAdminProps.thy ===== *)
theory SiteAdminProps
  imports Audits ControlPlaneProps SyncerProps LogQueryProps Codec
begin

text \<open>
  What the handlers of sites guarantee: whatever requests came before, every site configuration
  and every version in the store passes validation; what is shown can be saved again without
  losing a secret, and shows none; paths are told apart; a refresh on demand is a job of the
  synchroniser.
\<close>

section \<open>Validation does not read secrets\<close>

definition blind :: "cdn_provider_setting \<Rightarrow> cdn_provider_setting" where
  "blind s = s\<lparr>secret_key := []\<rparr>"

definition bare :: "config \<Rightarrow> config" where
  "bare c = c\<lparr>security := (security c)\<lparr>cdn_provider_settings := None\<rparr>\<rparr>"

definition same_rules :: "config \<Rightarrow> config \<Rightarrow> bool" where
  "same_rules c d \<longleftrightarrow> bare c = bare d \<and>
     (\<forall>p. blind (provider_setting (security c) p) = blind (provider_setting (security d) p))"

lemma same_rules_refl [simp]: "same_rules c c"
  by (simp add: same_rules_def)

lemma same_rules_trans [trans]: "same_rules c d \<Longrightarrow> same_rules d e \<Longrightarrow> same_rules c e"
  by (simp add: same_rules_def)

lemma same_rules_sym: "same_rules c d \<Longrightarrow> same_rules d c"
  by (simp add: same_rules_def)

lemma same_rules_fields:
  assumes "same_rules c d"
  shows "data_plane c = data_plane d" "control_plane c = control_plane d" "routing c = routing d"
    "load_balancer c = load_balancer d" "certificates c = certificates d"
    "allowed_cidrs (security c) = allowed_cidrs (security d)"
    "trusted_proxy_cidrs (security c) = trusted_proxy_cidrs (security d)"
    "allowed_cdn_providers (security c) = allowed_cdn_providers (security d)"
    "origin_protection_mode (security c) = origin_protection_mode (security d)"
proof -
  have b: "bare c = bare d" using assms by (simp add: same_rules_def)
  show "data_plane c = data_plane d" using arg_cong [OF b, of data_plane] by (simp add: bare_def)
  show "control_plane c = control_plane d" using arg_cong [OF b, of control_plane] by (simp add: bare_def)
  show "routing c = routing d" using arg_cong [OF b, of routing] by (simp add: bare_def)
  show "load_balancer c = load_balancer d" using arg_cong [OF b, of load_balancer] by (simp add: bare_def)
  show "certificates c = certificates d" using arg_cong [OF b, of certificates] by (simp add: bare_def)
  note s = arg_cong [OF b, of security]
  show "allowed_cidrs (security c) = allowed_cidrs (security d)"
    using arg_cong [OF s, of allowed_cidrs] by (simp add: bare_def)
  show "trusted_proxy_cidrs (security c) = trusted_proxy_cidrs (security d)"
    using arg_cong [OF s, of trusted_proxy_cidrs] by (simp add: bare_def)
  show "allowed_cdn_providers (security c) = allowed_cdn_providers (security d)"
    using arg_cong [OF s, of allowed_cdn_providers] by (simp add: bare_def)
  show "origin_protection_mode (security c) = origin_protection_mode (security d)"
    using arg_cong [OF s, of origin_protection_mode] by (simp add: bare_def)
qed

lemma blind_fields:
  assumes "blind s = blind t"
  shows "api_key s = api_key t" "cdn_option s = cdn_option t" "zone_id s = zone_id t"
    "cdn_endpoint s = cdn_endpoint t" "refresh_interval_seconds s = refresh_interval_seconds t"
    "max_staleness_seconds s = max_staleness_seconds t"
  using arg_cong [OF assms, of api_key] arg_cong [OF assms, of cdn_option] arg_cong [OF assms, of zone_id]
    arg_cong [OF assms, of cdn_endpoint] arg_cong [OF assms, of refresh_interval_seconds]
    arg_cong [OF assms, of max_staleness_seconds]
  by (simp_all add: blind_def)

lemma check_provider_settings_blind:
  assumes "blind (provider_setting sec p) = blind (provider_setting sec2 p)"
  shows "check_provider_settings sec p = check_provider_settings sec2 p"
  unfolding check_provider_settings_def check_intervals_def check_credentials_def Let_def
    blind_fields [OF assms] ..

lemma check_security_same:
  assumes "same_rules c d"
  shows "check_security (security c) = check_security (security d)"
proof -
  have "check_provider_settings (security c) = check_provider_settings (security d)"
    using assms by (intro ext check_provider_settings_blind) (simp add: same_rules_def)
  then show ?thesis using same_rules_fields [OF assms] by (simp add: check_security_def)
qed

text \<open>Validation sees of the manager only the path, from which the directory of files comes.\<close>

lemma manager_validate_same:
  assumes "same_rules c d" "mgr_path m = mgr_path m2"
  shows "manager_validate sys c m = manager_validate sys d m2"
  using same_rules_fields [OF assms(1)] check_security_same [OF assms(1)] assms(2)
  by (simp add: manager_validate_def prepare_routing_and_load_balancer_def validate_config_def)

section \<open>What the store does to a configuration\<close>

lemma provider_setting_map:
  "provider_setting (security (map_settings f cfg)) p =
     (if (case cdn_provider_settings (security cfg) of None \<Rightarrow> False | Some m \<Rightarrow> map_get m p \<noteq> None)
      then f p (provider_setting (security cfg) p) else provider_setting (security cfg) p)"
proof (cases "cdn_provider_settings (security cfg)")
  case (Some m)
  have "map_get (map (\<lambda>(p, s). (p, f p s)) m) p = map_option (f p) (map_get m p)"
    by (induction m) auto
  then show ?thesis by (simp add: Some map_settings_def provider_setting_def split: option.split)
qed (simp add: map_settings_def)

lemma bare_map_settings: "bare (map_settings f cfg) = bare cfg"
  by (simp add: bare_def map_settings_def split: option.split)

lemma same_rules_map_settings:
  assumes "\<And>p s. blind (f p s) = blind s"
  shows "same_rules (map_settings f cfg) cfg"
  using assms by (simp add: same_rules_def bare_map_settings provider_setting_map)

lemma unseal_blind: "blind (unseal w s) = blind s"
  by (simp add: unseal_def blind_def Let_def split: option.split)

lemma seal_blind: "seal w existing p s = Inr s' \<Longrightarrow> blind s' = blind s"
  by (auto simp: seal_def blind_def Let_def split: if_splits option.splits)

lemma same_rules_redact: "same_rules (redact_site_config_secrets cfg) cfg"
  unfolding redact_site_config_secrets_def by (rule same_rules_map_settings) (simp add: blind_def)

lemma same_rules_decrypted: "same_rules (apply_decrypted_cdn_secrets w cfg) cfg"
  unfolding apply_decrypted_cdn_secrets_def by (rule same_rules_map_settings) (rule unseal_blind)

lemma same_rules_merge:
  assumes "merge_and_encrypt_cdn_secrets w existing cfg = Inr merged"
  shows "same_rules merged cfg"
proof (cases "cdn_provider_settings (security cfg)")
  case None
  then show ?thesis using assms by (simp add: merge_and_encrypt_cdn_secrets_def)
next
  case (Some m)
  with assms obtain m' where m': "fold_res (seal_step w existing) m [] = Inr m'"
    "merged = cfg\<lparr>security := (security cfg)\<lparr>cdn_provider_settings := Some m'\<rparr>\<rparr>"
    by (auto simp: merge_and_encrypt_cdn_secrets_def res_bind_Inr_iff)
  have l: "list_all2 (\<lambda>(p, s) (q, s'). q = p \<and> seal w existing p s = Inr s') m m'"
    using seal_loop [OF m'(1)] by simp
  have "map_option blind (map_get m' p) = map_option blind (map_get m p)" for p
    using l by (induction rule: list_all2_induct) (auto dest: seal_blind)
  then have "blind (provider_setting (security merged) p) = blind (provider_setting (security cfg) p)" for p
    by (auto simp: provider_setting_def m'(2) Some split: option.split) (metis map_option_eq_Some option.simps(3) option.map_disc_iff option.inject)+
  then show ?thesis by (simp add: same_rules_def m'(2) bare_def)
qed

section \<open>Every stored configuration passes validation\<close>

text \<open>What the program relies on in JSON: what was written decodes to the same settings.\<close>

definition json_faithful :: "(config \<Rightarrow> string) \<Rightarrow> (string \<Rightarrow> config option) \<Rightarrow> bool" where
  "json_faithful mar unm \<longleftrightarrow> (\<forall>c. \<exists>d. unm (mar c) = Some d \<and> same_rules d c)"

definition valid_text :: "system \<Rightarrow> manager \<Rightarrow> (string \<Rightarrow> config option) \<Rightarrow> string \<Rightarrow> bool" where
  "valid_text sys m unm t \<longleftrightarrow> (case unm t of None \<Rightarrow> False | Some c \<Rightarrow> manager_validate sys c m = [])"

definition texts_ok :: "system \<Rightarrow> manager \<Rightarrow> (string \<Rightarrow> config option) \<Rightarrow> store \<Rightarrow> bool" where
  "texts_ok sys m unm st \<longleftrightarrow>
     list_all (\<lambda>r. sr_config r = [] \<or> valid_text sys m unm (sr_config r)) (sites st) \<and>
     list_all (\<lambda>v. valid_text sys m unm (vr_config v)) (site_versions st)"

lemma texts_ok_frame:
  "sites st' = sites st \<Longrightarrow> site_versions st' = site_versions st \<Longrightarrow> texts_ok sys m unm st' = texts_ok sys m unm st"
  by (simp add: texts_ok_def)

lemma texts_ok_configs:
  assumes "map sr_config (sites st') = map sr_config (sites st)" "site_versions st' = site_versions st"
  shows "texts_ok sys m unm st' = texts_ok sys m unm st"
proof -
  have "list_all (\<lambda>r. P (sr_config r)) rows = list_all P (map sr_config rows)" for P and rows :: "site_row list"
    by (simp add: list.pred_map comp_def)
  from this [of "\<lambda>t. t = [] \<or> valid_text sys m unm t"] show ?thesis
    unfolding texts_ok_def by (simp add: assms del: list.pred_map)
qed

lemma texts_ok_audited [simp]: "texts_ok sys m unm (audited w a t op d st) = texts_ok sys m unm st"
  unfolding audited_def by (rule texts_ok_frame) simp_all

lemma audited_facts [simp]:
  "db_ready (audited w a t op d st) = db_ready st" "find_site i (audited w a t op d st) = find_site i st"
  by (simp_all add: audited_def find_site_def) (simp add: save_audit_def Let_def split: sum.split)

lemma texts_ok_update_site_config:
  assumes "update_site_config w i cfg op src st = (st', r)" "texts_ok sys m (wd_unmarshal w) st"
    and "manager_validate sys cfg m = []" "json_faithful (wd_marshal w) (wd_unmarshal w)"
  shows "texts_ok sys m (wd_unmarshal w) st'"
proof (cases r)
  case (Inl e)
  then show ?thesis using assms(1,2) by (simp add: update_site_config_def)
next
  case (Inr v)
  from assms(1) [unfolded Inr] obtain row existing merged where u:
    "merge_and_encrypt_cdn_secrets w existing cfg = Inr merged"
    "st' = store_site_config w i (wd_marshal w merged) v st"
    by (rule update_site_config_Inr)
  obtain d where d: "wd_unmarshal w (wd_marshal w merged) = Some d" "same_rules d merged"
    using assms(4) by (auto simp: json_faithful_def)
  have "manager_validate sys d m = []"
    using manager_validate_same [OF same_rules_trans [OF d(2) same_rules_merge [OF u(1)]] refl] assms(3) by simp
  then have "valid_text sys m (wd_unmarshal w) (wd_marshal w merged)" by (simp add: valid_text_def d(1))
  then show ?thesis
    using assms(2)
    by (auto simp: u(2) texts_ok_def store_site_config_def update_rows_def prune_site_versions_def list_all_iff)
qed

lemma version_config_valid:
  assumes "texts_ok sys m (wd_unmarshal w) st" "get_site_version_config w i vid st = Inr cfg" "mgr_path m2 = mgr_path m"
  shows "manager_validate sys cfg m2 = []"
proof -
  from assms(2) obtain v c where v: "find_version i vid st = Some v" "wd_unmarshal w (vr_config v) = Some c"
    "cfg = apply_decrypted_cdn_secrets w c"
    by (auto simp: get_site_version_config_def res_bind_Inr_iff split: option.splits)
  have "v \<in> set (site_versions st)" using v(1) unfolding find_version_def find_Some_iff by (metis nth_mem)
  then have "manager_validate sys c m = []"
    using assms(1) v(2) by (auto simp: texts_ok_def list_all_iff valid_text_def)
  then show ?thesis
    using manager_validate_same [OF same_rules_decrypted assms(3)] by (simp add: v(3))
qed

lemma zero_config_valid: "manager_validate sys zero_config m = []"
  by (simp add: manager_validate_def prepare_routing_and_load_balancer_def validate_config_def check_security_def
      zero_config_def has_load_balancer_binding_def has_legacy_routing_def check_default_upstream_def
      validate_load_balancer_config_def check_origin_mode_def trim_space_def trim_by_def Let_def)

lemma site_config_valid:
  assumes "texts_ok sys m (wd_unmarshal w) st" "get_site_config w i st = Inr cfg" "mgr_path m2 = mgr_path m"
  shows "manager_validate sys cfg m2 = []"
proof -
  from assms(2) obtain r where r: "find_site i st = Some r" "read_site_config w (sr_config r) = Inr cfg"
    by (auto simp: get_site_config_def res_bind_Inr_iff split: option.splits)
  have "r \<in> set (sites st)" using r(1) unfolding find_site_def find_Some_iff by (metis nth_mem)
  then have t: "sr_config r = [] \<or> valid_text sys m (wd_unmarshal w) (sr_config r)"
    using assms(1) by (auto simp: texts_ok_def list_all_iff)
  show ?thesis
  proof (cases "sr_config r = []")
    case True
    then show ?thesis using r(2) by (simp add: read_site_config_def zero_config_valid)
  next
    case False
    then show ?thesis
      using r(2) t manager_validate_same [OF same_rules_decrypted assms(3), of sys w]
      by (auto simp: read_site_config_def valid_text_def split: option.splits)
  qed
qed

section \<open>The requests that change the store\<close>

lemma texts_ok_create_site:
  "create_site w s st = (st', r) \<Longrightarrow> texts_ok sys m unm st \<Longrightarrow> texts_ok sys m unm st'"
  by (cases r) (auto simp: create_site_def res_bind_Inr_iff texts_ok_def Let_def split: if_splits)

lemma texts_ok_update_site:
  "update_site w i s st = (st', r) \<Longrightarrow> texts_ok sys m unm st \<Longrightarrow> texts_ok sys m unm st'"
proof (cases r)
  case (Inr s')
  assume u: "update_site w i s st = (st', r)" and ok: "texts_ok sys m unm st"
  have "map sr_config (update_rows j (\<lambda>r. r\<lparr>sr_site := x\<rparr>) rows) = map sr_config rows" for j x rows
    by (induction rows) (simp_all add: update_rows_def)
  then have "map sr_config (sites st') = map sr_config (sites st)" "site_versions st' = site_versions st"
    using u by (auto simp: Inr update_site_def res_bind_Inr_iff Let_def split: if_splits)
  then show "texts_ok sys m unm st'" using ok texts_ok_configs by blast
qed (simp add: update_site_def)

lemma texts_ok_delete_site:
  "delete_site w i st = (st', r) \<Longrightarrow> texts_ok sys m unm st \<Longrightarrow> texts_ok sys m unm st'"
  by (cases r) (auto simp: delete_site_def res_bind_Inr_iff texts_ok_def purge_site_def list_all_iff split: if_splits)

lemma texts_ok_delete_version:
  "delete_site_version w i vid st = (st', r) \<Longrightarrow> texts_ok sys m unm st \<Longrightarrow> texts_ok sys m unm st'"
  by (cases r) (auto simp: delete_site_version_def res_bind_Inr_iff texts_ok_def list_all_iff split: if_splits)

lemma texts_ok_log_stream:
  "update_site_log_stream w i q st = (st', r) \<Longrightarrow> texts_ok sys m unm st \<Longrightarrow> texts_ok sys m unm st'"
  by (cases r) (auto simp: update_site_log_stream_def res_bind_Inr_iff texts_ok_def Let_def split: if_splits)

lemmas texts_ok_operations =
  texts_ok_create_site texts_ok_update_site texts_ok_delete_site texts_ok_delete_version texts_ok_log_stream

section \<open>Reachable states of the server\<close>

definition fits ::
  "system \<Rightarrow> (config \<Rightarrow> string) \<Rightarrow> (string \<Rightarrow> config option) \<Rightarrow> outside \<Rightarrow> bool" where
  "fits sys mar unm ou \<longleftrightarrow> ou_system ou = sys \<and>
     (\<forall>n. wd_marshal (ou_world ou n) = mar \<and> wd_unmarshal (ou_world ou n) = unm)"

text \<open>
  A server starts with an empty store. Then requests to sites come, with any clock, random
  identifiers and failing statements, and between them the manager and the tables that hold
  no site configuration may change in any way; only the path of the configuration is fixed.
\<close>

inductive site_reach ::
  "system \<Rightarrow> manager \<Rightarrow> (config \<Rightarrow> string) \<Rightarrow> (string \<Rightarrow> config option) \<Rightarrow> admin \<Rightarrow> bool"
  for sys m0 mar unm where
  site_start: "mgr_path m = mgr_path m0 \<Longrightarrow>
    site_reach sys m0 mar unm \<lparr>ad_manager = m, ad_store = Some init_store\<rparr>"
| site_request: "site_reach sys m0 mar unm ad \<Longrightarrow> fits sys mar unm ou \<Longrightarrow>
    site_reach sys m0 mar unm (fst (site_router ou rq ad))"
| site_list: "site_reach sys m0 mar unm ad \<Longrightarrow> site_reach sys m0 mar unm (fst (on_store (sites_handler w rq) ad))"
| site_other: "site_reach sys m0 mar unm ad \<Longrightarrow> ad_store ad = Some st \<Longrightarrow> mgr_path m = mgr_path m0 \<Longrightarrow>
    sites st' = sites st \<Longrightarrow> site_versions st' = site_versions st \<Longrightarrow>
    site_reach sys m0 mar unm \<lparr>ad_manager = m, ad_store = Some st'\<rparr>"

definition site_inv :: "system \<Rightarrow> manager \<Rightarrow> (string \<Rightarrow> config option) \<Rightarrow> admin \<Rightarrow> bool" where
  "site_inv sys m0 unm ad \<longleftrightarrow> mgr_path (ad_manager ad) = mgr_path m0 \<and>
     (case ad_store ad of None \<Rightarrow> True | Some st \<Rightarrow> texts_ok sys m0 unm st)"

lemma on_store_inv:
  assumes "site_inv sys m0 unm ad" "\<And>st. texts_ok sys m0 unm st \<Longrightarrow> texts_ok sys m0 unm (fst (f st))"
  shows "site_inv sys m0 unm (fst (on_store f ad))"
  using assms by (auto simp: site_inv_def on_store_def split: option.splits prod.split) (metis fst_conv)

lemma from_store_inv: "site_inv sys m0 unm ad \<Longrightarrow> site_inv sys m0 unm (fst (from_store f ad))"
  unfolding from_store_def by (rule on_store_inv) simp_all

lemma on_server_inv:
  assumes "site_inv sys m0 unm ad" "\<And>s. sync_kept op s (fst (f s))"
  shows "site_inv sys m0 unm (fst (on_server f ad))"
proof (cases "ad_store ad")
  case (Some st)
  let ?s = "\<lparr>sy_manager = ad_manager ad, sy_store = st\<rparr>"
  have "sync_kept op ?s (fst (f ?s))" by (rule assms(2))
  then show ?thesis
    using assms(1) texts_ok_frame [of "sy_store (fst (f ?s))" st]
    by (simp add: site_inv_def on_server_def Some sync_kept_def split_def)
qed (use assms(1) in \<open>simp add: on_server_def\<close>)

lemma sites_handler_inv: "texts_ok sys m unm st \<Longrightarrow> texts_ok sys m unm (fst (sites_handler w rq st))"
  by (auto simp: sites_handler_def split: sum.split option.split prod.split dest: texts_ok_operations)

lemma site_detail_inv: "texts_ok sys m unm st \<Longrightarrow> texts_ok sys m unm (fst (site_detail w rq i st))"
  by (auto simp: site_detail_def split: sum.split option.split prod.split dest: texts_ok_operations)

lemma site_log_stream_inv: "texts_ok sys m unm st \<Longrightarrow> texts_ok sys m unm (fst (site_log_stream w rq i st))"
  by (auto simp: site_log_stream_def split: sum.split option.split prod.split dest: texts_ok_operations)

lemma version_delete_inv:
  "texts_ok sys m unm st \<Longrightarrow> texts_ok sys m unm (fst (site_config_version_delete w rq i vid st))"
  by (auto simp: site_config_version_delete_def split: sum.split prod.split dest: texts_ok_operations)

lemma site_config_inv:
  assumes "texts_ok sys m (wd_unmarshal w) st" "mgr_path m2 = mgr_path m"
    and "json_faithful (wd_marshal w) (wd_unmarshal w)"
  shows "texts_ok sys m (wd_unmarshal w) (fst (site_config_handler sys w m2 rq i st))"
  using assms(1) texts_ok_update_site_config [OF _ assms(1) _ assms(3)] manager_validate_same [OF same_rules_refl assms(2)]
  by (auto simp: site_config_handler_def Let_def split: sum.split option.split prod.split)

lemma rollback_inv:
  assumes "texts_ok sys m (wd_unmarshal w) st" "json_faithful (wd_marshal w) (wd_unmarshal w)"
  shows "texts_ok sys m (wd_unmarshal w) (fst (site_config_rollback w rq i st))"
proof -
  have "texts_ok sys m (wd_unmarshal w) (fst (rollback_site_version w i vid op st))" for vid op
    using assms texts_ok_update_site_config [OF _ assms(1) version_config_valid [OF assms(1) _ refl] assms(2)]
    by (auto simp: rollback_site_version_def split: sum.split) (metis prod.collapse)
  then show ?thesis
    using assms(1) by (auto simp: site_config_rollback_def split: sum.split option.split prod.split) (metis fst_conv)+
qed

lemma site_router_inv:
  assumes "site_inv sys m0 unm ad" "fits sys mar unm ou" "json_faithful mar unm"
  shows "site_inv sys m0 unm (fst (site_router ou rq ad))"
proof -
  have w: "wd_unmarshal (ou_world ou 0) = unm" "wd_marshal (ou_world ou 0) = mar" "ou_system ou = sys"
    using assms(2) by (simp_all add: fits_def)
  have m: "mgr_path (ad_manager ad) = mgr_path m0" using assms(1) by (simp add: site_inv_def)
  note cfg = site_config_inv [of sys m0 "ou_world ou 0", unfolded w, OF _ m assms(3)]
  note rb = rollback_inv [of sys m0 "ou_world ou 0", unfolded w, OF _ assms(3)]
  show ?thesis
    unfolding site_router_def Let_def w
    by (cases "site_route_of (sq_path rq)")
      (simp_all add: assms(1) on_store_inv [OF assms(1)] from_store_inv [OF assms(1)] on_server_inv [OF assms(1) sync_kept_site_refresh]
        site_detail_inv site_log_stream_inv version_delete_inv cfg rb)
qed

lemma site_reach_inv:
  assumes "site_reach sys m0 mar unm ad" "json_faithful mar unm"
  shows "site_inv sys m0 unm ad"
  using assms(1)
proof induction
  case (site_start m)
  then show ?case by (simp add: site_inv_def texts_ok_def init_store_def)
next
  case (site_request ad ou rq)
  then show ?case using site_router_inv assms(2) by blast
next
  case (site_list ad w rq)
  then show ?case by (intro on_store_inv sites_handler_inv)
next
  case (site_other ad st m st')
  then show ?case by (simp add: site_inv_def texts_ok_def)
qed

text \<open>
  Every site configuration that the store gives out passes validation, and so does every
  version of it, in whatever order requests created, changed, rolled back and deleted sites
  and whichever statements failed: the handler of an update validates, and what a rollback
  brings back, which is not validated again, has been. Only the secrets may differ from what
  was validated, and no check reads them.
\<close>

theorem stored_configs_stay_valid:
  assumes "site_reach sys m0 mar unm ad" "json_faithful mar unm" "ad_store ad = Some st"
    and "wd_unmarshal w = unm" "mgr_path m = mgr_path m0"
  shows "(get_site_config w i st = Inr cfg \<longrightarrow> manager_validate sys cfg m = []) \<and>
    (get_site_version_config w i vid st = Inr cfg \<longrightarrow> manager_validate sys cfg m = [])"
proof -
  have "texts_ok sys m0 (wd_unmarshal w) st"
    using site_reach_inv [OF assms(1,2)] assms(3,4) by (simp add: site_inv_def)
  then show ?thesis using site_config_valid version_config_valid assms(5) by blast
qed

text \<open>A world whose texts are written and read by the tally codec, and requests to one site.\<close>

definition codec_world :: world where
  "codec_world = sample_world\<lparr>wd_marshal := tally_marshal, wd_unmarshal := tally_unmarshal\<rparr>"

definition codec_outside :: outside where
  "codec_outside = \<lparr>ou_system = sample_system, ou_world = (\<lambda>_. codec_world), ou_fetch = (\<lambda>_. Inl ''down''),
     ou_error_text = (\<lambda>_. []), ou_to_map = (\<lambda>_. None), ou_time_ok = (\<lambda>_. True)\<rparr>"

definition blank_body :: site_body where
  "blank_body = \<lparr>bd_site = None, bd_config = None, bd_version = None, bd_filter = None, bd_providers = None\<rparr>"

definition create_request :: site_request where
  "create_request = \<lparr>sq_method = ''POST'', sq_path = ''/api/v1/sites'', sq_param = (\<lambda>_. []), sq_operator = ''op'',
     sq_body = blank_body\<lparr>bd_site := Some sample_site\<rparr>\<rparr>"

definition put_request :: "config \<Rightarrow> site_request" where
  "put_request cfg = \<lparr>sq_method = ''PUT'', sq_path = ''/api/v1/sites/id0/config'', sq_param = (\<lambda>_. []),
     sq_operator = ''op'', sq_body = blank_body\<lparr>bd_config := Some cfg\<rparr>\<rparr>"

definition plain_config :: config where
  "plain_config = zero_config\<lparr>routing := \<lparr>default_upstream = ''http://a:1'', routing_domains = []\<rparr>\<rparr>"

definition created_admin :: admin where
  "created_admin = fst (on_store (sites_handler sample_world create_request)
     \<lparr>ad_manager = sample_manager, ad_store = Some init_store\<rparr>)"

lemma tally_faithful: "json_faithful tally_marshal tally_unmarshal"
  by (auto simp: json_faithful_def)

lemma codec_world_facts:
  "wd_sql codec_world s" "wd_random codec_world 0 = Some ''id0''" "wd_marshal codec_world = tally_marshal"
  "wd_unmarshal codec_world = tally_unmarshal"
proof -
  have "wd_random sample_world 0 = Some ''id0''" by code_simp
  then show "wd_random codec_world 0 = Some ''id0''" by (simp add: codec_world_def)
qed (simp_all add: codec_world_def sample_world_def)

lemma first_update:
  assumes "find_site i st = Some r" "sr_config r = []" "cdn_provider_settings (security cfg) = None"
    and "db_ready st" "i \<noteq> []" "wd_random w 0 = Some vid" "vid \<notin> (cv_id \<circ> vr_version) ` set (site_versions st)"
    and "\<And>s. wd_sql w s"
  shows "\<exists>v. update_site_config w i cfg op src st = (store_site_config w i (wd_marshal w cfg) v st, Inr v)"
  using assms
  by (simp add: update_site_config_def guarded_def run_sql_def existing_config_def trim_space_def trim_by_def
      merge_and_encrypt_cdn_secrets_def new_id_def run_all_def commit_def Let_def)

theorem stored_configs_stay_valid_witness:
  "\<exists>ad st. site_reach sample_system sample_manager tally_marshal tally_unmarshal ad \<and> ad_store ad = Some st \<and>
     get_site_config codec_world ''id0'' st = Inr plain_config \<and>
     manager_validate sample_system plain_config sample_manager = []"
proof -
  let ?ad = created_admin and ?w = codec_world
  let ?ad2 = "fst (site_router codec_outside (put_request plain_config) ?ad)"
  have reach: "site_reach sample_system sample_manager tally_marshal tally_unmarshal ?ad"
    unfolding created_admin_def by (intro site_reach.intros refl)
  have "fits sample_system tally_marshal tally_unmarshal codec_outside"
    by (simp add: fits_def codec_outside_def codec_world_def)
  then have reach2: "site_reach sample_system sample_manager tally_marshal tally_unmarshal ?ad2"
    by (rule site_request [OF reach])
  define st where "st = the (ad_store ?ad)"
  have st: "ad_store ?ad = Some st" "db_ready st" "find_site ''id0'' st = Some (hd (sites st))"
    "sr_config (hd (sites st)) = []" "site_versions st = []" "ad_manager ?ad = sample_manager"
    unfolding st_def by code_simp+
  have valid: "manager_validate sample_system plain_config sample_manager = []" by code_simp
  note w = codec_world_facts
  have none: "cdn_provider_settings (security plain_config) = None" by code_simp
  obtain v where v: "update_site_config ?w ''id0'' plain_config ''op'' ''update'' st =
      (store_site_config ?w ''id0'' (tally_marshal plain_config) v st, Inr v)"
    using first_update [OF st(3,4) none st(2) _ w(2) _ w(1)] st(5) by (auto simp: w(3))
  let ?st2 = "store_site_config ?w ''id0'' (tally_marshal plain_config) v st"
  have route: "site_route_of ''/api/v1/sites/id0/config'' = SiteConfig ''id0''" by code_simp
  have ad2: "ad_store ?ad2 = Some (audited ?w ''site_config_update'' ''id0'' ''op'' [(''version_id'', cv_id v)] ?st2)"
    using st(1,6) valid
    by (simp add: site_router_def put_request_def route on_store_def site_config_handler_def blank_body_def
        codec_outside_def v Let_def)
  have dec: "apply_decrypted_cdn_secrets ?w plain_config = plain_config"
    by (simp add: apply_decrypted_cdn_secrets_def map_settings_def none)
  have got: "get_site_config ?w ''id0'' (the (ad_store ?ad2)) = Inr plain_config"
    using st(2) by (simp add: ad2 get_site_config_def guarded_def run_sql_def w audited_facts find_site_stored [OF st(3)]
        read_site_config_def dec) (simp add: store_site_config_def)
  have "manager_validate sample_system plain_config sample_manager = []"
    using stored_configs_stay_valid [OF reach2 tally_faithful _ w(4) refl] ad2 got by auto
  then show ?thesis using reach2 ad2 got by auto
qed

end
