(* ===== verification/SiteEditProps.thy ===== *)
theory SiteEditProps
  imports SiteAdminProps
begin

text \<open>
  More of the handlers of sites: what a client is shown and may save back, how paths are told
  apart, and that a refresh on demand does what a job of the synchroniser does.
\<close>

section \<open>Showing and saving a configuration\<close>

lemma site_error_reply [simp]: "site_error e \<noteq> SiteConfigReply c" "site_error e \<noteq> SiteDiffReply d"
  "site_error e \<noteq> SiteVersionReply v"
  by (simp_all add: site_error_def split: store_error.split)

definition settings_distinct :: "config \<Rightarrow> bool" where
  "settings_distinct c \<longleftrightarrow> (case cdn_provider_settings (security c) of None \<Rightarrow> True | Some m \<Rightarrow> distinct (map fst m))"

lemma trim_space_Nil [simp]: "trim_space [] = []"
  by (simp add: trim_space_def trim_by_def)

lemma seal_blind_setting:
  "stored_secret e p = Some (secret_key s) \<Longrightarrow> seal w e p (blind s) = Inr s"
  by (simp add: seal_def blind_def)

lemma seal_loop_blind:
  assumes "\<And>p s. (p, s) \<in> set m \<Longrightarrow> stored_secret e p = Some (secret_key s)"
  shows "fold_res (seal_step w e) (map (\<lambda>(p, s). (p, blind s)) m) acc = Inr (acc @ m)"
  using assms
proof (induction m arbitrary: acc)
  case (Cons ps m)
  obtain p s where ps: "ps = (p, s)" by fastforce
  have "seal w e p (blind s) = Inr s" using Cons.prems [of p s] by (simp add: ps seal_blind_setting)
  then show ?case using Cons.IH [of "acc @ [(p, s)]"] Cons.prems by (simp add: ps seal_step_pair)
qed simp

lemma redact_decrypted:
  "cdn_provider_settings (security (redact_site_config_secrets (apply_decrypted_cdn_secrets w e))) =
     map_option (map (\<lambda>(p, s). (p, blind s))) (cdn_provider_settings (security e))"
  using unseal_blind [unfolded blind_def]
  by (auto simp: redact_site_config_secrets_def apply_decrypted_cdn_secrets_def map_settings_def blind_def
      split: option.split)

lemma merge_redacted:
  assumes "settings_distinct e"
  shows "merge_and_encrypt_cdn_secrets w e (redact_site_config_secrets (apply_decrypted_cdn_secrets w e)) = Inr e"
proof (cases "cdn_provider_settings (security e)")
  case None
  then show ?thesis
    by (simp add: merge_and_encrypt_cdn_secrets_def redact_site_config_secrets_def apply_decrypted_cdn_secrets_def
        map_settings_def)
next
  case (Some m)
  let ?shown = "redact_site_config_secrets (apply_decrypted_cdn_secrets w e)"
  have "stored_secret e p = Some (secret_key s)" if "(p, s) \<in> set m" for p s
    using that assms by (simp add: stored_secret_def Some settings_distinct_def)
  then have loop: "fold_res (seal_step w e) (map (\<lambda>(p, s). (p, blind s)) m) [] = Inr m"
    using seal_loop_blind [of m e w "[]"] by simp
  have "(security e)\<lparr>cdn_provider_settings := Some m\<rparr> = security e" by (simp add: Some [symmetric])
  then have "?shown\<lparr>security := (security ?shown)\<lparr>cdn_provider_settings := Some m\<rparr>\<rparr> = e"
    by (simp add: redact_site_config_secrets_def apply_decrypted_cdn_secrets_def map_settings_def Some)
  then show ?thesis
    using loop by (simp add: merge_and_encrypt_cdn_secrets_def redact_decrypted Some)
qed

text \<open>
  C25. What is shown can be saved back. A client that reads the configuration of a site gets it
  with every provider secret blank; when it sends that configuration back and the update
  succeeds, the stored text is the same as before, so that no secret is lost or sealed twice.
\<close>

theorem shown_config_saves_back:
  assumes "find_site i st = Some r" "sr_config r = wd_marshal w e" "trim_space (wd_marshal w e) \<noteq> []"
    and "wd_unmarshal w (wd_marshal w e) = Some e" "settings_distinct e"
    and "sq_method get = ''GET''" "snd (site_config_handler sys w m get i st) = SiteConfigReply shown"
    and "sq_method put = ''PUT''" "bd_config (sq_body put) = Some shown"
    and "site_config_handler sys w m put i st = (st', SiteVersionReply v)"
  shows "list_all (\<lambda>(p, s). secret_key s = []) (case cdn_provider_settings (security shown) of None \<Rightarrow> [] | Some ps \<Rightarrow> ps) \<and>
    map_option sr_config (find_site i st') = Some (sr_config r) \<and>
    get_site_config w i st' = get_site_config w i st"
proof -
  have row: "sr_config r \<noteq> []" using assms(2,3) by auto
  have get: "get_site_config w i st = Inr (apply_decrypted_cdn_secrets w e)"
    and shown: "shown = redact_site_config_secrets (apply_decrypted_cdn_secrets w e)"
    using assms(1,2,4,6,7) row
    by (auto simp: site_config_handler_def get_site_config_def guarded_def res_bind_Inr_iff run_sql_def
        read_site_config_def res_bind_def split: sum.splits if_splits)
  have "existing_config w (sr_config r) = Inr e" using assms(2,3,4) by (simp add: existing_config_def)
  moreover obtain st1 where up: "update_site_config w i shown (sq_operator put) ''update'' st = (st1, Inr v)"
    "st' = audited w ''site_config_update'' i (sq_operator put) [(''version_id'', cv_id v)] st1"
    using assms(8-10) by (auto simp: site_config_handler_def Let_def split: if_splits prod.splits sum.splits)
  ultimately have st1: "st1 = store_site_config w i (wd_marshal w e) v st"
    using update_site_config_Inr [OF up(1)] assms(1) merge_redacted [OF assms(5), of w, folded shown] by fastforce
  have ready: "db_ready st" "wd_sql w SelectSiteConfig" "db_ready st1"
    using get by (auto simp: get_site_config_def res_bind_Inr_iff st1 store_site_config_def)
  have "get_site_config w i st' = get_site_config w i st"
    using ready row assms(2,4) unfolding get
    by (simp add: up(2) st1 get_site_config_def guarded_def run_sql_def find_site_stored [OF assms(1)] read_site_config_def)
  moreover have "map_option sr_config (find_site i st') = Some (sr_config r)"
    by (simp add: up(2) st1 find_site_stored [OF assms(1)] assms(2))
  moreover have "list_all (\<lambda>(p, s). secret_key s = []) (map (\<lambda>(p, s). (p, blind s)) ps)" for ps
    by (induction ps) (auto simp: blind_def)
  ultimately show ?thesis by (auto simp: shown redact_decrypted split: option.split)
qed

definition get_request :: site_request where
  "get_request = \<lparr>sq_method = ''GET'', sq_path = ''/api/v1/sites/s/config'', sq_param = (\<lambda>_. []), sq_operator = ''op'',
     sq_body = blank_body\<rparr>"

definition sealed_cloudflare :: config where
  "sealed_cloudflare = zero_config\<lparr>security := (security zero_config)\<lparr>
     allowed_cdn_providers := [''cloudflare''],
     cdn_provider_settings := Some [(''cloudflare'', zero_setting\<lparr>secret_key := ''enc:v1:top''\<rparr>)]\<rparr>\<rparr>"

definition cloudflare_world :: world where
  "cloudflare_world = sample_world\<lparr>wd_unmarshal := (\<lambda>_. Some sealed_cloudflare)\<rparr>"

theorem shown_config_saves_back_witness:
  "map_option sr_config (find_site ''s'' (fst (site_config_handler sample_system cloudflare_world sample_manager
     (put_request (redact_site_config_secrets (apply_decrypted_cdn_secrets cloudflare_world sealed_cloudflare)))
     ''s'' (sample_store 7)))) = Some ''{}''"
proof -
  let ?shown = "redact_site_config_secrets (apply_decrypted_cdn_secrets cloudflare_world sealed_cloudflare)"
  let ?put = "site_config_handler sample_system cloudflare_world sample_manager (put_request ?shown) ''s'' (sample_store 7)"
  let ?row = "\<lparr>sr_site = sample_site, sr_config = ''{}''\<rparr>"
  have f: "find_site ''s'' (sample_store 7) = Some ?row" by code_simp
  have j: "sr_config ?row = wd_marshal cloudflare_world sealed_cloudflare"
    "wd_unmarshal cloudflare_world (wd_marshal cloudflare_world sealed_cloudflare) = Some sealed_cloudflare"
    by (simp_all add: cloudflare_world_def sample_world_def)
  have t: "trim_space (wd_marshal cloudflare_world sealed_cloudflare) \<noteq> []" by code_simp
  have d: "settings_distinct sealed_cloudflare" by code_simp
  have g: "sq_method get_request = ''GET''" "snd (site_config_handler sample_system cloudflare_world sample_manager
      get_request ''s'' (sample_store 7)) = SiteConfigReply ?shown" by code_simp+
  have p: "sq_method (put_request ?shown) = ''PUT''" "bd_config (sq_body (put_request ?shown)) = Some ?shown"
    by (simp_all add: put_request_def)
  have r: "?put = (fst ?put, SiteVersionReply next_version)" by code_simp
  have "map_option sr_config (find_site ''s'' (fst ?put)) = Some (sr_config ?row)"
    using shown_config_saves_back [OF f j(1) t j(2) d g p r] by blast
  then show ?thesis by (simp only: site_row.simps)
qed

section \<open>No reply has a secret\<close>

lemma redacted_blank:
  "cdn_provider_settings (security (redact_site_config_secrets c)) = Some m \<Longrightarrow> (p, s) \<in> set m \<Longrightarrow> secret_key s = []"
  by (auto simp: redact_site_config_secrets_def map_settings_def split: option.splits)

text \<open>
  C32. Requests to sites show no provider secret. Whatever configuration a reply of the router has,
  the current one or a version, each secret in it is blank; and a list of differences is that
  of two configurations without secrets, so that two configurations that differ in secrets
  only have the same list.
\<close>

theorem site_replies_show_no_secret:
  assumes "snd (site_router ou rq ad) = reply"
  shows "(\<forall>cfg m p s. reply = SiteConfigReply cfg \<longrightarrow> cdn_provider_settings (security cfg) = Some m \<longrightarrow>
      (p, s) \<in> set m \<longrightarrow> secret_key s = []) \<and>
    (\<forall>items. reply = SiteDiffReply items \<longrightarrow> (\<exists>base target.
      build_config_diff (ou_to_map ou) (redact_site_config_secrets base) (redact_site_config_secrets target) = Some items))"
proof (intro conjI allI impI)
  have shown: "\<exists>c. cfg = redact_site_config_secrets c" if "reply = SiteConfigReply cfg" for cfg
    using assms that
    by (cases "site_route_of (sq_path rq)")
      (auto simp: site_router_def Let_def on_store_def from_store_def on_server_def not_found_def bad_request_def
        no_method_def site_detail_def site_config_handler_def site_config_validate_def site_config_diff_def
        site_config_versions_def site_config_version_detail_def site_config_version_delete_def
        site_config_rollback_def site_log_stream_def site_log_history_def site_cdn_origin_status_def
        site_cdn_origin_refresh_def split: option.splits sum.splits prod.splits if_splits)
  fix cfg m p s
  assume "reply = SiteConfigReply cfg" "cdn_provider_settings (security cfg) = Some m" "(p, s) \<in> set m"
  then show "secret_key s = []" using shown redacted_blank by blast
next
  fix items
  assume "reply = SiteDiffReply items"
  then show "\<exists>base target. build_config_diff (ou_to_map ou) (redact_site_config_secrets base)
      (redact_site_config_secrets target) = Some items"
    using assms
    by (cases "site_route_of (sq_path rq)")
      (auto simp: site_router_def Let_def on_store_def from_store_def on_server_def not_found_def bad_request_def
        no_method_def site_detail_def site_config_handler_def site_config_validate_def site_config_diff_def
        site_config_versions_def site_config_version_detail_def site_config_version_delete_def
        site_config_rollback_def site_log_stream_def site_log_history_def site_cdn_origin_status_def
        site_cdn_origin_refresh_def split: option.splits sum.splits prod.splits if_splits)
qed

theorem site_replies_show_no_secret_witness:
  "\<exists>cfg. snd (site_router (codec_outside\<lparr>ou_world := (\<lambda>_. cloudflare_world)\<rparr>) get_request
      \<lparr>ad_manager = sample_manager, ad_store = Some (sample_store 7)\<rparr>) = SiteConfigReply cfg \<and>
    (\<exists>s. cdn_provider_settings (security cfg) = Some [(''cloudflare'', s)] \<and> secret_key s = [])"
proof -
  let ?r = "snd (site_router (codec_outside\<lparr>ou_world := (\<lambda>_. cloudflare_world)\<rparr>) get_request
      \<lparr>ad_manager = sample_manager, ad_store = Some (sample_store 7)\<rparr>)"
  let ?c = "redact_site_config_secrets (apply_decrypted_cdn_secrets cloudflare_world sealed_cloudflare)"
  have "site_route_of (sq_path get_request) = SiteConfig ''s''" by code_simp
  moreover have "site_config_handler sample_system cloudflare_world sample_manager get_request ''s'' (sample_store 7) =
      (sample_store 7, SiteConfigReply ?c)" by code_simp
  ultimately have r: "?r = SiteConfigReply ?c"
    by (simp add: site_router_def on_store_def codec_outside_def)
  obtain s where s: "cdn_provider_settings (security ?c) = Some [(''cloudflare'', s)]"
    by (simp add: redact_decrypted sealed_cloudflare_def)
  have "secret_key s = []"
    using site_replies_show_no_secret [OF r] s by auto
  then show ?thesis using r s by blast
qed

section \<open>Paths\<close>

fun route_parts :: "site_route \<Rightarrow> string list" where
  "route_parts (SiteDetail i) = [i]"
| "route_parts (SiteConfig i) = [i, ''config'']"
| "route_parts (SiteConfigValidate i) = [i, ''config'', ''validate'']"
| "route_parts (SiteConfigDiff i) = [i, ''config'', ''diff'']"
| "route_parts (SiteConfigVersions i) = [i, ''config'', ''versions'']"
| "route_parts (SiteConfigVersion i vid) = [i, ''config'', ''versions'', vid]"
| "route_parts (SiteConfigRollback i) = [i, ''config'', ''rollback'']"
| "route_parts (SiteLogStream i) = [i, ''log'', ''stream'']"
| "route_parts (SiteLogHistory i) = [i, ''log'', ''history'']"
| "route_parts (SiteOriginStatus i) = [i, ''cdn'', ''origin'', ''status'']"
| "route_parts (SiteOriginRefresh i) = [i, ''cdn'', ''origin'', ''refresh'']"
| "route_parts _ = []"

definition route_path :: "site_route \<Rightarrow> string" where
  "route_path r = sites_prefix @ join_with ''/'' (route_parts r)"

lemma trim_prefix_sites: "trim_prefix (sites_prefix @ t) sites_prefix = t"
  by (simp add: trim_prefix_def has_prefix_def)

lemma route_of_parts:
  assumes "plain_id i" "list_all (\<lambda>p. CHR ''/'' \<notin> set p) rest"
  shows "site_route_of (sites_prefix @ join_with ''/'' (i # rest)) =
    (case rest of
       [] \<Rightarrow> SiteDetail i
     | p # parts \<Rightarrow>
         if p = ''config'' then route_site_config i parts
         else if p = ''log'' then route_site_log i parts
         else if p = ''cdn'' then route_site_cdn i parts
         else NoRoute)"
proof -
  let ?tail = "join_with ''/'' (i # rest)"
  have split: "split_on (CHR ''/'') ?tail = i # rest"
    by (rule split_on_join) (use assms in \<open>auto simp: plain_id_def\<close>)
  have "?tail \<noteq> []" using assms(1) by (cases rest) (auto simp: plain_id_def)
  moreover have "?tail \<noteq> sites_prefix @ ?tail" by (simp add: sites_prefix_def)
  ultimately show ?thesis
    using assms(1) by (simp add: site_route_of_def trim_prefix_sites split plain_id_def Let_def)
qed

text \<open>
  The path of each operation leads to it. For a site identifier that has no slash and no
  space around it, the path that is built for an operation is parsed as that operation, with
  the identifiers that were put in, so that no operation shadows another.
\<close>

theorem site_paths_roundtrip:
  assumes "plain_id i" "CHR ''/'' \<notin> set vid"
    and "r \<in> set ([SiteDetail i, SiteConfig i, SiteConfigValidate i, SiteConfigDiff i, SiteConfigVersions i,
      SiteConfigVersion i vid, SiteConfigRollback i, SiteLogStream i, SiteLogHistory i, SiteOriginStatus i,
      SiteOriginRefresh i])"
  shows "site_route_of (route_path r) = r"
proof -
  have tail: "drop_blank_tail [''origin'', ''status''] = [''origin'', ''status'']" "drop_blank_tail [''status''] = [''status'']"
    "drop_blank_tail [''origin'', ''refresh''] = [''origin'', ''refresh'']" "drop_blank_tail [''refresh''] = [''refresh'']"
    by code_simp+
  show ?thesis
    using assms(3) route_of_parts [OF assms(1)] assms(2)
    by (auto simp: route_path_def route_site_config_def route_site_log_def route_site_cdn_def route_site_cdn_origin_def
        tail simp del: join_with.simps)
qed

theorem site_paths_roundtrip_witness:
  "site_route_of ''/api/v1/sites/a1/config/versions/v 2'' = SiteConfigVersion ''a1'' ''v 2''"
proof -
  have "plain_id ''a1''" by code_simp
  then have "site_route_of (route_path (SiteConfigVersion ''a1'' ''v 2'')) = SiteConfigVersion ''a1'' ''v 2''"
    by (rule site_paths_roundtrip) simp_all
  then show ?thesis by (simp add: route_path_def sites_prefix_def)
qed

section \<open>A refresh on demand\<close>

definition unsourced :: "store \<Rightarrow> store" where
  "unsourced st = st\<lparr>cdn_snapshots := map (\<lambda>r. r\<lparr>sn_source := []\<rparr>) (cdn_snapshots st)\<rparr>"

lemma save_snapshot_cases:
  obtains e where "\<And>src. save_site_cdn_origin_snapshot w i p cs t src st = (st, Inl e)"
  | row where "\<And>src. save_site_cdn_origin_snapshot w i p cs t src st =
      (st\<lparr>cdn_snapshots := cdn_snapshots st @ [row\<lparr>sn_source := src\<rparr>]\<rparr>, Inr (row\<lparr>sn_source := src\<rparr>))"
proof (cases "save_site_cdn_origin_snapshot w i p cs t [] st")
  case (Pair a r)
  show thesis
  proof (cases r)
    case (Inl e)
    with Pair have "save_site_cdn_origin_snapshot w i p cs t src st = (st, Inl e)" for src
      by (auto simp: save_site_cdn_origin_snapshot_def commit_def guarded_def site_and_provider_def res_bind_def
          run_sql_def new_id_def Let_def split: if_splits option.splits sum.splits)
    then show thesis by (rule that(1))
  next
    case (Inr row)
    with Pair have "save_site_cdn_origin_snapshot w i p cs t src st =
        (st\<lparr>cdn_snapshots := cdn_snapshots st @ [row\<lparr>sn_source := src\<rparr>]\<rparr>, Inr (row\<lparr>sn_source := src\<rparr>))" for src
      by (auto simp: save_site_cdn_origin_snapshot_def commit_def guarded_def site_and_provider_def res_bind_def
          run_sql_def new_id_def Let_def split: if_splits option.splits sum.splits)
    then show thesis by (rule that(2))
  qed
qed

lemma upsert_snapshots:
  "fst (upsert_site_cdn_origin_status w i p u (st\<lparr>cdn_snapshots := x\<rparr>)) =
     (fst (upsert_site_cdn_origin_status w i p u st))\<lparr>cdn_snapshots := x\<rparr>"
  by (auto simp: upsert_site_cdn_origin_status_def guarded_def site_and_provider_def put_status_def find_status_def
      res_bind_def run_sql_def Let_def split: sum.splits if_splits)

lemma record_success_source:
  "sy_manager (record_success w j cs (s\<lparr>sy_store := st\<lparr>cdn_snapshots := x\<rparr>\<rparr>)) =
     sy_manager (record_success w j cs (s\<lparr>sy_store := st\<rparr>))"
  "sy_store (record_success w j cs (s\<lparr>sy_store := st\<lparr>cdn_snapshots := x\<rparr>\<rparr>)) =
     (sy_store (record_success w j cs (s\<lparr>sy_store := st\<rparr>)))\<lparr>cdn_snapshots := x\<rparr>"
  by (simp_all add: record_success_def record_status_def upsert_snapshots Let_def)

lemma supported_provider:
  "to_lower (trim_space p) = p \<Longrightarrow> build_origin_provider p s = build_cdn_provider p s"
  by (simp add: build_origin_provider_def build_cdn_provider_def)

text \<open>
  A refresh on demand is a job. For a provider in its normal form that is supported, what
  \<open>siteCDNOriginRefresh\<close> leaves in memory and in the store is what a job of the synchroniser
  leaves, but for the source that the snapshot names; the result that is reported is a success
  exactly when the list was fetched and its snapshot saved. For a provider that is not
  supported the refresh leaves no trace, where the job records a failure.
\<close>

theorem refresh_is_a_job:
  assumes "to_lower (trim_space (oj_provider j)) = oj_provider j"
  shows "(case build_cdn_provider (oj_provider j) (oj_settings j) of
     None \<Rightarrow> refresh_provider ou ws j s = (s, refresh_failed (oj_provider j) ''cdn provider is not supported'') \<and>
       run_job (ou_fetch ou) (ou_error_text ou) ws j s =
         record_failure (ws 1) j ''cdn provider is not supported''
           (record_status (ws 0) j (job_update j (previous_failures j) [] None) s)
   | Some provider \<Rightarrow>
       (let job = run_job (ou_fetch ou) (ou_error_text ou) ws j s; (s', result) = refresh_provider ou ws j s in
        sy_manager s' = sy_manager job \<and> unsourced (sy_store s') = unsourced (sy_store job) \<and>
        (rr_ok result \<longleftrightarrow> (\<exists>cidrs. ou_fetch ou provider = Inr cidrs \<and> rr_count result = length cidrs \<and>
          (\<exists>row. snd (save_site_cdn_origin_snapshot (ws 1) (oj_site j) (oj_provider j) cidrs (oj_attempt j) ''manual''
             (sy_store (record_status (ws 0) j (job_update j (previous_failures j) [] None) s))) = Inr row)))))"
proof (cases "build_cdn_provider (oj_provider j) (oj_settings j)")
  case None
  then show ?thesis
    by (simp add: refresh_provider_def run_job_def supported_provider [OF assms] Let_def)
next
  case p: (Some p)
  define s1 where "s1 = record_status (ws 0) j (job_update j (previous_failures j) [] None) s"
  note r = refresh_provider_def [of ou ws j s, unfolded Let_def, folded s1_def]
  note q = run_job_def [of "ou_fetch ou" "ou_error_text ou" ws j s, unfolded Let_def, folded s1_def]
  show ?thesis
  proof (cases "ou_fetch ou p")
    case (Inl err)
    then show ?thesis
      by (simp add: p r q supported_provider [OF assms] refresh_failed_def)
  next
    case (Inr cs)
    show ?thesis
    proof (rule save_snapshot_cases [where w = "ws 1" and i = "oj_site j" and p = "oj_provider j" and cs = cs
          and t = "oj_attempt j" and st = "sy_store s1"])
      fix e assume "\<And>src. save_site_cdn_origin_snapshot (ws 1) (oj_site j) (oj_provider j) cs (oj_attempt j) src (sy_store s1) =
        (sy_store s1, Inl e)"
      then show ?thesis
        by (simp add: p r q Inr supported_provider [OF assms] refresh_failed_def s1_def [symmetric] del: One_nat_def)
    next
      fix row assume "\<And>src. save_site_cdn_origin_snapshot (ws 1) (oj_site j) (oj_provider j) cs (oj_attempt j) src (sy_store s1) =
        ((sy_store s1)\<lparr>cdn_snapshots := cdn_snapshots (sy_store s1) @ [row\<lparr>sn_source := src\<rparr>]\<rparr>, Inr (row\<lparr>sn_source := src\<rparr>))"
      then show ?thesis
        by (simp add: p r q Inr supported_provider [OF assms] s1_def [symmetric] record_success_source unsourced_def
            del: One_nat_def)
    qed
  qed
qed

theorem refresh_is_a_job_witness:
  "let s = \<lparr>sy_manager = sample_manager, sy_store = sample_store 7\<rparr>;
       (s', result) = refresh_provider codec_outside (\<lambda>_. sample_world) sample_job s in
   unsourced (sy_store s') =
     unsourced (sy_store (run_job (ou_fetch codec_outside) (ou_error_text codec_outside) (\<lambda>_. sample_world) sample_job s)) \<and>
   \<not> rr_ok result"
proof -
  let ?s = "\<lparr>sy_manager = sample_manager, sy_store = sample_store 7\<rparr>"
  have n: "to_lower (trim_space (oj_provider sample_job)) = oj_provider sample_job" by code_simp
  have b: "build_cdn_provider (oj_provider sample_job) (oj_settings sample_job) = Some (Cloudflare [])" by code_simp
  have f: "ou_fetch codec_outside (Cloudflare []) = Inl ''down''" by (simp add: codec_outside_def)
  show ?thesis
    using refresh_is_a_job [OF n, of codec_outside "\<lambda>_. sample_world" ?s] by (simp add: b f Let_def split_def)
qed

end
