(* ===== verification/Watcher.thy ===== *)
theory Watcher
  imports ControlPlaneProps
begin

text \<open>
  The start of the gateway's configuration (\<open>run\<close> in \<open>main.go\<close>) and its hot reload: the watcher
  of \<open>internal/config/watcher.go\<close> looks at the modification time of the file with every tick and
  reloads it when it is later than that of the last reload. What a tick finds, the time of the
  file and what reading it gives, is an argument: the file may change between the two.
\<close>

section \<open>The code\<close>

record watcher =
  wt_manager :: manager
  wt_last_mod :: gotime

datatype watch_event = StatFailed | Unmodified | ReloadFailed | Reloaded

definition new_watcher :: "gotime option \<Rightarrow> manager \<Rightarrow> watcher option" where
  "new_watcher stat m = map_option (\<lambda>t. \<lparr>wt_manager = m, wt_last_mod = t\<rparr>) stat"

definition watcher_tick :: "gotime option \<times> system \<Rightarrow> watcher \<Rightarrow> watcher \<times> watch_event" where
  "watcher_tick found w =
     (case found of
        (None, _) \<Rightarrow> (w, StatFailed)
      | (Some mod_time, sys) \<Rightarrow>
          if \<not> mod_time > wt_last_mod w then (w, Unmodified)
          else
            (case reload sys (wt_manager w) of
               (m, Some _) \<Rightarrow> (w\<lparr>wt_manager := m\<rparr>, ReloadFailed)
             | (m, None) \<Rightarrow> (w\<lparr>wt_manager := m, wt_last_mod := mod_time\<rparr>, Reloaded)))"

text \<open>The first \<open>n\<close> ticks.\<close>

primrec watch :: "(nat \<Rightarrow> gotime option \<times> system) \<Rightarrow> nat \<Rightarrow> watcher \<Rightarrow> watcher" where
  "watch found 0 w = w"
| "watch found (Suc n) w = fst (watcher_tick (found n) (watch found n w))"

text \<open>
  At the start the environment overrides the file twice: in \<open>NewManager\<close> and again in \<open>run\<close>.
\<close>

definition start_manager :: "system \<Rightarrow> environ \<Rightarrow> string \<Rightarrow> config_error + manager" where
  "start_manager sys env path =
     res_bind (new_manager sys env path) (\<lambda>m.
       case apply_config sys (apply_env_overrides env (current_config m)) m of
         (m1, Some e) \<Rightarrow> Inl e
       | (m1, None) \<Rightarrow> Inr m1)"

section \<open>A new file is adopted\<close>

lemma reload_failed: "reload sys m = (m', Some e) \<Longrightarrow> m' = m"
  by (auto simp: reload_def apply_config_def split: sum.splits)

lemma tick_unmodified: "t \<le> wt_last_mod w \<Longrightarrow> watcher_tick (Some t, sys) w = (w, Unmodified)"
  by (simp add: watcher_tick_def)

lemma tick_failed:
  "snd (reload sys (wt_manager w)) \<noteq> None \<Longrightarrow> fst (watcher_tick (stat, sys) w) = w"
  using reload_failed [of sys "wt_manager w"]
  by (auto simp: watcher_tick_def split: option.split prod.split)

lemma watch_stays:
  assumes "n \<le> k" "\<And>i. n \<le> i \<Longrightarrow> i < k \<Longrightarrow> fst (watcher_tick (found i) (watch found n w)) = watch found n w"
  shows "watch found k w = watch found n w"
  using assms by (induction k rule: dec_induct) simp_all

text \<open>
  C24. A changed file is adopted. Once the file has a time later than the last reload and keeps it,
  and some later tick can load it, the watcher reloads it with the first such tick: until then
  it keeps the old configuration, however many reloads fail, and from then on it has the new
  one and reloads no more.
\<close>

theorem watcher_adopts:
  assumes "\<And>k. n \<le> k \<Longrightarrow> fst (found k) = Some t" "wt_last_mod (watch found n w) < t"
    and "\<exists>k\<ge>n. snd (reload (snd (found k)) (wt_manager (watch found n w))) = None"
  shows "\<exists>k\<ge>n. (\<forall>j\<in>set [n..<Suc k]. watch found j w = watch found n w) \<and>
    (\<forall>j>k. watch found j w =
       \<lparr>wt_manager = fst (reload (snd (found k)) (wt_manager (watch found n w))), wt_last_mod = t\<rparr>)"
proof -
  let ?w = "watch found n w"
  let ?ok = "\<lambda>k. n \<le> k \<and> snd (reload (snd (found k)) (wt_manager ?w)) = None"
  define k where "k = (LEAST k. ?ok k)"
  have k: "n \<le> k" "snd (reload (snd (found k)) (wt_manager ?w)) = None"
    using assms(3) LeastI_ex [of ?ok] unfolding k_def by blast+
  have before: "snd (reload (snd (found i)) (wt_manager ?w)) \<noteq> None" if "n \<le> i" "i < k" for i
    using not_less_Least [of i ?ok] that unfolding k_def by auto
  have old: "watch found j w = ?w" if "n \<le> j" "j \<le> k" for j
  proof (rule watch_stays [OF that(1)])
    fix i assume "n \<le> i" "i < j"
    then show "fst (watcher_tick (found i) ?w) = ?w"
      using before [of i] that(2) tick_failed [of "snd (found i)" ?w "fst (found i)"] by simp
  qed
  let ?new = "\<lparr>wt_manager = fst (reload (snd (found k)) (wt_manager ?w)), wt_last_mod = t\<rparr>"
  obtain sys where f: "found k = (Some t, sys)" using assms(1) [OF k(1)] by (cases "found k") auto
  obtain m where m: "reload sys (wt_manager ?w) = (m, None)"
    using k(2) f by (cases "reload sys (wt_manager ?w)") auto
  have step: "watch found (Suc k) w = ?new"
    using old [OF k(1)] assms(2) by (simp add: watcher_tick_def f m)
  have later: "watch found j w = ?new" if "Suc k \<le> j" for j
  proof -
    have "watch found j w = watch found (Suc k) w"
    proof (rule watch_stays [OF that])
      fix i assume "Suc k \<le> i"
      then have "fst (found i) = Some t" using assms(1) k(1) by simp
      then show "fst (watcher_tick (found i) (watch found (Suc k) w)) = watch found (Suc k) w"
        unfolding step by (cases "found i") (simp add: tick_unmodified)
    qed
    then show ?thesis by (simp only: step)
  qed
  show ?thesis
  proof (intro exI [of _ k] conjI ballI allI impI)
    show "n \<le> k" by (rule k(1))
    fix j show "watch found j w = ?w" if "j \<in> set [n..<Suc k]" using that by (intro old) auto
    show "watch found j w = ?new" if "k < j" using that by (intro later) auto
  qed
qed

text \<open>A file that becomes later at tick 2 and can be read from tick 3 on.\<close>

definition file_system :: "(config \<Rightarrow> config) option \<Rightarrow> system" where
  "file_system content = sample_system\<lparr>sys_read_file := (\<lambda>_. Some ''{}''),
     sys_decode := (\<lambda>d raw. map_option (\<lambda>f. f d) content)\<rparr>"

definition edited_file :: "nat \<Rightarrow> gotime option \<times> system" where
  "edited_file k = (Some (if k < 2 then 5 else 9),
     file_system (if k < 3 then None else Some (\<lambda>d. d\<lparr>security := (security d)\<lparr>enable_hsts := True\<rparr>\<rparr>)))"

theorem watcher_adopts_witness:
  "\<exists>k\<ge>2. enable_hsts (security (current_config (wt_manager (watch edited_file (Suc k)
     \<lparr>wt_manager = sample_manager, wt_last_mod = 5\<rparr>))))"
proof -
  let ?w = "\<lparr>wt_manager = sample_manager, wt_last_mod = 5\<rparr>"
  have t: "\<And>k. 2 \<le> k \<Longrightarrow> fst (edited_file k) = Some 9" by (simp add: edited_file_def)
  have w: "watch edited_file 2 ?w = ?w" by (simp add: eval_nat_numeral watcher_tick_def edited_file_def)
  have late: "wt_last_mod (watch edited_file 2 ?w) < 9" by (simp add: w)
  have "snd (reload (snd (edited_file 3)) sample_manager) = None" by code_simp
  then have ok: "\<exists>k\<ge>2. snd (reload (snd (edited_file k)) (wt_manager (watch edited_file 2 ?w))) = None"
    by (intro exI [of _ 3]) (simp add: w)
  have bad: "snd (reload (snd (edited_file 2)) sample_manager) \<noteq> None" by code_simp
  have good: "enable_hsts (security (current_config (fst (reload (snd (edited_file 3)) sample_manager))))" by code_simp
  have same: "edited_file k = edited_file 3" if "3 \<le> k" for k using that by (simp add: edited_file_def)
  obtain k where k: "k \<ge> 2" "watch edited_file (Suc k) ?w =
      \<lparr>wt_manager = fst (reload (snd (edited_file k)) sample_manager), wt_last_mod = 9\<rparr>"
    using watcher_adopts [OF t late ok] by (auto simp: w)
  have "k \<noteq> 2"
  proof
    assume "k = 2"
    then have "watch edited_file 3 ?w = ?w"
      using bad w by (simp add: eval_nat_numeral tick_failed [of _ ?w, simplified] edited_file_def)
    with k(2) \<open>k = 2\<close> show False by (simp add: eval_nat_numeral)
  qed
  then show ?thesis using k same [of k] good by (intro exI [of _ k]) simp
qed

section \<open>A reload forgets the environment\<close>

lemma apply_config_auth:
  assumes "apply_config sys cfg m = (m', None)"
  shows "cp_auth (control_plane (current_config m')) = cp_auth (control_plane cfg)"
  unfolding apply_config_current [OF assms] by (simp add: prepare_routing_and_load_balancer_def)

lemma apply_config_path: "apply_config sys cfg m = (m', r) \<Longrightarrow> mgr_path m' = mgr_path m"
  by (auto simp: apply_config_def split: sum.splits)

lemma accepted_Inr: "(case r of (m, Some e) \<Rightarrow> Inl e | (m, None) \<Rightarrow> Inr m) = Inr x \<longleftrightarrow> r = (x, None)"
  by (cases r; cases "snd r") auto

definition env_auth :: "environ \<Rightarrow> auth_config \<Rightarrow> auth_config" where
  "env_auth env a = a\<lparr>auth_username := env_or_default env ''ADMIN_USERNAME'' (auth_username a),
     auth_password := env_or_default env ''ADMIN_PASSWORD'' (auth_password a),
     auth_token := env_or_default env ''ADMIN_API_TOKEN'' (auth_token a)\<rparr>"

lemma apply_env_auth: "cp_auth (control_plane (apply_env_overrides env cfg)) = env_auth env (cp_auth (control_plane cfg))"
  by (simp add: apply_env_overrides_def env_plain_overrides_def env_upstream_override_def env_cidrs_override_def
      env_auth_def Let_def)

text \<open>
  C33. A reload forgets the environment. After the start the user name, password and token of the
  control plane are those of the environment where it sets them; after the first reload, by
  the watcher or by the handler, they are those of the file alone. A file that has no password
  then stands for the default one: who logs in with it gets the token.
\<close>

theorem reload_forgets_environment:
  assumes "load_config sys path = Inr cfg" "start_manager sys env path = Inr m"
    and "load_config sys2 path = Inr cfg2" "reload sys2 m = (m', None)"
  shows "cp_auth (control_plane (current_config m)) = env_auth env (cp_auth (control_plane cfg)) \<and>
    cp_auth (control_plane (current_config m')) = cp_auth (control_plane cfg2)"
proof -
  from assms(1,2) obtain m0 m1 where s: "apply_config sys (apply_env_overrides env cfg) m0 = (m1, None)"
    "apply_config sys (apply_env_overrides env (current_config m1)) m1 = (m, None)" "mgr_path m0 = path"
    by (auto simp: start_manager_def new_manager_def res_bind_Inr_iff accepted_Inr)
  have "env_auth env (env_auth env a) = env_auth env a" for a
    by (simp add: env_auth_def env_or_default_idem)
  then have "cp_auth (control_plane (current_config m)) = env_auth env (cp_auth (control_plane cfg))"
    using apply_config_auth [OF s(1)] apply_config_auth [OF s(2)] by (simp add: apply_env_auth)
  moreover have "mgr_path m = path" using apply_config_path [OF s(1)] apply_config_path [OF s(2)] s(3) by simp
  then have "apply_config sys2 cfg2 m = (m', None)" using assms(3,4) by (simp add: reload_def)
  ultimately show ?thesis using apply_config_auth by blast
qed

definition token_file :: system where
  "token_file = file_system (Some (\<lambda>d. d\<lparr>control_plane := (control_plane d)\<lparr>cp_auth :=
     (cp_auth (control_plane d))\<lparr>auth_token := ''t''\<rparr>\<rparr>\<rparr>))"

definition password_environment :: environ where
  "password_environment name = (if name = ''ADMIN_PASSWORD'' then ''s3cret'' else [])"

definition login_request :: admin_request where
  "login_request = \<lparr>aq_method = ''POST'', aq_remote_addr = ''10.0.0.9:1'', aq_xff = [], aq_real_ip = [],
     aq_authorization = [], aq_operator = []\<rparr>"

definition login_with :: "string \<Rightarrow> manager \<Rightarrow> login_response" where
  "login_with password m = snd (login (cp_auth (control_plane (current_config m))) None 0 login_request
     (Some \<lparr>cr_username = ''admin'', cr_password = password, cr_captcha_id = [], cr_captcha_code = []\<rparr>)
     (new_login_guard (30 * minute)))"

theorem reload_forgets_environment_witness:
  "\<exists>m m'. start_manager token_file password_environment ''/etc/gateway.json'' = Inr m \<and>
     reload token_file m = (m', None) \<and>
     login_with ''change_me'' m = InvalidCredentials \<and> login_with ''change_me'' m' = LoggedIn ''t'' ''admin''"
proof -
  let ?start = "start_manager token_file password_environment ''/etc/gateway.json''"
  obtain cfg where cfg: "load_config token_file ''/etc/gateway.json'' = Inr cfg"
    "cp_auth (control_plane cfg) = \<lparr>auth_username = ''admin'', auth_password = ''change_me'', auth_token = ''t''\<rparr>"
    by (simp add: load_config_def token_file_def file_system_def default_config_def)
  have "isl ?start = False" by code_simp
  then obtain m where m: "?start = Inr m" by (cases ?start) auto
  have "snd (reload token_file (projr ?start)) = None" by code_simp
  then obtain m' where m': "reload token_file m = (m', None)" by (cases "reload token_file m") (auto simp: m)
  note auth = reload_forgets_environment [OF cfg(1) m cfg(1) m']
  have "env_auth password_environment \<lparr>auth_username = ''admin'', auth_password = ''change_me'', auth_token = ''t''\<rparr> =
      \<lparr>auth_username = ''admin'', auth_password = ''s3cret'', auth_token = ''t''\<rparr>" by code_simp
  with auth have a: "cp_auth (control_plane (current_config m)) =
      \<lparr>auth_username = ''admin'', auth_password = ''s3cret'', auth_token = ''t''\<rparr>"
    "cp_auth (control_plane (current_config m')) =
      \<lparr>auth_username = ''admin'', auth_password = ''change_me'', auth_token = ''t''\<rparr>"
    by (simp_all add: cfg(2))
  have "login_with ''change_me'' m = InvalidCredentials" "login_with ''change_me'' m' = LoggedIn ''t'' ''admin''"
    unfolding login_with_def a by code_simp+
  then show ?thesis using m m' by blast
qed

end
