(* ===== verification/RootRoutes.thy ===== *)
theory RootRoutes
  imports ConfigTypes NetIP
begin

text \<open>
  Where a request goes before any component sees it (\<open>internal/app/http_routes.go\<close>,
  \<open>http_helpers.go\<close>): control plane, user interface or data plane by path, the files of the
  user interface, the redirect to HTTPS, and the HSTS header.
\<close>

section \<open>The root handler\<close>

text \<open>\<open>ToAdmin\<close> has the path that \<open>http.StripPrefix\<close> leaves.\<close>

datatype root_target =
    MovedTo string
  | ToAdmin string
  | ToUI
  | ServiceStatus
  | NoContent
  | ToData

definition is_ui_asset_path :: "string \<Rightarrow> bool" where
  "is_ui_asset_path path \<longleftrightarrow> has_prefix path ''/assets/'' \<or> path = ''/vite.svg'' \<or> path = ''/favicon.ico''"

definition build_root_handler :: "bool \<Rightarrow> string \<Rightarrow> root_target" where
  "build_root_handler has_ui path =
     (if path = ''/admin'' then MovedTo ''/admin/''
      else if path = ''/healthz'' then ToAdmin path
      else if has_prefix path ''/admin/'' then ToAdmin (trim_prefix path ''/admin'')
      else if has_ui \<and> (path = ''/'' \<or> is_ui_asset_path path) then ToUI
      else if path = ''/'' then ServiceStatus
      else if path = ''/favicon.ico'' then NoContent
      else ToData)"

section \<open>The user interface\<close>

text \<open>Which names are files of the interface is an argument; \<open>UiFile\<close> is left to \<open>http.FileServer\<close>.\<close>

datatype ui_answer = UiNotAllowed | UiIndex | UiFile string

definition ui_file_exists :: "(string \<Rightarrow> bool) \<Rightarrow> string \<Rightarrow> bool" where
  "ui_file_exists is_file name \<longleftrightarrow> name \<noteq> [] \<and> is_file name"

definition ui_handler :: "(string \<Rightarrow> bool) \<Rightarrow> string \<Rightarrow> string \<Rightarrow> ui_answer" where
  "ui_handler is_file http_method full =
     (if http_method \<noteq> ''GET'' \<and> http_method \<noteq> ''HEAD'' then UiNotAllowed
      else
        let path = trim_prefix full ''/''; alt = trim_prefix path ''assets/'' in
        if path = [] \<or> has_suffix full ''/'' then UiIndex
        else if ui_file_exists is_file path then UiFile full
        else if has_prefix path ''assets/'' \<and> ui_file_exists is_file alt then UiFile (''/'' @ alt)
        else UiIndex)"

section \<open>HTTPS\<close>

definition resolve_port :: "string \<Rightarrow> string" where
  "resolve_port listen_addr =
     (case split_host_port listen_addr of Some (_, port) \<Rightarrow> port | None \<Rightarrow> ''443'')"

definition build_https_host :: "string \<Rightarrow> string \<Rightarrow> string" where
  "build_https_host source_host target_port =
     (let host = (case split_host_port source_host of Some (h, _) \<Rightarrow> h | None \<Rightarrow> source_host) in
      if target_port = ''443'' then host else join_host_port host target_port)"

text \<open>The host of the redirect, or \<open>None\<close> for a request that came over TLS and is passed on.\<close>

definition redirect_http_to_https :: "string \<Rightarrow> bool \<Rightarrow> string \<Rightarrow> string option" where
  "redirect_http_to_https addr tls host =
     (if tls then None else Some (build_https_host host (resolve_port addr)))"

definition with_hsts :: "config \<Rightarrow> bool \<Rightarrow> string option" where
  "with_hsts cfg tls =
     (if enable_hsts (security cfg) \<and> tls then Some ''max-age=31536000; includeSubDomains'' else None)"

section \<open>What reaches the data plane\<close>

text \<open>
  What the data plane sees. With a user interface, as the program always has one, a request
  goes to the data plane exactly when its path is none of the paths that the root handler
  keeps: the control plane's, the home page, and the assets. So no site behind the gateway is
  ever asked for its home page or for anything below \<open>/assets/\<close>, and the status reply for
  the home page is never given.
\<close>

theorem data_plane_paths:
  "(build_root_handler True path = ToData \<longleftrightarrow>
     path \<notin> {''/'', ''/admin'', ''/healthz'', ''/vite.svg'', ''/favicon.ico''} \<and>
     \<not> has_prefix path ''/admin/'' \<and> \<not> has_prefix path ''/assets/'') \<and>
   build_root_handler True path \<notin> {ServiceStatus, NoContent} \<and>
   (build_root_handler True path = ToUI \<longleftrightarrow> path \<in> {''/'', ''/vite.svg'', ''/favicon.ico''} \<or> has_prefix path ''/assets/'')"
proof -
  have "\<not> (has_prefix path ''/admin/'' \<and> has_prefix path ''/assets/'')" by (auto simp: has_prefix_iff)
  moreover have "\<not> has_prefix ''/admin'' ''/assets/''" "\<not> has_prefix ''/healthz'' ''/assets/''"
    "\<not> has_prefix ''/vite.svg'' ''/admin/''" "\<not> has_prefix ''/favicon.ico'' ''/admin/''" "\<not> has_prefix ''/'' ''/admin/''"
    by (simp_all add: has_prefix_def)
  ultimately show ?thesis by (auto simp: build_root_handler_def is_ui_asset_path_def)
qed

section \<open>The redirect\<close>

definition plain_name :: "string \<Rightarrow> bool" where
  "plain_name h \<longleftrightarrow> set h \<inter> {CHR '':'', CHR ''['', CHR '']'', CHR ''%''} = {}"

lemma cut_last_colon: "CHR '':'' \<notin> set port \<Longrightarrow> cut_last (CHR '':'') (a @ CHR '':'' # port) = Some (a, port)"
proof -
  assume "CHR '':'' \<notin> set port"
  then have c: "\<And>x. x \<in> set (rev port) \<Longrightarrow> x \<noteq> CHR '':''" by auto
  have "takeWhile (\<lambda>x. x \<noteq> CHR '':'') (rev port @ CHR '':'' # rev a) = rev port"
    using c by (subst takeWhile_append2) simp_all
  moreover have "dropWhile (\<lambda>x. x \<noteq> CHR '':'') (rev port @ CHR '':'' # rev a) = CHR '':'' # rev a"
    using c by (subst dropWhile_append2) simp_all
  ultimately show ?thesis by (simp add: cut_last_def)
qed

lemma split_plain: "plain_name h \<Longrightarrow> split_host_port h = None"
  by (simp add: split_host_port_def cut_last_def plain_name_def)

lemma split_plain_port:
  assumes "plain_name h" "plain_name port"
  shows "split_host_port (h @ CHR '':'' # port) = Some (h, port)"
proof -
  have "\<not> has_prefix (h @ CHR '':'' # port) ''[''"
    using assms(1) by (cases h) (auto simp: has_prefix_def plain_name_def)
  then show ?thesis
    using assms by (auto simp: split_host_port_def cut_last_colon plain_name_def)
qed

lemma split_bracketed:
  assumes "set v6 \<inter> {CHR ''['', CHR '']''} = {}" "plain_name port"
  shows "split_host_port (''['' @ v6 @ '']:'' @ port) = Some (v6, port)"
proof -
  have "cut_last (CHR '':'') ((''['' @ v6 @ '']'') @ CHR '':'' # port) = Some (''['' @ v6 @ '']'', port)"
    using assms(2) by (intro cut_last_colon) (simp add: plain_name_def)
  moreover have "before (CHR '']'') (''['' @ v6 @ '']:'' @ port) = ''['' @ v6"
    using assms(1) by (simp add: before_def takeWhile_append2 disjoint_iff)
  ultimately show ?thesis
    using assms by (auto simp: split_host_port_def has_prefix_def plain_name_def)
qed

lemma split_bracketed_alone:
  assumes "set v6 \<inter> {CHR ''['', CHR '']''} = {}"
  shows "split_host_port (''['' @ v6 @ '']'') = None"
proof -
  have "before (CHR '']'') (''['' @ v6 @ '']'') = ''['' @ v6"
    using assms by (simp add: before_def takeWhile_append2 disjoint_iff)
  then show ?thesis by (auto simp: split_host_port_def has_prefix_def split: option.split)
qed

text \<open>
  The redirect to HTTPS keeps the host. For a host without colons, with or without a port,
  the target is the same host at the HTTPS port, which is left out when it is 443. A literal
  IPv6 address loses its brackets when the port is 443, and gets them twice when it came
  without a port: neither target is a valid host.
\<close>

theorem redirect_host:
  assumes "plain_name name" "plain_name old" "CHR '':'' \<in> set v6" "set v6 \<inter> {CHR ''['', CHR '']''} = {}"
    and "resolve_port addr = port"
  shows "redirect_http_to_https addr False name = Some (if port = ''443'' then name else name @ '':'' @ port) \<and>
    redirect_http_to_https addr False (name @ '':'' @ old) =
      Some (if port = ''443'' then name else name @ '':'' @ port) \<and>
    redirect_http_to_https addr False (''['' @ v6 @ '']:'' @ old) =
      Some (if port = ''443'' then v6 else ''['' @ v6 @ '']:'' @ port) \<and>
    redirect_http_to_https addr False (''['' @ v6 @ '']'') =
      Some (if port = ''443'' then ''['' @ v6 @ '']'' else ''[['' @ v6 @ '']]:'' @ port)"
proof -
  have "CHR '':'' \<notin> set name" "CHR ''%'' \<notin> set name" using assms(1) by (auto simp: plain_name_def)
  then show ?thesis
    using assms(3,5) split_plain [OF assms(1)] split_plain_port [OF assms(1,2)] split_bracketed [OF assms(4,2)]
      split_bracketed_alone [OF assms(4)]
    by (simp add: redirect_http_to_https_def build_https_host_def join_host_port_def)
qed

theorem redirect_host_witness:
  "redirect_http_to_https '':8443'' False ''a.org:8080'' = Some ''a.org:8443'' \<and>
   redirect_http_to_https '':443'' False ''[::1]:8080'' = Some ''::1'' \<and>
   redirect_http_to_https '':8443'' False ''[::1]'' = Some ''[[::1]]:8443''"
proof -
  have h: "plain_name ''a.org''" "plain_name ''8080''" "CHR '':'' \<in> set ''::1''" "set ''::1'' \<inter> {CHR ''['', CHR '']''} = {}"
    by (simp_all add: plain_name_def)
  have "resolve_port '':8443'' = ''8443''" "resolve_port '':443'' = ''443''" by code_simp+
  then show ?thesis
    using redirect_host [OF h, of "'':8443''"] redirect_host [OF h, of "'':443''"] by simp
qed

end
