(* ===== verification/Weaver.thy ===== *)
theory Weaver
  imports SiteAdmin
begin

text \<open>
  The drafts of the weaver, an experiment page of the control plane that joins several JSON
  inputs (\<open>internal/store/weaver.go\<close>, \<open>internal/admin/weaver.go\<close>): their rows, the requests
  below \<open>/api/v1/weaver/drafts\<close> and the run of a draft, which decodes the inputs one by one
  into a map. What is proved: what a run of inputs gives, and when a draft that was accepted
  can be run at all.
\<close>

section \<open>Rows\<close>

definition create_weaver_draft ::
  "world \<Rightarrow> weaver_draft \<Rightarrow> store \<Rightarrow> store \<times> (store_error + weaver_draft)" where
  "create_weaver_draft w draft st = commit st (guarded st
     (if wv_name draft = [] then Inl DraftNameEmpty
      else if wv_inputs draft = [] \<or> wv_mapping draft = [] then Inl DraftContentEmpty
      else
        res_bind (new_id w 0) (\<lambda>i.
          let d = draft\<lparr>wv_id := i, wv_created_at := unix_seconds (wd_now w),
                wv_updated_at := unix_seconds (wd_now w)\<rparr> in
          res_bind (run_sql w InsertDraft (i \<notin> wv_id ` set (weaver_drafts st)))
            (\<lambda>_. Inr (st\<lparr>weaver_drafts := weaver_drafts st @ [d]\<rparr>, d)))))"

definition get_weaver_draft :: "world \<Rightarrow> string \<Rightarrow> store \<Rightarrow> store_error + weaver_draft" where
  "get_weaver_draft w i st = guarded st
     (if i = [] then Inl DraftIdEmpty
      else
        res_bind (run_sql w SelectDraft True) (\<lambda>_.
          case find (\<lambda>d. wv_id d = i) (weaver_drafts st) of None \<Rightarrow> Inl DraftNotFound | Some d \<Rightarrow> Inr d))"

definition update_weaver_draft ::
  "world \<Rightarrow> weaver_draft \<Rightarrow> store \<Rightarrow> store \<times> (store_error + weaver_draft)" where
  "update_weaver_draft w draft st = commit st (guarded st
     (if wv_id draft = [] then Inl DraftIdEmpty
      else
        res_bind (get_weaver_draft w (wv_id draft) st) (\<lambda>current.
          let d = current\<lparr>wv_name := keep_or (wv_name draft) (wv_name current),
                wv_inputs := keep_or (wv_inputs draft) (wv_inputs current),
                wv_mapping := keep_or (wv_mapping draft) (wv_mapping current),
                wv_operator := keep_or (wv_operator draft) (wv_operator current),
                wv_updated_at := unix_seconds (wd_now w)\<rparr> in
          res_bind (run_sql w UpdateDraftRow True) (\<lambda>_.
            Inr (st\<lparr>weaver_drafts := map (\<lambda>r. if wv_id r = wv_id d
                   then r\<lparr>wv_name := wv_name d, wv_inputs := wv_inputs d, wv_mapping := wv_mapping d,
                          wv_updated_at := wv_updated_at d, wv_operator := wv_operator d\<rparr>
                   else r) (weaver_drafts st)\<rparr>, d)))))"

definition list_weaver_drafts :: "world \<Rightarrow> int \<Rightarrow> store \<Rightarrow> store_error + weaver_draft list" where
  "list_weaver_drafts w limit st = guarded st
     (let l = (if limit \<le> 0 then 50 else limit) in
      res_bind (run_sql w SelectDrafts True)
        (\<lambda>_. Inr (take (nat (if l > 200 then 200 else l)) (order_desc w wv_created_at (weaver_drafts st)))))"

section \<open>Payloads\<close>

text \<open>
  A payload keeps its parts as raw JSON texts. \<open>encoding/json\<close> is an argument: the text of a
  list of inputs, reading one back, and decoding a text into a generic value.
\<close>

record weaver_input =
  wi_name :: string
  wi_payload :: string

record weaver_payload =
  wp_name :: string
  wp_inputs :: "weaver_input list"
  wp_mapping :: string

record weaver_codec =
  wc_inputs_text :: "weaver_input list \<Rightarrow> string option"
  wc_inputs :: "string \<Rightarrow> weaver_input list option"
  wc_value :: "string \<Rightarrow> json option"

record weaver_source =
  ws_name :: string
  ws_ok :: bool
  ws_error :: string

datatype payload_error = NotJson | MissingField string | DuplicateField string

text \<open>The body of a request: whether it is empty, and what it decodes to.\<close>

record weaver_request =
  vq_method :: string
  vq_path :: string
  vq_limit :: string
  vq_operator :: string
  vq_empty :: bool
  vq_payload :: "weaver_payload option"

datatype weaver_reply =
    DraftFailed int string
  | DraftReply weaver_draft
  | DraftsReply "weaver_draft list"
  | RunReply "json gomap" json "weaver_source list"

definition check_weaver_input :: "weaver_input \<Rightarrow> unit \<Rightarrow> payload_error + unit" where
  "check_weaver_input item u =
     (if trim_space (wi_name item) = [] then Inl (MissingField ''inputs.name'')
      else if wi_payload item = [] then Inl (MissingField ''inputs.payload'')
      else Inr u)"

definition decode_weaver_draft_payload ::
  "weaver_codec \<Rightarrow> weaver_request \<Rightarrow> payload_error + weaver_draft" where
  "decode_weaver_draft_payload c rq =
     (case vq_payload rq of
        None \<Rightarrow> Inl NotJson
      | Some p \<Rightarrow>
          if wp_name p = [] then Inl (MissingField ''name'')
          else if wp_inputs p = [] then Inl (MissingField ''inputs'')
          else if wp_mapping p = [] then Inl (MissingField ''mapping'')
          else
            res_bind (fold_res check_weaver_input (wp_inputs p) ()) (\<lambda>_.
              case wc_inputs_text c (wp_inputs p) of
                None \<Rightarrow> Inl NotJson
              | Some t \<Rightarrow> Inr \<lparr>wv_id = [], wv_name = wp_name p, wv_inputs = t, wv_mapping = wp_mapping p,
                  wv_created_at = 0, wv_updated_at = 0, wv_operator = []\<rparr>))"

definition decode_optional_weaver_payload :: "weaver_request \<Rightarrow> payload_error + weaver_payload option" where
  "decode_optional_weaver_payload rq =
     (if vq_empty rq then Inr None
      else (case vq_payload rq of None \<Rightarrow> Inl NotJson | Some p \<Rightarrow> Inr (Some p)))"

section \<open>The run of a draft\<close>

definition run_weaver_input ::
  "weaver_codec \<Rightarrow> weaver_input \<Rightarrow> json gomap \<times> weaver_source list \<Rightarrow>
   payload_error + json gomap \<times> weaver_source list" where
  "run_weaver_input c item acc =
     (case acc of
        (inputs, sources) \<Rightarrow>
          let name = trim_space (wi_name item);
              skipped = (\<lambda>err. Inr (inputs, sources @ [\<lparr>ws_name = name, ws_ok = False, ws_error = err\<rparr>]))
          in if name = [] then Inl (MissingField ''inputs.name'')
             else if map_get inputs name \<noteq> None then Inl (DuplicateField ''inputs.name'')
             else if wi_payload item = [] then skipped ''payload is empty''
             else
               (case wc_value c (wi_payload item) of
                  None \<Rightarrow> skipped ''payload is invalid''
                | Some v \<Rightarrow>
                    Inr (map_put name v inputs, sources @ [\<lparr>ws_name = name, ws_ok = True, ws_error = []\<rparr>])))"

definition of_json :: "'a option \<Rightarrow> payload_error + 'a" where
  "of_json r = (case r of None \<Rightarrow> Inl NotJson | Some x \<Rightarrow> Inr x)"

definition resolve_weaver_run_inputs ::
  "weaver_codec \<Rightarrow> weaver_draft \<Rightarrow> weaver_payload option \<Rightarrow>
   payload_error + json gomap \<times> json \<times> weaver_source list" where
  "resolve_weaver_run_inputs c draft payload =
     (let own_inputs = (case payload of Some p \<Rightarrow> wp_inputs p | None \<Rightarrow> []);
          own_mapping = (case payload of Some p \<Rightarrow> wp_mapping p | None \<Rightarrow> []) in
      res_bind (if own_inputs = [] then of_json (wc_inputs c (wv_inputs draft)) else Inr own_inputs) (\<lambda>items.
      res_bind (of_json (wc_value c (if own_mapping = [] then wv_mapping draft else own_mapping))) (\<lambda>mapping.
      res_bind (fold_res (run_weaver_input c) items ([], [])) (\<lambda>(inputs, sources).
        Inr (inputs, mapping, sources)))))"

section \<open>Handlers\<close>

definition draft_unavailable :: weaver_reply where
  "draft_unavailable = DraftFailed 503 ''store_unavailable''"

definition weaver_drafts_handler ::
  "weaver_codec \<Rightarrow> world \<Rightarrow> weaver_request \<Rightarrow> store \<Rightarrow> store \<times> weaver_reply" where
  "weaver_drafts_handler c w rq st =
     (if vq_method rq = ''GET'' then
        (case list_weaver_drafts w (parse_positive_int (vq_limit rq) 50) st of
           Inl _ \<Rightarrow> (st, DraftFailed 500 ''weaver_list_failed'')
         | Inr items \<Rightarrow> (st, DraftsReply items))
      else if vq_method rq = ''POST'' then
        (case decode_weaver_draft_payload c rq of
           Inl _ \<Rightarrow> (st, DraftFailed 400 ''invalid_request'')
         | Inr draft \<Rightarrow>
             (case create_weaver_draft w (draft\<lparr>wv_operator := vq_operator rq\<rparr>) st of
                (st1, Inl _) \<Rightarrow> (st1, DraftFailed 400 ''weaver_create_failed'')
              | (st1, Inr d) \<Rightarrow>
                  (audited w ''weaver_create'' (wv_id d) (vq_operator rq) [(''name'', wv_name d)] st1,
                   DraftReply d)))
      else (st, DraftFailed 405 ''method_not_allowed''))"

definition draft_error :: "int \<Rightarrow> string \<Rightarrow> store_error \<Rightarrow> weaver_reply" where
  "draft_error status err e =
     (if e = DraftNotFound then DraftFailed 404 ''draft_not_found'' else DraftFailed status err)"

definition weaver_draft_detail ::
  "weaver_codec \<Rightarrow> world \<Rightarrow> weaver_request \<Rightarrow> string \<Rightarrow> store \<Rightarrow> store \<times> weaver_reply" where
  "weaver_draft_detail c w rq i st =
     (if vq_method rq = ''GET'' then
        (case get_weaver_draft w i st of
           Inl e \<Rightarrow> (st, draft_error 500 ''weaver_query_failed'' e)
         | Inr d \<Rightarrow> (st, DraftReply d))
      else if vq_method rq = ''PUT'' then
        (case decode_weaver_draft_payload c rq of
           Inl _ \<Rightarrow> (st, DraftFailed 400 ''invalid_request'')
         | Inr draft \<Rightarrow>
             (case update_weaver_draft w (draft\<lparr>wv_id := i, wv_operator := vq_operator rq\<rparr>) st of
                (st1, Inl e) \<Rightarrow> (st1, draft_error 400 ''weaver_update_failed'' e)
              | (st1, Inr d) \<Rightarrow>
                  (audited w ''weaver_update'' (wv_id d) (vq_operator rq) [(''name'', wv_name d)] st1,
                   DraftReply d)))
      else (st, DraftFailed 405 ''method_not_allowed''))"

text \<open>The method is checked before the store; the duration of the run is not part of the reply.\<close>

definition run_weaver_draft ::
  "weaver_codec \<Rightarrow> world \<Rightarrow> weaver_request \<Rightarrow> string \<Rightarrow> store option \<Rightarrow> store option \<times> weaver_reply" where
  "run_weaver_draft c w rq i store =
     (if vq_method rq \<noteq> ''POST'' then (store, DraftFailed 405 ''method_not_allowed'')
      else
        (case store of
           None \<Rightarrow> (None, draft_unavailable)
         | Some st \<Rightarrow>
             (case decode_optional_weaver_payload rq of
                Inl _ \<Rightarrow> (Some st, DraftFailed 400 ''invalid_request'')
              | Inr payload \<Rightarrow>
                  (case get_weaver_draft w i st of
                     Inl e \<Rightarrow> (Some st, draft_error 500 ''weaver_query_failed'' e)
                   | Inr draft \<Rightarrow>
                       (case resolve_weaver_run_inputs c draft payload of
                          Inl _ \<Rightarrow> (Some st, DraftFailed 400 ''weaver_run_failed'')
                        | Inr (inputs, mapping, sources) \<Rightarrow>
                            (Some (audited w ''weaver_run'' i (vq_operator rq) [(''name'', wv_name draft)] st),
                             RunReply inputs mapping sources))))))"

definition with_store ::
  "(store \<Rightarrow> store \<times> weaver_reply) \<Rightarrow> store option \<Rightarrow> store option \<times> weaver_reply" where
  "with_store f store =
     (case store of None \<Rightarrow> (None, draft_unavailable) | Some st \<Rightarrow> (case f st of (st1, r) \<Rightarrow> (Some st1, r)))"

definition drafts_prefix :: string where
  "drafts_prefix = ''/api/v1/weaver/drafts/''"

definition weaver_draft_router ::
  "weaver_codec \<Rightarrow> world \<Rightarrow> weaver_request \<Rightarrow> store option \<Rightarrow> store option \<times> weaver_reply" where
  "weaver_draft_router c w rq store =
     (let path = trim_prefix (vq_path rq) drafts_prefix in
      if path = [] \<or> path = vq_path rq then (store, DraftFailed 404 ''not_found'')
      else
        (case split_on (CHR ''/'') path of
           [] \<Rightarrow> (store, DraftFailed 404 ''not_found'')
         | first # rest \<Rightarrow>
             let i = trim_space first in
             if i = [] then (store, DraftFailed 400 ''invalid_request'')
             else if rest = [] then with_store (weaver_draft_detail c w rq i) store
             else if rest = [''run''] then run_weaver_draft c w rq i store
             else (store, DraftFailed 404 ''not_found'')))"

end
