(* ===== verification/Certificates.thy ===== *)
theory Certificates
  imports SiteAdmin
begin

text \<open>
  Uploaded certificates: the rows of the store (\<open>internal/store/sqlite.go\<close>) and the requests
  to \<open>/api/v1/certs\<close> (\<open>internal/admin/certificates.go\<close>). PEM, X.509 and the parsers of private
  keys are the standard library's and an argument (\<open>pki\<close>); what the code does with them, the
  loop over the blocks of a file first of all, is modelled. That loop ends only because
  decoding a block leaves a shorter rest, so it is a partial function, and that it returns is
  a theorem. The clock, which an upload reads for the identifier and for the time of creation,
  is one instant.
\<close>

section \<open>Rows\<close>

text \<open>
  A row holds times as RFC 3339 texts, that is in whole seconds. The functions do not check the
  database handle, and the time of creation is text in the local zone, whose offset is taken
  not to change.
\<close>

definition whole_second :: "gotime \<Rightarrow> gotime" where
  "whole_second t = t div second * second"

definition certificate_row :: "ssl_certificate \<Rightarrow> ssl_certificate" where
  "certificate_row c = c\<lparr>ssl_not_after := whole_second (ssl_not_after c), ssl_created_at := whole_second (ssl_created_at c)\<rparr>"

definition create_certificate :: "world \<Rightarrow> ssl_certificate \<Rightarrow> store \<Rightarrow> store \<times> store_error option" where
  "create_certificate w cert st =
     (if wd_sql w InsertCertificate \<and> ssl_id cert \<notin> ssl_id ` set (stored_certificates st)
      then (st\<lparr>stored_certificates := stored_certificates st @ [certificate_row cert]\<rparr>, None)
      else (st, Some (SqlFailed InsertCertificate)))"

definition list_certificates :: "world \<Rightarrow> int \<Rightarrow> int \<Rightarrow> store \<Rightarrow> store_error + ssl_certificate list \<times> int" where
  "list_certificates w page per_page st =
     res_bind (run_sql w CountCertificates True) (\<lambda>_.
     res_bind (run_sql w SelectCertificates True) (\<lambda>_.
       Inr (limit_offset per_page (page_offset page per_page)
              (order_desc w ssl_created_at (stored_certificates st)),
            int (length (stored_certificates st)))))"

definition delete_certificate_row :: "world \<Rightarrow> string \<Rightarrow> store \<Rightarrow> store \<times> store_error option" where
  "delete_certificate_row w i st =
     (if wd_sql w DeleteCertificateRow
      then (st\<lparr>stored_certificates := filter (\<lambda>c. ssl_id c \<noteq> i) (stored_certificates st)\<rparr>, None)
      else (st, Some (SqlFailed DeleteCertificateRow)))"

definition get_certificate_row :: "world \<Rightarrow> string \<Rightarrow> store \<Rightarrow> store_error + ssl_certificate" where
  "get_certificate_row w i st =
     res_bind (run_sql w SelectCertificate True) (\<lambda>_.
       case find (\<lambda>c. ssl_id c = i) (stored_certificates st) of None \<Rightarrow> Inl NoRows | Some c \<Rightarrow> Inr c)"

section \<open>Certificate files\<close>

record pem_block =
  pb_type :: string
  pb_headers :: "(string \<times> string) list"
  pb_bytes :: string

record x509_certificate =
  xc_raw :: string
  xc_common_name :: string
  xc_dns_names :: "string list"
  xc_not_after :: gotime
  xc_issuer :: string

record pki =
  pk_decode :: "string \<Rightarrow> (pem_block \<times> string) option"
  pk_encode :: "pem_block \<Rightarrow> string"
  pk_certificate :: "string \<Rightarrow> x509_certificate option"
  pk_pkcs8 :: "string \<Rightarrow> bool"
  pk_ec :: "string \<Rightarrow> bool"
  pk_pkcs1 :: "string \<Rightarrow> bool"

datatype cert_error = BadCertificate | NoPemBlock

definition plain_block :: "string \<Rightarrow> string \<Rightarrow> pem_block" where
  "plain_block t bytes = \<lparr>pb_type = t, pb_headers = [], pb_bytes = bytes\<rparr>"

text \<open>The loop over the blocks, with the PEM text collected and the first certificate parsed.\<close>

partial_function (option) scan_certificates ::
  "pki \<Rightarrow> string \<Rightarrow> string \<Rightarrow> x509_certificate option \<Rightarrow> (cert_error + string \<times> x509_certificate option) option" where
  "scan_certificates pk rest pem first =
     (if rest = [] then Some (Inr (pem, first))
      else
        (case pk_decode pk rest of
           None \<Rightarrow> Some (Inr (pem, first))
         | Some (block, next) \<Rightarrow>
             if pb_type block \<noteq> ''CERTIFICATE'' then scan_certificates pk next pem first
             else
               (case first of
                  Some _ \<Rightarrow> scan_certificates pk next (pem @ pk_encode pk block) first
                | None \<Rightarrow>
                    (case pk_certificate pk (pb_bytes block) of
                       None \<Rightarrow> Some (Inl BadCertificate)
                     | Some c \<Rightarrow> scan_certificates pk next (pem @ pk_encode pk block) (Some c)))))"

definition der_certificate :: "pki \<Rightarrow> string \<Rightarrow> cert_error + string \<times> x509_certificate" where
  "der_certificate pk raw =
     (case pk_certificate pk raw of
        None \<Rightarrow> Inl NoPemBlock
      | Some c \<Rightarrow> Inr (pk_encode pk (plain_block ''CERTIFICATE'' (xc_raw c)), c))"

definition normalize_certificate_bytes ::
  "pki \<Rightarrow> string \<Rightarrow> (cert_error + string \<times> x509_certificate) option" where
  "normalize_certificate_bytes pk raw =
     map_option (\<lambda>scanned. res_bind scanned (\<lambda>(pem, first).
         case first of
           Some c \<Rightarrow> if pem \<noteq> [] then Inr (pem, c) else der_certificate pk raw
         | None \<Rightarrow> der_certificate pk raw))
       (scan_certificates pk raw [] None)"

definition normalize_private_key_bytes :: "pki \<Rightarrow> string \<Rightarrow> string option" where
  "normalize_private_key_bytes pk raw =
     (case pk_decode pk raw of
        Some (block, _) \<Rightarrow> Some (pk_encode pk block)
      | None \<Rightarrow>
          if pk_pkcs8 pk raw then Some (pk_encode pk (plain_block ''PRIVATE KEY'' raw))
          else if pk_ec pk raw then Some (pk_encode pk (plain_block ''EC PRIVATE KEY'' raw))
          else if pk_pkcs1 pk raw then Some (pk_encode pk (plain_block ''RSA PRIVATE KEY'' raw))
          else None)"

definition add_cert_domain :: "string \<Rightarrow> string list \<Rightarrow> string list" where
  "add_cert_domain domain out =
     (let v = trim_space domain in if v = [] \<or> v \<in> set out then out else out @ [v])"

definition extract_cert_info :: "x509_certificate \<Rightarrow> string list \<times> gotime \<times> string" where
  "extract_cert_info c =
     (fold add_cert_domain (xc_common_name c # xc_dns_names c) [], xc_not_after c, xc_issuer c)"

definition parse_cert_info :: "pki \<Rightarrow> string \<Rightarrow> (cert_error + string list \<times> gotime \<times> string) option" where
  "parse_cert_info pk raw =
     map_option (\<lambda>r. res_bind r (\<lambda>(_, c). Inr (extract_cert_info c))) (normalize_certificate_bytes pk raw)"

section \<open>Handlers\<close>

record certificate_view =
  cw_id :: string
  cw_name :: string
  cw_domains :: "string list"
  cw_not_after :: gotime
  cw_issuer :: string
  cw_created_at :: gotime

definition to_ssl_certificate_view :: "ssl_certificate \<Rightarrow> certificate_view" where
  "to_ssl_certificate_view c =
     \<lparr>cw_id = ssl_id c, cw_name = ssl_name c, cw_domains = ssl_domains c, cw_not_after = ssl_not_after c,
      cw_issuer = ssl_issuer c, cw_created_at = ssl_created_at c\<rparr>"

datatype cert_reply =
    CertFailed int string
  | CertPage "certificate_view list" int int
  | CertStored certificate_view
  | CertDeleted

text \<open>A multipart form: a file may be missing, unreadable or have bytes.\<close>

datatype form_file = NoFile | Unreadable | Bytes string

record cert_request =
  cq_method :: string
  cq_path :: string
  cq_param :: "string \<Rightarrow> string"
  cq_operator :: string
  cq_form_ok :: bool
  cq_name :: string
  cq_cert :: form_file
  cq_key :: form_file

text \<open>
  \<open>strconv.Atoi\<close> with its error ignored: 0 for a text that is no number, and the nearest
  \<open>int\<close> for a number out of range.
\<close>

definition atoi_value :: "string \<Rightarrow> int" where
  "atoi_value s =
     (let neg = has_prefix s ''-''; ds = (if neg \<or> has_prefix s ''+'' then drop 1 s else s) in
      if ds = [] \<or> \<not> list_all is_digit ds then 0
      else if neg then max (- (2 ^ 63)) (- int (dec_val ds))
      else min (2 ^ 63 - 1) (int (dec_val ds)))"

definition list_certificates_handler :: "world \<Rightarrow> cert_request \<Rightarrow> store \<Rightarrow> cert_reply" where
  "list_certificates_handler w rq st =
     (let asked = atoi_value (cq_param rq ''page''); page = (if asked < 1 then 1 else asked);
          n = atoi_value (cq_param rq ''pageSize''); per_page = (if n < 1 \<or> n > 100 then 15 else n) in
      case list_certificates w page per_page st of
        Inl _ \<Rightarrow> CertFailed 500 ''internal_error''
      | Inr (certs, n) \<Rightarrow> CertPage (map to_ssl_certificate_view certs) n page)"

text \<open>Nanoseconds since 1970, an \<open>int64\<close>.\<close>

definition unix_nano :: "gotime \<Rightarrow> int" where
  "unix_nano t = wrap64 (t - 62135596800 * second)"

definition new_certificate :: "world \<Rightarrow> string \<Rightarrow> string \<Rightarrow> string \<Rightarrow> x509_certificate \<Rightarrow> ssl_certificate" where
  "new_certificate w name chain key_text c =
     (case extract_cert_info c of
        (domains, not_after, issuer) \<Rightarrow>
          \<lparr>ssl_id = ''cert_'' @ signed_text (unix_nano (wd_now w)), ssl_name = name, ssl_domains = domains,
           ssl_not_after = not_after, ssl_issuer = issuer, ssl_cert_pem = chain, ssl_key_pem = key_text,
           ssl_created_at = wd_now w\<rparr>)"

definition save_certificate ::
  "world \<Rightarrow> string \<Rightarrow> ssl_certificate \<Rightarrow> store \<Rightarrow> store \<times> cert_reply" where
  "save_certificate w operator cert st =
     (case create_certificate w cert st of
        (st1, Some _) \<Rightarrow> (st1, CertFailed 500 ''internal_error'')
      | (st1, None) \<Rightarrow>
          (audited w ''create_cert'' (ssl_id cert) operator [(''name'', ssl_name cert)] st1,
           CertStored (to_ssl_certificate_view cert)))"

definition check_and_save ::
  "system \<Rightarrow> pki \<Rightarrow> world \<Rightarrow> cert_request \<Rightarrow> string \<Rightarrow> (cert_error + string \<times> x509_certificate) \<Rightarrow>
   store \<Rightarrow> store \<times> cert_reply" where
  "check_and_save sys pk w rq key_bytes parsed st =
     (case parsed of
        Inl _ \<Rightarrow> (st, CertFailed 400 ''invalid_certificate'')
      | Inr (chain, c) \<Rightarrow>
          (case normalize_private_key_bytes pk key_bytes of
             None \<Rightarrow> (st, CertFailed 400 ''invalid_certificate'')
           | Some key_text \<Rightarrow>
               if sys_key_pair sys chain key_text = None then (st, CertFailed 400 ''invalid_certificate'')
               else save_certificate w (cq_operator rq) (new_certificate w (cq_name rq) chain key_text c) st))"

definition upload_certificate ::
  "system \<Rightarrow> pki \<Rightarrow> world \<Rightarrow> cert_request \<Rightarrow> store \<Rightarrow> (store \<times> cert_reply) option" where
  "upload_certificate sys pk w rq st =
     (if \<not> cq_form_ok rq \<or> cq_name rq = [] \<or> cq_cert rq = NoFile \<or> cq_key rq = NoFile
      then Some (st, CertFailed 400 ''invalid_request'')
      else
        (case (cq_cert rq, cq_key rq) of
           (Bytes cert_bytes, Bytes key_bytes) \<Rightarrow>
             map_option (\<lambda>parsed. check_and_save sys pk w rq key_bytes parsed st)
               (normalize_certificate_bytes pk cert_bytes)
         | _ \<Rightarrow> Some (st, CertFailed 400 ''invalid_request'')))"

definition delete_certificate :: "world \<Rightarrow> cert_request \<Rightarrow> string \<Rightarrow> store \<Rightarrow> store \<times> cert_reply" where
  "delete_certificate w rq i st =
     (case delete_certificate_row w i st of
        (st1, Some _) \<Rightarrow> (st1, CertFailed 500 ''internal_error'')
      | (st1, None) \<Rightarrow> (fst (save_audit w ''delete_cert'' i (cq_operator rq) [] st1), CertDeleted))"

definition handle_certificates ::
  "system \<Rightarrow> pki \<Rightarrow> world \<Rightarrow> cert_request \<Rightarrow> store \<Rightarrow> (store \<times> cert_reply) option" where
  "handle_certificates sys pk w rq st =
     (if cq_method rq = ''GET'' then Some (st, list_certificates_handler w rq st)
      else if cq_method rq = ''POST'' then upload_certificate sys pk w rq st
      else Some (st, CertFailed 405 ''method_not_allowed''))"

definition handle_certificate_detail :: "world \<Rightarrow> cert_request \<Rightarrow> store \<Rightarrow> store \<times> cert_reply" where
  "handle_certificate_detail w rq st =
     (let i = trim_prefix (cq_path rq) ''/api/v1/certs/'' in
      if i = [] then (st, CertFailed 400 ''invalid_request'')
      else if cq_method rq = ''DELETE'' then delete_certificate w rq i st
      else (st, CertFailed 405 ''method_not_allowed''))"

end
