(* ===== verification/AdminServer.thy ===== *)
theory AdminServer
  imports Weaver Certificates
begin

text \<open>
  The control plane's server as one step (\<open>Handler\<close>, \<open>WrapHandler\<close> and \<open>registerSiteRoutes\<close> in
  \<open>internal/admin\<close>): a request passes the rate limiter, is dispatched by its path as
  \<open>http.ServeMux\<close> does it, and, for all but the open routes, passes the check of the bearer
  token before the handler of its route runs. Paths are taken to be without escapes. The step
  may fail to return only where reading an uploaded certificate does.
\<close>

section \<open>Requests and the server\<close>

text \<open>What the body of a request decodes to, for each type that a handler decodes.\<close>

record api_body =
  ab_empty :: bool
  ab_credentials :: "credentials option"
  ab_cdn :: "cdn_sync_config option"
  ab_pool :: "lb_pool option"
  ab_route :: "lb_route_rule option"
  ab_level :: "string option"
  ab_site :: site_body
  ab_weaver :: "weaver_payload option"
  ab_form_ok :: bool
  ab_form_name :: string
  ab_form_cert :: form_file
  ab_form_key :: form_file

record api_request =
  ap_client :: admin_request
  ap_path :: string
  ap_param :: "string \<Rightarrow> string"
  ap_body :: api_body

record server =
  sv_admin :: admin
  sv_runtime :: "log_runtime option"
  sv_pipeline :: "pipeline option"
  sv_limiter :: "rate_limiter option"
  sv_guard :: login_guard

text \<open>
  What lies outside: beside that of the site handlers the certificates library, JSON of the
  weaver, a fresh request identifier, and the captcha service, which may be missing.
\<close>

record api_world =
  aw_outside :: outside
  aw_pki :: pki
  aw_codec :: weaver_codec
  aw_new_id :: string
  aw_captcha :: "(string \<Rightarrow> string \<Rightarrow> bool) option"
  aw_captcha_image :: "string \<Rightarrow> (string \<times> string) option"

definition aw_world :: "api_world \<Rightarrow> world" where
  "aw_world e = ou_world (aw_outside e) 0"

definition aw_system :: "api_world \<Rightarrow> system" where
  "aw_system e = ou_system (aw_outside e)"

definition new_server :: "manager \<Rightarrow> log_runtime option \<Rightarrow> pipeline option \<Rightarrow> store option \<Rightarrow> environ \<Rightarrow> server" where
  "new_server m rt pl st env =
     \<lparr>sv_admin = \<lparr>ad_manager = m, ad_store = st\<rparr>, sv_runtime = rt, sv_pipeline = pl,
      sv_limiter = new_rate_limiter (parse_positive_int (env_or_default env ''ADMIN_RATE_LIMIT_PER_MIN'' ''60'') 60) minute,
      sv_guard = new_login_guard (30 * minute)\<rparr>"

section \<open>Dispatch\<close>

datatype api_route =
    RHealth | RLogin | RCaptchaNeeded | RCaptchaImage | RLogout
  | RConfig | RValidate | RCdn | RVersions | RRollback | RReload
  | RPools | RPool | RRoutes | RRoute | RSiteGroups | RSites | RSite
  | RLevel | RStats | RAudits | RDrafts | RDraft | RCerts | RCert

definition api_paths :: "api_route gomap" where
  "api_paths =
     [(''/healthz'', RHealth), (''/api/v1/login'', RLogin), (''/api/v1/login/require-captcha'', RCaptchaNeeded),
      (''/api/v1/captcha'', RCaptchaImage), (''/api/v1/logout'', RLogout), (''/api/v1/config'', RConfig),
      (''/api/v1/config/validate'', RValidate), (''/api/v1/config/cdn'', RCdn),
      (''/api/v1/config/versions'', RVersions), (''/api/v1/config/rollback'', RRollback),
      (''/api/v1/config/reload'', RReload), (''/api/v1/lb/pools'', RPools), (''/api/v1/lb/routes'', RRoutes),
      (''/api/v1/site-groups'', RSiteGroups), (''/api/v1/sites'', RSites), (''/api/v1/log/level'', RLevel),
      (''/api/v1/log/stats'', RStats), (''/api/v1/audit/logs'', RAudits), (''/api/v1/weaver/drafts'', RDrafts),
      (''/api/v1/certs'', RCerts)]"

definition api_subtrees :: "api_route gomap" where
  "api_subtrees =
     [(''/api/v1/lb/pools/'', RPool), (''/api/v1/lb/routes/'', RRoute), (''/api/v1/sites/'', RSite),
      (''/api/v1/weaver/drafts/'', RDraft), (''/api/v1/certs/'', RCert)]"

definition open_route :: "api_route \<Rightarrow> bool" where
  "open_route r \<longleftrightarrow> r \<in> {RHealth, RLogin, RCaptchaNeeded, RCaptchaImage}"

text \<open>
  \<open>http.ServeMux\<close>: an exact pattern wins over the pattern of a subtree, no subtree lies in
  another, and a path that is not in its clean form is redirected to it, unless the method is
  \<open>CONNECT\<close>.
\<close>

datatype mux_target = MuxTo api_route | MuxMoved string | MuxNone

definition mux_clean :: "string \<Rightarrow> string" where
  "mux_clean path =
     (let p = (if has_prefix path ''/'' then path else ''/'' @ path); np = path_clean p in
      if last p = CHR ''/'' \<and> np \<noteq> ''/'' then np @ ''/'' else np)"

definition mux_match :: "string \<Rightarrow> api_route option" where
  "mux_match path =
     (case map_get api_paths path of
        Some r \<Rightarrow> Some r
      | None \<Rightarrow> map_option snd (find (\<lambda>(prefix, _). has_prefix path prefix) api_subtrees))"

definition mux_target_of :: "string \<Rightarrow> string \<Rightarrow> mux_target" where
  "mux_target_of http_method path =
     (let clean = mux_clean path in
      if http_method \<noteq> ''CONNECT'' \<and> clean \<noteq> path then MuxMoved clean
      else (case mux_match path of None \<Rightarrow> MuxNone | Some r \<Rightarrow> MuxTo r))"

section \<open>The handlers of the routes\<close>

datatype api_reply =
    ApiRateLimited
  | ApiMoved string
  | ApiNotFound
  | ApiRefused auth_outcome
  | ApiHealthy
  | ApiLogin login_response
  | ApiCaptchaNeeded "bool option"
  | ApiImage string string string
  | ApiFailed int string
  | ApiLoggedOut
  | ApiGlobal reply
  | ApiSite site_reply
  | ApiAudit audit_reply
  | ApiWeaver weaver_reply
  | ApiCert cert_reply

definition captcha_image :: "(string \<Rightarrow> (string \<times> string) option) \<Rightarrow> bool \<Rightarrow> string \<Rightarrow> string \<Rightarrow> api_reply" where
  "captcha_image generate available http_method preset =
     (if http_method \<noteq> ''GET'' then ApiFailed 405 ''method_not_allowed''
      else if \<not> available then ApiFailed 503 ''captcha_unavailable''
      else
        (case generate preset of
           None \<Rightarrow> ApiFailed 503 ''captcha_unavailable''
         | Some (i, picture) \<Rightarrow> ApiImage i picture preset))"

definition logout :: "string \<Rightarrow> api_reply" where
  "logout http_method =
     (if http_method \<noteq> ''POST'' then ApiFailed 405 ''method_not_allowed'' else ApiLoggedOut)"

definition open_step :: "api_world \<Rightarrow> api_request \<Rightarrow> api_route \<Rightarrow> server \<Rightarrow> server \<times> api_reply" where
  "open_step e rq r sv =
     (let now = wd_now (aw_world e); client = ap_client rq;
          auth = cp_auth (control_plane (current_config (ad_manager (sv_admin sv)))) in
      case r of
        RLogin \<Rightarrow>
          (case login auth (aw_captcha e) now client (ab_credentials (ap_body rq)) (sv_guard sv) of
             (g, answer) \<Rightarrow> (sv\<lparr>sv_guard := g\<rparr>, ApiLogin answer))
      | RCaptchaNeeded \<Rightarrow>
          (case login_captcha_requirement now client (sv_guard sv) of
             (g, answer) \<Rightarrow> (sv\<lparr>sv_guard := g\<rparr>, ApiCaptchaNeeded answer))
      | RCaptchaImage \<Rightarrow>
          (sv, captcha_image (aw_captcha_image e) (aw_captcha e \<noteq> None) (aq_method client) (ap_param rq ''preset''))
      | _ \<Rightarrow> (sv, ApiHealthy))"

text \<open>A request as the handlers of sites, drafts and certificates take it, with the operator.\<close>

definition to_site_request :: "string \<Rightarrow> api_request \<Rightarrow> site_request" where
  "to_site_request operator rq =
     \<lparr>sq_method = aq_method (ap_client rq), sq_path = ap_path rq, sq_param = ap_param rq, sq_operator = operator,
      sq_body = ab_site (ap_body rq)\<rparr>"

definition to_weaver_request :: "string \<Rightarrow> api_request \<Rightarrow> weaver_request" where
  "to_weaver_request operator rq =
     \<lparr>vq_method = aq_method (ap_client rq), vq_path = ap_path rq, vq_limit = ap_param rq ''limit'',
      vq_operator = operator, vq_empty = ab_empty (ap_body rq), vq_payload = ab_weaver (ap_body rq)\<rparr>"

definition to_cert_request :: "string \<Rightarrow> api_request \<Rightarrow> cert_request" where
  "to_cert_request operator rq =
     \<lparr>cq_method = aq_method (ap_client rq), cq_path = ap_path rq, cq_param = ap_param rq, cq_operator = operator,
      cq_form_ok = ab_form_ok (ap_body rq), cq_name = ab_form_name (ap_body rq),
      cq_cert = ab_form_cert (ap_body rq), cq_key = ab_form_key (ap_body rq)\<rparr>"

text \<open>The handlers of the global configuration.\<close>

definition global_step :: "api_world \<Rightarrow> string \<Rightarrow> api_request \<Rightarrow> api_route \<Rightarrow> admin \<Rightarrow> admin \<times> reply" where
  "global_step e operator rq r ad =
     (let sys = aw_system e; w = aw_world e; http_method = aq_method (ap_client rq); body = ap_body rq;
          cfg = bd_config (ab_site body); path = ap_path rq in
      case r of
        RConfig \<Rightarrow> config_handler sys w http_method operator cfg ad
      | RValidate \<Rightarrow> (ad, validate_config_handler sys http_method cfg ad)
      | RCdn \<Rightarrow> cdn_config_handler sys http_method (ab_cdn body) ad
      | RVersions \<Rightarrow> (ad, config_versions_handler w http_method (ap_param rq ''limit'') ad)
      | RRollback \<Rightarrow> rollback_config sys w http_method operator (bd_version (ab_site body)) ad
      | RReload \<Rightarrow> reload_handler sys http_method ad
      | RPools \<Rightarrow> lb_pools_handler sys w http_method operator (aw_new_id e) (ab_pool body) ad
      | RPool \<Rightarrow> lb_pool_detail_handler sys w http_method operator path (ab_pool body) ad
      | RRoutes \<Rightarrow> (ad, lb_routes_handler http_method ad)
      | _ \<Rightarrow> lb_route_detail_handler sys w http_method operator path (ab_route body) ad)"

definition global_routes :: "api_route list" where
  "global_routes = [RConfig, RValidate, RCdn, RVersions, RRollback, RReload, RPools, RPool, RRoutes, RRoute]"

definition weaver_step :: "(store option \<Rightarrow> store option \<times> weaver_reply) \<Rightarrow> admin \<Rightarrow> admin \<times> api_reply" where
  "weaver_step f ad = (case f (ad_store ad) of (store, r) \<Rightarrow> (ad\<lparr>ad_store := store\<rparr>, ApiWeaver r))"

definition cert_step ::
  "(store \<Rightarrow> (store \<times> cert_reply) option) \<Rightarrow> admin \<Rightarrow> (admin \<times> api_reply) option" where
  "cert_step f ad =
     (case ad_store ad of
        None \<Rightarrow> Some (ad, ApiCert (CertFailed 503 ''store_unavailable''))
      | Some st \<Rightarrow> map_option (\<lambda>(st1, r). (ad\<lparr>ad_store := Some st1\<rparr>, ApiCert r)) (f st))"

text \<open>The handlers that work on the store, and those of the log level and the statistics.\<close>

definition store_step ::
  "api_world \<Rightarrow> string \<Rightarrow> api_request \<Rightarrow> api_route \<Rightarrow> admin \<Rightarrow> (admin \<times> api_reply) option" where
  "store_step e operator rq r ad =
     (let w = aw_world e; site = to_site_request operator rq; draft = to_weaver_request operator rq;
          cert = to_cert_request operator rq in
      case r of
        RSiteGroups \<Rightarrow> Some (ad, ApiSite (site_groups w site (ad_store ad)))
      | RSites \<Rightarrow> Some (apsnd ApiSite (on_store (sites_handler w site) ad))
      | RSite \<Rightarrow> Some (apsnd ApiSite (site_router (aw_outside e) site ad))
      | RAudits \<Rightarrow> Some (ad, ApiAudit (audit_logs_handler w (ou_time_ok (aw_outside e)) (aq_method (ap_client rq))
                     (ap_param rq) (ad_store ad)))
      | RDrafts \<Rightarrow> Some (weaver_step (with_store (weaver_drafts_handler (aw_codec e) w draft)) ad)
      | RDraft \<Rightarrow> Some (weaver_step (weaver_draft_router (aw_codec e) w draft) ad)
      | RCerts \<Rightarrow> cert_step (handle_certificates (aw_system e) (aw_pki e) w cert) ad
      | _ \<Rightarrow> cert_step (\<lambda>st. Some (handle_certificate_detail w cert st)) ad)"

definition protected_step ::
  "api_world \<Rightarrow> string \<Rightarrow> api_request \<Rightarrow> api_route \<Rightarrow> server \<Rightarrow> (server \<times> api_reply) option" where
  "protected_step e operator rq r sv =
     (let http_method = aq_method (ap_client rq) in
      if r = RLogout then Some (sv, logout http_method)
      else if r = RStats then Some (sv, ApiGlobal (log_stats_handler http_method (sv_pipeline sv)))
      else if r = RLevel then
        (case log_level_handler http_method (ab_level (ap_body rq)) (sv_runtime sv) of
           (rt, reply) \<Rightarrow> Some (sv\<lparr>sv_runtime := rt\<rparr>, ApiGlobal reply))
      else if r \<in> set global_routes then
        (case global_step e operator rq r (sv_admin sv) of
           (ad, reply) \<Rightarrow> Some (sv\<lparr>sv_admin := ad\<rparr>, ApiGlobal reply))
      else
        map_option (\<lambda>(ad, reply). (sv\<lparr>sv_admin := ad\<rparr>, reply)) (store_step e operator rq r (sv_admin sv)))"

section \<open>The step\<close>

definition auth_of :: "server \<Rightarrow> api_request \<Rightarrow> auth_outcome" where
  "auth_of sv rq = with_auth (cp_auth (control_plane (current_config (ad_manager (sv_admin sv))))) (ap_client rq)"

definition dispatch :: "api_world \<Rightarrow> api_request \<Rightarrow> server \<Rightarrow> (server \<times> api_reply) option" where
  "dispatch e rq sv =
     (case mux_target_of (aq_method (ap_client rq)) (ap_path rq) of
        MuxMoved path \<Rightarrow> Some (sv, ApiMoved path)
      | MuxNone \<Rightarrow> Some (sv, ApiNotFound)
      | MuxTo r \<Rightarrow>
          if open_route r then Some (open_step e rq r sv)
          else
            (case auth_of sv rq of
               Authenticated operator \<Rightarrow>
                 protected_step e (operator_from_request operator (Some (ap_client rq))) rq r sv
             | refused \<Rightarrow> Some (sv, ApiRefused refused)))"

definition api_step :: "api_world \<Rightarrow> api_request \<Rightarrow> server \<Rightarrow> (server \<times> api_reply) option" where
  "api_step e rq sv =
     (case with_rate_limit (wd_now (aw_world e)) (ap_client rq) (sv_limiter sv) of
        (limiter, _, allowed) \<Rightarrow>
          let sv1 = sv\<lparr>sv_limiter := limiter\<rparr> in
          if allowed then dispatch e rq sv1 else Some (sv1, ApiRateLimited))"

end
