(* ===== verification/CertificateProps.thy ===== *)
theory CertificateProps
  imports Certificates SiteAdminProps
begin

text \<open>
  Uploaded certificates: an upload ends, and what the store holds after any requests is a set
  of certificates that can be served.
\<close>

section \<open>The scan of a file ends\<close>

text \<open>\<open>pem.Decode\<close> returns a block and what is left after it.\<close>

definition decode_shortens :: "pki \<Rightarrow> bool" where
  "decode_shortens pk \<longleftrightarrow> (\<forall>raw block rest. pk_decode pk raw = Some (block, rest) \<longrightarrow> length rest < length raw)"

lemma scan_ends:
  assumes "decode_shortens pk"
  shows "\<exists>r. scan_certificates pk rest pem first = Some r"
proof (induction "length rest" arbitrary: rest pem first rule: less_induct)
  case less
  have ih: "\<exists>r. scan_certificates pk more pem1 first1 = Some r" if "pk_decode pk rest = Some (b, more)" for b more pem1 first1
    using less that assms unfolding decode_shortens_def by blast
  show ?case
    by (subst scan_certificates.simps) (auto simp: ih split: option.split)
qed

lemma normalize_ends:
  assumes "decode_shortens pk"
  shows "\<exists>r. normalize_certificate_bytes pk raw = Some r"
  using scan_ends [OF assms, of raw "[]" None] by (auto simp: normalize_certificate_bytes_def)

section \<open>What the store holds\<close>

definition usable :: "system \<Rightarrow> ssl_certificate \<Rightarrow> bool" where
  "usable sys c \<longleftrightarrow> sys_key_pair sys (ssl_cert_pem c) (ssl_key_pem c) \<noteq> None \<and> ssl_name c \<noteq> [] \<and>
     distinct (ssl_domains c) \<and> list_all (\<lambda>d. d \<noteq> [] \<and> trim_space d = d) (ssl_domains c)"

inductive cert_reach :: "system \<Rightarrow> pki \<Rightarrow> store \<Rightarrow> bool" for sys pk where
  cert_start: "cert_reach sys pk init_store"
| cert_request: "cert_reach sys pk st \<Longrightarrow> handle_certificates sys pk w rq st = Some (st', r) \<Longrightarrow> cert_reach sys pk st'"
| cert_detail: "cert_reach sys pk st \<Longrightarrow> handle_certificate_detail w rq st = (st', r) \<Longrightarrow> cert_reach sys pk st'"
| cert_other: "cert_reach sys pk st \<Longrightarrow> stored_certificates st' = stored_certificates st \<Longrightarrow> cert_reach sys pk st'"

lemma domains_clean:
  "distinct out \<Longrightarrow> list_all (\<lambda>d. d \<noteq> [] \<and> trim_space d = d) out \<Longrightarrow>
   distinct (fold add_cert_domain ds out) \<and> list_all (\<lambda>d. d \<noteq> [] \<and> trim_space d = d) (fold add_cert_domain ds out)"
  by (induction ds arbitrary: out) (simp_all add: add_cert_domain_def Let_def trim_space_idem)

text \<open>An upload leaves the store alone or adds one row, made from a pair that was checked.\<close>

definition added :: "system \<Rightarrow> world \<Rightarrow> string \<Rightarrow> store \<Rightarrow> store \<Rightarrow> cert_reply \<Rightarrow> bool" where
  "added sys w name st st' reply \<longleftrightarrow> (\<exists>chain key_text c. let cert = new_certificate w name chain key_text c in
     sys_key_pair sys chain key_text \<noteq> None \<and> ssl_id cert \<notin> ssl_id ` set (stored_certificates st) \<and>
     stored_certificates st' = stored_certificates st @ [certificate_row cert] \<and>
     reply = CertStored (to_ssl_certificate_view cert))"

lemma create_certificate_cases:
  "create_certificate w cert st = (st1, err) \<Longrightarrow>
   (err \<noteq> None \<and> st1 = st) \<or>
   (err = None \<and> ssl_id cert \<notin> ssl_id ` set (stored_certificates st) \<and>
    stored_certificates st1 = stored_certificates st @ [certificate_row cert])"
  by (auto simp: create_certificate_def split: if_splits)

lemma save_certificate_cases:
  assumes "save_certificate w operator cert st = (st', reply)"
  shows "(st' = st \<and> reply = CertFailed 500 ''internal_error'') \<or>
    (ssl_id cert \<notin> ssl_id ` set (stored_certificates st) \<and>
     stored_certificates st' = stored_certificates st @ [certificate_row cert] \<and>
     reply = CertStored (to_ssl_certificate_view cert))"
proof -
  obtain st1 err where c: "create_certificate w cert st = (st1, err)" by (cases "create_certificate w cert st")
  show ?thesis
    using assms create_certificate_cases [OF c] by (auto simp: save_certificate_def c split: option.splits)
qed

lemma check_and_save_cases:
  assumes "check_and_save sys pk w rq key_bytes parsed st = (st', reply)"
  shows "(st' = st \<and> (\<exists>code err. reply = CertFailed code err)) \<or> added sys w (cq_name rq) st st' reply"
proof -
  consider "st' = st" "\<exists>code err. reply = CertFailed code err"
    | chain key_text c where "sys_key_pair sys chain key_text \<noteq> None"
      "save_certificate w (cq_operator rq) (new_certificate w (cq_name rq) chain key_text c) st = (st', reply)"
    using assms by (force simp: check_and_save_def split: sum.splits option.splits if_splits)
  then show ?thesis
  proof cases
    case 2
    then show ?thesis
      using save_certificate_cases [OF 2(2)] unfolding added_def Let_def by blast
  qed simp
qed

lemma upload_cases:
  assumes "upload_certificate sys pk w rq st = Some (st', reply)"
  shows "(st' = st \<and> (\<exists>code err. reply = CertFailed code err)) \<or>
    (cq_name rq \<noteq> [] \<and> added sys w (cq_name rq) st st' reply)"
  using assms
  by (auto simp: upload_certificate_def split: if_splits form_file.splits dest!: check_and_save_cases)

text \<open>
  C26. Every request about certificates is answered. The loop over the blocks of an uploaded file
  comes to its end whatever the file holds, because a decoded block leaves a shorter rest;
  and an upload that is not answered with a stored certificate has changed nothing.
\<close>

theorem upload_answers:
  assumes "decode_shortens pk"
  shows "\<exists>st' reply. handle_certificates sys pk w rq st = Some (st', reply) \<and>
    (st' = st \<or> (\<exists>v. reply = CertStored v \<and> cw_id v \<in> ssl_id ` set (stored_certificates st')))"
proof -
  have "\<exists>r. upload_certificate sys pk w rq st = Some r"
  proof (cases "cq_cert rq")
    case (Bytes raw)
    then show ?thesis
      using normalize_ends [OF assms, of raw] by (cases "cq_key rq") (auto simp: upload_certificate_def)
  qed (auto simp: upload_certificate_def)
  then obtain r where "handle_certificates sys pk w rq st = Some r"
    by (cases "cq_method rq = ''GET''"; cases "cq_method rq = ''POST''") (auto simp: handle_certificates_def)
  moreover have "st' = st \<or> (\<exists>v. reply = CertStored v \<and> cw_id v \<in> ssl_id ` set (stored_certificates st'))"
    if "handle_certificates sys pk w rq st = Some (st', reply)" for st' reply
    using that
    by (auto simp: handle_certificates_def added_def Let_def to_ssl_certificate_view_def certificate_row_def
        split: if_splits dest!: upload_cases)
  ultimately show ?thesis by (cases r) blast
qed


section \<open>The certificates are usable\<close>

definition certificates_ok :: "system \<Rightarrow> store \<Rightarrow> bool" where
  "certificates_ok sys st \<longleftrightarrow> distinct (map ssl_id (stored_certificates st)) \<and>
     list_all (usable sys) (stored_certificates st)"

lemma new_certificate_usable:
  "sys_key_pair sys chain key_text \<noteq> None \<Longrightarrow> name \<noteq> [] \<Longrightarrow> usable sys (certificate_row (new_certificate w name chain key_text c))"
  using domains_clean [of "[]" "xc_common_name c # xc_dns_names c"]
  by (simp add: usable_def certificate_row_def new_certificate_def extract_cert_info_def)

lemma certificates_ok_request:
  assumes "handle_certificates sys pk w rq st = Some (st', r)" "certificates_ok sys st"
  shows "certificates_ok sys st'"
proof -
  have "certificates_ok sys st'" if "added sys w (cq_name rq) st st' r" "cq_name rq \<noteq> []"
    using that assms(2)
    by (auto simp: added_def certificates_ok_def Let_def new_certificate_usable) (simp add: certificate_row_def)
  then show ?thesis
    using assms by (auto simp: handle_certificates_def split: if_splits dest!: upload_cases)
qed

lemma certificates_ok_detail:
  assumes "handle_certificate_detail w rq st = (st', r)" "certificates_ok sys st"
  shows "certificates_ok sys st'"
  using assms
  by (auto simp: handle_certificate_detail_def delete_certificate_def delete_certificate_row_def certificates_ok_def
      Let_def list_all_iff distinct_map_filter split: if_splits)

text \<open>
  Every stored certificate can be served. Whatever requests came and whichever statements
  failed, a certificate in the store has a key that fits it, a name, and domains that are
  trimmed, not blank and listed once, and no two certificates have the same identifier.
\<close>

theorem stored_certificates_usable:
  assumes "cert_reach sys pk st"
  shows "certificates_ok sys st"
  using assms
proof induction
  case cert_start
  then show ?case by (simp add: certificates_ok_def init_store_def)
next
  case (cert_request st w rq st' r)
  then show ?case using certificates_ok_request by blast
next
  case (cert_detail st w rq st' r)
  then show ?case using certificates_ok_detail by blast
next
  case (cert_other st st')
  then show ?case by (simp add: certificates_ok_def)
qed

section \<open>From the upload to the deletion\<close>

lemma newest_is_first:
  assumes "orders_desc (wd_order w)" "list_all (\<lambda>x. key x < key r) rs"
  shows "\<exists>rest. order_desc w key (rs @ [r]) = r # rest \<and> mset rest = mset rs"
proof -
  let ?xs = "order_desc w key (rs @ [r])"
  have m: "mset ?xs = mset (rs @ [r])" by (rule mset_order_desc [OF assms(1)])
  then obtain y ys where xs: "?xs = y # ys" by (cases ?xs) auto
  have "y = r"
  proof (rule ccontr)
    assume "y \<noteq> r"
    then have "y \<in> set rs" "r \<in> set ys" using xs mset_eq_setD [OF m] by auto
    then have "key y < key r" "key r \<le> key y"
      using assms(2) sorted_order_desc [OF assms(1), of key "rs @ [r]"] xs by (auto simp: list_all_iff)
    then show False by simp
  qed
  then show ?thesis using xs m by auto
qed

lemma new_certificate_facts:
  "ssl_id (new_certificate w name chain key_text c) \<noteq> []" "ssl_created_at (new_certificate w name chain key_text c) = wd_now w"
  by (simp_all add: new_certificate_def extract_cert_info_def)

text \<open>
  A certificate from its upload to its deletion. After an upload that was answered with a
  view, the list without parameters starts with that view, its times cut to seconds, and
  counts one certificate more, provided that the others were created in earlier seconds;
  deleting it under the identifier of the view leaves the certificates there were before.
\<close>

theorem certificate_lifecycle:
  assumes "handle_certificates sys pk w post st = Some (st1, CertStored v)" "cq_method post = ''POST''"
    and "list_all (\<lambda>c. ssl_created_at c < whole_second (wd_now w)) (stored_certificates st)"
    and "cq_method get = ''GET''" "cq_param get = (\<lambda>_. [])" "orders_desc (wd_order w2)"
    and "wd_sql w2 CountCertificates" "wd_sql w2 SelectCertificates"
    and "cq_method del = ''DELETE''" "cq_path del = ''/api/v1/certs/'' @ cw_id v" "wd_sql w3 DeleteCertificateRow"
  shows "(\<exists>rest. handle_certificates sys pk w2 get st1 =
      Some (st1, CertPage (v\<lparr>cw_not_after := whole_second (cw_not_after v),
        cw_created_at := whole_second (cw_created_at v)\<rparr> # rest) (int (length (stored_certificates st)) + 1) 1)) \<and>
    (\<exists>st2. handle_certificate_detail w3 del st1 = (st2, CertDeleted) \<and>
      stored_certificates st2 = stored_certificates st)"
proof -
  obtain cert where cert: "ssl_id cert \<notin> ssl_id ` set (stored_certificates st)" "ssl_created_at cert = wd_now w"
    "stored_certificates st1 = stored_certificates st @ [certificate_row cert]" "v = to_ssl_certificate_view cert" "ssl_id cert \<noteq> []"
    using assms(1,2) upload_cases [of sys pk w post st st1 "CertStored v"]
    by (auto simp: handle_certificates_def added_def Let_def new_certificate_facts)
  obtain rest where rest: "order_desc w2 ssl_created_at (stored_certificates st1) = certificate_row cert # rest"
    using newest_is_first [OF assms(6), of ssl_created_at "certificate_row cert" "stored_certificates st"] assms(3) cert(2,3)
    by (auto simp: certificate_row_def)
  have "atoi_value [] = 0" "page_offset 1 15 = 0" by code_simp+
  then have "handle_certificates sys pk w2 get st1 =
      Some (st1, CertPage (to_ssl_certificate_view (certificate_row cert) # map to_ssl_certificate_view (take 14 rest))
        (int (length (stored_certificates st)) + 1) 1)"
    using assms(4,5,7,8) cert(3) rest
    by (simp add: handle_certificates_def list_certificates_handler_def list_certificates_def run_sql_def limit_offset_def)
  note listed = this
  have "trim_prefix (cq_path del) ''/api/v1/certs/'' = ssl_id cert"
    using assms(10) cert(4) by (simp add: trim_prefix_def has_prefix_def to_ssl_certificate_view_def)
  moreover have "filter (\<lambda>c. ssl_id c \<noteq> ssl_id cert) (stored_certificates st) = stored_certificates st"
    using cert(1) by (metis (mono_tags, lifting) filter_True imageI)
  ultimately have "\<exists>st2. handle_certificate_detail w3 del st1 = (st2, CertDeleted) \<and> stored_certificates st2 = stored_certificates st"
    using assms(9,11) cert(3,5)
    by (simp add: handle_certificate_detail_def delete_certificate_def delete_certificate_row_def certificate_row_def Let_def)
  then show ?thesis using listed cert(4) by (auto simp: certificate_row_def to_ssl_certificate_view_def)
qed

section \<open>Examples\<close>

text \<open>Blocks as lines: the first byte tells a certificate from a key.\<close>

definition line_decode :: "string \<Rightarrow> (pem_block \<times> string) option" where
  "line_decode raw =
     (case raw of
        [] \<Rightarrow> None
      | c # cs \<Rightarrow>
          if CHR 0x0A \<notin> set cs then None
          else Some (plain_block (if c = CHR ''C'' then ''CERTIFICATE'' else ''PRIVATE KEY'') (before (CHR 0x0A) cs),
                     drop 1 (from_first (CHR 0x0A) cs)))"

definition line_pki :: pki where
  "line_pki =
     \<lparr>pk_decode = line_decode,
      pk_encode = (\<lambda>b. (if pb_type b = ''CERTIFICATE'' then ''C'' else ''K'') @ pb_bytes b @ [CHR 0x0A]),
      pk_certificate = (\<lambda>bytes. Some \<lparr>xc_raw = bytes, xc_common_name = bytes, xc_dns_names = [bytes, '' www'', []],
        xc_not_after = 7 * second + 5, xc_issuer = ''ca''\<rparr>),
      pk_pkcs8 = (\<lambda>_. False), pk_ec = (\<lambda>_. False), pk_pkcs1 = (\<lambda>_. True)\<rparr>"

lemma line_pki_shortens: "decode_shortens line_pki"
proof -
  have "length (from_first c cs) - 1 \<le> length cs" for c and cs :: string
    using length_dropWhile_le [of "\<lambda>x. x \<noteq> c" cs] by (simp add: from_first_def)
  then show ?thesis
    by (auto simp: decode_shortens_def line_pki_def line_decode_def less_Suc_eq_le intro: le_trans split: list.splits if_splits)
qed

definition upload_post :: cert_request where
  "upload_post = \<lparr>cq_method = ''POST'', cq_path = ''/api/v1/certs'', cq_param = (\<lambda>_. []), cq_operator = ''admin'',
     cq_form_ok = True, cq_name = ''site'', cq_cert = Bytes (''Ca.org'' @ [CHR 0x0A] @ ''Cca'' @ [CHR 0x0A]),
     cq_key = Bytes ''der''\<rparr>"

definition pair_system :: system where
  "pair_system = \<lparr>sys_read_file = (\<lambda>_. None),
     sys_key_pair = (\<lambda>chain key_text. if key_text = ''Kder'' @ [CHR 0x0A] then Some (TlsCertificate chain key_text) else None),
     sys_decode = (\<lambda>_ _. None)\<rparr>"

text \<open>The first second of 1970.\<close>

definition dated_world :: world where
  "dated_world = sample_world\<lparr>wd_now := 62135596800 * second + 9\<rparr>"

definition uploaded_store :: store where
  "uploaded_store = fst (the (handle_certificates pair_system line_pki dated_world upload_post init_store))"

definition uploaded_view :: certificate_view where
  "uploaded_view = \<lparr>cw_id = ''cert_9'', cw_name = ''site'', cw_domains = [''a.org'', ''www''],
     cw_not_after = 7 * second + 5, cw_issuer = ''ca'', cw_created_at = 62135596800 * second + 9\<rparr>"

definition parsed_sample :: "cert_error + string \<times> x509_certificate" where
  "parsed_sample = Inr (''Ca.org'' @ [CHR 0x0A] @ ''Cca'' @ [CHR 0x0A], the (pk_certificate line_pki ''a.org''))"

lemma scan_sample: "normalize_certificate_bytes line_pki (''Ca.org'' @ [CHR 0x0A] @ ''Cca'' @ [CHR 0x0A]) = Some parsed_sample"
  by (simp add: normalize_certificate_bytes_def scan_certificates.simps line_pki_def line_decode_def plain_block_def
      before_def from_first_def parsed_sample_def)

lemma uploaded_sample:
  "snd (check_and_save pair_system line_pki dated_world upload_post ''der'' parsed_sample init_store) = CertStored uploaded_view"
  "length (stored_certificates (fst (check_and_save pair_system line_pki dated_world upload_post ''der'' parsed_sample init_store))) = 1"
  by code_simp+

lemma uploaded:
  "handle_certificates pair_system line_pki dated_world upload_post init_store = Some (uploaded_store, CertStored uploaded_view)"
  "length (stored_certificates uploaded_store) = 1"
proof -
  have "handle_certificates pair_system line_pki dated_world upload_post init_store =
      Some (check_and_save pair_system line_pki dated_world upload_post ''der'' parsed_sample init_store)"
    using scan_sample by (simp add: handle_certificates_def upload_certificate_def upload_post_def)
  then show "handle_certificates pair_system line_pki dated_world upload_post init_store =
      Some (uploaded_store, CertStored uploaded_view)" "length (stored_certificates uploaded_store) = 1"
    using uploaded_sample by (simp_all add: uploaded_store_def prod_eq_iff)
qed

theorem upload_answers_witness:
  "\<exists>st' reply. handle_certificates pair_system line_pki dated_world upload_post init_store = Some (st', reply) \<and>
     (st' = init_store \<or> (\<exists>v. reply = CertStored v \<and> cw_id v \<in> ssl_id ` set (stored_certificates st')))"
  by (rule upload_answers [OF line_pki_shortens])

theorem stored_certificates_usable_witness:
  "certificates_ok pair_system uploaded_store \<and> length (stored_certificates uploaded_store) = 1"
proof -
  have "cert_reach pair_system line_pki uploaded_store"
    using cert_request [OF cert_start uploaded(1)] .
  then show ?thesis using stored_certificates_usable uploaded(2) by blast
qed

definition certs_get :: cert_request where
  "certs_get = upload_post\<lparr>cq_method := ''GET''\<rparr>"

definition cert_delete :: cert_request where
  "cert_delete = upload_post\<lparr>cq_method := ''DELETE'', cq_path := ''/api/v1/certs/cert_9''\<rparr>"

theorem certificate_lifecycle_witness:
  "(\<exists>rest. handle_certificates pair_system line_pki sample_world certs_get uploaded_store =
      Some (uploaded_store, CertPage (uploaded_view\<lparr>cw_not_after := 7 * second, cw_created_at := 62135596800 * second\<rparr> # rest) 1 1)) \<and>
   (\<exists>st2. handle_certificate_detail sample_world cert_delete uploaded_store = (st2, CertDeleted) \<and>
     stored_certificates st2 = [])"
proof -
  have "whole_second (cw_not_after uploaded_view) = 7 * second"
    "whole_second (cw_created_at uploaded_view) = 62135596800 * second" by code_simp+
  then show ?thesis
    using certificate_lifecycle [OF uploaded(1), where get = certs_get and del = cert_delete and ?w2.0 = sample_world
        and ?w3.0 = sample_world] newest_first_orders
    by (simp add: upload_post_def certs_get_def cert_delete_def sample_world_def init_store_def uploaded_view_def)
qed


end
