(* ===== verification/HandlerFrames.thy ===== *)
theory HandlerFrames
  imports AdminServer SiteAdminProps CertificateProps
begin

text \<open>
  What the handlers of the control plane leave alone: which parts of the server a handler may
  change, and that the rows it appends to the audit log name the operator it was given.
\<close>

section \<open>Store and manager before and after\<close>

text \<open>A handler leaves a missing store missing and relates the one it has to the next by \<open>R\<close>.\<close>

definition store_to :: "(store \<Rightarrow> store \<Rightarrow> bool) \<Rightarrow> store option \<Rightarrow> store option \<Rightarrow> bool" where
  "store_to R a b \<longleftrightarrow> (case a of None \<Rightarrow> b = None | Some st \<Rightarrow> (\<exists>st'. b = Some st' \<and> R st st'))"

definition same_rows :: "store \<Rightarrow> store \<Rightarrow> bool" where
  "same_rows st st' \<longleftrightarrow> sites st' = sites st \<and> site_versions st' = site_versions st \<and>
     stored_certificates st' = stored_certificates st"

definition logged :: "string \<Rightarrow> store \<Rightarrow> store \<Rightarrow> bool" where
  "logged op st st' \<longleftrightarrow> audits_by op st st' \<and> same_rows st st'"

definition manager_to :: "manager \<Rightarrow> manager \<Rightarrow> bool" where
  "manager_to m m' \<longleftrightarrow> mgr_path m' = mgr_path m \<and> (manager_inv m \<longrightarrow> manager_inv m')"

definition edited :: "string \<Rightarrow> admin \<Rightarrow> admin \<Rightarrow> bool" where
  "edited op ad ad' \<longleftrightarrow> manager_to (ad_manager ad) (ad_manager ad') \<and> store_to (logged op) (ad_store ad) (ad_store ad')"

lemma store_to_mono: "store_to R a b \<Longrightarrow> (\<And>st st'. R st st' \<Longrightarrow> S st st') \<Longrightarrow> store_to S a b"
  by (auto simp: store_to_def split: option.splits)

lemma store_to_refl [simp]: "(\<And>st. R st st) \<Longrightarrow> store_to R a a"
  by (simp add: store_to_def split: option.split)

lemma logged_refl [simp]: "logged op st st"
  by (simp add: logged_def same_rows_def)

lemma logged_trans: "logged op st st1 \<Longrightarrow> logged op st1 st2 \<Longrightarrow> logged op st st2"
  by (auto simp: logged_def same_rows_def intro: audits_by_trans)

lemma audits_parts:
  "store_to (logged op) a b \<Longrightarrow> store_to (audits_by op) a b"
  "store_to (kept_by op) a b \<Longrightarrow> store_to (audits_by op) a b"
  by (auto simp: logged_def kept_by_def elim: store_to_mono)

lemma logged_save_audit [simp]: "logged op st (fst (save_audit w a t op d st))"
  by (simp add: logged_def same_rows_def)

lemma logged_audited: "same_rows st st1 \<Longrightarrow> audit_logs st1 = audit_logs st \<Longrightarrow> logged op st (audited w a t op d st1)"
  unfolding audited_def by (rule logged_trans [OF _ logged_save_audit]) (simp add: logged_def)

lemma manager_to_refl [simp]: "manager_to m m"
  by (simp add: manager_to_def)

lemma manager_to_trans: "manager_to m m1 \<Longrightarrow> manager_to m1 m2 \<Longrightarrow> manager_to m m2"
  by (simp add: manager_to_def)

lemma manager_to_apply: "apply_config sys cfg m = (m1, r) \<Longrightarrow> manager_to m m1"
  using apply_config_inv [of m sys cfg]
  by (auto simp: manager_to_def) (auto simp: apply_config_def split: sum.splits)

lemma manager_to_reload: "reload sys m = (m1, r) \<Longrightarrow> manager_to m m1"
  by (auto simp: reload_def manager_to_apply split: sum.splits)

lemma edited_refl [simp]: "edited op ad ad"
  by (simp add: edited_def)

lemma edited_trans: "edited op ad ad1 \<Longrightarrow> edited op ad1 ad2 \<Longrightarrow> edited op ad ad2"
  by (auto simp: edited_def store_to_def intro: manager_to_trans logged_trans split: option.splits)

lemma edited_manager: "manager_to (ad_manager ad) m \<Longrightarrow> edited op ad (ad\<lparr>ad_manager := m\<rparr>)"
  by (simp add: edited_def)

lemma edited_live [simp]: "edited op ad (write_live f ad)"
  by (simp add: edited_def write_live_def manager_to_def manager_inv_def pools_wf_def split: option.split)

section \<open>The handlers of the global configuration\<close>

lemma version_and_audit:
  assumes "save_version_and_audit w cfg op src action detail ok ad = (ad', reply)"
  shows "edited op ad ad'"
proof (cases "ad_store ad")
  case (Some st)
  then obtain st1 r where v: "save_version w cfg op src st = (st1, r)" by fastforce
  have same: "logged op st st1"
    using store_operations_audits(7) [OF v] v
    by (auto simp: logged_def same_rows_def save_version_def commit_def guarded_def res_bind_def Let_def
        split: sum.splits if_splits)
  then have "logged op st (fst (save_audit w a t op d st1))" for a t d
    by (rule logged_trans) simp
  then show ?thesis
    using assms same by (auto simp: edited_def store_to_def save_version_and_audit_def Some v split: sum.splits)
qed (use assms in \<open>simp add: save_version_and_audit_def\<close>)

lemma validate_and_apply_edited:
  "validate_and_apply sys cfg (save_version_and_audit w cfg' op src action detail ok) ad = (ad', reply) \<Longrightarrow> edited op ad ad'"
  by (auto simp: validate_and_apply_def Let_def manager_to_apply intro: edited_manager
      split: if_splits prod.splits option.splits dest!: version_and_audit elim!: edited_trans [rotated])

lemma lb_edited:
  "apply_lb_config sys w cfg op src ok (write_live f ad) = (ad', reply) \<Longrightarrow> edited op ad ad'"
  unfolding apply_lb_config_def by (rule edited_trans [OF edited_live validate_and_apply_edited])

lemma lb_handlers_edited:
  "lb_pools_handler sys w m op fresh body1 ad = (ad', reply) \<Longrightarrow> edited op ad ad'"
  "lb_pool_detail_handler sys w m op path body1 ad = (ad', reply) \<Longrightarrow> edited op ad ad'"
  "lb_route_detail_handler sys w m op path body2 ad = (ad', reply) \<Longrightarrow> edited op ad ad'"
  by (auto simp: lb_pools_handler_def lb_pool_detail_handler_def lb_route_detail_handler_def update_pool_def
      delete_pool_def upsert_route_def delete_route_def Let_def split_def
      split: if_splits option.splits dest!: lb_edited)

lemma config_handlers_edited:
  "config_handler sys w m op body ad = (ad', reply) \<Longrightarrow> edited op ad ad'"
  "rollback_config sys w m op vid ad = (ad', reply) \<Longrightarrow> edited op ad ad'"
  "cdn_config_handler sys m cdn ad = (ad', reply) \<Longrightarrow> edited op ad ad'"
  "reload_handler sys m ad = (ad', reply) \<Longrightarrow> edited op ad ad'"
  by (auto simp: config_handler_def rollback_config_def cdn_config_handler_def reload_handler_def Let_def
      manager_to_apply manager_to_reload intro: edited_manager
      split: if_splits option.splits sum.splits prod.splits dest!: validate_and_apply_edited)

lemma global_step_edited:
  "global_step e op rq r ad = (ad', reply) \<Longrightarrow> edited op ad ad'"
  by (cases r) (auto simp: global_step_def Let_def dest: lb_handlers_edited config_handlers_edited)

section \<open>The handlers of drafts\<close>

lemma weaver_operations_same:
  "create_weaver_draft w d st = (st1, r1) \<Longrightarrow> audit_logs st1 = audit_logs st \<and> same_rows st st1"
  "update_weaver_draft w d st = (st1, r2) \<Longrightarrow> audit_logs st1 = audit_logs st \<and> same_rows st st1"
  by (auto simp: create_weaver_draft_def update_weaver_draft_def commit_def guarded_def res_bind_def same_rows_def Let_def
      split: sum.splits if_splits)

lemma weaver_handlers_logged:
  "logged (vq_operator rq) st (fst (weaver_drafts_handler c w rq st))"
  "logged (vq_operator rq) st (fst (weaver_draft_detail c w rq i st))"
  by (auto simp: weaver_drafts_handler_def weaver_draft_detail_def logged_audited logged_def [of _ _ st] same_rows_def [of _ st]
      split: sum.splits prod.splits dest: weaver_operations_same) (auto simp: logged_def dest: weaver_operations_same)

lemma run_weaver_draft_logged: "store_to (logged (vq_operator rq)) store (fst (run_weaver_draft c w rq i store))"
  by (auto simp: run_weaver_draft_def store_to_def logged_audited same_rows_def split: option.split sum.split prod.split)

lemma with_store_to: "(\<And>st. R st (fst (f st))) \<Longrightarrow> store_to R store (fst (with_store f store))"
  by (auto simp: with_store_def store_to_def split: option.split prod.split) (metis fst_conv)

lemma weaver_router_logged: "store_to (logged (vq_operator rq)) store (fst (weaver_draft_router c w rq store))"
  by (auto simp: weaver_draft_router_def Let_def run_weaver_draft_logged with_store_to weaver_handlers_logged split: list.split)

lemma weaver_step_edited:
  "store_to (logged op) (ad_store ad) (fst (f (ad_store ad))) \<Longrightarrow> edited op ad (fst (weaver_step f ad))"
  by (simp add: weaver_step_def edited_def split_def)

lemma draft_steps_edited:
  "edited (vq_operator rq) ad (fst (weaver_step (with_store (weaver_drafts_handler c w rq)) ad))"
  "edited (vq_operator rq) ad (fst (weaver_step (weaver_draft_router c w rq) ad))"
  by (intro weaver_step_edited with_store_to weaver_handlers_logged weaver_router_logged)+

section \<open>The handlers of certificates\<close>

text \<open>They keep the manager and the sites; the table of certificates has its own invariant.\<close>

definition cert_edited :: "system \<Rightarrow> string \<Rightarrow> store \<Rightarrow> store \<Rightarrow> bool" where
  "cert_edited sys op st st' \<longleftrightarrow> audits_by op st st' \<and> sites st' = sites st \<and> site_versions st' = site_versions st \<and>
     (certificates_ok sys st \<longrightarrow> certificates_ok sys st')"

lemma save_certificate_frame:
  "audits_by op st (fst (save_certificate w op cert st))"
  "sites (fst (save_certificate w op cert st)) = sites st"
  "site_versions (fst (save_certificate w op cert st)) = site_versions st"
  by (auto simp: save_certificate_def create_certificate_def audited_by [unfolded audited_def] audited_def split: if_split)

lemma upload_frame:
  assumes "upload_certificate sys pk w rq st = Some (st', r)"
  shows "audits_by (cq_operator rq) st st' \<and> sites st' = sites st \<and> site_versions st' = site_versions st"
proof -
  let ?ok = "\<lambda>st'. audits_by (cq_operator rq) st st' \<and> sites st' = sites st \<and> site_versions st' = site_versions st"
  have "?ok (fst (check_and_save sys pk w rq k p st))" for k p
    by (auto simp: check_and_save_def save_certificate_frame split: sum.split option.split)
  then have "check_and_save sys pk w rq k p st = (st', r) \<Longrightarrow> ?ok st'" for k p
    by (metis fst_conv)
  then show ?thesis
    using assms by (auto simp: upload_certificate_def split: if_splits form_file.splits)
qed

lemma cert_handlers_edited:
  "handle_certificates sys pk w rq st = Some (st', r) \<Longrightarrow> cert_edited sys (cq_operator rq) st st'"
  "cert_edited sys (cq_operator rq) st (fst (handle_certificate_detail w rq st))"
proof -
  assume h: "handle_certificates sys pk w rq st = Some (st', r)"
  then have "audits_by (cq_operator rq) st st' \<and> sites st' = sites st \<and> site_versions st' = site_versions st"
    using upload_frame by (auto simp: handle_certificates_def split: if_splits)
  then show "cert_edited sys (cq_operator rq) st st'"
    using certificates_ok_request [OF h] by (simp add: cert_edited_def)
next
  have a: "audits_by op st (fst (save_audit w a i op d (st\<lparr>stored_certificates := cs\<rparr>)))" for op a i d cs
    by (rule audits_by_trans [OF audits_by_same save_audit_by]) simp
  show "cert_edited sys (cq_operator rq) st (fst (handle_certificate_detail w rq st))"
    using certificates_ok_detail [of w rq st _ _ sys] a
    by (auto simp: cert_edited_def handle_certificate_detail_def delete_certificate_def delete_certificate_row_def Let_def
        dest: certificates_ok_detail)
qed

section \<open>The handlers of sites\<close>

lemma on_store_to: "(\<And>st. R st (fst (f st))) \<Longrightarrow> store_to R (ad_store ad) (ad_store (fst (on_store f ad)))"
  by (auto simp: store_to_def on_store_def split: option.split prod.split) (metis fst_conv)

lemma on_store_manager [simp]: "ad_manager (fst (on_store f ad)) = ad_manager ad"
  by (auto simp: on_store_def split: option.split prod.split)

lemma on_server_to:
  assumes "\<And>s. sync_kept op s (fst (f s))"
  shows "store_to (kept_by op) (ad_store ad) (ad_store (fst (on_server f ad)))"
    and "manager_to (ad_manager ad) (ad_manager (fst (on_server f ad)))"
proof (atomize (full), cases "ad_store ad")
  case (Some st)
  then show "store_to (kept_by op) (ad_store ad) (ad_store (fst (on_server f ad))) \<and>
      manager_to (ad_manager ad) (ad_manager (fst (on_server f ad)))"
    using assms [of "\<lparr>sy_manager = ad_manager ad, sy_store = st\<rparr>"]
    by (simp add: store_to_def on_server_def sync_kept_def kept_by_def manager_to_def manager_inv_def split_def)
qed (simp add: store_to_def on_server_def)

lemma site_router_to:
  "store_to (kept_by (sq_operator rq)) (ad_store ad) (ad_store (fst (site_router ou rq ad)))"
  "manager_to (ad_manager ad) (ad_manager (fst (site_router ou rq ad)))"
  unfolding site_router_def Let_def from_store_def
  by (cases "site_route_of (sq_path rq)";
      simp add: on_store_to site_handlers_audits on_server_to [OF sync_kept_site_refresh])+

section \<open>Every handler\<close>

text \<open>The operator that a request is given reaches the handlers, whichever it goes to.\<close>

lemma request_operators [simp]:
  "sq_operator (to_site_request op rq) = op" "vq_operator (to_weaver_request op rq) = op"
  "cq_operator (to_cert_request op rq) = op"
  by (simp_all add: to_site_request_def to_weaver_request_def to_cert_request_def)

lemma cert_step_to:
  assumes "\<And>st st' r. f st = Some (st', r) \<Longrightarrow> cert_edited sys op st st'" "cert_step f ad = Some p"
  shows "store_to (cert_edited sys op) (ad_store ad) (ad_store (fst p)) \<and> ad_manager (fst p) = ad_manager ad"
  using assms by (auto simp: cert_step_def store_to_def cert_edited_def split: option.splits)

lemma cert_steps_to:
  "cert_step (handle_certificates sys pk w (to_cert_request op rq)) ad = Some p \<Longrightarrow>
   store_to (cert_edited sys op) (ad_store ad) (ad_store (fst p)) \<and> ad_manager (fst p) = ad_manager ad"
  "cert_step (\<lambda>st. Some (handle_certificate_detail w (to_cert_request op rq) st)) ad = Some p \<Longrightarrow>
   store_to (cert_edited sys op) (ad_store ad) (ad_store (fst p)) \<and> ad_manager (fst p) = ad_manager ad"
  using cert_handlers_edited(1) [of sys pk w "to_cert_request op rq"]
    cert_handlers_edited(2) [of sys "to_cert_request op rq" _ w]
  by (auto elim!: cert_step_to [rotated]) (metis fst_conv)+

text \<open>How a handler of the store may change the server: one of four ways.\<close>

lemma store_step_cases:
  assumes "store_step e op rq r ad = Some p"
  obtains (same) "fst p = ad"
    | (site_list) w where "fst p = fst (on_store (sites_handler w (to_site_request op rq)) ad)"
    | (site) "fst p = fst (site_router (aw_outside e) (to_site_request op rq) ad)"
    | (draft) "edited op ad (fst p)"
    | (cert) "store_to (cert_edited (aw_system e) op) (ad_store ad) (ad_store (fst p))" "ad_manager (fst p) = ad_manager ad"
  using assms draft_steps_edited [of "to_weaver_request op rq" ad] cert_steps_to
  by (cases r) (auto simp: store_step_def Let_def)

lemma store_step_audits:
  assumes "store_step e op rq r ad = Some p"
  shows "store_to (audits_by op) (ad_store ad) (ad_store (fst p))"
  using assms
proof (cases rule: store_step_cases)
  case (site_list w)
  then show ?thesis
    using on_store_to [of "kept_by op", THEN audits_parts(2)] site_handlers_audits(1) [of "to_site_request op rq"] by simp
next
  case site
  then show ?thesis
    using site_router_to(1) [of "to_site_request op rq", THEN audits_parts(2)] by simp
qed (auto simp: edited_def cert_edited_def audits_parts elim: store_to_mono)

lemma protected_step_audits:
  assumes "protected_step e op rq r sv = Some p"
  shows "store_to (audits_by op) (ad_store (sv_admin sv)) (ad_store (sv_admin (fst p)))"
  using assms
  by (auto simp: protected_step_def Let_def edited_def audits_parts
      split: if_splits prod.splits dest!: global_step_edited store_step_audits)

end
