(* ===== verification/WeaverProps.thy ===== *)
theory WeaverProps
  imports Weaver SiteAdminProps
begin

text \<open>
  What a run of a draft gives: the loop over the inputs against a specification of which lists
  of inputs run and with what outcome, and the run of a draft that was just created.
\<close>

section \<open>The loop over the inputs\<close>

definition input_name :: "weaver_input \<Rightarrow> string" where
  "input_name x = trim_space (wi_name x)"

definition decodes :: "weaver_codec \<Rightarrow> weaver_input \<Rightarrow> bool" where
  "decodes c x \<longleftrightarrow> wi_payload x \<noteq> [] \<and> wc_value c (wi_payload x) \<noteq> None"

text \<open>Each input has a name, and none the name of an earlier one that decodes.\<close>

definition runnable :: "weaver_codec \<Rightarrow> weaver_input list \<Rightarrow> bool" where
  "runnable c xs \<longleftrightarrow> list_all (\<lambda>x. input_name x \<noteq> []) xs \<and>
     sorted_wrt (\<lambda>x y. decodes c x \<longrightarrow> input_name x \<noteq> input_name y) xs"

definition decoded :: "weaver_codec \<Rightarrow> weaver_input list \<Rightarrow> json gomap" where
  "decoded c xs = map (\<lambda>x. (input_name x, the (wc_value c (wi_payload x)))) (filter (decodes c) xs)"

definition source_of :: "weaver_codec \<Rightarrow> weaver_input \<Rightarrow> weaver_source" where
  "source_of c x = \<lparr>ws_name = input_name x, ws_ok = decodes c x,
     ws_error = (if decodes c x then [] else if wi_payload x = [] then ''payload is empty'' else ''payload is invalid'')\<rparr>"

lemma map_put_fresh: "map_get m k = None \<Longrightarrow> map_put k v m = m @ [(k, v)]"
  by (induction m) (auto split: if_splits)

lemma decoded_name: "map_get (decoded c xs) n = None \<longleftrightarrow> (\<forall>x\<in>set xs. decodes c x \<longrightarrow> input_name x \<noteq> n)"
  by (auto simp: decoded_def map_of_eq_None_iff image_iff)

lemma run_loop:
  "(runnable c xs \<longrightarrow> fold_res (run_weaver_input c) xs ([], []) = Inr (decoded c xs, map (source_of c) xs)) \<and>
   (\<not> runnable c xs \<longrightarrow> (\<exists>e. fold_res (run_weaver_input c) xs ([], []) = Inl e))"
proof (induction xs rule: rev_induct)
  case Nil
  then show ?case by (simp add: runnable_def decoded_def)
next
  case (snoc x xs)
  show ?case
  proof (cases "runnable c xs")
    case False
    then have "\<not> runnable c (xs @ [x])" by (auto simp: runnable_def sorted_wrt_append)
    moreover obtain e where "fold_res (run_weaver_input c) xs ([], []) = Inl e" using False snoc.IH by blast
    ultimately show ?thesis by (simp add: fold_res_append)
  next
    case True
    have "runnable c (xs @ [x]) \<longleftrightarrow> input_name x \<noteq> [] \<and> map_get (decoded c xs) (input_name x) = None"
      using True by (auto simp: runnable_def sorted_wrt_append decoded_name)
    then show ?thesis
      using True snoc.IH
      by (auto simp: fold_res_append run_weaver_input_def Let_def input_name_def [symmetric] decoded_def
          source_of_def decodes_def map_put_fresh split: option.split)
  qed
qed

lemma run_loop_iff:
  "fold_res (run_weaver_input c) xs ([], []) = Inr r \<longleftrightarrow> runnable c xs \<and> r = (decoded c xs, map (source_of c) xs)"
  using run_loop [of c xs] by (cases "runnable c xs") auto

definition chosen_inputs :: "weaver_codec \<Rightarrow> weaver_draft \<Rightarrow> weaver_payload option \<Rightarrow> weaver_input list option" where
  "chosen_inputs c draft payload =
     (case payload of
        Some p \<Rightarrow> if wp_inputs p \<noteq> [] then Some (wp_inputs p) else wc_inputs c (wv_inputs draft)
      | None \<Rightarrow> wc_inputs c (wv_inputs draft))"

definition chosen_mapping :: "weaver_draft \<Rightarrow> weaver_payload option \<Rightarrow> string" where
  "chosen_mapping draft payload =
     (case payload of
        Some p \<Rightarrow> if wp_mapping p \<noteq> [] then wp_mapping p else wv_mapping draft
      | None \<Rightarrow> wv_mapping draft)"

text \<open>
  A run of a draft takes the inputs and the mapping of the request, or
  those of the draft where the request has none, and succeeds exactly when both decode and
  each input has a name that no earlier decoded input has; it then gives the value of every
  input that decodes, in order and under its trimmed name, and for every input whether it
  did.
\<close>

lemma resolve_meaning:
  "resolve_weaver_run_inputs c draft payload = Inr (inputs, mapping, sources) \<longleftrightarrow>
     (\<exists>xs. chosen_inputs c draft payload = Some xs \<and> runnable c xs \<and>
       wc_value c (chosen_mapping draft payload) = Some mapping \<and>
       inputs = decoded c xs \<and> sources = map (source_of c) xs)"
  by (auto simp: resolve_weaver_run_inputs_def chosen_inputs_def chosen_mapping_def res_bind_Inr_iff run_loop_iff
      of_json_def Let_def split: option.splits if_splits)

section \<open>A draft that was created\<close>

lemma audited_drafts [simp]: "weaver_drafts (audited w a t op d st) = weaver_drafts st"
  by (simp add: audited_def save_audit_def Let_def split: sum.split)

lemma check_inputs_ok:
  "fold_res check_weaver_input xs u = Inr v \<longleftrightarrow>
     list_all (\<lambda>x. input_name x \<noteq> [] \<and> wi_payload x \<noteq> []) xs \<and> v = u"
  by (induction xs arbitrary: u) (auto simp: check_weaver_input_def input_name_def res_bind_Inr_iff)

text \<open>Writing inputs and reading them back keeps names and what the payloads decode to.\<close>

definition same_input :: "weaver_codec \<Rightarrow> weaver_input \<Rightarrow> weaver_input \<Rightarrow> bool" where
  "same_input c x y \<longleftrightarrow> wi_name y = wi_name x \<and> (wi_payload y = [] \<longleftrightarrow> wi_payload x = []) \<and>
     wc_value c (wi_payload y) = wc_value c (wi_payload x)"

lemma same_input_parts:
  assumes "same_input c x y"
  shows "input_name y = input_name x" "decodes c y = decodes c x" "source_of c y = source_of c x"
  using assms by (auto simp: same_input_def input_name_def decodes_def source_of_def)

lemma runnable_same: "list_all2 (same_input c) xs ys \<Longrightarrow> runnable c ys = runnable c xs"
proof (induction rule: list_all2_induct)
  case (Cons x xs y ys)
  have "map input_name ys = map input_name xs"
    using Cons(2) by (induction rule: list_all2_induct) (auto dest: same_input_parts(1))
  then have "input_name ` set ys = input_name ` set xs" by (metis list.set_map)
  then have "(\<forall>z\<in>set ys. n \<noteq> input_name z) = (\<forall>z\<in>set xs. n \<noteq> input_name z)" for n
    by (metis imageE imageI)
  then show ?case
    using Cons(3) by (auto simp: runnable_def same_input_parts [OF Cons(1)])
qed simp

lemma decoded_same: "list_all2 (same_input c) xs ys \<Longrightarrow> decoded c ys = decoded c xs"
proof (induction rule: list_all2_induct)
  case (Cons x xs y ys)
  then have "wc_value c (wi_payload y) = wc_value c (wi_payload x)" by (simp add: same_input_def)
  with Cons.IH show ?case by (simp add: decoded_def same_input_parts [OF Cons.hyps(1)])
qed simp

lemma sources_same: "list_all2 (same_input c) xs ys \<Longrightarrow> map (source_of c) ys = map (source_of c) xs"
  by (induction rule: list_all2_induct) (auto dest: same_input_parts(3))

lemma runnable_all_decode:
  "list_all (decodes c) xs \<Longrightarrow> list_all (\<lambda>x. input_name x \<noteq> []) xs \<Longrightarrow>
   runnable c xs \<longleftrightarrow> distinct (map input_name xs)"
  by (induction xs) (auto simp: runnable_def list_all_iff)

lemma created_draft:
  assumes "weaver_drafts_handler c w rq st = (st1, DraftReply d)" "vq_method rq = ''POST''"
    and "vq_payload rq = Some p"
  shows "wc_inputs_text c (wp_inputs p) = Some (wv_inputs d)" "wv_mapping d = wp_mapping p" "wp_mapping p \<noteq> []"
    and "list_all (\<lambda>x. input_name x \<noteq> [] \<and> wi_payload x \<noteq> []) (wp_inputs p)" "wp_inputs p \<noteq> []"
    and "weaver_drafts st1 = weaver_drafts st @ [d]" "wv_id d \<notin> wv_id ` set (weaver_drafts st)"
  using assms
  by (auto simp: weaver_drafts_handler_def decode_weaver_draft_payload_def create_weaver_draft_def commit_def guarded_def
      res_bind_Inr_iff check_inputs_ok run_sql_def Let_def split: sum.splits option.splits if_splits)

lemma router_run:
  assumes "plain_id i" "vq_path rq = drafts_prefix @ i @ ''/run''"
  shows "weaver_draft_router c w rq store = run_weaver_draft c w rq i store"
proof -
  have "trim_prefix (vq_path rq) drafts_prefix = i @ ''/run''"
    by (simp add: assms(2) trim_prefix_def has_prefix_def)
  moreover have "split_on (CHR ''/'') (i @ ''/run'') = [i, ''run'']"
    using assms(1) split_on_first [of "CHR ''/''" i "''run''"] by (simp add: plain_id_def)
  moreover have "i @ ''/run'' \<noteq> vq_path rq" by (simp add: assms(2) drafts_prefix_def)
  ultimately show ?thesis
    using assms(1) by (simp add: weaver_draft_router_def plain_id_def Let_def)
qed

lemma get_last_draft:
  assumes "weaver_drafts st1 = ds @ [d]" "wv_id d \<notin> wv_id ` set ds" "wv_id d \<noteq> []" "db_ready st1" "wd_sql w SelectDraft"
  shows "get_weaver_draft w (wv_id d) st1 = Inr d"
proof -
  have "find (\<lambda>x. wv_id x = wv_id d) ds = None" using assms(2) by (auto simp: find_None_iff) (metis imageI)
  then show ?thesis using assms by (simp add: get_weaver_draft_def guarded_def run_sql_def find_append)
qed

text \<open>
  A draft that was accepted runs, or never does. When a draft was created from inputs and a
  mapping that decode, running it without a body gives the value of every input under its
  trimmed name and changes no draft; that is, if the trimmed names are distinct: creation
  does not look at that, and a draft with two inputs of one name is accepted although every
  run of it is refused.
\<close>

theorem created_draft_runs:
  assumes "weaver_drafts_handler c w post st = (st1, DraftReply d)" "vq_method post = ''POST''"
    and "vq_payload post = Some p" "list_all (decodes c) (wp_inputs p)" "wc_value c (wp_mapping p) = Some mapping"
    and "\<And>t. wc_inputs_text c (wp_inputs p) = Some t \<Longrightarrow>
      \<exists>ys. wc_inputs c t = Some ys \<and> list_all2 (same_input c) (wp_inputs p) ys"
    and "plain_id (wv_id d)" "db_ready st1" "wd_sql w2 SelectDraft"
    and "vq_method run = ''POST''" "vq_empty run" "vq_path run = drafts_prefix @ wv_id d @ ''/run''"
  shows "\<exists>st2 reply. weaver_draft_router c w2 run (Some st1) = (Some st2, reply) \<and>
    weaver_drafts st2 = weaver_drafts st @ [d] \<and>
    reply = (if distinct (map input_name (wp_inputs p))
      then RunReply (map (\<lambda>x. (input_name x, the (wc_value c (wi_payload x)))) (wp_inputs p)) mapping
        (map (\<lambda>x. \<lparr>ws_name = input_name x, ws_ok = True, ws_error = []\<rparr>) (wp_inputs p))
      else DraftFailed 400 ''weaver_run_failed'')"
proof -
  note made = created_draft [OF assms(1-3)]
  obtain ys where ys: "wc_inputs c (wv_inputs d) = Some ys" "list_all2 (same_input c) (wp_inputs p) ys"
    using assms(6) made(1) by blast
  have get: "get_weaver_draft w2 (wv_id d) st1 = Inr d"
    using assms(7) by (intro get_last_draft [OF made(6,7) _ assms(8,9)]) (simp add: plain_id_def)
  have all: "filter (decodes c) (wp_inputs p) = wp_inputs p" "map (source_of c) (wp_inputs p) =
      map (\<lambda>x. \<lparr>ws_name = input_name x, ws_ok = True, ws_error = []\<rparr>) (wp_inputs p)"
    using assms(4) by (simp_all add: list_all_iff source_of_def)
  have "runnable c ys \<longleftrightarrow> distinct (map input_name (wp_inputs p))"
    using runnable_same [OF ys(2)] runnable_all_decode [OF assms(4)] made(4) by (simp add: list_all_iff)
  then have run: "resolve_weaver_run_inputs c d None = Inr (a, b, s) \<longleftrightarrow> distinct (map input_name (wp_inputs p)) \<and>
      a = decoded c (wp_inputs p) \<and> b = mapping \<and> s = map (source_of c) (wp_inputs p)" for a b s
    by (auto simp: resolve_meaning chosen_inputs_def chosen_mapping_def ys(1) made(2) assms(5) decoded_same [OF ys(2)]
        sources_same [OF ys(2)])
  then show ?thesis
    using made(6) get assms(10,11)
    by (cases "resolve_weaver_run_inputs c d None")
      (auto simp: router_run [OF assms(7,12)] run_weaver_draft_def decode_optional_weaver_payload_def decoded_def all
        split: prod.splits)
qed

text \<open>A codec of lines, whose values are the numbers.\<close>

fun line_pairs :: "string list \<Rightarrow> weaver_input list option" where
  "line_pairs [] = Some []"
| "line_pairs [x] = None"
| "line_pairs (n # p # rest) = map_option ((#) \<lparr>wi_name = n, wi_payload = p\<rparr>) (line_pairs rest)"

definition line_codec :: weaver_codec where
  "line_codec =
     \<lparr>wc_inputs_text = (\<lambda>xs. Some (join_with [CHR 0x0A] (concat (map (\<lambda>x. [wi_name x, wi_payload x]) xs)))),
      wc_inputs = (\<lambda>t. line_pairs (split_on (CHR 0x0A) t)), wc_value = (\<lambda>t. map_option JNum (atoi t))\<rparr>"

definition draft_post :: "string \<Rightarrow> weaver_request" where
  "draft_post other = \<lparr>vq_method = ''POST'', vq_path = ''/api/v1/weaver/drafts'', vq_limit = [], vq_operator = ''admin'',
     vq_empty = False, vq_payload = Some \<lparr>wp_name = ''draft'', wp_inputs =
       [\<lparr>wi_name = '' a'', wi_payload = ''1''\<rparr>, \<lparr>wi_name = other, wi_payload = ''2''\<rparr>], wp_mapping = ''3''\<rparr>\<rparr>"

definition run_post :: "string \<Rightarrow> weaver_request" where
  "run_post i = \<lparr>vq_method = ''POST'', vq_path = drafts_prefix @ i @ ''/run'', vq_limit = [], vq_operator = ''admin'',
     vq_empty = True, vq_payload = None\<rparr>"

definition created :: "string \<Rightarrow> store \<times> weaver_reply" where
  "created other = weaver_drafts_handler line_codec sample_world (draft_post other) init_store"

definition sample_draft :: "string \<Rightarrow> weaver_draft" where
  "sample_draft other = \<lparr>wv_id = ''id0'', wv_name = ''draft'',
     wv_inputs = '' a'' @ [CHR 0x0A] @ ''1'' @ [CHR 0x0A] @ other @ [CHR 0x0A] @ ''2'', wv_mapping = ''3'',
     wv_created_at = 100, wv_updated_at = 100, wv_operator = ''admin''\<rparr>"

lemma sample_facts:
  assumes "other = ''b'' \<or> other = ''a ''"
  shows "snd (created other) = DraftReply (sample_draft other)" "list_all (decodes line_codec) (wp_inputs (the (vq_payload (draft_post other))))"
    "db_ready (fst (created other))"
    "wc_inputs line_codec (wv_inputs (sample_draft other)) = Some (wp_inputs (the (vq_payload (draft_post other))))"
  using assms by (elim disjE; simp only:; code_simp)+

lemma same_input_refl: "list_all2 (same_input c) xs xs"
  by (simp add: list_all2_same same_input_def)

theorem created_draft_runs_witness:
  "snd (weaver_draft_router line_codec sample_world (run_post ''id0'') (Some (fst (created ''b'')))) =
     RunReply [(''a'', JNum 1), (''b'', JNum 2)] (JNum 3)
       [\<lparr>ws_name = ''a'', ws_ok = True, ws_error = []\<rparr>, \<lparr>ws_name = ''b'', ws_ok = True, ws_error = []\<rparr>] \<and>
   snd (weaver_draft_router line_codec sample_world (run_post ''id0'') (Some (fst (created ''a '')))) =
     DraftFailed 400 ''weaver_run_failed''"
proof -
  have "\<exists>st2 reply. weaver_draft_router line_codec sample_world (run_post ''id0'') (Some (fst (created other))) =
      (Some st2, reply) \<and> weaver_drafts st2 = weaver_drafts init_store @ [sample_draft other] \<and>
      reply = (if distinct (map input_name (wp_inputs (the (vq_payload (draft_post other)))))
        then RunReply (map (\<lambda>x. (input_name x, the (wc_value line_codec (wi_payload x))))
               (wp_inputs (the (vq_payload (draft_post other))))) (JNum 3)
          (map (\<lambda>x. \<lparr>ws_name = input_name x, ws_ok = True, ws_error = []\<rparr>) (wp_inputs (the (vq_payload (draft_post other)))))
        else DraftFailed 400 ''weaver_run_failed'')" (is "?P other") if "other = ''b'' \<or> other = ''a ''" for other
  proof -
    note facts = sample_facts [OF that]
    have "weaver_drafts_handler line_codec sample_world (draft_post other) init_store =
        (fst (created other), DraftReply (sample_draft other))"
      using facts(1) by (simp add: created_def prod_eq_iff)
    moreover have "wc_inputs_text line_codec (wp_inputs (the (vq_payload (draft_post other)))) =
        Some (wv_inputs (sample_draft other))"
      by (simp add: line_codec_def draft_post_def sample_draft_def)
    moreover have "plain_id ''id0''" "wc_value line_codec ''3'' = Some (JNum 3)" by code_simp+
    ultimately show ?thesis
      using facts(2-4) same_input_refl
      by (intro created_draft_runs) (auto simp: draft_post_def run_post_def sample_draft_def sample_world_def)
  qed
  moreover have "input_name \<lparr>wi_name = '' a'', wi_payload = ''1''\<rparr> = ''a''"
    "input_name \<lparr>wi_name = ''b'', wi_payload = ''2''\<rparr> = ''b''" "input_name \<lparr>wi_name = ''a '', wi_payload = ''2''\<rparr> = ''a''"
    "wc_value line_codec ''1'' = Some (JNum 1)" "wc_value line_codec ''2'' = Some (JNum 2)"
    by code_simp+
  ultimately show ?thesis by (force simp: draft_post_def)
qed

end
