(* ===== verification/AdminServerProps.thy ===== *)
theory AdminServerProps
  imports HandlerFrames WeaverProps AdminAuthProps
begin

text \<open>
  What holds of the control plane as a whole: who is not authenticated changes and learns
  nothing, audits name the operator the token stands for, and every sequence of requests
  keeps the invariants of the manager, of the site configurations and of the certificates.
\<close>

section \<open>Without a valid token\<close>

text \<open>The part of a server that a token protects, put into another server.\<close>

definition with_inside_of :: "server \<Rightarrow> server \<Rightarrow> server" where
  "with_inside_of s t = t\<lparr>sv_admin := sv_admin s, sv_runtime := sv_runtime s, sv_pipeline := sv_pipeline s\<rparr>"

definition same_outside :: "server \<Rightarrow> server \<Rightarrow> bool" where
  "same_outside s t \<longleftrightarrow> sv_limiter s = sv_limiter t \<and> sv_guard s = sv_guard t \<and>
     cp_auth (control_plane (current_config (ad_manager (sv_admin s)))) =
     cp_auth (control_plane (current_config (ad_manager (sv_admin t))))"

lemma with_inside_limiter:
  "with_inside_of s (s\<lparr>sv_limiter := l\<rparr>) = s\<lparr>sv_limiter := l\<rparr>"
  "same_outside s t \<Longrightarrow> with_inside_of t (s\<lparr>sv_limiter := l\<rparr>) = t\<lparr>sv_limiter := l\<rparr>"
  by (cases s; cases t; simp add: with_inside_of_def same_outside_def)+

lemma same_outside_auth: "same_outside s t \<Longrightarrow> auth_of t rq = auth_of s rq"
  by (simp add: same_outside_def auth_of_def)

lemma auth_of_limiter [simp]: "auth_of (s\<lparr>sv_limiter := l\<rparr>) rq = auth_of s rq"
  by (simp add: auth_of_def)

text \<open>Two answers that agree on all but the protected part.\<close>

definition agree :: "server \<Rightarrow> server \<Rightarrow> (server \<times> api_reply) option \<Rightarrow> (server \<times> api_reply) option \<Rightarrow> bool" where
  "agree s t a b \<longleftrightarrow> (\<exists>s1 reply. a = Some (s1, reply) \<and> with_inside_of s s1 = s1 \<and> b = Some (with_inside_of t s1, reply))"

lemma agree_reply: "same_outside s t \<Longrightarrow> agree s t (Some (s\<lparr>sv_limiter := l\<rparr>, reply)) (Some (t\<lparr>sv_limiter := l\<rparr>, reply))"
  by (simp add: agree_def with_inside_limiter)

lemma agree_open_step:
  assumes "same_outside s t"
  shows "agree s t (Some (open_step e rq r (s\<lparr>sv_limiter := l\<rparr>))) (Some (open_step e rq r (t\<lparr>sv_limiter := l\<rparr>)))"
  using assms
  by (cases r; cases s; cases t)
    (auto simp: open_step_def Let_def agree_def same_outside_def with_inside_of_def split: prod.split)

lemma agree_dispatch:
  assumes "same_outside s t" "\<And>op. auth_of s rq \<noteq> Authenticated op"
  shows "agree s t (dispatch e rq (s\<lparr>sv_limiter := l\<rparr>)) (dispatch e rq (t\<lparr>sv_limiter := l\<rparr>))"
proof (cases "auth_of s rq")
  case (Authenticated op)
  then show ?thesis using assms(2) by blast
qed (use agree_reply [OF assms(1)] agree_open_step [OF assms(1)] same_outside_auth [OF assms(1), of rq] in
    \<open>simp_all add: dispatch_def split: mux_target.split\<close>)

text \<open>
  C3. Who has no valid token is locked out. A request that is not authenticated is answered, it
  changes nothing but the tables of the rate limiter and of the login guard, and its answer
  and these tables depend on nothing else in the server: in another server with the same
  tables and the same credentials, whatever its configuration and its store, the request
  gets the same answer and changes the tables in the same way.
\<close>

theorem outsiders_locked_out:
  assumes "same_outside s t" "\<And>op. auth_of s rq \<noteq> Authenticated op"
  shows "\<exists>s1 reply. api_step e rq s = Some (s1, reply) \<and> with_inside_of s s1 = s1 \<and>
    api_step e rq t = Some (with_inside_of t s1, reply)"
proof -
  obtain l ans allowed where l: "with_rate_limit (wd_now (aw_world e)) (ap_client rq) (sv_limiter s) = (l, ans, allowed)"
    by (cases "with_rate_limit (wd_now (aw_world e)) (ap_client rq) (sv_limiter s)")
  then have "with_rate_limit (wd_now (aw_world e)) (ap_client rq) (sv_limiter t) = (l, ans, allowed)"
    using assms(1) by (simp add: same_outside_def)
  then have "agree s t (api_step e rq s) (api_step e rq t)"
    using l agree_dispatch [OF assms] agree_reply [OF assms(1)] by (simp add: api_step_def Let_def)
  then show ?thesis by (simp add: agree_def)
qed

section \<open>Audits\<close>

text \<open>A request changes what a token protects only as its operator, through the handler of its route.\<close>

lemma api_step_cases:
  assumes "api_step e rq sv = Some p"
  obtains (outside) "sv_admin (fst p) = sv_admin sv"
    | (inside) op r sv1 where "auth_of sv rq = Authenticated op" "sv_admin sv1 = sv_admin sv"
        "protected_step e (operator_from_request op (Some (ap_client rq))) rq r sv1 = Some p"
proof -
  obtain l ans allowed where l: "with_rate_limit (wd_now (aw_world e)) (ap_client rq) (sv_limiter sv) = (l, ans, allowed)"
    by (cases "with_rate_limit (wd_now (aw_world e)) (ap_client rq) (sv_limiter sv)")
  let ?sv1 = "sv\<lparr>sv_limiter := l\<rparr>"
  have "sv_admin (fst (open_step e rq r ?sv1)) = sv_admin sv" for r
    by (cases r) (auto simp: open_step_def Let_def split: prod.split)
  then show ?thesis
    using assms outside inside [of _ ?sv1]
    by (auto simp: api_step_def l Let_def dispatch_def split: if_splits mux_target.splits auth_outcome.splits)
qed

definition audit_name :: "auth_config \<Rightarrow> admin_request \<Rightarrow> string" where
  "audit_name auth client =
     (if trim_space (auth_username auth) \<noteq> [] then trim_space (auth_username auth)
      else if trim_space (aq_operator client) \<noteq> [] then trim_space (aq_operator client) else ''unknown'')"

lemma authenticated_operator:
  "with_auth auth client = Authenticated op \<Longrightarrow> operator_from_request op (Some client) = audit_name auth client"
  by (auto simp: with_auth_def operator_from_request_def audit_name_def trim_space_idem Let_def split: if_splits)

text \<open>
  C4. The audit log only grows, and its rows name who made them. A request leaves all earlier rows
  as they are; it adds rows only when it carries the bearer token, and all of them name
  the configured user, whatever operator the request claims; only when no user is
  configured does the header \<open>X-Operator\<close> of the request decide.
\<close>

theorem audits_name_operator:
  assumes "api_step e rq sv = Some (sv', reply)" "ad_store (sv_admin sv) = Some st"
  shows "\<exists>st' rows. ad_store (sv_admin sv') = Some st' \<and> audit_logs st' = audit_logs st @ rows \<and>
    (rows = [] \<or> (\<exists>op. auth_of sv rq = Authenticated op)) \<and>
    list_all (\<lambda>r. au_operator r =
      audit_name (cp_auth (control_plane (current_config (ad_manager (sv_admin sv))))) (ap_client rq)) rows"
  using assms(1)
proof (cases rule: api_step_cases)
  case outside
  then show ?thesis using assms(2) by auto
next
  case (inside op r sv1)
  then show ?thesis
    using protected_step_audits [OF inside(3)] assms(2) authenticated_operator [of _ "ap_client rq" op]
    by (auto simp: store_to_def audits_by_def auth_of_def)
qed

section \<open>Invariants of the whole server\<close>

definition admin_ok :: "system \<Rightarrow> manager \<Rightarrow> (string \<Rightarrow> config option) \<Rightarrow> admin \<Rightarrow> bool" where
  "admin_ok sys m0 unm ad \<longleftrightarrow> manager_inv (ad_manager ad) \<and> site_inv sys m0 unm ad \<and>
     (case ad_store ad of None \<Rightarrow> True | Some st \<Rightarrow> certificates_ok sys st)"

lemma edited_ok: "edited op ad ad' \<Longrightarrow> admin_ok sys m0 unm ad \<Longrightarrow> admin_ok sys m0 unm ad'"
  by (cases "ad_store ad")
    (auto simp: edited_def admin_ok_def site_inv_def texts_ok_def store_to_def logged_def same_rows_def manager_to_def certificates_ok_def)

lemma store_step_ok:
  assumes "store_step e op rq r ad = Some p" "admin_ok sys m0 unm ad" "fits sys mar unm (aw_outside e)" "json_faithful mar unm"
  shows "admin_ok sys m0 unm (fst p)"
  using assms(1)
proof (cases rule: store_step_cases)
  case (site_list w)
  have "store_to (kept_by op) (ad_store ad) (ad_store (fst p))"
    using site_list on_store_to [of "kept_by op"] site_handlers_audits(1) [of "to_site_request op rq"] by simp
  moreover have "site_inv sys m0 unm (fst p)"
    using assms(2) site_list on_store_inv [OF _ sites_handler_inv] by (simp add: admin_ok_def)
  ultimately show ?thesis
    using assms(2) site_list
    by (auto simp: admin_ok_def store_to_def kept_by_def certificates_ok_def split: option.splits)
next
  case site
  have "site_inv sys m0 unm (fst p)"
    using site site_router_inv [OF _ assms(3,4)] assms(2) by (simp add: admin_ok_def)
  then show ?thesis
    using assms(2) site site_router_to(1) [of "to_site_request op rq" ad "aw_outside e"]
      site_router_to(2) [of ad "aw_outside e" "to_site_request op rq"]
    by (auto simp: admin_ok_def store_to_def kept_by_def certificates_ok_def manager_to_def split: option.splits)
next
  case draft
  then show ?thesis using edited_ok assms(2) by blast
next
  case cert
  have "aw_system e = sys" using assms(3) by (simp add: aw_system_def fits_def)
  then show ?thesis
    using cert assms(2)
    by (cases "ad_store ad") (auto simp: admin_ok_def site_inv_def texts_ok_def store_to_def cert_edited_def)
qed (use assms(2) in simp)

text \<open>
  A server starts with an empty store or none. Requests come in any order, each with its clock,
  random identifiers and failing statements, and between them the data plane and the
  synchronisers change the manager, as long as they keep its invariant.
\<close>

inductive server_reach ::
  "system \<Rightarrow> manager \<Rightarrow> (config \<Rightarrow> string) \<Rightarrow> (string \<Rightarrow> config option) \<Rightarrow> server \<Rightarrow> bool"
  for sys m0 mar unm where
  server_start: "manager_to m0 m \<Longrightarrow> store \<in> {None, Some init_store} \<Longrightarrow>
    server_reach sys m0 mar unm (new_server m rt pl store env)"
| server_request: "server_reach sys m0 mar unm sv \<Longrightarrow> fits sys mar unm (aw_outside e) \<Longrightarrow>
    api_step e rq sv = Some (sv', reply) \<Longrightarrow> server_reach sys m0 mar unm sv'"
| server_background: "server_reach sys m0 mar unm sv \<Longrightarrow> manager_to (ad_manager (sv_admin sv)) m \<Longrightarrow>
    server_reach sys m0 mar unm (sv\<lparr>sv_admin := (sv_admin sv)\<lparr>ad_manager := m\<rparr>, sv_pipeline := pl\<rparr>)"

lemma protected_step_ok:
  assumes "protected_step e op rq r sv = Some p" "admin_ok sys m0 unm (sv_admin sv)"
    and "fits sys mar unm (aw_outside e)" "json_faithful mar unm"
  shows "admin_ok sys m0 unm (sv_admin (fst p))"
  using assms(1,2) store_step_ok [OF _ assms(2-4)] edited_ok [OF global_step_edited assms(2)]
  by (auto simp: protected_step_def Let_def split: if_splits prod.splits)

lemma server_reach_ok:
  assumes "server_reach sys m0 mar unm sv" "manager_inv m0" "json_faithful mar unm"
  shows "admin_ok sys m0 unm (sv_admin sv)"
  using assms(1)
proof induction
  case (server_start m store rt pl env)
  then show ?case
    using assms(2)
    by (auto simp: admin_ok_def new_server_def manager_to_def site_inv_def texts_ok_def certificates_ok_def init_store_def)
next
  case (server_request sv e rq sv' reply)
  show ?case
    using server_request(3)
  proof (cases rule: api_step_cases)
    case outside
    then show ?thesis using server_request.IH by simp
  next
    case (inside op r sv1)
    then show ?thesis
      using protected_step_ok [OF inside(3) _ server_request(2) assms(3)] server_request.IH by simp
  qed
next
  case (server_background sv m pl)
  then show ?case by (simp add: admin_ok_def site_inv_def manager_to_def)
qed

text \<open>
  The control plane keeps its state sound. After any sequence of requests of any kind, with
  the data plane and the synchronisers running in between and whichever statements fail:
  the running pools satisfy the invariant on which routing rests, every site configuration and
  version that the store gives out passes validation, and every stored certificate has its
  key, a name and clean domains.
\<close>

theorem server_invariant:
  assumes "server_reach sys m0 mar unm sv" "manager_inv m0" "json_faithful mar unm"
    and "ad_store (sv_admin sv) = Some st" "wd_unmarshal w = unm"
  shows "manager_inv (ad_manager (sv_admin sv)) \<and> certificates_ok sys st \<and>
    (get_site_config w i st = Inr cfg \<longrightarrow> manager_validate sys cfg (ad_manager (sv_admin sv)) = []) \<and>
    (get_site_version_config w i vid st = Inr cfg \<longrightarrow> manager_validate sys cfg (ad_manager (sv_admin sv)) = [])"
proof -
  have ok: "admin_ok sys m0 unm (sv_admin sv)" using server_reach_ok assms(1-3) by blast
  then have "texts_ok sys m0 (wd_unmarshal w) st" "mgr_path (ad_manager (sv_admin sv)) = mgr_path m0"
    using assms(4,5) by (simp_all add: admin_ok_def site_inv_def)
  then show ?thesis
    using ok assms(4) site_config_valid version_config_valid by (simp add: admin_ok_def)
qed

section \<open>A server\<close>

definition dated_codec :: world where
  "dated_codec = codec_world\<lparr>wd_now := 62135596800 * second + 9\<rparr>"

definition api_outside :: api_world where
  "api_outside = \<lparr>aw_outside = codec_outside\<lparr>ou_system := pair_system, ou_world := (\<lambda>_. dated_codec)\<rparr>, aw_pki = line_pki,
     aw_codec = line_codec, aw_new_id = ''n'', aw_captcha = None, aw_captcha_image = (\<lambda>_. None)\<rparr>"

definition token_manager :: manager where
  "token_manager = fst (apply_config pair_system
     (zero_config\<lparr>control_plane := (control_plane zero_config)\<lparr>cp_auth := sample_auth\<rparr>\<rparr>) sample_manager)"

definition api_server :: "store option \<Rightarrow> server" where
  "api_server store = new_server token_manager None None store (\<lambda>_. [])"

definition api_post :: "string \<Rightarrow> string \<Rightarrow> api_request" where
  "api_post header path =
     \<lparr>ap_client = sample_admin_request\<lparr>aq_authorization := header, aq_operator := ''mallory''\<rparr>, ap_path = path, ap_param = (\<lambda>_. []),
      ap_body = \<lparr>ab_empty = False, ab_credentials = None, ab_cdn = None, ab_pool = None, ab_route = None, ab_level = None,
        ab_site = blank_body\<lparr>bd_site := Some sample_site\<rparr>, ab_weaver = None, ab_form_ok = True, ab_form_name = ''site'',
        ab_form_cert = Bytes (''Ca.org'' @ [CHR 0x0A] @ ''Cca'' @ [CHR 0x0A]), ab_form_key = Bytes ''der''\<rparr>\<rparr>"

lemma token_facts:
  "auth_of (api_server store) (api_post [] path) = Unauthorized ''missing authorization header''"
  "manager_inv token_manager" "mgr_path token_manager = mgr_path sample_manager"
  by code_simp+

theorem outsiders_locked_out_witness:
  "\<exists>s1 reply. api_step api_outside (api_post [] ''/api/v1/sites'') (api_server None) = Some (s1, reply) \<and>
     with_inside_of (api_server None) s1 = s1 \<and>
     api_step api_outside (api_post [] ''/api/v1/sites'') (api_server (Some init_store)) =
       Some (with_inside_of (api_server (Some init_store)) s1, reply)"
  by (rule outsiders_locked_out) (simp add: same_outside_def api_server_def new_server_def, simp add: token_facts(1))

text \<open>A site is created with the token; the header of the request names another operator.\<close>

definition site_server :: server where
  "site_server = fst (the (api_step api_outside (api_post ''Bearer t'' ''/api/v1/sites'') (api_server (Some init_store))))"

lemma site_server_facts:
  "(case api_step api_outside (api_post ''Bearer t'' ''/api/v1/sites'') (api_server (Some init_store)) of
      Some (_, ApiSite (SiteReply _)) \<Rightarrow> True | _ \<Rightarrow> False)"
  "(case ad_store (sv_admin site_server) of Some st \<Rightarrow> map au_operator (audit_logs st) = [''u''] | None \<Rightarrow> False)"
  by code_simp+

lemma site_server_step:
  obtains reply where "api_step api_outside (api_post ''Bearer t'' ''/api/v1/sites'') (api_server (Some init_store)) =
    Some (site_server, reply)"
  using site_server_facts(1) by (auto simp: site_server_def split: option.splits)

theorem audits_name_operator_witness:
  "\<exists>reply st'. api_step api_outside (api_post ''Bearer t'' ''/api/v1/sites'') (api_server (Some init_store)) =
      Some (site_server, reply) \<and> ad_store (sv_admin site_server) = Some st' \<and> map au_operator (audit_logs st') = [''u'']"
proof -
  obtain reply where step: "api_step api_outside (api_post ''Bearer t'' ''/api/v1/sites'') (api_server (Some init_store)) =
      Some (site_server, reply)" by (rule site_server_step)
  have start: "ad_store (sv_admin (api_server (Some init_store))) = Some init_store" "audit_logs init_store = []"
    by (simp_all add: api_server_def new_server_def init_store_def)
  have "audit_name (cp_auth (control_plane (current_config (ad_manager (sv_admin (api_server (Some init_store)))))))
      (ap_client (api_post ''Bearer t'' ''/api/v1/sites'')) = ''u''" by code_simp
  then obtain st' where st': "ad_store (sv_admin site_server) = Some st'" "list_all (\<lambda>r. au_operator r = ''u'') (audit_logs st')"
    using audits_name_operator [OF step start(1)] start(2) by auto
  then have "length (audit_logs st') = 1"
    using site_server_facts(2) by (auto simp: map_eq_Cons_conv)
  then have "map au_operator (audit_logs st') = [''u'']"
    using st'(2) by (auto simp: length_Suc_conv)
  then show ?thesis using step st'(1) by (intro exI conjI)
qed

text \<open>Then a certificate is uploaded.\<close>

definition certs_post :: api_request where
  "certs_post = api_post ''Bearer t'' ''/api/v1/certs''"

definition cert_server :: server where
  "cert_server = fst (the (api_step api_outside certs_post site_server))"

text \<open>The store after the upload.\<close>

definition cert_store :: store where
  "cert_store = fst (check_and_save pair_system line_pki dated_codec (to_cert_request ''u'' certs_post) ''der'' parsed_sample
     (the (ad_store (sv_admin site_server))))"

lemma cert_step_facts:
  "case with_rate_limit (wd_now (aw_world api_outside)) (ap_client certs_post) (sv_limiter site_server) of (_, _, ok) \<Rightarrow> ok"
  "mux_target_of (aq_method (ap_client certs_post)) (ap_path certs_post) = MuxTo RCerts"
  "auth_of site_server certs_post = Authenticated (Some ''u'')"
  "operator_from_request (Some ''u'') (Some (ap_client certs_post)) = ''u''"
  by code_simp+

lemma cert_store_facts:
  "(\<lambda>st. length (stored_certificates st) = 1 \<and> get_site_config dated_codec ''id0'' st = Inr zero_config) cert_store"
  by code_simp

lemma certs_post_upload:
  "handle_certificates (aw_system api_outside) (aw_pki api_outside) (aw_world api_outside) (to_cert_request ''u'' certs_post) st =
     Some (check_and_save pair_system line_pki dated_codec (to_cert_request ''u'' certs_post) ''der'' parsed_sample st)"
  using scan_sample
  by (simp add: handle_certificates_def upload_certificate_def to_cert_request_def certs_post_def api_post_def
      sample_admin_request_def api_outside_def aw_system_def aw_world_def)

lemma protected_api_step:
  assumes "case with_rate_limit (wd_now (aw_world e)) (ap_client rq) (sv_limiter sv) of (_, _, ok) \<Rightarrow> ok"
    and "mux_target_of (aq_method (ap_client rq)) (ap_path rq) = MuxTo r" "\<not> open_route r" "auth_of sv rq = Authenticated op"
  shows "\<exists>l. api_step e rq sv = protected_step e (operator_from_request op (Some (ap_client rq))) rq r (sv\<lparr>sv_limiter := l\<rparr>)"
  using assms by (auto simp: api_step_def dispatch_def Let_def split: prod.splits)

lemma cert_server_step:
  "\<exists>reply. api_step api_outside certs_post site_server = Some (cert_server, reply)"
  "ad_store (sv_admin cert_server) = Some cert_store"
proof -
  obtain st where st: "ad_store (sv_admin site_server) = Some st"
    using site_server_facts(2) by (auto split: option.splits)
  obtain l where "api_step api_outside certs_post site_server =
      protected_step api_outside ''u'' certs_post RCerts (site_server\<lparr>sv_limiter := l\<rparr>)"
    using protected_api_step [OF cert_step_facts(1,2) _ cert_step_facts(3)] cert_step_facts(4)
    by (auto simp: open_route_def)
  then obtain p where "api_step api_outside certs_post site_server = Some p"
    "ad_store (sv_admin (fst p)) = Some cert_store"
    by (auto simp: protected_step_def store_step_def global_routes_def cert_step_def certs_post_upload st Let_def split_def
        cert_store_def)
  then show "\<exists>reply. api_step api_outside certs_post site_server = Some (cert_server, reply)"
    "ad_store (sv_admin cert_server) = Some cert_store"
    by (cases p; simp add: cert_server_def)+
qed

theorem server_invariant_witness:
  "length (stored_certificates cert_store) = 1 \<and> get_site_config dated_codec ''id0'' cert_store = Inr zero_config \<and>
   manager_inv (ad_manager (sv_admin cert_server)) \<and> certificates_ok pair_system cert_store \<and>
   manager_validate pair_system zero_config (ad_manager (sv_admin cert_server)) = []"
proof -
  let ?reach = "server_reach pair_system token_manager tally_marshal tally_unmarshal"
  have world: "fits pair_system tally_marshal tally_unmarshal (aw_outside api_outside)" "wd_unmarshal dated_codec = tally_unmarshal"
    by (simp_all add: fits_def api_outside_def codec_outside_def codec_world_def dated_codec_def)
  have "?reach (api_server (Some init_store))"
    unfolding api_server_def by (rule server_start) simp_all
  then have "?reach site_server"
    by (rule site_server_step [rule_format, OF server_request [OF _ world(1)]])
  then have "?reach cert_server"
    using server_request [OF _ world(1)] cert_server_step(1) by blast
  then show ?thesis
    using server_invariant [OF _ token_facts(2) tally_faithful cert_server_step(2) world(2)] cert_store_facts by blast
qed

end
