(* ===== verification/Issuer.thy ===== *)
theory Issuer
  imports Certificates
begin

text \<open>
  The certificate that is made at the start when the configuration has none
  (\<open>internal/tlsutil/issuer.go\<close>): for which names, signed by whom, and where it fails. Keys, serial
  numbers, the signing of a certificate and the parsers of keys are the standard library's and
  an argument (\<open>issuer\<close>), as PEM and X.509 are (\<open>pki\<close>). A key is the text that stands for it.
\<close>

record server_template =
  tp_serial :: nat
  tp_common_name :: string
  tp_not_before :: gotime
  tp_not_after :: gotime
  tp_dns_names :: "string list"

text \<open>
  \<open>ir_signer\<close> is \<open>None\<close> for a text that is no PKCS 8 key and \<open>Some None\<close> for such a key that cannot
  sign. \<open>ir_create\<close> takes the template, the parent's certificate, or none when the template is
  its own parent, the key that is certified, and the key that signs.
\<close>

record issuer =
  ir_generate :: "string option"
  ir_serial :: "nat option"
  ir_signer :: "string \<Rightarrow> string option option"
  ir_ec :: "string \<Rightarrow> string option"
  ir_pkcs1 :: "string \<Rightarrow> string option"
  ir_create :: "server_template \<Rightarrow> x509_certificate option \<Rightarrow> string \<Rightarrow> string \<Rightarrow> string option"
  ir_marshal :: "string \<Rightarrow> string option"

datatype issue_error =
    KeyFailed | SerialFailed | CaUnreadable | CaCertInvalid | CaKeyInvalid | CreateFailed | EncodeFailed

definition add_domain :: "domain_rule \<Rightarrow> string list \<Rightarrow> string list" where
  "add_domain rule domains =
     (let domain = trim_space (to_lower (dr_domain rule)) in
      if domain = [] \<or> domain \<in> set domains then domains else domains @ [domain])"

definition collect_domains :: "config \<Rightarrow> string list" where
  "collect_domains cfg =
     (let domains = fold add_domain (routing_domains (routing cfg)) [] in
      if domains = [] then [''localhost''] else domains)"

definition build_server_template :: "issuer \<Rightarrow> gotime \<Rightarrow> string list \<Rightarrow> string \<Rightarrow> server_template option" where
  "build_server_template ir now domains common_name =
     map_option (\<lambda>serial. \<lparr>tp_serial = serial, tp_common_name = common_name, tp_not_before = now - 10 * minute,
       tp_not_after = now + 365 * 24 * hour, tp_dns_names = domains\<rparr>) (ir_serial ir)"

definition parse_certificate_pem :: "pki \<Rightarrow> string \<Rightarrow> x509_certificate option" where
  "parse_certificate_pem pk raw =
     (case pk_decode pk raw of None \<Rightarrow> None | Some (block, _) \<Rightarrow> pk_certificate pk (pb_bytes block))"

definition parse_private_key_pem :: "pki \<Rightarrow> issuer \<Rightarrow> string \<Rightarrow> string option" where
  "parse_private_key_pem pk ir raw =
     (case pk_decode pk raw of
        None \<Rightarrow> None
      | Some (block, _) \<Rightarrow>
          (case ir_signer ir (pb_bytes block) of
             Some signer \<Rightarrow> signer
           | None \<Rightarrow>
               (case ir_ec ir (pb_bytes block) of
                  Some signer \<Rightarrow> Some signer
                | None \<Rightarrow> ir_pkcs1 ir (pb_bytes block))))"

definition encode_certificate ::
  "system \<Rightarrow> pki \<Rightarrow> issuer \<Rightarrow> string \<Rightarrow> string \<Rightarrow> issue_error + tls_certificate" where
  "encode_certificate sys pk ir private_key der =
     (case ir_marshal ir private_key of
        None \<Rightarrow> Inl EncodeFailed
      | Some key_der \<Rightarrow>
          (case sys_key_pair sys (pk_encode pk (plain_block ''CERTIFICATE'' der))
                  (pk_encode pk (plain_block ''EC PRIVATE KEY'' key_der)) of
             None \<Rightarrow> Inl EncodeFailed
           | Some c \<Rightarrow> Inr c))"

text \<open>A fresh key, a template, and a certificate that \<open>signer\<close> signs, or the key itself.\<close>

definition issue ::
  "system \<Rightarrow> pki \<Rightarrow> issuer \<Rightarrow> gotime \<Rightarrow> string list \<Rightarrow> string \<Rightarrow> (x509_certificate \<times> string) option \<Rightarrow>
   issue_error + tls_certificate" where
  "issue sys pk ir now domains common_name ca =
     (case ir_generate ir of
        None \<Rightarrow> Inl KeyFailed
      | Some private_key \<Rightarrow>
          (case build_server_template ir now domains common_name of
             None \<Rightarrow> Inl SerialFailed
           | Some template \<Rightarrow>
               (case ir_create ir template (map_option fst ca) private_key
                       (case ca of None \<Rightarrow> private_key | Some (_, signer) \<Rightarrow> signer) of
                  None \<Rightarrow> Inl CreateFailed
                | Some der \<Rightarrow> encode_certificate sys pk ir private_key der)))"

definition issue_self_signed ::
  "system \<Rightarrow> pki \<Rightarrow> issuer \<Rightarrow> gotime \<Rightarrow> string list \<Rightarrow> issue_error + tls_certificate" where
  "issue_self_signed sys pk ir now domains = issue sys pk ir now domains ''YoBFF Self Signed'' None"

definition issue_from_ca ::
  "system \<Rightarrow> pki \<Rightarrow> issuer \<Rightarrow> gotime \<Rightarrow> string list \<Rightarrow> string \<Rightarrow> string \<Rightarrow> issue_error + tls_certificate" where
  "issue_from_ca sys pk ir now domains ca_path ca_key_path =
     (case (sys_read_file sys ca_path, sys_read_file sys ca_key_path) of
        (Some cert_text, Some key_text) \<Rightarrow>
          (case parse_certificate_pem pk cert_text of
             None \<Rightarrow> Inl CaCertInvalid
           | Some ca \<Rightarrow>
               (case parse_private_key_pem pk ir key_text of
                  None \<Rightarrow> Inl CaKeyInvalid
                | Some signer \<Rightarrow> issue sys pk ir now domains ''YoBFF CA Signed'' (Some (ca, signer))))
      | _ \<Rightarrow> Inl CaUnreadable)"

definition build_certificate ::
  "system \<Rightarrow> pki \<Rightarrow> issuer \<Rightarrow> environ \<Rightarrow> gotime \<Rightarrow> config \<Rightarrow> issue_error + tls_certificate \<times> string" where
  "build_certificate sys pk ir env now cfg =
     (let domains = collect_domains cfg;
          ca_path = trim_space (env ''TLS_CA_CERT_FILE'');
          ca_key_path = trim_space (env ''TLS_CA_KEY_FILE'') in
      if ca_path \<noteq> [] \<and> ca_key_path \<noteq> [] then
        res_bind (issue_from_ca sys pk ir now domains ca_path ca_key_path) (\<lambda>c. Inr (c, ''ca-signed''))
      else res_bind (issue_self_signed sys pk ir now domains) (\<lambda>c. Inr (c, ''self-signed'')))"

section \<open>For which names\<close>

lemma collect_domains_clean:
  "collect_domains cfg \<noteq> [] \<and> distinct (collect_domains cfg) \<and>
   list_all (\<lambda>d. d \<noteq> [] \<and> trim_space d = d \<and> to_lower d = d) (collect_domains cfg)"
proof -
  have "distinct (fold add_domain rules out) \<and>
      list_all (\<lambda>d. d \<noteq> [] \<and> trim_space d = d \<and> to_lower d = d) (fold add_domain rules out)"
    if "distinct out" "list_all (\<lambda>d. d \<noteq> [] \<and> trim_space d = d \<and> to_lower d = d) out" for rules out
    using that by (induction rules arbitrary: out) (simp_all add: add_domain_def Let_def trim_space_to_lower)
  from this [of "[]"] show ?thesis by (auto simp: collect_domains_def Let_def) code_simp+
qed

lemma issue_names:
  assumes "issue sys pk ir now domains common_name ca = Inr c"
  shows "\<exists>template parent key signer der. tp_dns_names template = domains \<and>
    ir_create ir template parent key signer = Some der \<and> encode_certificate sys pk ir key der = Inr c"
  using assms
  by (auto simp: issue_def build_server_template_def split: option.splits prod.splits) (metis server_template.select_convs(5))+

lemma build_certificate_names:
  assumes "build_certificate sys pk ir env now cfg = Inr (c, mode)"
  shows "\<exists>template parent key signer der. tp_dns_names template = collect_domains cfg \<and>
    ir_create ir template parent key signer = Some der \<and> encode_certificate sys pk ir key der = Inr c"
  using assms issue_names
  by (auto simp: build_certificate_def issue_self_signed_def issue_from_ca_def Let_def res_bind_Inr_iff
      split: if_splits option.splits)

end
