(* ===== verification/Providers.thy ===== *)
theory Providers
  imports Syncer GoTime GoURL
begin

text \<open>
  The plugins that fetch the address lists of CDN providers (\<open>internal/plugins/cdn\<close>): the
  request each of them makes, with its signature, and what it takes from the answer. Sending a
  request, SHA-256, HMAC, random bytes and the decoding of JSON answers are an argument
  (\<open>web\<close>); endpoints, canonical requests, signatures and the choice of the list are modelled.
\<close>

section \<open>Requests and answers\<close>

record http_call =
  hc_method :: string
  hc_url :: url
  hc_headers :: "string gomap"
  hc_body :: string

record http_answer =
  ha_status :: int
  ha_body :: string

record address_lists =
  al_v4 :: "string list"
  al_v6 :: "string list"

record cloudflare_answer =
  ca_lists :: address_lists
  ca_success :: bool
  ca_errors :: "(int \<times> string) list"

text \<open>
  The signed answers hold two lists: the one in force and the next one. \<open>wb_send\<close> is \<open>None\<close>
  for a request that cannot be built or sent, and \<open>wb_bytes\<close> for a failing random source.
\<close>

record web =
  wb_send :: "http_call \<Rightarrow> http_answer option"
  wb_sha256 :: "string \<Rightarrow> string"
  wb_hmac :: "string \<Rightarrow> string \<Rightarrow> string"
  wb_bytes :: "nat \<Rightarrow> string option"
  wb_cloudflare :: "string \<Rightarrow> cloudflare_answer option"
  wb_aliyun :: "string \<Rightarrow> (address_lists \<times> address_lists) option"
  wb_tencent :: "string \<Rightarrow> (address_lists \<times> address_lists) option"
  wb_aliyun_error :: "string \<Rightarrow> string \<times> string"
  wb_tencent_error :: "string \<Rightarrow> string \<times> string"

datatype fetch_error =
    MissingConfig
  | BadSiteId
  | BadEndpoint
  | NoRandom
  | NotSent
  | BadStatus int string string
  | BadAnswer
  | ApiFailed "(int \<times> string) option"

section \<open>What the plugins share\<close>

definition filter_cidrs :: "string list \<Rightarrow> string list" where
  "filter_cidrs items = filter (\<lambda>v. v \<noteq> [] \<and> \<not> has_prefix v ''#'') (map trim_space items)"

definition newline :: string where
  "newline = [CHR 0x0A]"

definition hex_text :: "string \<Rightarrow> string" where
  "hex_text s = concat (map (\<lambda>c. [hex_lower (code c div 16), hex_lower (code c mod 16)]) s)"

definition sha256_hex :: "web \<Rightarrow> string \<Rightarrow> string" where
  "sha256_hex w payload = hex_text (wb_sha256 w payload)"

text \<open>The next list, or the current one when the next one is empty.\<close>

definition chosen_list :: "address_lists \<times> address_lists \<Rightarrow> string list" where
  "chosen_list found =
     (case found of
        (current, upcoming) \<Rightarrow>
          let v4 = filter_cidrs (al_v4 upcoming); v6 = filter_cidrs (al_v6 upcoming) in
          if v4 = [] \<and> v6 = [] then filter_cidrs (al_v4 current) @ filter_cidrs (al_v6 current) else v4 @ v6)"

text \<open>The error of an answer that is no success: code and message, when it has them.\<close>

definition status_error :: "int \<Rightarrow> string \<times> string \<Rightarrow> fetch_error" where
  "status_error status err = BadStatus status (trim_space (fst err)) (trim_space (snd err))"

section \<open>Cloudflare\<close>

definition cloudflare_default :: string where
  "cloudflare_default = ''https://api.cloudflare.com/client/v4/ips''"

definition cloudflare_provider :: "string \<Rightarrow> string" where
  "cloudflare_provider endpoint = (if trim_space endpoint = [] then cloudflare_default else endpoint)"

definition cloudflare_endpoint :: "string \<Rightarrow> url option" where
  "cloudflare_endpoint raw =
     (let value = (if trim_space raw = [] then cloudflare_default else trim_space raw) in
      map_option (\<lambda>u. u\<lparr>url_path := ''/client/v4/ips'', url_query := [], url_fragment := []\<rparr>) (upstream_url value))"

definition cloudflare_answer_lists :: "cloudflare_answer \<Rightarrow> fetch_error + address_lists" where
  "cloudflare_answer_lists a =
     (if ca_success a then Inr (ca_lists a)
      else Inl (ApiFailed (case ca_errors a of [] \<Rightarrow> None | (num, msg) # _ \<Rightarrow> Some (num, trim_space msg))))"

definition cloudflare_fetch :: "web \<Rightarrow> string \<Rightarrow> fetch_error + address_lists" where
  "cloudflare_fetch w endpoint =
     (case cloudflare_endpoint endpoint of
        None \<Rightarrow> Inl BadEndpoint
      | Some u \<Rightarrow>
          (case wb_send w \<lparr>hc_method = ''GET'', hc_url = u, hc_headers = [], hc_body = []\<rparr> of
             None \<Rightarrow> Inl NotSent
           | Some answer \<Rightarrow>
               if ha_status answer \<noteq> 200 then Inl (BadStatus (ha_status answer) [] [])
               else
                 (case wb_cloudflare w (ha_body answer) of
                    None \<Rightarrow> Inl BadAnswer
                  | Some a \<Rightarrow> cloudflare_answer_lists a)))"

definition cloudflare_cidrs :: "web \<Rightarrow> string \<Rightarrow> fetch_error + string list" where
  "cloudflare_cidrs w endpoint =
     (case cloudflare_fetch w (cloudflare_provider endpoint) of
        Inl e \<Rightarrow> Inl e
      | Inr found \<Rightarrow> Inr (filter_cidrs (al_v4 found) @ filter_cidrs (al_v6 found)))"

section \<open>Queries\<close>

text \<open>\<open>url.QueryEscape\<close> and \<open>url.QueryUnescape\<close>.\<close>

definition hex_upper :: "nat \<Rightarrow> char" where
  "hex_upper n = (if n < 10 then char_of (48 + n) else char_of (55 + n))"

definition escape_char :: "char \<Rightarrow> string" where
  "escape_char c =
     (if is_letter c \<or> is_digit c \<or> c \<in> set ''-_.~'' then [c]
      else if c = CHR '' '' then ''+''
      else [CHR ''%'', hex_upper (code c div 16), hex_upper (code c mod 16)])"

definition query_escape :: "string \<Rightarrow> string" where
  "query_escape s = concat (map escape_char s)"

definition query_unescape :: "string \<Rightarrow> string option" where
  "query_unescape s = unescape_any (map (\<lambda>c. if c = CHR ''+'' then CHR '' '' else c) s)"

type_synonym query_values = "string list gomap"

text \<open>\<open>url.Values.Encode\<close>, and \<open>url.URL.Query\<close>, which drops what it cannot read.\<close>

definition encode_pair :: "string \<Rightarrow> string \<Rightarrow> string" where
  "encode_pair k v = query_escape k @ ''='' @ query_escape v"

definition values_encode :: "query_values \<Rightarrow> string" where
  "values_encode vals =
     join_with ''&'' (concat (map (\<lambda>k. map (encode_pair k) (the (map_get vals k))) (sort (map fst vals))))"

definition add_value :: "string \<Rightarrow> string \<Rightarrow> query_values \<Rightarrow> query_values" where
  "add_value k v vals = (case map_get vals k of None \<Rightarrow> vals @ [(k, [v])] | Some vs \<Rightarrow> map_put k (vs @ [v]) vals)"

definition parse_piece :: "string \<Rightarrow> query_values \<Rightarrow> query_values" where
  "parse_piece piece vals =
     (if CHR '';'' \<in> set piece \<or> piece = [] then vals
      else
        (case (query_unescape (before (CHR ''='') piece), query_unescape (drop 1 (from_first (CHR ''='') piece))) of
           (Some k, Some v) \<Rightarrow> add_value k v vals
         | _ \<Rightarrow> vals))"

definition parse_query :: "string \<Rightarrow> query_values" where
  "parse_query q = fold parse_piece (split_on (CHR ''&'') q) []"

definition build_canonical_query :: "query_values \<Rightarrow> string" where
  "build_canonical_query vals =
     join_with ''&'' (concat (map (\<lambda>k. let vs = the (map_get vals k) in
       if vs = [] then [query_escape k @ ''=''] else map (encode_pair k) (sort vs)) (sort (map fst vals))))"

section \<open>Aliyun\<close>

definition aliyun_endpoint :: "string \<Rightarrow> url option" where
  "aliyun_endpoint raw =
     (let value = (if trim_space raw = [] then ''https://esa.cn-hangzhou.aliyuncs.com'' else trim_space raw);
          full = (if has_prefix value ''http://'' \<or> has_prefix value ''https://'' then value else ''https://'' @ value) in
      map_option (\<lambda>u. u\<lparr>url_path := [], url_query := [], url_fragment := []\<rparr>) (upstream_url full))"

text \<open>The signed headers, and their lines; a header is looked up by its name in lower case.\<close>

definition build_canonical_headers :: "string gomap \<Rightarrow> string \<times> string" where
  "build_canonical_headers headers =
     (let names = remdups (sort (map (\<lambda>(k, _). to_lower (trim_space k)) headers)) in
      (join_with '';'' names,
       concat (map (\<lambda>k. k @ '':'' @ trim_space (case map_get headers k of None \<Rightarrow> [] | Some v \<Rightarrow> v) @ newline) names)))"

definition signed_aliyun_headers :: "web \<Rightarrow> gotime \<Rightarrow> string \<Rightarrow> url \<Rightarrow> string gomap" where
  "signed_aliyun_headers w now nonce u =
     [(''host'', url_host u), (''x-acs-action'', ''GetOriginProtection''), (''x-acs-version'', ''2024-09-10''),
      (''x-acs-date'', rfc3339 (now div second)), (''x-acs-signature-nonce'', nonce),
      (''x-acs-content-sha256'', sha256_hex w [])]"

definition aliyun_string_to_sign :: "web \<Rightarrow> gotime \<Rightarrow> string \<Rightarrow> url \<Rightarrow> string" where
  "aliyun_string_to_sign w now nonce u =
     (case build_canonical_headers (signed_aliyun_headers w now nonce u) of
        (names, canonical) \<Rightarrow>
          ''ACS3-HMAC-SHA256'' @ newline @
          sha256_hex w (join_with newline
            [''GET'', ''/'', build_canonical_query (parse_query (url_query u)), canonical, names, sha256_hex w []]))"

definition aliyun_url :: "url \<Rightarrow> string \<Rightarrow> url" where
  "aliyun_url endpoint site =
     endpoint\<lparr>url_opaque := [], url_path := ''/'', url_query := values_encode [(''SiteId'', [site])]\<rparr>"

definition aliyun_call :: "web \<Rightarrow> gotime \<Rightarrow> string \<Rightarrow> string \<Rightarrow> string \<Rightarrow> string \<Rightarrow> url \<Rightarrow> http_call" where
  "aliyun_call w now nonce key_id secret site endpoint =
     (let u = aliyun_url endpoint site;
          headers = signed_aliyun_headers w now nonce u;
          signature = hex_text (wb_hmac w secret (aliyun_string_to_sign w now nonce u));
          authorization = ''ACS3-HMAC-SHA256 Credential='' @ key_id @ '',SignedHeaders='' @
            fst (build_canonical_headers headers) @ '',Signature='' @ signature in
      \<lparr>hc_method = ''GET'', hc_url = u,
       hc_headers = [(''Authorization'', authorization), (''X-Acs-Action'', ''GetOriginProtection''),
         (''X-Acs-Version'', ''2024-09-10''), (''X-Acs-Date'', rfc3339 (now div second)),
         (''X-Acs-Signature-Nonce'', nonce), (''X-Acs-Content-Sha256'', sha256_hex w [])],
       hc_body = []\<rparr>)"

text \<open>The answer of a signed request.\<close>

definition signed_answer ::
  "(string \<Rightarrow> string \<times> string) \<Rightarrow> (string \<Rightarrow> (address_lists \<times> address_lists) option) \<Rightarrow>
   http_answer option \<Rightarrow> fetch_error + string list" where
  "signed_answer decode_error decode answer =
     (case answer of
        None \<Rightarrow> Inl NotSent
      | Some a \<Rightarrow>
          if ha_status a \<noteq> 200 then Inl (status_error (ha_status a) (decode_error (ha_body a)))
          else (case decode (ha_body a) of None \<Rightarrow> Inl BadAnswer | Some found \<Rightarrow> Inr (chosen_list found)))"

definition aliyun_request ::
  "web \<Rightarrow> gotime \<Rightarrow> string \<Rightarrow> string \<Rightarrow> string \<Rightarrow> string \<Rightarrow> fetch_error + http_call" where
  "aliyun_request w now key_id0 secret0 raw_endpoint site0 =
     (let key_id = trim_space key_id0; secret = trim_space secret0; site = trim_space site0 in
      if key_id = [] \<or> secret = [] \<or> site = [] then Inl MissingConfig
      else if atoi site = None then Inl BadSiteId
      else
        (case aliyun_endpoint raw_endpoint of
           None \<Rightarrow> Inl BadEndpoint
         | Some endpoint \<Rightarrow>
             (case wb_bytes w 16 of
                None \<Rightarrow> Inl NoRandom
              | Some nonce \<Rightarrow> Inr (aliyun_call w now (hex_text nonce) key_id secret site endpoint))))"

definition aliyun_cidrs ::
  "web \<Rightarrow> gotime \<Rightarrow> string \<Rightarrow> string \<Rightarrow> string \<Rightarrow> string \<Rightarrow> fetch_error + string list" where
  "aliyun_cidrs w now key_id secret raw_endpoint site =
     (case aliyun_request w now key_id secret raw_endpoint site of
        Inl e \<Rightarrow> Inl e
      | Inr call \<Rightarrow> signed_answer (wb_aliyun_error w) (wb_aliyun w) (wb_send w call))"

section \<open>Tencent\<close>

definition tencent_endpoint :: "string \<Rightarrow> url option" where
  "tencent_endpoint raw =
     (let value = (if trim_space raw = [] then ''https://teo.tencentcloudapi.com'' else trim_space raw) in
      map_option (\<lambda>u. u\<lparr>url_path := ''/'', url_query := [], url_fragment := []\<rparr>) (upstream_url value))"

definition content_type :: string where
  "content_type = ''application/json; charset=utf-8''"

definition zone_body :: "string \<Rightarrow> string" where
  "zone_body zone = json_object [(''ZoneId'', zone)]"

text \<open>Seconds since 1970, and the date, in UTC.\<close>

definition unix_time :: "gotime \<Rightarrow> int" where
  "unix_time now = now div second - 62135596800"

definition utc_date :: "gotime \<Rightarrow> string" where
  "utc_date now = date_text (now div second div 86400)"

definition credential_scope :: "gotime \<Rightarrow> string" where
  "credential_scope now = utc_date now @ ''/teo/tc3_request''"

definition tencent_string_to_sign :: "web \<Rightarrow> gotime \<Rightarrow> string \<Rightarrow> string \<Rightarrow> string" where
  "tencent_string_to_sign w now zone endpoint_host =
     join_with newline
       [''TC3-HMAC-SHA256'', signed_text (unix_time now), credential_scope now,
        sha256_hex w (join_with newline
          [''POST'', ''/'', [], ''content-type:'' @ content_type @ newline @ ''host:'' @ endpoint_host @ newline,
           ''content-type;host'', sha256_hex w (zone_body zone)])]"

definition tencent_signing_key :: "web \<Rightarrow> gotime \<Rightarrow> string \<Rightarrow> string" where
  "tencent_signing_key w now secret =
     wb_hmac w (wb_hmac w (wb_hmac w (''TC3'' @ secret) (utc_date now)) ''teo'') ''tc3_request''"

definition tencent_call :: "web \<Rightarrow> gotime \<Rightarrow> string \<Rightarrow> string \<Rightarrow> string \<Rightarrow> url \<Rightarrow> http_call" where
  "tencent_call w now key_id secret zone endpoint =
     (let signature = hex_text (wb_hmac w (tencent_signing_key w now secret)
            (tencent_string_to_sign w now zone (url_host endpoint)));
          authorization = ''TC3-HMAC-SHA256 Credential='' @ key_id @ ''/'' @ credential_scope now @
            '', SignedHeaders=content-type;host, Signature='' @ signature in
      \<lparr>hc_method = ''POST'', hc_url = endpoint,
       hc_headers = [(''Content-Type'', content_type), (''Host'', url_host endpoint),
         (''X-TC-Action'', ''DescribeOriginACL''), (''X-TC-Version'', ''2022-09-01''),
         (''X-TC-Timestamp'', signed_text (unix_time now)), (''Authorization'', authorization)],
       hc_body = zone_body zone\<rparr>)"

definition tencent_request ::
  "web \<Rightarrow> gotime \<Rightarrow> string \<Rightarrow> string \<Rightarrow> string \<Rightarrow> string \<Rightarrow> fetch_error + http_call" where
  "tencent_request w now key_id0 secret0 zone0 raw_endpoint =
     (let key_id = trim_space key_id0; secret = trim_space secret0; zone = trim_space zone0 in
      if key_id = [] \<or> secret = [] \<or> zone = [] then Inl MissingConfig
      else
        (case tencent_endpoint raw_endpoint of
           None \<Rightarrow> Inl BadEndpoint
         | Some endpoint \<Rightarrow> Inr (tencent_call w now key_id secret zone endpoint)))"

definition tencent_cidrs ::
  "web \<Rightarrow> gotime \<Rightarrow> string \<Rightarrow> string \<Rightarrow> string \<Rightarrow> string \<Rightarrow> fetch_error + string list" where
  "tencent_cidrs w now key_id secret zone raw_endpoint =
     (case tencent_request w now key_id secret zone raw_endpoint of
        Inl e \<Rightarrow> Inl e
      | Inr call \<Rightarrow> signed_answer (wb_tencent_error w) (wb_tencent w) (wb_send w call))"

section \<open>The interface of a plugin\<close>

definition fetch_cidrs :: "web \<Rightarrow> gotime \<Rightarrow> origin_provider \<Rightarrow> fetch_error + string list" where
  "fetch_cidrs w now p =
     (case p of
        Cloudflare endpoint \<Rightarrow> cloudflare_cidrs w endpoint
      | Aliyun key_id secret endpoint site \<Rightarrow> aliyun_cidrs w now key_id secret endpoint site
      | Tencent key_id secret zone endpoint \<Rightarrow> tencent_cidrs w now key_id secret zone endpoint)"

end
