(* ===== verification/Process.thy ===== *)
theory Process
  imports AdminServer Watcher RootRoutes SiteAccess Issuer Providers
begin

text \<open>
  The whole program (\<open>main.go\<close>): its start, which may fail or panic, the choice of how HTTPS is
  served, and then one step for whatever happens to it: a request on one of its two listeners,
  a tick of the configuration watcher, a tick of either synchroniser. Listeners themselves and
  the shutdown are left out; a request has been read and its body decoded.
\<close>

section \<open>The start\<close>

text \<open>Whether HTTPS is served, and with which certificate; decided once.\<close>

datatype https_mode =
    HttpsDisabled
  | HttpsNoAddress
  | HttpsNoCertificate issue_error
  | HttpsConfigured
  | HttpsIssued tls_certificate string

definition https_mode_of ::
  "system \<Rightarrow> pki \<Rightarrow> issuer \<Rightarrow> environ \<Rightarrow> gotime \<Rightarrow> manager \<Rightarrow> https_mode" where
  "https_mode_of sys pk ir env now m =
     (let cfg = current_config m; dp = data_plane cfg in
      if enable_https dp \<and> https_listen_addr dp \<noteq> [] then
        (if has_certificates m then HttpsConfigured
         else
           (case build_certificate sys pk ir env now cfg of
              Inl e \<Rightarrow> HttpsNoCertificate e | Inr (c, how) \<Rightarrow> HttpsIssued c how))
      else if \<not> enable_https dp then HttpsDisabled
      else HttpsNoAddress)"

record process =
  pr_server :: server
  pr_last_mod :: gotime
  pr_http_addr :: string
  pr_https_addr :: string
  pr_mode :: https_mode

datatype start_error = NoLogRuntime | NoConfigPath | ConfigFailed config_error | StoreFailed | UiFailed | WatcherFailed

datatype start_outcome = StartFailed start_error | StartPanicked | Started process

text \<open>
  What the start finds: the log runtime, the store that opening the database gives, whether the
  files of the user interface are there, and the time of the configuration file.
\<close>

record start_world =
  sw_runtime :: "log_runtime option"
  sw_store :: "store option"
  sw_ui :: bool
  sw_stat :: "gotime option"
  sw_now :: gotime

definition run ::
  "system \<Rightarrow> pki \<Rightarrow> issuer \<Rightarrow> environ \<Rightarrow> string \<Rightarrow> start_world \<Rightarrow> start_outcome" where
  "run sys pk ir env path found =
     (if sw_runtime found = None then StartFailed NoLogRuntime
      else if path = [] then StartFailed NoConfigPath
      else
        (case start_manager sys env path of
           Inl e \<Rightarrow> StartFailed (ConfigFailed e)
         | Inr m \<Rightarrow>
             (case sw_store found of
                None \<Rightarrow> StartFailed StoreFailed
              | Some st \<Rightarrow>
                  if \<not> sw_ui found then StartFailed UiFailed
                  else
                    (case new_watcher (sw_stat found) m of
                       None \<Rightarrow> StartFailed WatcherFailed
                     | Some w \<Rightarrow>
                         if env_duration_seconds env ''CONFIG_RELOAD_INTERVAL_SECONDS'' 3 \<le> 0 then StartPanicked
                         else
                           let dp = data_plane (current_config m) in
                           Started
                             \<lparr>pr_server = new_server m (sw_runtime found) (Some (new_pipeline 4096)) (Some st) env,
                              pr_last_mod = wt_last_mod w, pr_http_addr = http_listen_addr dp,
                              pr_https_addr = https_listen_addr dp,
                              pr_mode = https_mode_of sys pk ir env (sw_now found) m\<rparr>))))"

definition serves_https :: "process \<Rightarrow> bool" where
  "serves_https p = (case pr_mode p of HttpsConfigured \<Rightarrow> True | HttpsIssued _ _ \<Rightarrow> True | _ \<Rightarrow> False)"

text \<open>The certificate of a handshake, \<open>None\<close> where there is no listener for it.\<close>

definition tls_handshake :: "process \<Rightarrow> string \<Rightarrow> (config_error + tls_certificate) option" where
  "tls_handshake p name =
     (case pr_mode p of
        HttpsConfigured \<Rightarrow> Some (get_certificate (ad_manager (sv_admin (pr_server p))) name)
      | HttpsIssued c _ \<Rightarrow> Some (Inr c)
      | _ \<Rightarrow> None)"

section \<open>Requests\<close>

record web_request =
  wq_tls :: bool
  wq_method :: string
  wq_host :: string
  wq_path :: string
  wq_uri :: string
  wq_remote_addr :: string
  wq_xff :: string
  wq_real_ip :: string
  wq_authorization :: string
  wq_operator :: string
  wq_param :: "string \<Rightarrow> string"
  wq_body :: api_body

record process_world =
  pw_api :: api_world
  pw_ip_text :: "ip_addr \<Rightarrow> string"
  pw_upstream :: "forwarded \<Rightarrow> int option"
  pw_request_id :: string
  pw_latency :: int
  pw_is_file :: "string \<Rightarrow> bool"

datatype process_answer =
    ToHttps string
  | MovedPath string
  | FromAdmin api_reply
  | FromUI ui_answer
  | UiRateLimited
  | Status string
  | Empty
  | FromData response

definition to_client :: "web_request \<Rightarrow> admin_request" where
  "to_client rq =
     \<lparr>aq_method = wq_method rq, aq_remote_addr = wq_remote_addr rq, aq_xff = wq_xff rq, aq_real_ip = wq_real_ip rq,
      aq_authorization = wq_authorization rq, aq_operator = wq_operator rq\<rparr>"

definition to_api_request :: "string \<Rightarrow> web_request \<Rightarrow> api_request" where
  "to_api_request path rq =
     \<lparr>ap_client = to_client rq, ap_path = path, ap_param = wq_param rq, ap_body = wq_body rq\<rparr>"

definition to_http_request :: "web_request \<Rightarrow> http_request" where
  "to_http_request rq =
     \<lparr>rq_host = wq_host rq, rq_remote_addr = wq_remote_addr rq, rq_xff = wq_xff rq, rq_real_ip = wq_real_ip rq,
      rq_method = wq_method rq, rq_path = wq_path rq, rq_uri = wq_uri rq, rq_tls = wq_tls rq\<rparr>"

text \<open>The data plane: the gateway on the manager, the pipeline and the store of the server.\<close>

definition traffic_of :: "int \<Rightarrow> log_event \<Rightarrow> traffic_log" where
  "traffic_of latency e =
     \<lparr>tl_level = ev_level e, tl_type = ev_type e, tl_message = ev_message e, tl_request_id = ev_request_id e,
      tl_client_ip = ev_client_ip e, tl_host = ev_host e, tl_method = ev_method e, tl_path = ev_path e,
      tl_status = ev_status e, tl_latency = latency\<rparr>"

definition save_traffic :: "world \<Rightarrow> int \<Rightarrow> string \<times> log_event \<Rightarrow> store \<Rightarrow> store" where
  "save_traffic w latency entry st = fst (save_site_traffic_log w (fst entry) (traffic_of latency (snd entry)) st)"

definition data_step :: "process_world \<Rightarrow> web_request \<Rightarrow> server \<Rightarrow> server \<times> process_answer" where
  "data_step e rq sv =
     (let ad = sv_admin sv; w = aw_world (pw_api e);
          start = \<lparr>gw_manager = ad_manager ad, gw_logs = sv_pipeline sv, gw_traffic = []\<rparr> in
      case serve_http (pw_ip_text e) (site_view_of w (ad_store ad)) (pw_upstream e) (pw_request_id e) (wd_now w)
             (to_http_request rq) start of
        (g, answer) \<Rightarrow>
          (sv\<lparr>sv_admin := \<lparr>ad_manager = gw_manager g,
                 ad_store = map_option (fold (save_traffic w (pw_latency e)) (gw_traffic g)) (ad_store ad)\<rparr>,
              sv_pipeline := gw_logs g\<rparr>, FromData answer))"

text \<open>The user interface stands behind the rate limiter of the control plane.\<close>

definition ui_step :: "process_world \<Rightarrow> web_request \<Rightarrow> server \<Rightarrow> server \<times> process_answer" where
  "ui_step e rq sv =
     (case with_rate_limit (wd_now (aw_world (pw_api e))) (to_client rq) (sv_limiter sv) of
        (limiter, _, allowed) \<Rightarrow>
          (sv\<lparr>sv_limiter := limiter\<rparr>,
           if allowed then FromUI (ui_handler (pw_is_file e) (wq_method rq) (wq_path rq)) else UiRateLimited))"

definition root_step :: "process_world \<Rightarrow> web_request \<Rightarrow> server \<Rightarrow> (server \<times> process_answer) option" where
  "root_step e rq sv =
     (case build_root_handler True (wq_path rq) of
        MovedTo path \<Rightarrow> Some (sv, MovedPath path)
      | ToAdmin path \<Rightarrow> map_option (apsnd FromAdmin) (api_step (pw_api e) (to_api_request path rq) sv)
      | ToUI \<Rightarrow> Some (ui_step e rq sv)
      | ServiceStatus \<Rightarrow> Some (sv, Status ''ok'')
      | NoContent \<Rightarrow> Some (sv, Empty)
      | ToData \<Rightarrow> Some (data_step e rq sv))"

text \<open>While HTTPS is served, the plain listener only redirects.\<close>

definition request_step ::
  "process_world \<Rightarrow> web_request \<Rightarrow> process \<Rightarrow> (process \<times> process_answer) option" where
  "request_step e rq p =
     (case (if serves_https p then redirect_http_to_https (pr_https_addr p) (wq_tls rq) (wq_host rq) else None) of
        Some target \<Rightarrow> Some (p, ToHttps target)
      | None \<Rightarrow> map_option (\<lambda>(sv, answer). (p\<lparr>pr_server := sv\<rparr>, answer)) (root_step e rq (pr_server p)))"

section \<open>What happens between requests\<close>

definition with_manager :: "(manager \<Rightarrow> manager) \<Rightarrow> process \<Rightarrow> process" where
  "with_manager f p =
     p\<lparr>pr_server := (pr_server p)\<lparr>sv_admin := (sv_admin (pr_server p))\<lparr>ad_manager :=
       f (ad_manager (sv_admin (pr_server p)))\<rparr>\<rparr>\<rparr>"

definition reload_tick :: "gotime option \<times> system \<Rightarrow> process \<Rightarrow> process" where
  "reload_tick found p =
     (let w = fst (watcher_tick found \<lparr>wt_manager = ad_manager (sv_admin (pr_server p)), wt_last_mod = pr_last_mod p\<rparr>) in
      with_manager (\<lambda>_. wt_manager w) (p\<lparr>pr_last_mod := wt_last_mod w\<rparr>))"

text \<open>The synchronisers fetch with the plugins; \<open>texts\<close> are the messages of errors.\<close>

definition map_error :: "('e \<Rightarrow> string) \<Rightarrow> 'e + 'a \<Rightarrow> string + 'a" where
  "map_error text r = (case r of Inl e \<Rightarrow> Inl (text e) | Inr x \<Rightarrow> Inr x)"

definition global_sync_tick :: "system \<Rightarrow> web \<Rightarrow> (fetch_error \<Rightarrow> string) \<Rightarrow> gotime \<Rightarrow> process \<Rightarrow> process" where
  "global_sync_tick sys web text now =
     with_manager (try_sync sys (\<lambda>endpoint. map_error text (fetch_cidrs web now (Cloudflare endpoint))) now)"

definition site_sync_tick ::
  "origin_service \<Rightarrow> web \<Rightarrow> (fetch_error \<Rightarrow> string) \<Rightarrow> (store_error \<Rightarrow> string) \<Rightarrow>
   (string \<Rightarrow> string \<Rightarrow> nat \<Rightarrow> duration \<Rightarrow> duration) \<Rightarrow> world \<Rightarrow> (nat \<Rightarrow> nat \<Rightarrow> world) \<Rightarrow> process \<Rightarrow> process" where
  "site_sync_tick service web text error_text wobble w ws p =
     (let ad = sv_admin (pr_server p) in
      case ad_store ad of
        None \<Rightarrow> p
      | Some st \<Rightarrow>
          let s = tick service (\<lambda>provider. map_error text (fetch_cidrs web (wd_now w) provider)) error_text wobble w ws
                    \<lparr>sy_manager = ad_manager ad, sy_store = st\<rparr> in
          p\<lparr>pr_server := (pr_server p)\<lparr>sv_admin := \<lparr>ad_manager = sy_manager s, ad_store = Some (sy_store s)\<rparr>\<rparr>\<rparr>)"

definition warm_tick :: "world \<Rightarrow> process \<Rightarrow> process" where
  "warm_tick w p =
     (case ad_store (sv_admin (pr_server p)) of
        None \<Rightarrow> p | Some st \<Rightarrow> with_manager (warm_cache w st) p)"

end
