(* ===== verification/ProvidersProps.thy ===== *)
theory ProvidersProps
  imports Providers SiteCDN
begin

text \<open>
  What the plugins of CDN providers promise: the lists they hand out are clean, whichever plugin
  and whatever the answer; a query is read back as it was written, and what is signed is what
  is sent; the secret enters a request only through its signature.
\<close>

section \<open>Lists\<close>

definition clean_entry :: "string \<Rightarrow> bool" where
  "clean_entry v \<longleftrightarrow> v \<noteq> [] \<and> trim_space v = v \<and> \<not> has_prefix v ''#''"

lemma filter_cidrs_clean: "list_all clean_entry (filter_cidrs items)"
  by (auto simp: filter_cidrs_def clean_entry_def list_all_iff)

lemma filter_cidrs_id: "list_all clean_entry items \<Longrightarrow> filter_cidrs items = items"
  by (induction items) (auto simp: filter_cidrs_def clean_entry_def)

lemma filter_cidrs_append: "filter_cidrs (a @ b) = filter_cidrs a @ filter_cidrs b"
  by (simp add: filter_cidrs_def)

lemma chosen_list_clean: "list_all clean_entry (chosen_list found)"
  using filter_cidrs_clean by (auto simp: chosen_list_def Let_def split: prod.split)

text \<open>
  The interface of a plugin, and what its clients gain by it: cleaning a list again changes
  nothing, and the table of a site takes every entry of it or refuses the list.
\<close>

locale address_source =
  fixes fetch :: "web \<Rightarrow> fetch_error + string list"
  assumes fetched_clean: "fetch w = Inr cs \<Longrightarrow> list_all clean_entry cs"
begin

lemma refiltered: "fetch w = Inr cs \<Longrightarrow> filter_cidrs cs = cs"
  using filter_cidrs_id fetched_clean by blast

lemma all_taken:
  assumes "fetch w = Inr cs" "fold_res add_site_prefix cs [] = Inr ps"
  shows "length ps = length cs"
proof -
  have "fold_res add_site_prefix xs acc = Inr qs \<Longrightarrow> length qs = length acc + length xs"
    if "list_all clean_entry xs" for xs acc qs
    using that
    by (induction xs arbitrary: acc)
      (auto simp: res_bind_Inr_iff add_site_prefix_def clean_entry_def Let_def split: option.splits)
  then show ?thesis using fetched_clean [OF assms(1)] assms(2) by fastforce
qed

end

lemma signed_answer_clean: "signed_answer de d a = Inr cs \<Longrightarrow> list_all clean_entry cs"
  using chosen_list_clean by (auto simp: signed_answer_def split: option.splits if_splits)

interpretation cloudflare_source: address_source "\<lambda>w. cloudflare_cidrs w endpoint" for endpoint
  using filter_cidrs_clean by unfold_locales (auto simp: cloudflare_cidrs_def split: sum.splits)

interpretation aliyun_source: address_source "\<lambda>w. aliyun_cidrs w now key_id secret endpoint site" for now key_id secret endpoint site
  using signed_answer_clean by unfold_locales (auto simp: aliyun_cidrs_def split: sum.splits)

interpretation tencent_source: address_source "\<lambda>w. tencent_cidrs w now key_id secret zone endpoint" for now key_id secret zone endpoint
  using signed_answer_clean by unfold_locales (auto simp: tencent_cidrs_def split: sum.splits)

interpretation plugin: address_source "\<lambda>w. fetch_cidrs w now p" for now p
proof
  fix w cs
  show "fetch_cidrs w now p = Inr cs \<Longrightarrow> list_all clean_entry cs"
    using cloudflare_source.fetched_clean aliyun_source.fetched_clean tencent_source.fetched_clean
    by (auto simp: fetch_cidrs_def split: origin_provider.splits)
qed

text \<open>The request of a plugin and what it reads from the body of an answer.\<close>

definition provider_call :: "web \<Rightarrow> gotime \<Rightarrow> origin_provider \<Rightarrow> fetch_error + http_call" where
  "provider_call w now p =
     (case p of
        Cloudflare endpoint \<Rightarrow>
          (case cloudflare_endpoint (cloudflare_provider endpoint) of
             None \<Rightarrow> Inl BadEndpoint
           | Some u \<Rightarrow> Inr \<lparr>hc_method = ''GET'', hc_url = u, hc_headers = [], hc_body = []\<rparr>)
      | Aliyun key_id secret endpoint site \<Rightarrow> aliyun_request w now key_id secret endpoint site
      | Tencent key_id secret zone endpoint \<Rightarrow> tencent_request w now key_id secret zone endpoint)"

definition body_list :: "web \<Rightarrow> origin_provider \<Rightarrow> string \<Rightarrow> string list option" where
  "body_list w p body =
     (case p of
        Cloudflare _ \<Rightarrow>
          (case wb_cloudflare w body of
             None \<Rightarrow> None
           | Some a \<Rightarrow> if ca_success a then Some (filter_cidrs (al_v4 (ca_lists a) @ al_v6 (ca_lists a))) else None)
      | Aliyun _ _ _ _ \<Rightarrow> map_option chosen_list (wb_aliyun w body)
      | Tencent _ _ _ _ \<Rightarrow> map_option chosen_list (wb_tencent w body))"

lemma signed_answer_iff:
  "signed_answer de d a = Inr cs \<longleftrightarrow>
     (\<exists>answer. a = Some answer \<and> ha_status answer = 200 \<and> map_option chosen_list (d (ha_body answer)) = Some cs)"
  by (auto simp: signed_answer_def split: option.splits)

text \<open>
  C18. When a fetch succeeds, and with what: exactly when the settings give a request, the request
  is answered with status 200 and the body decodes (and, for Cloudflare, reports success). The
  result then holds no blank and no commented entry and no space around an entry, so that the
  whitelist of a site, if it takes the list, takes every entry of it.
\<close>

theorem fetch_outcome:
  "(fetch_cidrs w now p = Inr cs \<longleftrightarrow>
      (\<exists>call answer. provider_call w now p = Inr call \<and> wb_send w call = Some answer \<and>
         ha_status answer = 200 \<and> body_list w p (ha_body answer) = Some cs)) \<and>
   (fetch_cidrs w now p = Inr cs \<longrightarrow> list_all clean_entry cs \<and>
      (\<forall>ps. fold_res add_site_prefix cs [] = Inr ps \<longrightarrow> length ps = length cs))"
proof
  show "fetch_cidrs w now p = Inr cs \<longleftrightarrow>
      (\<exists>call answer. provider_call w now p = Inr call \<and> wb_send w call = Some answer \<and>
         ha_status answer = 200 \<and> body_list w p (ha_body answer) = Some cs)"
  proof (cases p)
    case (Cloudflare endpoint)
    then show ?thesis
      by (auto simp: fetch_cidrs_def provider_call_def body_list_def cloudflare_cidrs_def cloudflare_fetch_def
          cloudflare_answer_lists_def filter_cidrs_append split: option.splits sum.splits if_splits)
  next
    case (Aliyun key_id secret endpoint site)
    then show ?thesis
      by (cases "aliyun_request w now key_id secret endpoint site")
        (simp_all add: fetch_cidrs_def provider_call_def body_list_def aliyun_cidrs_def signed_answer_iff)
  next
    case (Tencent key_id secret zone endpoint)
    then show ?thesis
      by (cases "tencent_request w now key_id secret zone endpoint")
        (simp_all add: fetch_cidrs_def provider_call_def body_list_def tencent_cidrs_def signed_answer_iff)
  qed
  show "fetch_cidrs w now p = Inr cs \<longrightarrow> list_all clean_entry cs \<and>
      (\<forall>ps. fold_res add_site_prefix cs [] = Inr ps \<longrightarrow> length ps = length cs)"
    using plugin.fetched_clean plugin.all_taken by blast
qed

section \<open>Queries\<close>

lemma code_hex_upper: "n < 16 \<Longrightarrow> code (hex_upper n) = (if n < 10 then 48 + n else 55 + n)"
  by (simp add: hex_upper_def code_char_of)

lemma hex_upper_digit: "n < 16 \<Longrightarrow> is_hex (hex_upper n) \<and> hex_digit_val (hex_upper n) = n"
  by (simp add: is_hex_def hex_digit_val_def is_digit_def code_hex_upper)

lemma hex_upper_plain: "n < 16 \<Longrightarrow> hex_upper n \<notin> {CHR ''&'', CHR ''='', CHR '';'', CHR ''+''}"
  using code_hex_upper [of n] by (auto simp: code_def split: if_splits)

lemma code_bytes: "code c div 16 < 16" "code c mod 16 < 16" "char_of (code c) = c"
proof -
  have "code c < 256" by (simp add: code_def)
  then show "code c div 16 < 16" by simp
qed (simp_all add: code_def)

lemma escape_char_cases:
  obtains (plain) "escape_char c = [c]" "c \<notin> {CHR ''&'', CHR ''='', CHR '';'', CHR ''+'', CHR ''%''}"
    | (space) "c = CHR '' ''" "escape_char c = ''+''"
    | (hex) "escape_char c = [CHR ''%'', hex_upper (code c div 16), hex_upper (code c mod 16)]"
proof (cases "is_letter c \<or> is_digit c \<or> c \<in> set ''-_.~''")
  case True
  then have "c \<notin> {CHR ''&'', CHR ''='', CHR '';'', CHR ''+'', CHR ''%''}"
    by (auto simp: is_letter_def is_lower_def is_upper_def is_digit_def code_def)
  then show ?thesis using plain True by (simp add: escape_char_def)
next
  case False
  then show ?thesis using space hex by (cases "c = CHR '' ''") (simp_all add: escape_char_def)
qed

lemma unescape_escape_char: "query_unescape (escape_char c @ s) = map_option ((#) c) (query_unescape s)"
proof (cases c rule: escape_char_cases)
  case hex
  then show ?thesis
    using hex_upper_digit [OF code_bytes(1) [of c]] hex_upper_digit [OF code_bytes(2) [of c]]
      hex_upper_plain [OF code_bytes(1) [of c]] hex_upper_plain [OF code_bytes(2) [of c]]
    by (simp add: query_unescape_def unescape_any_def hex_val_def code_bytes(3))
qed (simp_all add: query_unescape_def unescape_any_def)

lemma unescape_escaped: "query_unescape (query_escape s) = Some s"
proof (induction s)
  case Nil
  show ?case by (simp add: query_escape_def query_unescape_def unescape_any_def)
next
  case (Cons c s)
  then show ?case using unescape_escape_char [of c "query_escape s"] by (simp add: query_escape_def)
qed

lemma escape_char_plain: "set (escape_char c) \<inter> {CHR ''&'', CHR ''='', CHR '';''} = {}"
  using hex_upper_plain [OF code_bytes(1) [of c]] hex_upper_plain [OF code_bytes(2) [of c]]
  by (cases c rule: escape_char_cases) auto

lemma query_escape_plain: "set (query_escape s) \<inter> {CHR ''&'', CHR ''='', CHR '';''} = {}"
  using escape_char_plain by (auto simp: query_escape_def)

lemma cut_at: "c \<notin> set a \<Longrightarrow> before c (a @ c # b) = a \<and> from_first c (a @ c # b) = c # b"
  by (induction a) (auto simp: before_def from_first_def)

lemma parse_piece_pair: "parse_piece (encode_pair k v) vals = add_value k v vals"
proof -
  have "CHR '';'' \<notin> set (encode_pair k v)" "CHR ''='' \<notin> set (query_escape k)"
    using query_escape_plain [of k] query_escape_plain [of v] by (auto simp: encode_pair_def)
  then show ?thesis
    using cut_at [of "CHR ''=''" "query_escape k" "query_escape v"]
    by (simp add: parse_piece_def encode_pair_def unescape_escaped)
qed

lemma encode_pair_one: "CHR ''&'' \<notin> set (encode_pair k v)"
  using query_escape_plain [of k] query_escape_plain [of v] by (auto simp: encode_pair_def)

text \<open>Adding the values of a new key, one after the other.\<close>

lemma add_value_last:
  "k \<notin> fst ` set vals \<Longrightarrow> add_value k v (vals @ [(k, vs)]) = vals @ [(k, vs @ [v])]"
proof -
  assume k: "k \<notin> fst ` set vals"
  then have "map_get vals k = None" by (simp add: map_of_eq_None_iff)
  moreover have "map_put k us (vals @ [(k, vs)]) = vals @ [(k, us)]" for us
    using k by (induction vals) auto
  ultimately show ?thesis by (simp add: add_value_def map_add_def)
qed

lemma add_values:
  assumes "k \<notin> fst ` set vals" "vs \<noteq> []"
  shows "fold (add_value k) vs vals = vals @ [(k, vs)]"
proof -
  have "fold (add_value k) xs (vals @ [(k, us)]) = vals @ [(k, us @ xs)]" for xs us
    by (induction xs arbitrary: us) (simp_all add: add_value_last [OF assms(1)])
  moreover have "add_value k v vals = vals @ [(k, [v])]" for v
    using assms(1) by (simp add: add_value_def map_of_eq_None_iff [symmetric])
  ultimately show ?thesis using assms(2) by (cases vs) simp_all
qed

definition encode_entry :: "string \<times> string list \<Rightarrow> string list" where
  "encode_entry e = map (encode_pair (fst e)) (snd e)"

lemma fold_pieces: "fold parse_piece (map (encode_pair k) vs) vals = fold (add_value k) vs vals"
  by (induction vs arbitrary: vals) (simp_all add: parse_piece_pair)

lemma fold_entries:
  "distinct (map fst (acc @ vals)) \<Longrightarrow> list_all (\<lambda>e. snd e \<noteq> []) vals \<Longrightarrow>
   fold parse_piece (concat (map encode_entry vals)) acc = acc @ vals"
proof (induction vals arbitrary: acc)
  case (Cons e vals)
  have "fold parse_piece (encode_entry e) acc = acc @ [e]"
    using Cons.prems add_values [of "fst e" acc "snd e"] by (auto simp: encode_entry_def fold_pieces)
  then show ?case using Cons.IH [of "acc @ [e]"] Cons.prems by simp
qed simp

text \<open>Query values as the code builds them: keys in order, each once, each with a value.\<close>

definition proper_values :: "query_values \<Rightarrow> bool" where
  "proper_values vals \<longleftrightarrow> sorted (map fst vals) \<and> distinct (map fst vals) \<and> list_all (\<lambda>e. snd e \<noteq> []) vals"

lemma values_encode_entries:
  assumes "sorted (map fst vals)" "distinct (map fst vals)"
  shows "values_encode vals = join_with ''&'' (concat (map encode_entry vals))"
proof -
  have "map (\<lambda>k. map (encode_pair k) (the (map_get vals k))) (map fst vals) = map encode_entry vals"
    using assms(2) by (auto simp: encode_entry_def)
  moreover have "sort (map fst vals) = map fst vals" using assms(1) by (rule sorted_sort_id)
  ultimately show ?thesis by (simp only: values_encode_def)
qed

lemma parse_encoded:
  assumes "proper_values vals"
  shows "parse_query (values_encode vals) = vals"
proof (cases "vals = []")
  case True
  then show ?thesis by (simp add: parse_query_def values_encode_def parse_piece_def)
next
  case False
  let ?pieces = "concat (map encode_entry vals)"
  have "?pieces \<noteq> []" using False assms by (cases vals) (auto simp: proper_values_def encode_entry_def)
  moreover have "list_all (\<lambda>p. CHR ''&'' \<notin> set p) ?pieces"
    by (auto simp: list_all_iff encode_entry_def encode_pair_one)
  ultimately have "split_on (CHR ''&'') (join_with ''&'' ?pieces) = ?pieces" by (rule split_on_join)
  then show ?thesis
    using assms values_encode_entries [of vals] fold_entries [of "[]" vals]
    by (simp add: parse_query_def proper_values_def)
qed

text \<open>
  Queries survive their way. What \<open>url.Values.Encode\<close> writes, whatever bytes are in the keys and
  values, is read back as it was by \<open>url.URL.Query\<close>; so the canonical query that a
  signature covers is the query that is sent, provided the values of each key are in order, as
  those of a single parameter are.
\<close>

theorem signed_query_is_sent:
  assumes "proper_values vals" "list_all (\<lambda>e. sorted (snd e)) vals"
  shows "parse_query (values_encode vals) = vals \<and>
    build_canonical_query (parse_query (values_encode vals)) = values_encode vals"
proof -
  have "map (\<lambda>k. let vs = the (map_get vals k) in
      if vs = [] then [query_escape k @ ''=''] else map (encode_pair k) (sort vs)) (map fst vals) = map encode_entry vals"
    using assms by (auto simp: proper_values_def list_all_iff encode_entry_def sorted_sort_id Let_def)
  moreover have "sort (map fst vals) = map fst vals" using assms(1) by (simp add: proper_values_def sorted_sort_id)
  ultimately have "build_canonical_query vals = join_with ''&'' (concat (map encode_entry vals))"
    by (simp only: build_canonical_query_def)
  then show ?thesis
    using assms(1) parse_encoded [OF assms(1)] values_encode_entries [of vals] by (simp add: proper_values_def)
qed

section \<open>Secrets\<close>

fun with_secret :: "string \<Rightarrow> origin_provider \<Rightarrow> origin_provider" where
  "with_secret secret (Cloudflare endpoint) = Cloudflare endpoint"
| "with_secret secret (Aliyun key_id _ endpoint site) = Aliyun key_id secret endpoint site"
| "with_secret secret (Tencent key_id _ zone endpoint) = Tencent key_id secret zone endpoint"

text \<open>The signature of a text: one HMAC, or the chain of four that derives Tencent's key of the day.\<close>

definition signature_of :: "(string \<Rightarrow> string \<Rightarrow> string) \<Rightarrow> gotime \<Rightarrow> origin_provider \<Rightarrow> string \<Rightarrow> string \<Rightarrow> string" where
  "signature_of hmac now p secret msg =
     (case p of
        Cloudflare _ \<Rightarrow> []
      | Aliyun _ _ _ _ \<Rightarrow> hmac secret msg
      | Tencent _ _ _ _ \<Rightarrow> hmac (hmac (hmac (hmac (''TC3'' @ secret) (utc_date now)) ''teo'') ''tc3_request'') msg)"

lemma hmac_free [simp]:
  "sha256_hex (w\<lparr>wb_hmac := h\<rparr>) x = sha256_hex w x"
  "signed_aliyun_headers (w\<lparr>wb_hmac := h\<rparr>) now nonce u = signed_aliyun_headers w now nonce u"
  "aliyun_string_to_sign (w\<lparr>wb_hmac := h\<rparr>) now nonce u = aliyun_string_to_sign w now nonce u"
  "tencent_string_to_sign (w\<lparr>wb_hmac := h\<rparr>) now zone a = tencent_string_to_sign w now zone a"
  by (simp_all add: sha256_hex_def signed_aliyun_headers_def aliyun_string_to_sign_def tencent_string_to_sign_def)

text \<open>
  C21. A secret only signs. The request of a plugin is made from the other settings, the clock and
  the random bytes, and from the signature of a text that these determine: with any other
  secret and any other HMAC function it differs in nothing but that signature. So the secret
  is not in the address, not in a header and not in the body.
\<close>

theorem secret_only_signs:
  assumes "provider_call w now p = Inr call"
  shows "\<exists>request msg. \<forall>h secret. trim_space secret = [] \<or>
    provider_call (w\<lparr>wb_hmac := h\<rparr>) now (with_secret secret p) =
      Inr (request (signature_of h now p (trim_space secret) msg))"
proof (cases p)
  case (Cloudflare endpoint)
  then show ?thesis using assms by (auto simp: provider_call_def intro!: exI [of _ "\<lambda>_. call"])
next
  case (Aliyun key_id secret endpoint site)
  then obtain u nonce where u: "aliyun_endpoint endpoint = Some u" "wb_bytes w 16 = Some nonce"
    "trim_space key_id \<noteq> []" "trim_space site \<noteq> []" "atoi (trim_space site) \<noteq> None"
    using assms by (auto simp: provider_call_def aliyun_request_def Let_def split: if_splits option.splits)
  let ?msg = "aliyun_string_to_sign w now (hex_text nonce) (aliyun_url u (trim_space site))"
  let ?make = "\<lambda>sig. aliyun_call (w\<lparr>wb_hmac := (\<lambda>_ _. sig)\<rparr>) now (hex_text nonce) (trim_space key_id) [] (trim_space site) u"
  have "provider_call (w\<lparr>wb_hmac := h\<rparr>) now (with_secret s p) = Inr (?make (signature_of h now p (trim_space s) ?msg))"
    if "trim_space s \<noteq> []" for h s
    using that u by (simp add: Aliyun provider_call_def aliyun_request_def aliyun_call_def signature_of_def Let_def)
  then show ?thesis by (intro exI [of _ ?make] exI [of _ ?msg] allI) blast
next
  case (Tencent key_id secret zone endpoint)
  then obtain u where u: "tencent_endpoint endpoint = Some u" "trim_space key_id \<noteq> []" "trim_space zone \<noteq> []"
    using assms by (auto simp: provider_call_def tencent_request_def Let_def split: if_splits option.splits)
  let ?msg = "tencent_string_to_sign w now (trim_space zone) (url_host u)"
  let ?make = "\<lambda>sig. tencent_call (w\<lparr>wb_hmac := (\<lambda>_ _. sig)\<rparr>) now (trim_space key_id) [] (trim_space zone) u"
  have "provider_call (w\<lparr>wb_hmac := h\<rparr>) now (with_secret s p) = Inr (?make (signature_of h now p (trim_space s) ?msg))"
    if "trim_space s \<noteq> []" for h s
    using that u
    by (simp add: Tencent provider_call_def tencent_request_def tencent_call_def tencent_signing_key_def signature_of_def Let_def)
  then show ?thesis by (intro exI [of _ ?make] exI [of _ ?msg] allI) blast
qed

section \<open>Witnesses\<close>

text \<open>A web that answers every request with two lists, one of which is to come.\<close>

definition sample_web :: web where
  "sample_web =
     \<lparr>wb_send = (\<lambda>call. Some \<lparr>ha_status = 200, ha_body = hc_method call\<rparr>), wb_sha256 = (\<lambda>s. take 2 s),
      wb_hmac = (\<lambda>k m. k @ take 1 m), wb_bytes = (\<lambda>n. Some (replicate n (CHR ''r''))),
      wb_cloudflare = (\<lambda>_. Some \<lparr>ca_lists = \<lparr>al_v4 = ['' 10.0.0.0/8'', ''# old'', []], al_v6 = [''::/0'']\<rparr>,
        ca_success = True, ca_errors = []\<rparr>),
      wb_aliyun = (\<lambda>_. Some (\<lparr>al_v4 = [''1.0.0.0/8''], al_v6 = []\<rparr>, \<lparr>al_v4 = [], al_v6 = [''::/0'']\<rparr>)),
      wb_tencent = (\<lambda>_. Some (\<lparr>al_v4 = [''1.0.0.0/8''], al_v6 = []\<rparr>, \<lparr>al_v4 = [''# none''], al_v6 = []\<rparr>)),
      wb_aliyun_error = (\<lambda>_. ([], [])), wb_tencent_error = (\<lambda>_. ([], []))\<rparr>"

definition sample_aliyun :: origin_provider where
  "sample_aliyun = Aliyun ''id'' ''key'' ''esa.example'' '' 7 ''"

lemma sample_fetches:
  "fetch_cidrs sample_web 0 (Cloudflare []) = Inr [''10.0.0.0/8'', ''::/0'']"
  "(case provider_call sample_web 0 sample_aliyun of Inl _ \<Rightarrow> False | Inr call \<Rightarrow> url_query (hc_url call) = ''SiteId=7'')"
  by code_simp+

theorem fetch_outcome_witness:
  "list_all clean_entry [''10.0.0.0/8'', ''::/0''] \<and>
   fetch_cidrs sample_web 0 (Cloudflare []) = Inr [''10.0.0.0/8'', ''::/0'']"
  using fetch_outcome [of sample_web 0 "Cloudflare []"] sample_fetches(1) by blast

theorem signed_query_is_sent_witness:
  "parse_query (values_encode [(''a b'', [''1&2'', ''3'']), (''c'', [[]])]) = [(''a b'', [''1&2'', ''3'']), (''c'', [[]])]"
proof -
  have "proper_values [(''a b'', [''1&2'', ''3'']), (''c'', [[]])]"
    "list_all (\<lambda>e. sorted (snd e)) [(''a b'', [''1&2'', ''3'']), (''c'', [[]])]" by code_simp+
  then show ?thesis using signed_query_is_sent by blast
qed

theorem secret_only_signs_witness:
  "\<exists>request msg. \<forall>h secret. trim_space secret = [] \<or>
     provider_call (sample_web\<lparr>wb_hmac := h\<rparr>) 0 (with_secret secret sample_aliyun) =
       Inr (request (signature_of h 0 sample_aliyun (trim_space secret) msg))"
proof -
  obtain call where "provider_call sample_web 0 sample_aliyun = Inr call"
    using sample_fetches(2) by (auto split: sum.splits)
  then show ?thesis by (rule secret_only_signs)
qed

end
