(* ===== verification/ProcessProps.thy ===== *)
theory ProcessProps
  imports Process AdminServerProps ProvidersProps
begin

text \<open>
  What holds of the whole program, through requests of all kinds, reloads, synchronisations and
  restarts; which certificate it shows; and for which names it makes one itself.
\<close>

section \<open>What the steps keep\<close>

lemma served_to:
  assumes "manager_inv (gw_manager g)"
  shows "manager_to (gw_manager g) (gw_manager (fst (serve_http ip_text views upstream req_id now r g)))"
proof -
  have step: "manager_to m (fst (resolve_route h m))" if "manager_inv m" for h m
    using resolve_route_decisions(4) [OF that] by (auto simp: manager_to_def fst_resolve_route split: option.split)
  let ?h = "gw_normalize_host (rq_host r)"
  have once: "manager_to (gw_manager g) (fst (resolve_route ?h (gw_manager g)))" by (rule step [OF assms])
  then have "manager_inv (fst (resolve_route ?h (gw_manager g)))" using assms by (simp add: manager_to_def)
  then have twice: "manager_to (gw_manager g) (fst (resolve_route ?h (fst (resolve_route ?h (gw_manager g)))))"
    by (rule manager_to_trans [OF once step])
  show ?thesis
    by (rule served_manager [OF assms, of ip_text views upstream req_id now r]) (simp_all only: once twice)
qed

lemma save_traffic_rows: "same_rows st (fold (save_traffic w latency) entries st)"
proof -
  have "same_rows st (save_traffic w latency e st)" for e st
    by (auto simp: save_traffic_def save_site_traffic_log_def same_rows_def commit_def guarded_def res_bind_def Let_def
        split: sum.split)
  then show ?thesis
    by (induction entries arbitrary: st) (simp add: same_rows_def, fastforce simp: same_rows_def)
qed

text \<open>A change that keeps the manager's promise and the tables of interest keeps the invariant.\<close>

lemma admin_ok_change:
  assumes "admin_ok sys m0 unm ad" "manager_inv (ad_manager ad) \<Longrightarrow> manager_to (ad_manager ad) (ad_manager ad')"
    and "store_to same_rows (ad_store ad) (ad_store ad')"
  shows "admin_ok sys m0 unm ad'"
  using assms
  by (cases "ad_store ad")
    (auto simp: admin_ok_def site_inv_def store_to_def same_rows_def manager_to_def certificates_ok_def texts_ok_def)

lemma data_step_ok:
  assumes "admin_ok sys m0 unm (sv_admin sv)"
  shows "admin_ok sys m0 unm (sv_admin (fst (data_step e rq sv)))"
proof (rule admin_ok_change [OF assms])
  let ?g = "\<lparr>gw_manager = ad_manager (sv_admin sv), gw_logs = sv_pipeline sv, gw_traffic = []\<rparr>"
  show "manager_to (ad_manager (sv_admin sv)) (ad_manager (sv_admin (fst (data_step e rq sv))))"
    if "manager_inv (ad_manager (sv_admin sv))"
    using served_to [of ?g] that by (simp add: data_step_def Let_def split_def)
  show "store_to same_rows (ad_store (sv_admin sv)) (ad_store (sv_admin (fst (data_step e rq sv))))"
    using save_traffic_rows by (auto simp: data_step_def Let_def split_def store_to_def split: option.split)
qed

lemma api_step_ok:
  assumes "api_step e rq sv = Some p" "admin_ok sys m0 unm (sv_admin sv)" "fits sys mar unm (aw_outside e)"
    and "json_faithful mar unm"
  shows "admin_ok sys m0 unm (sv_admin (fst p))"
  using assms(1)
proof (cases rule: api_step_cases)
  case outside
  then show ?thesis using assms(2) by simp
next
  case (inside op r sv1)
  then show ?thesis using protected_step_ok [OF inside(3) _ assms(3,4)] assms(2) by simp
qed

lemma request_step_ok:
  assumes "request_step e rq p = Some (p', answer)" "admin_ok sys m0 unm (sv_admin (pr_server p))"
    and "fits sys mar unm (aw_outside (pw_api e))" "json_faithful mar unm"
  shows "admin_ok sys m0 unm (sv_admin (pr_server p'))"
proof -
  have ui: "sv_admin (fst (ui_step e rq sv)) = sv_admin sv" for sv
    by (simp add: ui_step_def split: prod.split)
  have "root_step e rq (pr_server p) = Some q \<Longrightarrow> admin_ok sys m0 unm (sv_admin (fst q))" for q
    using assms(2) ui data_step_ok [OF assms(2)] api_step_ok [OF _ assms(2-4)]
    by (auto simp: root_step_def apsnd_def split: root_target.splits)
  then show ?thesis
    using assms(1,2) by (auto simp: request_step_def split: option.splits)
qed

lemma update_provider_status_to: "manager_to m (fst (update_provider_status sys name cs e now m))"
proof -
  have "mgr_path (fst (update_provider_status sys name cs e now m)) = mgr_path m"
    by (auto simp: update_provider_status_def apply_config_def Let_def split: sum.split)
  then show ?thesis using update_provider_status_inv by (simp add: manager_to_def)
qed

lemma try_sync_to: "manager_to m (try_sync sys fetch now m)"
proof -
  have "manager_to m (sync_provider sys fetch now cfg name m)" for cfg name m
    by (simp add: sync_provider_def update_provider_status_to split: sum.split)
  then have "manager_to m (fold (sync_provider sys fetch now cfg) names m)" for cfg names
    by (induction names arbitrary: m) (simp, metis fold_simps(2) manager_to_trans)
  then show ?thesis by (simp add: try_sync_def Let_def)
qed

lemma sync_kept_job: "sync_kept op s (run_job fetch error_text ws j s)"
proof -
  define s1 where "s1 = record_status (ws 0) j (job_update j (previous_failures j) [] None) s"
  have s1: "sync_kept op s s1" by (simp add: s1_def)
  note def = run_job_def [of fetch error_text ws j s, unfolded Let_def, folded s1_def]
  show ?thesis
  proof (cases "build_origin_provider (oj_provider j) (oj_settings j)")
    case (Some p)
    show ?thesis
    proof (cases "fetch p")
      case (Inr cs)
      obtain st r where save: "save_site_cdn_origin_snapshot (ws 1) (oj_site j) (oj_provider j) cs (oj_attempt j)
          ''auto'' (sy_store s1) = (st, r)" by fastforce
      show ?thesis
        using sync_kept_trans [OF s1 sync_kept_record(2)]
          sync_kept_trans [OF sync_kept_trans [OF s1 sync_kept_snapshot [OF save]] sync_kept_record(3)]
        by (cases r) (simp_all add: def Some Inr save del: One_nat_def)
    qed (use sync_kept_trans [OF s1 sync_kept_record(2)] in \<open>simp add: def Some\<close>)
  qed (use sync_kept_trans [OF s1 sync_kept_record(2)] in \<open>simp add: def\<close>)
qed

lemma sync_kept_tick: "sync_kept op s (tick service fetch error_text wobble w ws s)"
proof -
  have refl: "sync_kept op s s" for s by (simp add: sync_kept_def)
  have "sync_kept op s (run_jobs fetch error_text ws n js s)" for n js
    by (induction js arbitrary: n s) (simp add: refl, simp, metis sync_kept_trans sync_kept_job)
  then show ?thesis by (simp add: tick_def refl split: sum.split)
qed

lemma warm_cache_to: "manager_to m (warm_cache w st m)"
proof -
  have provider: "manager_to m (warm_provider w st i p m)" for i p m
    by (auto simp: warm_provider_def manager_to_def manager_inv_def split: sum.split)
  have list: "manager_to m (fold (warm_provider w st i) ps m)" for i ps m
    by (induction ps arbitrary: m) (simp, metis provider fold_simps(2) manager_to_trans)
  have "manager_to m (fold (\<lambda>site m1. case get_site_config w (site_id site) st of
      Inl _ \<Rightarrow> m1
    | Inr cfg \<Rightarrow> fold (warm_provider w st (site_id site))
        (normalize_providers (allowed_cdn_providers (security cfg))) m1) items m)" (is "manager_to m (fold ?f items m)")
    for items :: "site list" and m
  proof (induction items arbitrary: m)
    case (Cons x items)
    have "manager_to m (?f x m)" by (simp add: list split: sum.split)
    then show ?case using Cons.IH manager_to_trans by (simp only: fold_simps)
  qed simp
  then show ?thesis by (simp add: warm_cache_def split: sum.split)
qed

lemma with_manager_ok:
  assumes "\<And>m. manager_to m (f m)" "admin_ok sys m0 unm (sv_admin (pr_server p))"
  shows "admin_ok sys m0 unm (sv_admin (pr_server (with_manager f p)))"
  by (rule admin_ok_change [OF assms(2)]) (simp_all add: with_manager_def assms(1) same_rows_def)

section \<open>Reachable states\<close>

text \<open>
  One step of a running program: a request, or something that happens between requests. What a
  reload finds, what the plugins fetch and all that lies outside may differ from step to step.
\<close>

inductive process_step ::
  "system \<Rightarrow> (config \<Rightarrow> string) \<Rightarrow> (string \<Rightarrow> config option) \<Rightarrow> process \<Rightarrow> process \<Rightarrow> bool"
  for sys mar unm where
  by_request: "fits sys mar unm (aw_outside (pw_api e)) \<Longrightarrow> request_step e rq p = Some (p', answer) \<Longrightarrow>
    process_step sys mar unm p p'"
| by_reload: "process_step sys mar unm p (reload_tick found p)"
| by_global_sync: "process_step sys mar unm p (global_sync_tick sys2 web msg now p)"
| by_site_sync: "process_step sys mar unm p (site_sync_tick service web msg error_text wobble w ws p)"
| by_warm_cache: "process_step sys mar unm p (warm_tick w p)"

text \<open>A program starts with an empty database, or with the one that an earlier run left.\<close>

inductive process_reach ::
  "system \<Rightarrow> string \<Rightarrow> (config \<Rightarrow> string) \<Rightarrow> (string \<Rightarrow> config option) \<Rightarrow> process \<Rightarrow> bool"
  for sys path mar unm where
  first_start: "run sys pk ir env path found = Started p \<Longrightarrow> sw_store found = Some init_store \<Longrightarrow>
    process_reach sys path mar unm p"
| go_on: "process_reach sys path mar unm p \<Longrightarrow> process_step sys mar unm p p' \<Longrightarrow> process_reach sys path mar unm p'"
| restart: "process_reach sys path mar unm p \<Longrightarrow> run sys pk ir env path found = Started p' \<Longrightarrow>
    sw_store found = ad_store (sv_admin (pr_server p)) \<Longrightarrow> process_reach sys path mar unm p'"

text \<open>A manager with nothing but the path.\<close>

definition path_manager :: "string \<Rightarrow> manager" where
  "path_manager path = \<lparr>mgr_path = path, mgr_data = None, dynamic_cidrs = [], cdn_statuses = [], site_cdn_snapshots = []\<rparr>"

lemma start_manager_to: "start_manager sys env path = Inr m \<Longrightarrow> manager_to (path_manager path) m"
  by (auto simp: start_manager_def new_manager_def res_bind_Inr_iff accepted_Inr path_manager_def
      dest!: manager_to_apply intro: manager_to_trans)

lemma run_Started:
  assumes "run sys pk ir env path found = Started p"
  obtains m st where "start_manager sys env path = Inr m" "sw_store found = Some st"
    "sv_admin (pr_server p) = \<lparr>ad_manager = m, ad_store = Some st\<rparr>"
    "pr_mode p = https_mode_of sys pk ir env (sw_now found) m"
    "pr_https_addr p = https_listen_addr (data_plane (current_config m))"
  using assms
  by (auto simp: run_def new_server_def Let_def split: if_splits sum.splits option.splits)

lemma process_step_ok:
  assumes "process_step sys mar unm p p'" "admin_ok sys m0 unm (sv_admin (pr_server p))" "json_faithful mar unm"
  shows "admin_ok sys m0 unm (sv_admin (pr_server p'))"
  using assms(1)
proof cases
  case (by_request e rq answer)
  then show ?thesis using request_step_ok assms(2,3) by blast
next
  case (by_reload found)
  let ?w = "\<lparr>wt_manager = ad_manager (sv_admin (pr_server p)), wt_last_mod = pr_last_mod p\<rparr>"
  have "manager_to (ad_manager (sv_admin (pr_server p))) (wt_manager (fst (watcher_tick found ?w)))"
    by (auto simp: watcher_tick_def split: prod.split option.split dest: manager_to_reload)
  then show ?thesis
    by (intro admin_ok_change [OF assms(2)]) (simp_all add: by_reload reload_tick_def with_manager_def Let_def same_rows_def)
next
  case (by_global_sync sys2 web msg now)
  then show ?thesis
    using with_manager_ok [OF try_sync_to assms(2)] by (simp add: global_sync_tick_def)
next
  case (by_site_sync service web msg error_text wobble w ws)
  show ?thesis
  proof (cases "ad_store (sv_admin (pr_server p))")
    case (Some st)
    let ?fetch = "\<lambda>provider. map_error msg (fetch_cidrs web (wd_now w) provider)"
    let ?s = "\<lparr>sy_manager = ad_manager (sv_admin (pr_server p)), sy_store = st\<rparr>"
    have "sync_kept [] ?s (tick service ?fetch error_text wobble w ws ?s)" by (rule sync_kept_tick)
    then show ?thesis
      by (intro admin_ok_change [OF assms(2)])
        (simp_all add: by_site_sync site_sync_tick_def Some Let_def sync_kept_def manager_to_def manager_inv_def
          store_to_def same_rows_def)
  qed (use assms(2) by_site_sync in \<open>simp add: site_sync_tick_def\<close>)
next
  case (by_warm_cache w)
  then show ?thesis
    using assms(2) with_manager_ok [OF warm_cache_to assms(2)] by (simp add: warm_tick_def split: option.split)
qed

lemma process_reach_ok:
  assumes "process_reach sys path mar unm p" "json_faithful mar unm"
  shows "admin_ok sys (path_manager path) unm (sv_admin (pr_server p))"
  using assms(1)
proof induction
  case (first_start pk ir env found p)
  then obtain m st where m: "start_manager sys env path = Inr m" "sw_store found = Some st"
    "sv_admin (pr_server p) = \<lparr>ad_manager = m, ad_store = Some st\<rparr>" by (elim run_Started)
  have "st = init_store" using m(2) first_start(2) by simp
  then show ?case
    using start_manager_to [OF m(1)]
    by (simp add: m(3) admin_ok_def site_inv_def texts_ok_def certificates_ok_def init_store_def manager_to_def
        path_manager_def manager_inv_def)
next
  case (go_on p p')
  then show ?case using process_step_ok assms(2) by blast
next
  case (restart p pk ir env found p')
  then obtain m st where m: "start_manager sys env path = Inr m" "sw_store found = Some st"
    "sv_admin (pr_server p') = \<lparr>ad_manager = m, ad_store = Some st\<rparr>" by (elim run_Started)
  then show ?case
    using restart start_manager_to [OF m(1)]
    by (simp add: admin_ok_def site_inv_def manager_to_def path_manager_def manager_inv_def)
qed


section \<open>HTTPS\<close>

lemma process_step_mode: "process_step sys mar unm p p' \<Longrightarrow> pr_mode p' = pr_mode p \<and> pr_https_addr p' = pr_https_addr p"
  by (auto elim!: process_step.cases
      simp: request_step_def reload_tick_def global_sync_tick_def site_sync_tick_def warm_tick_def with_manager_def Let_def
      split: option.splits)

text \<open>
  How HTTPS is served is fixed at the start. A certificate that the program made for itself is
  shown in every handshake as long as it runs, whatever certificates a reload brings in; a
  program that started without HTTPS never offers it; only one that found certificates follows
  the running configuration. And while HTTPS is served a plain request is answered with the
  redirect and changes nothing, be it a health check, a login or a request to a site.
\<close>

theorem https_fixed_at_start:
  assumes "(process_step sys mar unm)\<^sup>*\<^sup>* p q"
  shows "(pr_mode p = HttpsIssued c how \<longrightarrow> tls_handshake q name = Some (Inr c)) \<and>
    (pr_mode p = HttpsConfigured \<longrightarrow> tls_handshake q name = Some (get_certificate (ad_manager (sv_admin (pr_server q))) name)) \<and>
    (\<not> serves_https p \<longrightarrow> tls_handshake q name = None) \<and>
    (serves_https p \<and> \<not> wq_tls rq \<longrightarrow> request_step e rq q =
       Some (q, ToHttps (build_https_host (wq_host rq) (resolve_port (pr_https_addr p)))))"
proof -
  have "pr_mode q = pr_mode p \<and> pr_https_addr q = pr_https_addr p"
    using assms by induction (auto dest: process_step_mode)
  then show ?thesis
    by (auto simp: tls_handshake_def serves_https_def request_step_def redirect_http_to_https_def split: https_mode.splits)
qed

lemma env_overrides_frame:
  "routing_domains (routing (apply_env_overrides env x)) = routing_domains (routing x)"
  "lb_cfg_pools (load_balancer (apply_env_overrides env x)) = lb_cfg_pools (load_balancer x)"
  "lb_cfg_routes (load_balancer (apply_env_overrides env x)) = lb_cfg_routes (load_balancer x)"
  "trim_space (default_pool_id (load_balancer (apply_env_overrides env x))) \<in> {[], trim_space (default_pool_id (load_balancer x))}"
proof -
  have "trim_space [] = []" by (simp add: trim_space_def trim_by_def)
  then show "trim_space (default_pool_id (load_balancer (apply_env_overrides env x))) \<in> {[], trim_space (default_pool_id (load_balancer x))}"
    by (simp add: apply_env_overrides_def env_plain_overrides_def env_upstream_override_def env_cidrs_override_def Let_def)
qed (simp_all add: apply_env_overrides_def env_plain_overrides_def env_upstream_override_def env_cidrs_override_def Let_def)

text \<open>
  The program's own certificate is for \<open>localhost\<close>, whatever the gateway serves. A start moves
  the routes of the configuration into the load balancer before the domains are collected
  from where they were; so, unless the file has both kinds of routes, no domain is left, and
  the certificate that is signed names \<open>localhost\<close> alone.
\<close>

theorem own_certificate_is_for_localhost:
  assumes "run sys pk ir env path found = Started p" "pr_mode p = HttpsIssued c how"
    and "load_config sys path = Inr cfg"
    and "\<not> has_load_balancer_binding (load_balancer cfg) \<or> routing_domains (routing cfg) = []"
  shows "\<exists>template parent key signer der. tp_dns_names template = [''localhost''] \<and>
    ir_create ir template parent key signer = Some der \<and> encode_certificate sys pk ir key der = Inr c"
proof -
  obtain m st where m: "start_manager sys env path = Inr m"
    "pr_mode p = https_mode_of sys pk ir env (sw_now found) m"
    using run_Started [OF assms(1)] by metis
  obtain m0 m1 where s: "apply_config sys (apply_env_overrides env cfg) m0 = (m1, None)"
    "apply_config sys (apply_env_overrides env (current_config m1)) m1 = (m, None)"
    using m(1) assms(3) by (auto simp: start_manager_def new_manager_def res_bind_Inr_iff accepted_Inr)
  have env: "routing_domains (routing (apply_env_overrides env x)) = routing_domains (routing x)"
    "has_load_balancer_binding (load_balancer (apply_env_overrides env x)) \<Longrightarrow> has_load_balancer_binding (load_balancer x)" for x
    using env_overrides_frame [of env x] by (auto simp: has_load_balancer_binding_def)
  have prepared: "routing_domains (routing (fst (prepare_routing_and_load_balancer x))) = []"
    if "\<not> has_load_balancer_binding (load_balancer x) \<or> routing_domains (routing x) = []" for x
    using that by (auto simp: prepare_routing_and_load_balancer_def empty_routing_def has_legacy_routing_def)
  have "routing_domains (routing (current_config m1)) = []"
    unfolding apply_config_current [OF s(1)] by (rule prepared) (use assms(4) env in auto)
  then have "routing_domains (routing (current_config m)) = []"
    unfolding apply_config_current [OF s(2)] by (intro prepared) (simp add: env)
  then have "collect_domains (current_config m) = [''localhost'']" by (simp add: collect_domains_def)
  moreover have "build_certificate sys pk ir env (sw_now found) (current_config m) = Inr (c, how)"
    using assms(2) m(2) by (auto simp: https_mode_of_def Let_def split: if_splits sum.splits)
  ultimately show ?thesis using build_certificate_names by metis
qed

section \<open>A program\<close>

text \<open>
  Its file sets the credentials of the control plane and no certificate; a request creates a site,
  and later the file has a certificate.
\<close>

definition home_system :: system where
  "home_system = \<lparr>sys_read_file = (\<lambda>_. Some []), sys_key_pair = (\<lambda>c k. Some (TlsCertificate c k)),
     sys_decode = (\<lambda>d raw. Some (d\<lparr>control_plane := (control_plane d)\<lparr>cp_auth := sample_auth\<rparr>\<rparr>))\<rparr>"

definition home_issuer :: issuer where
  "home_issuer = \<lparr>ir_generate = Some ''k'', ir_serial = Some 7, ir_signer = (\<lambda>_. None), ir_ec = (\<lambda>_. None),
     ir_pkcs1 = (\<lambda>_. None), ir_create = (\<lambda>t parent key signer. Some (concat (tp_dns_names t))), ir_marshal = Some\<rparr>"

definition home_found :: start_world where
  "home_found = \<lparr>sw_runtime = Some \<lparr>rt_level = InfoLevel, rt_stacktrace = ErrorLevel\<rparr>, sw_store = Some init_store, sw_ui = True,
     sw_stat = Some 5, sw_now = 0\<rparr>"

definition own_cert :: tls_certificate where
  "own_cert = TlsCertificate (''Clocalhost'' @ newline) (''Kk'' @ newline)"

definition home_process :: process where
  "home_process = (case run home_system line_pki home_issuer (\<lambda>_. []) ''c'' home_found of Started p \<Rightarrow> p)"

lemma home_started: "run home_system line_pki home_issuer (\<lambda>_. []) ''c'' home_found = Started home_process"
proof -
  have "(case run home_system line_pki home_issuer (\<lambda>_. []) ''c'' home_found of Started _ \<Rightarrow> True | _ \<Rightarrow> False)" by code_simp
  then show ?thesis by (auto simp: home_process_def split: start_outcome.splits)
qed

lemma home_mode: "pr_mode home_process = HttpsIssued own_cert ''self-signed''" "pr_https_addr home_process = '':8443''"
  by code_simp+

definition home_world :: process_world where
  "home_world = \<lparr>pw_api = api_outside\<lparr>aw_outside := (aw_outside api_outside)\<lparr>ou_system := home_system\<rparr>\<rparr>, pw_ip_text = (\<lambda>_. ''ip''),
     pw_upstream = (\<lambda>_. Some 200), pw_request_id = ''r'', pw_latency = 1, pw_is_file = (\<lambda>_. False)\<rparr>"

definition home_request :: "bool \<Rightarrow> string \<Rightarrow> web_request" where
  "home_request tls path = \<lparr>wq_tls = tls, wq_method = ''POST'', wq_host = ''a.org'', wq_path = path, wq_uri = path,
     wq_remote_addr = ''9.9.9.9:1'', wq_xff = [], wq_real_ip = [], wq_authorization = ''Bearer t'', wq_operator = [],
     wq_param = (\<lambda>_. []), wq_body = ap_body (api_post [] [])\<rparr>"

definition site_process :: process where
  "site_process = fst (the (request_step home_world (home_request True ''/admin/api/v1/sites'') home_process))"

lemma site_created:
  "(case request_step home_world (home_request True ''/admin/api/v1/sites'') home_process of
     Some (_, FromAdmin (ApiSite (SiteReply _))) \<Rightarrow> True | _ \<Rightarrow> False)"
  "(case ad_store (sv_admin (pr_server site_process)) of
     Some st \<Rightarrow> length (sites st) = 1 \<and> get_site_config codec_world ''id0'' st = Inr zero_config | None \<Rightarrow> False)"
  by code_simp+

lemma home_reach: "process_reach home_system ''c'' tally_marshal tally_unmarshal home_process"
  by (rule first_start [OF home_started]) (simp add: home_found_def)

lemma home_fits: "fits home_system tally_marshal tally_unmarshal (aw_outside (pw_api home_world))"
  by (simp add: fits_def home_world_def api_outside_def codec_outside_def codec_world_def dated_codec_def)


definition later_system :: system where
  "later_system = home_system\<lparr>sys_decode := (\<lambda>d raw. Some (d\<lparr>ssl_certificates :=
     [\<lparr>ssl_id = ''1'', ssl_name = ''n'', ssl_domains = [''a.org''], ssl_not_after = 0, ssl_issuer = [],
       ssl_cert_pem = ''c'', ssl_key_pem = ''k'', ssl_created_at = 0\<rparr>]\<rparr>))\<rparr>"

theorem https_fixed_at_start_witness:
  "(let q = reload_tick (Some 9, later_system) home_process in
      has_certificates (ad_manager (sv_admin (pr_server q))) \<and>
      tls_handshake q ''a.org'' = Some (Inr own_cert) \<and>
      request_step home_world (home_request False ''/healthz'') q = Some (q, ToHttps ''a.org:8443''))"
proof -
  let ?q = "reload_tick (Some 9, later_system) home_process"
  have "has_certificates (ad_manager (sv_admin (pr_server ?q)))" by code_simp
  moreover have "(process_step home_system tally_marshal tally_unmarshal)\<^sup>*\<^sup>* home_process ?q"
    by (rule r_into_rtranclp) (rule by_reload)
  moreover have "build_https_host ''a.org'' (resolve_port '':8443'') = ''a.org:8443''" by code_simp
  ultimately show ?thesis
    using https_fixed_at_start [of home_system tally_marshal tally_unmarshal home_process ?q own_cert "''self-signed''" "''a.org''"
        "home_request False ''/healthz''" home_world] home_mode
    by (simp add: Let_def serves_https_def home_request_def)
qed

theorem own_certificate_is_for_localhost_witness:
  "\<exists>template parent key signer der. tp_dns_names template = [''localhost''] \<and>
     ir_create home_issuer template parent key signer = Some der \<and>
     encode_certificate home_system line_pki home_issuer key der = Inr own_cert"
proof -
  have "\<exists>cfg. load_config home_system ''c'' = Inr cfg \<and> \<not> has_load_balancer_binding (load_balancer cfg)"
    by (intro exI [of _ "default_config\<lparr>control_plane := (control_plane default_config)\<lparr>cp_auth := sample_auth\<rparr>\<rparr>"] conjI; code_simp)
  then show ?thesis
    using own_certificate_is_for_localhost [OF home_started home_mode(1)] by blast
qed

end
