(* ===== verification/Codings.thy ===== *)
theory Codings
  imports GoStrings
begin

text \<open>
  The text encodings of bytes the program uses from Go's library: hexadecimal
  (\<open>encoding/hex\<close>) and standard base64 with padding (\<open>base64.StdEncoding\<close>), whose decoder
  skips line breaks and does not look at the unused bits of the last digit. A string of Go is
  its bytes, so bytes are characters here.
\<close>

section \<open>Hexadecimal\<close>

definition nibble_val :: "char \<Rightarrow> nat option" where
  "nibble_val c =
     (if is_digit c then Some (code c - 48)
      else if 97 \<le> code c \<and> code c \<le> 102 then Some (code c - 87)
      else if 65 \<le> code c \<and> code c \<le> 70 then Some (code c - 55)
      else None)"

fun hex_encode :: "string \<Rightarrow> string" where
  "hex_encode [] = []"
| "hex_encode (c # s) = hex_lower (code c div 16) # hex_lower (code c mod 16) # hex_encode s"

fun hex_decode :: "string \<Rightarrow> string option" where
  "hex_decode [] = Some []"
| "hex_decode [c] = None"
| "hex_decode (c # d # s) =
     (case (nibble_val c, nibble_val d) of
        (Some x, Some y) \<Rightarrow> map_option (\<lambda>t. char_of (16 * x + y) # t) (hex_decode s)
      | _ \<Rightarrow> None)"

lemma code_bound [simp]: "code c < 256"
  by (simp add: code_def)

lemma char_of_code [simp]: "char_of (code c) = c"
  by (simp add: code_def)

lemma nibble_val_lower [simp]: "n < 16 \<Longrightarrow> nibble_val (hex_lower n) = Some n"
  by (simp add: nibble_val_def hex_lower_def is_digit_def digit_def code_char_of)

lemma hex_roundtrip [simp]: "hex_decode (hex_encode s) = Some s"
proof (induction s)
  case (Cons c s)
  have "code c div 16 < 16" using code_bound [of c] by (simp add: div_less_iff_less_mult)
  then show ?case using Cons by simp
qed simp

lemma hex_encode_clean: "list_all (\<lambda>c. \<not> is_space c) (hex_encode s)"
proof (induction s)
  case (Cons c s)
  have "code c div 16 < 16" using code_bound [of c] by (simp add: div_less_iff_less_mult)
  moreover have "\<not> is_space (hex_lower n)" if "n < 16" for n
    using that by (simp add: hex_lower_def is_space_code digit_def code_char_of)
  ultimately show ?case using Cons by simp
qed simp

lemma hex_encode_length [simp]: "length (hex_encode s) = 2 * length s"
  by (induction s) simp_all

lemma hex_decode_length: "hex_decode s = Some t \<Longrightarrow> length s = 2 * length t"
  by (induction s arbitrary: t rule: hex_decode.induct) (auto split: option.splits)

section \<open>Base64\<close>

definition b64_digit :: "nat \<Rightarrow> char" where
  "b64_digit n =
     (if n < 26 then char_of (n + 65) else if n < 52 then char_of (n + 71)
      else if n < 62 then char_of (n - 4) else if n = 62 then CHR ''+'' else CHR ''/'')"

definition b64_val :: "char \<Rightarrow> nat option" where
  "b64_val c =
     (if is_upper c then Some (code c - 65) else if is_lower c then Some (code c - 71)
      else if is_digit c then Some (code c + 4) else if c = CHR ''+'' then Some 62
      else if c = CHR ''/'' then Some 63 else None)"

abbreviation pad :: char where
  "pad \<equiv> CHR ''=''"

fun b64_encode :: "string \<Rightarrow> string" where
  "b64_encode [] = []"
| "b64_encode [a] = [b64_digit (code a div 4), b64_digit (code a mod 4 * 16), pad, pad]"
| "b64_encode [a, b] =
     [b64_digit (code a div 4), b64_digit (code a mod 4 * 16 + code b div 16),
      b64_digit (code b mod 16 * 4), pad]"
| "b64_encode (a # b # c # s) =
     b64_digit (code a div 4) # b64_digit (code a mod 4 * 16 + code b div 16) #
     b64_digit (code b mod 16 * 4 + code c div 64) # b64_digit (code c mod 64) # b64_encode s"

text \<open>
  Four characters at a time. Padding may stand only at the end, in the last place or in the
  last two.
\<close>

fun b64_quanta :: "string \<Rightarrow> string option" where
  "b64_quanta [] = Some []"
| "b64_quanta (p # q # r # t # s) =
     (case (b64_val p, b64_val q) of
        (Some x, Some y) \<Rightarrow>
          let a = char_of (4 * x + y div 16) in
          if r = pad then (if t = pad \<and> s = [] then Some [a] else None)
          else (case b64_val r of
              None \<Rightarrow> None
            | Some z \<Rightarrow>
                let b = char_of (y mod 16 * 16 + z div 4) in
                if t = pad then (if s = [] then Some [a, b] else None)
                else (case b64_val t of
                    None \<Rightarrow> None
                  | Some u \<Rightarrow> map_option (\<lambda>m. a # b # char_of (z mod 4 * 64 + u) # m) (b64_quanta s)))
      | _ \<Rightarrow> None)"
| "b64_quanta _ = None"

definition is_break :: "char \<Rightarrow> bool" where
  "is_break c \<longleftrightarrow> c = CHR 0x0A \<or> c = CHR 0x0D"

definition b64_decode :: "string \<Rightarrow> string option" where
  "b64_decode s = b64_quanta (filter (\<lambda>c. \<not> is_break c) s)"

lemma b64_val_digit [simp]: "n < 64 \<Longrightarrow> b64_val (b64_digit n) = Some n"
  by (auto simp: b64_val_def b64_digit_def is_upper_def is_lower_def is_digit_def code_char_of) (simp_all add: code_def)

lemma b64_val_pad [simp]: "b64_val pad = None"
  by (simp add: b64_val_def is_upper_def is_lower_def is_digit_def code_def)

lemma b64_digit_not_pad [simp]: "n < 64 \<Longrightarrow> b64_digit n \<noteq> pad"
  using b64_val_digit b64_val_pad by (metis option.distinct(1))

lemma b64_digit_not_space: "n < 64 \<Longrightarrow> \<not> is_space (b64_digit n)"
  by (auto simp: b64_digit_def is_space_code code_char_of) (simp_all add: code_def)

text \<open>The digits the encoder writes, read back, and the bytes put together from them.\<close>

lemma b64_bounds:
  fixes a b :: nat
  assumes "a < 256" "b < 256"
  shows "a div 4 < 64" "a mod 4 * 16 < 64" "a mod 4 * 16 + b div 16 < 64" "b mod 16 * 4 < 64"
    "a mod 16 * 4 + b div 64 < 64" "a mod 64 < 64"
proof -
  have "a div 4 < 64" "b div 16 < 16" "b div 64 < 4"
    using less_mult_imp_div_less [of a 64 4] less_mult_imp_div_less [of b 16 16]
      less_mult_imp_div_less [of b 4 64] assms by simp_all
  moreover have "a mod 4 < 4" "a mod 16 < 16" "b mod 16 < 16" "a mod 64 < 64" by simp_all
  ultimately show "a div 4 < 64" "a mod 4 * 16 < 64" "a mod 4 * 16 + b div 16 < 64" "b mod 16 * 4 < 64"
    "a mod 16 * 4 + b div 64 < 64" "a mod 64 < 64"
    by linarith+
qed

lemmas code_bounds = b64_bounds [OF code_bound code_bound]
lemmas code_digits = code_bounds [THEN b64_val_digit] code_bounds [THEN b64_digit_not_pad]
  code_bounds [THEN b64_digit_not_space]

lemma join_digits:
  fixes x y k :: nat
  assumes "y < k"
  shows "(x * k + y) div k = x" "(x * k + y) mod k = y"
  using assms by simp_all

lemma b64_regroup:
  fixes a b c :: nat
  shows "4 * (a div 4) + a mod 4 * 16 div 16 = a"
    "b < 256 \<Longrightarrow> 4 * (a div 4) + (a mod 4 * 16 + b div 16) div 16 = a"
    "b < 256 \<Longrightarrow> (a mod 4 * 16 + b div 16) mod 16 * 16 + b mod 16 * 4 div 4 = b"
    "b < 256 \<Longrightarrow> c < 256 \<Longrightarrow> (a mod 4 * 16 + b div 16) mod 16 * 16 + (b mod 16 * 4 + c div 64) div 4 = b"
    "c < 256 \<Longrightarrow> (b mod 16 * 4 + c div 64) mod 4 * 64 + c mod 64 = c"
proof -
  have q: "b < 256 \<Longrightarrow> b div 16 < 16" "c < 256 \<Longrightarrow> c div 64 < 4"
    using less_mult_imp_div_less [of b 16 16] less_mult_imp_div_less [of c 4 64] by simp_all
  show "4 * (a div 4) + a mod 4 * 16 div 16 = a"
    by (simp add: mult.commute)
  show "b < 256 \<Longrightarrow> 4 * (a div 4) + (a mod 4 * 16 + b div 16) div 16 = a"
    "b < 256 \<Longrightarrow> (a mod 4 * 16 + b div 16) mod 16 * 16 + b mod 16 * 4 div 4 = b"
    "b < 256 \<Longrightarrow> c < 256 \<Longrightarrow> (a mod 4 * 16 + b div 16) mod 16 * 16 + (b mod 16 * 4 + c div 64) div 4 = b"
    "c < 256 \<Longrightarrow> (b mod 16 * 4 + c div 64) mod 4 * 64 + c mod 64 = c"
    by (simp_all only: q join_digits nonzero_mult_div_cancel_right mult_div_mod_eq div_mult_mod_eq zero_neq_numeral not_False_eq_True)
qed

lemma b64_quanta_encode: "b64_quanta (b64_encode s) = Some s"
  by (induction s rule: b64_encode.induct)
    (simp_all only: b64_encode.simps b64_quanta.simps code_digits option.case prod.case if_True if_False
       Let_def b64_regroup code_bound char_of_code option.map simp_thms)

lemma b64_encode_clean: "list_all (\<lambda>c. \<not> is_space c) (b64_encode s)"
proof -
  have "\<not> is_space pad" by code_simp
  then show ?thesis
    by (induction s rule: b64_encode.induct) (simp_all only: b64_encode.simps list.pred_inject code_digits simp_thms)
qed

theorem b64_roundtrip [simp]: "b64_decode (b64_encode s) = Some s"
proof -
  have "list_all (\<lambda>c. \<not> is_break c) (b64_encode s)"
    by (rule list.pred_mono_strong [OF b64_encode_clean]) (auto simp: is_break_def is_space_def)
  then have "filter (\<lambda>c. \<not> is_break c) (b64_encode s) = b64_encode s"
    by (simp add: list_all_iff filter_id_conv)
  then show ?thesis by (simp add: b64_decode_def b64_quanta_encode)
qed

lemma b64_encode_length: "length (b64_encode s) = 4 * ((length s + 2) div 3)"
  by (induction s rule: b64_encode.induct) (simp_all, presburger)

lemma b64_quanta_length: "b64_quanta s = Some t \<Longrightarrow> 4 * length t \<le> 3 * length s"
  by (induction s arbitrary: t rule: b64_quanta.induct)
    (auto simp: Let_def split: option.splits if_splits)

lemma b64_decode_length: "b64_decode s = Some t \<Longrightarrow> 4 * length t \<le> 3 * length s"
  using b64_quanta_length [of "filter (\<lambda>c. \<not> is_break c) s" t] length_filter_le [of "\<lambda>c. \<not> is_break c" s]
  unfolding b64_decode_def by linarith

section \<open>What both encodings promise\<close>

text \<open>
  An encoding of bytes as text: decoding takes it back, and the text has no spaces, so that
  trimming it changes nothing.
\<close>

locale text_coding =
  fixes encode :: "string \<Rightarrow> string" and decode :: "string \<Rightarrow> string option"
  assumes decode_encode: "decode (encode s) = Some s"
    and encode_clean: "list_all (\<lambda>c. \<not> is_space c) (encode s)"
    and encode_blank: "encode [] = []"
begin

lemma encode_inject: "encode s = encode t \<longleftrightarrow> s = t"
  using decode_encode by (metis option.inject)

lemma encode_empty: "encode s = [] \<longleftrightarrow> s = []"
  using encode_inject [of s "[]"] encode_blank by simp

lemma trim_encoded: "trim_space (encode s) = encode s"
proof -
  have "dropWhile is_space t = t" if "list_all (\<lambda>c. \<not> is_space c) t" for t
    using that by (cases t) auto
  then show ?thesis using encode_clean [of s] by (simp add: trim_space_def trim_by_def)
qed

end

interpretation hexadecimal: text_coding hex_encode hex_decode
  by unfold_locales (simp_all add: hex_encode_clean)

interpretation base64: text_coding b64_encode b64_decode
  by unfold_locales (simp_all add: b64_encode_clean)

end
