(* ===== verification/Ciphers.thy ===== *)
theory Ciphers
  imports SiteStoreProps Codings
begin

text \<open>
  What seals the secrets of a site configuration (\<open>internal/store/site_config_secret.go\<close>): the
  key read from the environment in one of three formats, and a nonce with the ciphertext, in
  base64 after the prefix. AES-GCM and the random source belong to Go's library and are
  arguments. The abstract cipher of \<open>Store\<close> and \<open>SiteStore\<close> is then this code.
\<close>

section \<open>The key\<close>

definition load_site_config_encryption_key :: "environ \<Rightarrow> string option" where
  "load_site_config_encryption_key env =
     (let raw = trim_space (env_or_default env ''SITE_CONFIG_ENCRYPTION_KEY'' []);
          exact = (\<lambda>d. case d of None \<Rightarrow> None | Some k \<Rightarrow> if length k = 32 then Some k else None) in
      if raw = [] then None
      else
        (case if length raw = 64 then exact (hex_decode raw) else None of
           Some k \<Rightarrow> Some k
         | None \<Rightarrow>
             (case exact (b64_decode raw) of
                Some k \<Rightarrow> Some k
              | None \<Rightarrow> if length raw = 32 then Some raw else None)))"

section \<open>Sealing and opening\<close>

text \<open>
  A \<open>gcm\<close> is what \<open>aes.NewCipher\<close> and \<open>cipher.NewGCM\<close> give for a key: the size of its nonces
  and the two directions. \<open>rand.Read\<close> fills as many bytes as it is asked for, or fails.
\<close>

record gcm =
  nonce_size :: nat
  gcm_seal :: "string \<Rightarrow> string \<Rightarrow> string"
  gcm_open :: "string \<Rightarrow> string \<Rightarrow> string option"

type_synonym engine = "string \<Rightarrow> gcm option"
type_synonym random = "nat \<Rightarrow> string option"

datatype secret_error =
    KeyNotConfigured
  | CipherFailed
  | NonceFailed
  | NotBase64
  | MalformedCiphertext
  | NotAuthentic

definition cipher_for :: "environ \<Rightarrow> engine \<Rightarrow> secret_error + gcm" where
  "cipher_for env engine =
     (case load_site_config_encryption_key env of
        None \<Rightarrow> Inl KeyNotConfigured
      | Some k \<Rightarrow> (case engine k of None \<Rightarrow> Inl CipherFailed | Some g \<Rightarrow> Inr g))"

definition encrypt_secret :: "environ \<Rightarrow> engine \<Rightarrow> random \<Rightarrow> string \<Rightarrow> secret_error + string" where
  "encrypt_secret env engine random plain =
     res_bind (cipher_for env engine) (\<lambda>g.
       (case random (nonce_size g) of
          None \<Rightarrow> Inl NonceFailed
        | Some nonce \<Rightarrow> Inr (secret_prefix @ b64_encode (nonce @ gcm_seal g nonce plain))))"

definition decrypt_secret :: "environ \<Rightarrow> engine \<Rightarrow> string \<Rightarrow> secret_error + string" where
  "decrypt_secret env engine value =
     (case load_site_config_encryption_key env of
        None \<Rightarrow> Inl KeyNotConfigured
      | Some k \<Rightarrow>
          if \<not> has_prefix value secret_prefix then Inr value
          else
            (case b64_decode (trim_prefix value secret_prefix) of
               None \<Rightarrow> Inl NotBase64
             | Some raw \<Rightarrow>
                 res_bind (cipher_for env engine) (\<lambda>g.
                   if length raw < nonce_size g then Inl MalformedCiphertext
                   else
                     (case gcm_open g (take (nonce_size g) raw) (drop (nonce_size g) raw) of
                        None \<Rightarrow> Inl NotAuthentic
                      | Some plain \<Rightarrow> Inr plain))))"

section \<open>The abstract cipher\<close>

definition ok_value :: "'e + 'a \<Rightarrow> 'a option" where
  "ok_value r = (case r of Inl _ \<Rightarrow> None | Inr x \<Rightarrow> Some x)"

text \<open>A world whose cipher is the one above: its two functions work on what follows the prefix.\<close>

definition cipher_world :: "environ \<Rightarrow> engine \<Rightarrow> random \<Rightarrow> world \<Rightarrow> world" where
  "cipher_world env engine random w = w
     \<lparr>wd_has_key := (load_site_config_encryption_key env \<noteq> None),
      wd_encrypt := (\<lambda>p. map_option (\<lambda>v. trim_prefix v secret_prefix) (ok_value (encrypt_secret env engine random p))),
      wd_decrypt := (\<lambda>c. ok_value (decrypt_secret env engine (secret_prefix @ c)))\<rparr>"

lemma secret_has_prefix: "encrypt_secret env engine random p = Inr v \<Longrightarrow> \<exists>c. v = secret_prefix @ b64_encode c"
  by (auto simp: encrypt_secret_def res_bind_Inr_iff split: option.splits)

theorem world_encrypts:
  "encrypt_site_config_secret (cipher_world env engine random w) p = ok_value (encrypt_secret env engine random p)"
proof (cases "encrypt_secret env engine random p")
  case (Inl e)
  then show ?thesis by (simp add: encrypt_site_config_secret_def cipher_world_def ok_value_def)
next
  case (Inr v)
  then have "load_site_config_encryption_key env \<noteq> None"
    by (auto simp: encrypt_secret_def cipher_for_def split: option.splits)
  then show ?thesis using Inr secret_has_prefix [OF Inr]
    by (auto simp: encrypt_site_config_secret_def cipher_world_def ok_value_def sealed_text)
qed

lemma has_prefix_split: "has_prefix v p \<Longrightarrow> p @ trim_prefix v p = v"
  by (auto simp: has_prefix_iff trim_prefix_def)

theorem world_decrypts:
  "decrypt_site_config_secret (cipher_world env engine random w) v = ok_value (decrypt_secret env engine v)"
  using has_prefix_split [of v secret_prefix]
  by (cases "load_site_config_encryption_key env")
    (auto simp: decrypt_site_config_secret_def cipher_world_def is_sealed_def ok_value_def decrypt_secret_def)

section \<open>What is sealed opens\<close>

text \<open>
  The documented behaviour of the library: opening with the same key and nonce gives the
  sealed text back, and the random source fills the buffer it is given.
\<close>

definition opens_what_it_seals :: "engine \<Rightarrow> bool" where
  "opens_what_it_seals engine \<longleftrightarrow> (\<forall>k g nonce p. engine k = Some g \<longrightarrow> length nonce = nonce_size g \<longrightarrow>
     gcm_open g nonce (gcm_seal g nonce p) = Some p)"

definition fills_buffer :: "random \<Rightarrow> bool" where
  "fills_buffer random \<longleftrightarrow> (\<forall>n s. random n = Some s \<longrightarrow> length s = n)"

lemma decrypt_encrypt:
  assumes "encrypt_secret env engine random p = Inr v" "opens_what_it_seals engine" "fills_buffer random"
  shows "decrypt_secret env engine v = Inr p"
proof -
  obtain g nonce where g: "cipher_for env engine = Inr g" "random (nonce_size g) = Some nonce"
    "v = secret_prefix @ b64_encode (nonce @ gcm_seal g nonce p)"
    using assms(1) by (auto simp: encrypt_secret_def res_bind_Inr_iff split: option.splits)
  then obtain k where k: "load_site_config_encryption_key env = Some k" "engine k = Some g"
    by (auto simp: cipher_for_def split: option.splits)
  have "length nonce = nonce_size g" using assms(3) g(2) by (simp add: fills_buffer_def)
  moreover from this have "gcm_open g nonce (gcm_seal g nonce p) = Some p"
    using assms(2) k(2) by (simp add: opens_what_it_seals_def)
  ultimately show ?thesis using g k(1) by (simp add: decrypt_secret_def sealed_text)
qed

lemma secret_is_clean:
  assumes "encrypt_secret env engine random p = Inr v"
  shows "is_sealed v" "no_spaces (trim_prefix v secret_prefix)" "trim_space v = v"
  using secret_has_prefix [OF assms] b64_encode_clean trim_space_no_spaces [OF sealed_no_spaces]
  by (auto simp: sealed_text no_spaces_def)

text \<open>So the real cipher has what the theorems on stored secrets ask of one.\<close>

theorem cipher_world_ok:
  assumes "opens_what_it_seals engine" "fills_buffer random"
  shows "cipher_ok (cipher_world env engine random w)"
proof -
  have "ok_value (decrypt_secret env engine (secret_prefix @ trim_prefix v secret_prefix)) = Some p \<and>
      no_spaces (trim_prefix v secret_prefix)"
    if "encrypt_secret env engine random p = Inr v" for p v
    using decrypt_encrypt [OF that assms] secret_is_clean [OF that]
    by (simp add: is_sealed_def has_prefix_split ok_value_def)
  then show ?thesis
    by (auto simp: cipher_ok_def cipher_world_def ok_value_def split: sum.splits)
qed

section \<open>The formats of the key\<close>

lemma env_text: "env_or_default env name [] = trim_space (env name)"
  by (simp add: env_or_default_def Let_def)

lemma loaded_key_length: "load_site_config_encryption_key env = Some k \<Longrightarrow> length k = 32"
  by (auto simp: load_site_config_encryption_key_def Let_def split: option.splits if_splits)

lemma encoded_key_loads:
  assumes "length k = 32" "env ''SITE_CONFIG_ENCRYPTION_KEY'' \<in> {hex_encode k, b64_encode k}"
  shows "load_site_config_encryption_key env = Some k"
proof -
  have "length (hex_encode k) = 64" "length (b64_encode k) = 44"
    using assms(1) b64_encode_length [of k] by simp_all
  moreover have "k \<noteq> []" using assms(1) by auto
  ultimately show ?thesis
    using assms by (auto simp: load_site_config_encryption_key_def env_text Let_def hexadecimal.trim_encoded
        base64.trim_encoded hexadecimal.encode_empty base64.encode_empty)
qed

text \<open>A text of 32 characters is never the base64 of 32 bytes, so it is the key itself.\<close>

lemma raw_key_loads:
  assumes "length (env ''SITE_CONFIG_ENCRYPTION_KEY'') = 32"
    and "trim_space (env ''SITE_CONFIG_ENCRYPTION_KEY'') = env ''SITE_CONFIG_ENCRYPTION_KEY''"
  shows "load_site_config_encryption_key env = Some (env ''SITE_CONFIG_ENCRYPTION_KEY'')"
  using assms b64_decode_length [of "env ''SITE_CONFIG_ENCRYPTION_KEY''"]
  by (auto simp: load_site_config_encryption_key_def env_text Let_def split: option.splits)

text \<open>
  C19. With a key of 32 bytes given in hexadecimal or base64, encrypting a secret gives a text
  with the prefix, without spaces at its ends, and decrypting that text with the same key gives
  the secret back; read from a stored setting it is the secret again. AES-GCM is asked to open
  what it sealed, and the random source to fill its buffer.
\<close>

theorem sealed_secret_opens:
  assumes "opens_what_it_seals engine" "fills_buffer random" "length k = 32"
    and "env ''SITE_CONFIG_ENCRYPTION_KEY'' \<in> {hex_encode k, b64_encode k}"
    and "engine k = Some g" "random (nonce_size g) = Some nonce"
  shows "\<exists>v. encrypt_secret env engine random p = Inr v \<and> is_sealed v \<and> trim_space v = v \<and>
    decrypt_secret env engine v = Inr p \<and>
    unseal (cipher_world env engine random w) (s\<lparr>secret_key := v\<rparr>) = s\<lparr>secret_key := p\<rparr>"
proof -
  have "load_site_config_encryption_key env = Some k" using assms(3,4) by (rule encoded_key_loads)
  then obtain v where v: "encrypt_secret env engine random p = Inr v"
    using assms(5,6) by (simp add: encrypt_secret_def cipher_for_def)
  moreover have d: "decrypt_secret env engine v = Inr p" using decrypt_encrypt [OF v assms(1,2)] .
  moreover have "unseal (cipher_world env engine random w) (s\<lparr>secret_key := v\<rparr>) = s\<lparr>secret_key := p\<rparr>"
    using secret_is_clean [OF v] d by (simp add: unseal_def Let_def world_decrypts ok_value_def)
  ultimately show ?thesis using secret_is_clean [OF v] by blast
qed

text \<open>
  The witness's engine adds the first byte of the nonce to each byte and appends the key's
  first as a tag that opening checks.
\<close>

definition shift_text :: "nat \<Rightarrow> string \<Rightarrow> string" where
  "shift_text n = map (\<lambda>c. char_of (code c + n))"

definition sample_engine :: engine where
  "sample_engine key =
     (if length key \<notin> {16, 24, 32} then None
      else Some \<lparr>nonce_size = 12,
        gcm_seal = (\<lambda>nonce p. shift_text (code (hd nonce)) p @ [hd key]),
        gcm_open = (\<lambda>nonce c. if c = [] \<or> last c \<noteq> hd key then None
                     else Some (shift_text (256 - code (hd nonce)) (butlast c)))\<rparr>)"

lemma shift_back: "n \<le> 256 \<Longrightarrow> shift_text (256 - n) (shift_text n s) = s"
proof -
  assume n: "n \<le> 256"
  have "char_of (code (char_of (code c + n)) + (256 - n)) = c" for c
  proof -
    have "((code c + n) mod 256 + (256 - n)) mod 256 = (code c + 256) mod 256"
      using n mod_add_left_eq [of "code c + n" 256 "256 - n"] by simp
    moreover have "code (char_of (code c + n)) = (code c + n) mod 256" by (simp add: code_def)
    ultimately show ?thesis
      by (metis char_of_code char_of_mod_256 code_bound mod_add_self2 mod_less)
  qed
  then show ?thesis by (simp add: shift_text_def comp_def map_idI)
qed

lemma sample_engine_opens: "opens_what_it_seals sample_engine"
  by (auto simp: opens_what_it_seals_def sample_engine_def shift_back less_imp_le [OF code_bound] split: if_splits)

theorem sealed_secret_opens_witness:
  "\<exists>v. encrypt_secret (\<lambda>_. hex_encode (replicate 32 CHR ''k'')) sample_engine (\<lambda>n. Some (replicate n CHR ''n'')) ''pw'' = Inr v \<and>
     is_sealed v \<and> trim_space v = v \<and>
     decrypt_secret (\<lambda>_. hex_encode (replicate 32 CHR ''k'')) sample_engine v = Inr ''pw'' \<and>
     unseal (cipher_world (\<lambda>_. hex_encode (replicate 32 CHR ''k'')) sample_engine (\<lambda>n. Some (replicate n CHR ''n'')) sample_world)
       (zero_setting\<lparr>secret_key := v\<rparr>) = zero_setting\<lparr>secret_key := ''pw''\<rparr>"
  by (rule sealed_secret_opens [OF sample_engine_opens, where k = "replicate 32 CHR ''k''"])
    (simp_all add: fills_buffer_def sample_engine_def)

end
