(* ===== verification/BlockPage.thy ===== *)
theory BlockPage
  imports GatewayProps "HOL-Library.Sublist"
begin

text \<open>
  The page a refused request gets (\<open>renderBlockPage\<close> in \<open>internal/gateway/error_page.go\<close>, called
  by \<open>ServeHTTP\<close>) and the recorder of the answer's status (\<open>statusRecorder\<close> in
  \<open>handler.go\<close>). The page's text is an argument: what is shown holds for every text with the two
  placeholders.
\<close>

section \<open>The page\<close>

text \<open>\<open>strings.ReplaceAll\<close> for a pattern that is not empty.\<close>

fun replace_all :: "string \<Rightarrow> string \<Rightarrow> string \<Rightarrow> string" where
  "replace_all old new [] = []"
| "replace_all old new (c # s) =
     (if old \<noteq> [] \<and> has_prefix (c # s) old then new @ replace_all old new (drop (length old) (c # s))
      else c # replace_all old new s)"

definition request_id_mark :: string where
  "request_id_mark = ''{{REQUEST_ID}}''"

definition client_ip_mark :: string where
  "client_ip_mark = ''{{CLIENT_IP}}''"

definition render_block_page :: "string \<Rightarrow> string \<Rightarrow> string \<Rightarrow> string" where
  "render_block_page page request_id client_ip =
     replace_all client_ip_mark client_ip (replace_all request_id_mark request_id page)"

text \<open>The body \<open>ServeHTTP\<close> writes with the status 403.\<close>

definition block_page :: "string \<Rightarrow> (ip_addr \<Rightarrow> string) \<Rightarrow> response \<Rightarrow> string option" where
  "block_page page ip_text answer =
     (case answer of Forbidden i ip \<Rightarrow> Some (render_block_page page i (ip_text ip)) | _ \<Rightarrow> None)"

lemma replace_all_shows:
  assumes "sublist old s" "old \<noteq> []"
  shows "sublist new (replace_all old new s)"
  using assms
proof (induction old new s rule: replace_all.induct)
  case (2 old new c s)
  show ?case
  proof (cases "has_prefix (c # s) old")
    case True
    then show ?thesis using 2(4) by auto
  next
    case False
    then have "sublist old s"
      using 2(3) by (auto simp: sublist_Cons_right has_prefix_iff prefix_def)
    then show ?thesis using 2 False by (simp add: sublist_Cons_right)
  qed
qed simp

text \<open>Filling in the request leaves the place for the address: the two marks cannot overlap.\<close>

lemma marks_apart:
  "replace_all request_id_mark new (client_ip_mark @ t) = client_ip_mark @ replace_all request_id_mark new t"
  "sublist client_ip_mark (request_id_mark @ t) \<longleftrightarrow> sublist client_ip_mark t"
  by (simp_all add: request_id_mark_def client_ip_mark_def has_prefix_def sublist_Cons_right)

lemma client_mark_survives: "sublist client_ip_mark s \<Longrightarrow> sublist client_ip_mark (replace_all request_id_mark new s)"
proof (induction request_id_mark new s rule: replace_all.induct)
  case (2 new c s)
  show ?case
  proof (cases "has_prefix (c # s) request_id_mark")
    case True
    then obtain t where t: "c # s = request_id_mark @ t" by (auto simp: has_prefix_iff)
    then have d: "drop (length request_id_mark) (c # s) = t" by simp
    have m: "request_id_mark \<noteq> []" by (simp add: request_id_mark_def)
    have "sublist client_ip_mark t" using 2(3) t marks_apart(2) by metis
    then have "sublist client_ip_mark (replace_all request_id_mark new t)" using 2(1) True m d by simp
    moreover have "replace_all request_id_mark new (c # s) = new @ replace_all request_id_mark new t"
      using True m d by simp
    ultimately show ?thesis by (simp add: sublist_append)
  next
    case False
    show ?thesis
    proof (cases "prefix client_ip_mark (c # s)")
      case True
      then obtain t where "c # s = client_ip_mark @ t" by (auto simp: prefix_def)
      then show ?thesis using marks_apart(1) [of new t] by (metis sublist_append_rightI)
    next
      assume "\<not> prefix client_ip_mark (c # s)"
      then show ?thesis using 2(2,3) False by (simp add: sublist_Cons_right)
    qed
  qed
qed simp

lemma page_shows_address:
  assumes "sublist client_ip_mark page"
  shows "sublist client_ip (render_block_page page request_id client_ip)"
  unfolding render_block_page_def
  by (rule replace_all_shows [OF client_mark_survives [OF assms]]) (simp add: client_ip_mark_def)

section \<open>The recorder\<close>

text \<open>
  \<open>statusRecorder\<close>: the status noted so far, 0 before the first, and the writer it wraps as the
  calls passed on to it, \<open>None\<close> when there is none. \<open>WriteHeader\<close> without a writer panics,
  \<open>Write\<close> returns an error; a write without a status counts as 200.
\<close>

datatype writer_call = Header int | Body string

record status_recorder =
  rc_status :: int
  rc_writer :: "writer_call list option"

definition write_header :: "int \<Rightarrow> status_recorder \<Rightarrow> status_recorder option" where
  "write_header status r =
     map_option (\<lambda>calls. r\<lparr>rc_status := status, rc_writer := Some (calls @ [Header status])\<rparr>) (rc_writer r)"

definition write_body :: "string \<Rightarrow> status_recorder \<Rightarrow> status_recorder \<times> nat option" where
  "write_body data r =
     (let r1 = (if rc_status r = 0 then r\<lparr>rc_status := 200\<rparr> else r) in
      case rc_writer r1 of
        None \<Rightarrow> (r1, None)
      | Some calls \<Rightarrow> (r1\<lparr>rc_writer := Some (calls @ [Body data])\<rparr>, Some (length data)))"

text \<open>
  What is noted is the last status passed on, 200 when a body went first, and 0 before anything
  was written.
\<close>

definition status_noted :: "writer_call list \<Rightarrow> int \<Rightarrow> int" where
  "status_noted calls start =
     fold (\<lambda>c s. case c of Header h \<Rightarrow> h | Body _ \<Rightarrow> if s = 0 then 200 else s) calls start"

definition recorder_ok :: "status_recorder \<Rightarrow> bool" where
  "recorder_ok r \<longleftrightarrow> (\<forall>calls. rc_writer r = Some calls \<longrightarrow> rc_status r = status_noted calls 0)"

lemma recorder_keeps_ok [inv_intros]:
  assumes "recorder_ok r"
  shows "write_header status r = Some r' \<Longrightarrow> recorder_ok r'" "recorder_ok (fst (write_body data r))"
  using assms by (auto simp: write_header_def write_body_def recorder_ok_def status_noted_def Let_def split: option.split)

section \<open>What the client writes on the page\<close>

text \<open>Any text may follow the percent sign of an IPv6 address: it is the address's zone.\<close>

lemma zone_parses:
  assumes "z \<noteq> []" "trim_space (''::1%'' @ z) = ''::1%'' @ z"
  shows "parse_ip_token (''::1%'' @ z) = IP6 1 z"
proof -
  have "before (CHR ''%'') (''::1%'' @ z) = ''::1''" by (simp add: before_def)
  moreover have "v6_groups ''1'' [] (Some 0) = Some ([], [1], Some 0)" by code_simp
  moreover have "v6_expand [1] (Some 0) = Some [0, 0, 0, 0, 0, 0, 0, 1]" by code_simp
  moreover have "join_fields 16 [0, 0, 0, 0, 0, 0, 0, 1] = (1 :: 128 word)" by (simp add: join_fields_def)
  ultimately have "parse_ipv6 (''::1%'' @ z) = Some (IP6 1 z)"
    using assms(1) by (simp add: parse_ipv6_def has_prefix_def)
  then have "parse_addr (''::1%'' @ z) = Some (IP6 1 z)" by (simp add: parse_addr_def)
  then show ?thesis using assms(2) by (simp add: parse_ip_token_def Let_def)
qed

text \<open>
  C20. The block page does not escape the address it shows, and the address may be text of the
  sender's: with a connection from a trusted proxy and no \<open>X-Forwarded-For\<close>, a refused request
  whose \<open>X-Real-IP\<close> is \<open>::1%\<close> and any string \<open>z\<close> gets a page with \<open>z\<close> in it as it
  was sent, markup included. The page has the mark of the address, and the text of an IPv6
  address ends in its zone.
\<close>

theorem block_page_carries_markup:
  assumes "manager_inv (gw_manager g)" "\<not> admitted sites now r g"
    and "parse_ip_token (rq_remote_addr r) \<noteq> ipv4_unspecified"
    and "is_trusted_proxy_ip (parse_ip_token (rq_remote_addr r)) (trusted_proxies (gw_manager g) (site_of sites r))"
    and "trim_space (rq_xff r) = []" "rq_real_ip r = ''::1%'' @ z"
    and "z \<noteq> []" "trim_space (''::1%'' @ z) = ''::1%'' @ z"
    and "sublist client_ip_mark page" "sublist z (ip_text (IP6 1 z))"
  shows "\<exists>body. block_page page ip_text (snd (serve_http ip_text sites upstream req_id now r g)) = Some body \<and>
    sublist z body"
proof -
  have "client_of sites r g = IP6 1 z"
    using assms(3-6) zone_parses [OF assms(7,8)]
    by (simp add: client_of_def parse_client_ip_def parse_forwarded_for_ips_def Let_def ipv4_unspecified_def)
  then have "snd (serve_http ip_text sites upstream req_id now r g) = Forbidden req_id (IP6 1 z)"
    using serve_http_eq [OF assms(1), of ip_text sites upstream req_id now r] assms(2) by auto
  then show ?thesis
    using page_shows_address [OF assms(9), of "ip_text (IP6 1 z)" req_id] assms(10)
    by (auto simp: block_page_def intro: sublist_order.order_trans)
qed

definition zone_text :: "ip_addr \<Rightarrow> string" where
  "zone_text ip = (case ip of IP6 _ z \<Rightarrow> ''::1%'' @ z | _ \<Rightarrow> ''10.0.0.9'')"

definition marked_request :: http_request where
  "marked_request = sample_request\<lparr>rq_xff := [], rq_real_ip := ''::1%<script>''\<rparr>"

definition proxied_site :: "string \<Rightarrow> site_view" where
  "proxied_site h = \<lparr>sv_site_id = Some ''s'', sv_config = Some (zero_config\<lparr>security := (security zero_config)
     \<lparr>trusted_proxy_cidrs := [''10.0.0.0/8''], allowed_cidrs := [''192.168.0.0/16'']\<rparr>\<rparr>)\<rparr>"

theorem block_page_carries_markup_witness:
  "\<exists>body. block_page ''<p>{{CLIENT_IP}}</p>'' zone_text
     (snd (serve_http zone_text proxied_site (\<lambda>_. None) ''id'' 0 marked_request paired_gateway)) = Some body \<and>
     sublist ''<script>'' body"
proof (rule block_page_carries_markup)
  show "manager_inv (gw_manager paired_gateway)" by code_simp
  show "\<not> admitted proxied_site 0 marked_request paired_gateway" by code_simp
  show "parse_ip_token (rq_remote_addr marked_request) \<noteq> ipv4_unspecified" by code_simp
  show "is_trusted_proxy_ip (parse_ip_token (rq_remote_addr marked_request))
      (trusted_proxies (gw_manager paired_gateway) (site_of proxied_site marked_request))" by code_simp
  show "trim_space (rq_xff marked_request) = []" by code_simp
  show "rq_real_ip marked_request = ''::1%'' @ ''<script>''" by (simp add: marked_request_def)
  show "trim_space (''::1%'' @ ''<script>'') = ''::1%'' @ ''<script>''" by code_simp
  show "sublist client_ip_mark ''<p>{{CLIENT_IP}}</p>''"
    by (simp add: client_ip_mark_def sublist_Cons_right)
  show "sublist ''<script>'' (zone_text (IP6 1 ''<script>''))" by (simp add: zone_text_def sublist_Cons_right)
qed simp

end
