(* ===== verification/Replies.thy ===== *)
theory Replies
  imports AdminServerProps Codings
begin

text \<open>
  How the control plane writes its errors (\<open>withRequestID\<close>, \<open>writeError\<close>,
  \<open>writeValidationError\<close>, the headers of \<open>withRateLimit\<close> in \<open>internal/admin/server.go\<close>), and the
  captcha service (\<open>captcha_service.go\<close>) over the captcha package, which is an argument.
\<close>

section \<open>Request identifiers\<close>

text \<open>16 random bytes in hexadecimal, or the clock's nanoseconds when the random source fails.\<close>

definition new_request_id :: "string option \<Rightarrow> gotime \<Rightarrow> string" where
  "new_request_id entropy now =
     (case entropy of Some buffer \<Rightarrow> hex_encode buffer | None \<Rightarrow> signed_text now)"

definition with_request_id :: "string \<Rightarrow> string option \<Rightarrow> gotime \<Rightarrow> string" where
  "with_request_id header entropy now =
     (let request_id = trim_space header in
      if request_id = [] then new_request_id entropy now else request_id)"

section \<open>Error bodies\<close>

record error_body =
  eb_code :: string
  eb_message :: string
  eb_request_id :: string
  eb_issues :: "validation_issue list option"

text \<open>What has been written: the status, the header \<open>X-Request-ID\<close>, the quota headers, the error.\<close>

record wire =
  wr_status :: int
  wr_request_id :: string
  wr_quota :: "(string \<times> string \<times> string) option"
  wr_error :: "error_body option"

text \<open>The identifier comes from the request's context, \<open>[]\<close> when nothing put one there.\<close>

definition write_error ::
  "int \<Rightarrow> string \<Rightarrow> string \<Rightarrow> validation_issue list option \<Rightarrow> string \<Rightarrow> string \<Rightarrow> wire \<Rightarrow> wire" where
  "write_error status error_code message issues context_id next_id w =
     (let request_id = (if context_id = [] then next_id else context_id);
          w1 = (if context_id = [] then w\<lparr>wr_request_id := next_id\<rparr> else w) in
      w1\<lparr>wr_status := status,
         wr_error := Some \<lparr>eb_code = error_code, eb_message = message, eb_request_id = request_id,
           eb_issues = issues\<rparr>\<rparr>)"

text \<open>The error each outcome of the rate limiter, the token check and the login is written with.\<close>

definition auth_error :: "auth_outcome \<Rightarrow> (int \<times> string \<times> string) option" where
  "auth_error outcome =
     (case outcome of
        AuthNotConfigured \<Rightarrow> Some (503, ''auth_not_configured'', ''admin auth token missing'')
      | Unauthorized message \<Rightarrow> Some (401, ''unauthorized'', message)
      | Authenticated _ \<Rightarrow> None)"

definition login_error :: "login_response \<Rightarrow> (int \<times> string \<times> string) option" where
  "login_error answer =
     (case answer of
        MethodNotAllowed \<Rightarrow> Some (405, ''method_not_allowed'', ''method not allowed'')
      | InvalidJson \<Rightarrow> Some (400, ''invalid_request'', ''invalid json'')
      | LoginNotConfigured \<Rightarrow> Some (503, ''auth_not_configured'', ''admin auth not configured'')
      | CaptchaUnavailable \<Rightarrow> Some (503, ''captcha_unavailable'', ''captcha unavailable'')
      | CaptchaRequired \<Rightarrow> Some (400, ''captcha_required'', ''captcha required'')
      | InvalidCaptcha \<Rightarrow> Some (400, ''invalid_captcha'', ''invalid captcha'')
      | InvalidCredentials \<Rightarrow> Some (401, ''invalid_credentials'', ''invalid username or password'')
      | LoggedIn _ _ \<Rightarrow> None)"

definition refusal :: "api_reply \<Rightarrow> (int \<times> string \<times> string) option" where
  "refusal reply =
     (case reply of
        ApiRateLimited \<Rightarrow> Some (429, ''rate_limited'', ''too many requests'')
      | ApiRefused outcome \<Rightarrow> auth_error outcome
      | ApiLogin answer \<Rightarrow> login_error answer
      | ApiCaptchaNeeded None \<Rightarrow> Some (405, ''method_not_allowed'', ''method not allowed'')
      | _ \<Rightarrow> None)"

text \<open>The errors of the handlers: status, code, and the issues when a configuration is invalid.\<close>

definition handler_error :: "api_reply \<Rightarrow> (int \<times> string \<times> validation_issue list option) option" where
  "handler_error reply =
     (case reply of
        ApiFailed status error_code \<Rightarrow> Some (status, error_code, None)
      | ApiGlobal (Failed status error_code) \<Rightarrow> Some (status, error_code, None)
      | ApiGlobal (Invalid issues) \<Rightarrow> Some (400, ''config_invalid'', Some issues)
      | ApiSite (SiteFailed status error_code) \<Rightarrow> Some (status, error_code, None)
      | ApiSite (SiteInvalid issues) \<Rightarrow> Some (400, ''config_invalid'', Some issues)
      | ApiAudit (AuditFailed status error_code) \<Rightarrow> Some (status, error_code, None)
      | ApiWeaver (DraftFailed status error_code) \<Rightarrow> Some (status, error_code, None)
      | ApiCert (CertFailed status error_code) \<Rightarrow> Some (status, error_code, None)
      | _ \<Rightarrow> None)"

text \<open>The messages of the handlers are texts of the errors they met; \<open>message_of\<close> gives them.\<close>

definition error_of ::
  "(api_reply \<Rightarrow> string) \<Rightarrow> api_reply \<Rightarrow> (int \<times> string \<times> string \<times> validation_issue list option) option" where
  "error_of message_of reply =
     (case refusal reply of
        Some (status, error_code, message) \<Rightarrow> Some (status, error_code, message, None)
      | None \<Rightarrow>
          (case handler_error reply of
             None \<Rightarrow> None
           | Some (status, error_code, None) \<Rightarrow> Some (status, error_code, message_of reply, None)
           | Some (status, error_code, Some issues) \<Rightarrow>
               Some (status, error_code, ''config validation failed'', Some issues)))"

text \<open>What has no error body: results, a deletion, and the redirect and the 404 of \<open>http.ServeMux\<close>.\<close>

definition plain_status :: "api_reply \<Rightarrow> int" where
  "plain_status reply =
     (case reply of ApiMoved _ \<Rightarrow> 301 | ApiNotFound \<Rightarrow> 404 | ApiCert CertDeleted \<Rightarrow> 204 | _ \<Rightarrow> 200)"

definition quota_headers :: "rate_limiter \<Rightarrow> rate_answer \<Rightarrow> string \<times> string \<times> string" where
  "quota_headers l ans =
     (signed_text (rl_limit l), signed_text (ra_remaining ans), signed_text (ra_reset ans div second))"

text \<open>
  \<open>WrapHandler\<close> over \<open>Handler\<close>: the identifier first, then the quota, then the server's step.
  \<open>entropy\<close> and \<open>again\<close> are what the random source gives when it is asked for an identifier.
\<close>

definition serve_api ::
  "api_world \<Rightarrow> (api_reply \<Rightarrow> string) \<Rightarrow> string option \<Rightarrow> string option \<Rightarrow> string \<Rightarrow> api_request \<Rightarrow> server \<Rightarrow>
   (server \<times> api_reply \<times> wire) option" where
  "serve_api e message_of entropy again header rq sv =
     (let now = wd_now (aw_world e); request_id = with_request_id header entropy now;
          quota = (case (sv_limiter sv, with_rate_limit now (ap_client rq) (sv_limiter sv)) of
              (Some l, _, Some ans, _) \<Rightarrow> Some (quota_headers l ans) | _ \<Rightarrow> None);
          w = \<lparr>wr_status = 200, wr_request_id = request_id, wr_quota = quota, wr_error = None\<rparr> in
      case api_step e rq sv of
        None \<Rightarrow> None
      | Some (sv1, reply) \<Rightarrow>
          Some (sv1, reply,
            case error_of message_of reply of
              None \<Rightarrow> w\<lparr>wr_status := plain_status reply\<rparr>
            | Some (status, error_code, message, issues) \<Rightarrow>
                write_error status error_code message issues request_id (new_request_id again now) w))"

lemma signed_text_not_Nil [simp]: "signed_text n \<noteq> []"
  by (simp add: signed_text_def)

lemma request_id_not_Nil:
  assumes "entropy \<noteq> Some []"
  shows "with_request_id header entropy now \<noteq> []"
  using assms
  by (auto simp: with_request_id_def new_request_id_def hexadecimal.encode_empty Let_def split: option.split)

lemma refusal_status: "refusal reply = Some (status, c, m) \<Longrightarrow> 400 \<le> status \<and> status \<le> 503"
  by (auto simp: refusal_def auth_error_def login_error_def
      split: api_reply.splits auth_outcome.splits login_response.splits option.splits)

text \<open>No handler answers for the limiter.\<close>

lemma open_step_unlimited: "open_step e rq r sv \<noteq> (sv', ApiRateLimited)"
  by (cases r) (simp_all add: open_step_def captcha_image_def Let_def split: prod.split option.split)

lemma store_step_unlimited: "store_step e op rq r ad = Some (ad', reply) \<Longrightarrow> reply \<noteq> ApiRateLimited"
  by (cases r) (auto simp: store_step_def cert_step_def weaver_step_def Let_def apsnd_def map_prod_def
      split: prod.splits option.splits)

lemma protected_step_unlimited: "protected_step e op rq r sv \<noteq> Some (sv', ApiRateLimited)"
proof -
  have "logout m \<noteq> ApiRateLimited" for m by (simp add: logout_def)
  then show ?thesis
    using store_step_unlimited by (force simp: protected_step_def Let_def split: prod.splits if_splits)
qed

lemma rate_limited_step:
  assumes "api_step e rq sv = Some (sv', ApiRateLimited)"
  obtains l l' ans where "sv_limiter sv = Some l"
    "with_rate_limit (wd_now (aw_world e)) (ap_client rq) (sv_limiter sv) = (Some l', Some ans, False)"
    "ra_remaining ans = 0"
proof -
  have "dispatch e rq s \<noteq> Some (t, ApiRateLimited)" for s t
    using open_step_unlimited protected_step_unlimited
    by (auto simp: dispatch_def split: mux_target.splits auth_outcome.splits if_splits)
  then obtain lim' ans where "with_rate_limit (wd_now (aw_world e)) (ap_client rq) (sv_limiter sv) = (lim', ans, False)"
    using assms by (auto simp: api_step_def Let_def split: prod.splits if_splits)
  then show ?thesis using that
    by (auto simp: with_rate_limit_def limiter_allow_def Let_def split: option.splits prod.splits if_splits)
qed

text \<open>
  Every error of the control plane can be traced: its body names the identifier that the
  header \<open>X-Request-ID\<close> carries, which is not empty and is the client's own when the client sent
  one, with the status, the code and the issues of the error. A request over the quota is told
  that nothing of it is left, and what is no error has no error body.
\<close>

theorem errors_are_traceable:
  assumes "serve_api e message_of entropy again header rq sv = Some (sv', reply, w)" "entropy \<noteq> Some []"
  shows "wr_request_id w \<noteq> [] \<and>
    (trim_space header = [] \<or> wr_request_id w = trim_space header) \<and>
    (reply \<noteq> ApiRateLimited \<or> (\<exists>limit reset. wr_quota w = Some (limit, ''0'', reset))) \<and>
    (case error_of message_of reply of
       None \<Rightarrow> wr_error w = None \<and> wr_status w = plain_status reply
     | Some (status, error_code, message, issues) \<Rightarrow> wr_status w = status \<and>
         wr_error w = Some \<lparr>eb_code = error_code, eb_message = message, eb_request_id = wr_request_id w,
           eb_issues = issues\<rparr>)"
proof -
  have step: "api_step e rq sv = Some (sv', reply)"
    using assms(1) by (auto simp: serve_api_def Let_def split: option.splits)
  have id: "with_request_id header entropy t \<noteq> []" for t using request_id_not_Nil [OF assms(2)] .
  have own: "trim_space header = [] \<or> (\<forall>t. with_request_id header entropy t = trim_space header)"
    by (simp add: with_request_id_def Let_def)
  have zero: "signed_text 0 = ''0''" by code_simp
  have quota: "reply \<noteq> ApiRateLimited \<or> (\<exists>limit reset. wr_quota w = Some (limit, ''0'', reset))"
  proof (cases "reply = ApiRateLimited")
    case True
    then obtain l l' ans where "sv_limiter sv = Some l"
      "with_rate_limit (wd_now (aw_world e)) (ap_client rq) (sv_limiter sv) = (Some l', Some ans, False)"
      "ra_remaining ans = 0"
      using step rate_limited_step by metis
    then show ?thesis
      using assms(1) step id True
      by (auto simp: serve_api_def write_error_def quota_headers_def zero error_of_def refusal_def Let_def)
  qed simp
  show ?thesis
    using assms(1) step id own quota
    by (cases "error_of message_of reply") (auto simp: serve_api_def write_error_def Let_def)
qed

theorem errors_are_traceable_witness:
  "\<exists>sv' w. serve_api api_outside (\<lambda>_. []) (Some (replicate 16 CHR ''r'')) None '' trace-7 '' (api_post [] ''/api/v1/sites'')
      (api_server None) = Some (sv', ApiRefused (Unauthorized ''missing authorization header''), w) \<and>
    wr_status w = 401 \<and> wr_request_id w = ''trace-7''"
proof -
  let ?serve = "serve_api api_outside (\<lambda>_. []) (Some (replicate 16 CHR ''r'')) None '' trace-7 ''
    (api_post [] ''/api/v1/sites'') (api_server None)"
  have "case api_step api_outside (api_post [] ''/api/v1/sites'') (api_server None) of
      Some (_, ApiRefused (Unauthorized m)) \<Rightarrow> m = ''missing authorization header'' | _ \<Rightarrow> False"
    by code_simp
  then obtain sv' where "api_step api_outside (api_post [] ''/api/v1/sites'') (api_server None) =
      Some (sv', ApiRefused (Unauthorized ''missing authorization header''))"
    by (auto split: option.splits prod.splits api_reply.splits auth_outcome.splits)
  then obtain w where s: "?serve = Some (sv', ApiRefused (Unauthorized ''missing authorization header''), w)"
    by (simp add: serve_api_def Let_def)
  have t: "trim_space '' trace-7 '' = ''trace-7''" by code_simp
  show ?thesis
    using errors_are_traceable [OF s] s t by (simp add: error_of_def refusal_def auth_error_def)
qed

section \<open>The captcha service\<close>

text \<open>
  The drivers the service is made with, and the package behind it with its store \<open>'m\<close>:
  a driver draws a captcha and keeps its answer, or fails, and the store judges an answer
  and, told to, forgets it.
\<close>

record captcha_driver =
  cd_height :: int
  cd_width :: int
  cd_noise :: int
  cd_lines :: int
  cd_length :: int
  cd_source :: string
  cd_fonts :: "string list"

record 'm captcha_package =
  cp_draw :: "captcha_driver \<Rightarrow> 'm \<Rightarrow> 'm \<times> (string \<times> string) option"
  cp_judge :: "string \<Rightarrow> string \<Rightarrow> bool \<Rightarrow> 'm \<Rightarrow> 'm \<times> bool"

definition captcha_presets :: "captcha_driver gomap" where
  "captcha_presets =
     [(''default'', \<lparr>cd_height = 40, cd_width = 150, cd_noise = 3, cd_lines = 0, cd_length = 4,
         cd_source = ''234567890abcdefghjkmnpqrstuvwxyz'', cd_fonts = [''RitaSmith.ttf'']\<rparr>),
      (''easy'', \<lparr>cd_height = 50, cd_width = 180, cd_noise = 0, cd_lines = 0, cd_length = 4,
         cd_source = ''23456789'', cd_fonts = [''RitaSmith.ttf'']\<rparr>)]"

definition captcha_driver_of :: "string \<Rightarrow> captcha_driver" where
  "captcha_driver_of preset =
     (case map_get captcha_presets (if preset = [] then ''easy'' else preset) of
        Some d \<Rightarrow> d | None \<Rightarrow> the (map_get captcha_presets ''easy''))"

definition generate_captcha :: "'m captcha_package \<Rightarrow> string \<Rightarrow> 'm \<Rightarrow> 'm \<times> (string \<times> string) option" where
  "generate_captcha pkg preset m = cp_draw pkg (captcha_driver_of preset) m"

definition verify_captcha :: "'m captcha_package \<Rightarrow> string \<Rightarrow> string \<Rightarrow> 'm \<Rightarrow> 'm \<times> bool" where
  "verify_captcha pkg i answer m = cp_judge pkg i answer True m"

text \<open>What the package promises: an answer it was told to forget is not accepted again.\<close>

definition forgets :: "'m captcha_package \<Rightarrow> bool" where
  "forgets pkg \<longleftrightarrow> (\<forall>i a m m'. cp_judge pkg i a True m = (m', True) \<longrightarrow> (\<forall>b. b \<noteq> [] \<longrightarrow> \<not> snd (cp_judge pkg i b True m')))"

lemma captcha_driver_kinds: "captcha_driver_of preset \<in> snd ` set captcha_presets"
  by (simp add: captcha_driver_of_def captcha_presets_def)

text \<open>
  A captcha lets a client in once: where one is needed, a login that brings the identifier
  of a captcha that was already accepted is refused, whatever its answer and its password, and
  counts as a failure. The captcha package is asked to forget what it is told to forget.
\<close>

theorem captcha_not_replayed:
  assumes "forgets pkg" "verify_captcha pkg i answer m = (m', True)"
    and "aq_method r = ''POST''" "auth_username auth \<noteq> []" "auth_password auth \<noteq> []"
    and "snd (require_captcha now (client_key r) g)"
    and "cr_captcha_id creds = i" "i \<noteq> []" "cr_captcha_code creds \<noteq> []"
  shows "login auth (Some (\<lambda>j b. snd (verify_captcha pkg j b m'))) now r (Some creds) g =
    (on_failure now (client_key r) (fst (require_captcha now (client_key r) g)), InvalidCaptcha)"
proof -
  obtain g1 where q: "require_captcha now (client_key r) g = (g1, True)"
    using assms(6) by (cases "require_captcha now (client_key r) g") simp
  have "\<not> snd (verify_captcha pkg i (cr_captcha_code creds) m')"
    using assms(1,2,9) by (auto simp: forgets_def verify_captcha_def)
  then show ?thesis using login_steps [OF assms(3-5) q] assms(7-9) by (simp add: q)
qed

text \<open>A package that keeps the answers as a map.\<close>

definition sample_package :: "string gomap captcha_package" where
  "sample_package = \<lparr>cp_draw = (\<lambda>d m. (map_put ''1'' ''2'' m, Some (''1'', ''png''))),
     cp_judge = (\<lambda>i a forget m. (if forget then map_del i m else m, map_get m i = Some a))\<rparr>"

theorem captcha_not_replayed_witness:
  "login sample_auth (Some (\<lambda>j b. snd (verify_captcha sample_package j b []))) 6 sample_admin_request
     (Some right_credentials) failed_guard =
   (on_failure 6 (client_key sample_admin_request) (fst (require_captcha 6 (client_key sample_admin_request) failed_guard)),
    InvalidCaptcha)"
proof (rule captcha_not_replayed)
  show "forgets sample_package" by (auto simp: forgets_def sample_package_def)
  show "verify_captcha sample_package ''1'' ''2'' [(''1'', ''2'')] = ([], True)" by code_simp
  show "snd (require_captcha 6 (client_key sample_admin_request) failed_guard)" by code_simp
qed code_simp+

end
