(* ===== verification/Lifecycle.thy ===== *)
theory Lifecycle
  imports ProcessProps
begin

text \<open>
  The program's first and last moments and its timers: \<open>main\<close> from the \<open>.env\<close> file to the exit
  status with the shutdown at the end of \<open>run\<close> (\<open>main.go\<close>), the opening of the database
  (\<open>NewSQLiteStore\<close>), the files of the user interface (\<open>buildUIHandler\<close>), and the loops of the two
  synchronisers (\<open>internal/syncer/service.go\<close>).
\<close>

section \<open>From main to run\<close>

text \<open>
  What the machine offers: the environment, the \<open>.env\<close> file as what loading it makes of an
  environment (\<open>None\<close> for an absent file), directories, the database driver, and the directory
  of the user interface with the copy inside the program.
\<close>

record machine =
  mc_env :: environ
  mc_dotenv :: "(environ \<Rightarrow> environ option) option"
  mc_mkdir :: "string \<Rightarrow> bool"
  mc_open_db :: "string \<Rightarrow> store option"
  mc_init_db :: "store \<Rightarrow> bool"
  mc_ui_dir :: "string \<Rightarrow> string \<Rightarrow> bool"
  mc_embedded_ui :: "string \<Rightarrow> bool"
  mc_stat :: "string \<Rightarrow> gotime option"
  mc_now :: gotime

definition load_dot_env :: "machine \<Rightarrow> environ option" where
  "load_dot_env mc = (case mc_dotenv mc of None \<Rightarrow> Some (mc_env mc) | Some load \<Rightarrow> load (mc_env mc))"

definition new_sqlite_store :: "machine \<Rightarrow> string \<Rightarrow> store option" where
  "new_sqlite_store mc path =
     (if path = [] then None
      else if path_dir path \<noteq> [] \<and> path_dir path \<noteq> ''.'' \<and> \<not> mc_mkdir mc (path_dir path) then None
      else
        (case mc_open_db mc path of
           None \<Rightarrow> None
         | Some st \<Rightarrow> if mc_init_db mc st then Some st else None))"

text \<open>\<open>NewUIHandler\<close> asks for the index.\<close>

definition build_ui_handler :: "machine \<Rightarrow> environ \<Rightarrow> (string \<Rightarrow> bool) option" where
  "build_ui_handler mc env =
     (let dir = trim_space (env ''ADMIN_UI_DIR'');
          is_file = (if dir \<noteq> [] then mc_ui_dir mc dir else mc_embedded_ui mc) in
      if is_file ''index.html'' then Some is_file else None)"

definition found_by :: "machine \<Rightarrow> environ \<Rightarrow> string \<Rightarrow> log_runtime \<Rightarrow> start_world" where
  "found_by mc env path rt =
     \<lparr>sw_runtime = Some rt,
      sw_store = new_sqlite_store mc (env_or_default env ''CONFIG_DB_PATH'' ''config/config.db''),
      sw_ui = (build_ui_handler mc env \<noteq> None), sw_stat = mc_stat mc path, sw_now = mc_now mc\<rparr>"

text \<open>A \<open>.env\<close> file that does not load and a log level that is not one end \<open>main\<close> in a panic.\<close>

definition main_start :: "system \<Rightarrow> pki \<Rightarrow> issuer \<Rightarrow> machine \<Rightarrow> start_outcome" where
  "main_start sys pk ir mc =
     (case load_dot_env mc of
        None \<Rightarrow> StartPanicked
      | Some env \<Rightarrow>
          (case new_runtime_from_env env of
             Inl _ \<Rightarrow> StartPanicked
           | Inr rt \<Rightarrow>
               let path = env_or_default env ''CONFIG_PATH'' ''config/config.json'' in
               run sys pk ir env path (found_by mc env path rt)))"

section \<open>The end\<close>

text \<open>
  \<open>run\<close> waits for a signal or for the first error of a listener, which it logs; it then shuts the
  listeners down, logs how each shutdown went, and returns no error in either case.
\<close>

datatype stop_cause = Signalled | ListenerFailed string

datatype life_line =
    StopSignal
  | ServeFailed string
  | ShutdownDone string
  | ShutdownFailed string

text \<open>The error of a listener that is reported: not that of a listener that was closed.\<close>

definition reported_failure :: "string option \<Rightarrow> string option" where
  "reported_failure e = (if e = Some ''http: Server closed'' then None else e)"

definition shutdown_server :: "(string \<Rightarrow> bool) \<Rightarrow> string \<Rightarrow> life_line" where
  "shutdown_server closes name = (if closes name then ShutdownDone name else ShutdownFailed name)"

definition stop_run :: "(string \<Rightarrow> bool) \<Rightarrow> process \<Rightarrow> stop_cause \<Rightarrow> life_line list \<times> start_error option" where
  "stop_run closes p cause =
     ([case cause of Signalled \<Rightarrow> StopSignal | ListenerFailed e \<Rightarrow> ServeFailed e] @
        map (shutdown_server closes) (''HTTP'' # (if serves_https p then [''HTTPS''] else [])),
      None)"

definition exit_status ::
  "system \<Rightarrow> pki \<Rightarrow> issuer \<Rightarrow> machine \<Rightarrow> (string \<Rightarrow> bool) \<Rightarrow> stop_cause \<Rightarrow> int" where
  "exit_status sys pk ir mc closes cause =
     (case main_start sys pk ir mc of
        StartPanicked \<Rightarrow> 2
      | StartFailed _ \<Rightarrow> 1
      | Started p \<Rightarrow> (case snd (stop_run closes p cause) of None \<Rightarrow> 0 | Some _ \<Rightarrow> 1))"

section \<open>How a start ends\<close>

lemma main_environment:
  "load_dot_env mc = Some env \<Longrightarrow> new_runtime_from_env env = Inr rt \<Longrightarrow>
   main_start sys pk ir mc = run sys pk ir env (env_or_default env ''CONFIG_PATH'' ''config/config.json'')
     (found_by mc env (env_or_default env ''CONFIG_PATH'' ''config/config.json'') rt)"
  by (simp add: main_start_def Let_def)

lemma env_or_default_not_Nil: "d \<noteq> [] \<Longrightarrow> env_or_default env key d \<noteq> []"
  by (simp add: env_or_default_def Let_def)

text \<open>The two guards at the head of \<open>run\<close> never fire: \<open>main\<close> gives it a runtime and a path.\<close>

lemma main_passes_guards: "main_start sys pk ir mc \<notin> {StartFailed NoLogRuntime, StartFailed NoConfigPath}"
  by (auto simp: main_start_def run_def found_by_def env_or_default_not_Nil Let_def
      split: option.splits sum.splits if_splits)

definition reload_overflows :: "environ \<Rightarrow> bool" where
  "reload_overflows env \<longleftrightarrow>
     (\<exists>n. atoi (trim_space (env ''CONFIG_RELOAD_INTERVAL_SECONDS'')) = Some n \<and> 0 < n \<and> wrap64 (n * second) \<le> 0)"

definition levels_ok :: "environ \<Rightarrow> bool" where
  "levels_ok env \<longleftrightarrow> (\<exists>rt. new_runtime_from_env env = Inr rt)"

lemma reload_interval_overflows:
  "env_duration_seconds env ''CONFIG_RELOAD_INTERVAL_SECONDS'' 3 \<le> 0 \<longleftrightarrow> reload_overflows env"
proof -
  have three: "\<not> wrap64 (3 * second) \<le> 0" "atoi [] = None" by code_simp+
  show ?thesis
    using three by (cases "atoi (trim_space (env ''CONFIG_RELOAD_INTERVAL_SECONDS''))")
      (auto simp: env_duration_seconds_def reload_overflows_def Let_def)
qed

lemma small_interval_ticks:
  assumes "0 < n" "n * second < 2 ^ 63"
  shows "\<not> wrap64 (n * second) \<le> 0"
  using assms by (simp add: wrap64_id second_def)

definition all_found :: "system \<Rightarrow> environ \<Rightarrow> machine \<Rightarrow> bool" where
  "all_found sys env mc \<longleftrightarrow>
     (let path = env_or_default env ''CONFIG_PATH'' ''config/config.json'' in
      (\<exists>m. start_manager sys env path = Inr m) \<and>
      new_sqlite_store mc (env_or_default env ''CONFIG_DB_PATH'' ''config/config.db'') \<noteq> None \<and>
      build_ui_handler mc env \<noteq> None \<and> mc_stat mc path \<noteq> None)"

lemma run_outcome:
  fixes sys env mc rt pk ir
  defines "path \<equiv> env_or_default env ''CONFIG_PATH'' ''config/config.json''"
  shows "run sys pk ir env path (found_by mc env path rt) = StartPanicked \<longleftrightarrow>
      all_found sys env mc \<and> reload_overflows env"
    and "(\<exists>p. run sys pk ir env path (found_by mc env path rt) = Started p) \<longleftrightarrow>
      all_found sys env mc \<and> \<not> reload_overflows env"
  unfolding run_def found_by_def all_found_def path_def [symmetric] reload_interval_overflows
  using env_or_default_not_Nil [of "''config/config.json''" env "''CONFIG_PATH''", folded path_def]
  by (auto simp: new_watcher_def Let_def split: option.splits sum.splits if_splits)

text \<open>
  How a start ends. The program panics exactly when the \<open>.env\<close> file is there and does not
  load, a log level is not one, or everything it needs is found and the reload interval in
  seconds is a positive number that overflows as nanoseconds; it runs exactly when the
  environment and the levels are right, everything is found and that number does not overflow;
  else it ends with an error.
\<close>

theorem start_outcomes:
  "(main_start sys pk ir mc = StartPanicked \<longleftrightarrow>
     (case load_dot_env mc of
        None \<Rightarrow> True
      | Some env \<Rightarrow> \<not> levels_ok env \<or> (all_found sys env mc \<and> reload_overflows env))) \<and>
   ((\<exists>p. main_start sys pk ir mc = Started p) \<longleftrightarrow>
     (\<exists>env. load_dot_env mc = Some env \<and> levels_ok env \<and> all_found sys env mc \<and> \<not> reload_overflows env))"
  using run_outcome [of sys pk ir _ mc]
  by (auto simp: main_start_def levels_ok_def Let_def split: option.splits sum.splits)

text \<open>
  Whatever stopped a program that was running, its exit status is that of success: the error of a
  listener that could not be opened is logged and not returned.
\<close>

lemma listener_error_is_no_failure:
  "main_start sys pk ir mc = Started p \<Longrightarrow> exit_status sys pk ir mc closes (ListenerFailed e) = 0"
  by (simp add: exit_status_def stop_run_def)

section \<open>The timers of the synchronisers\<close>

text \<open>
  A tick of the global synchroniser: when the decision is made, when the run that followed it
  was over, what the providers answer, and what others did to the manager since the last one.
\<close>

record sync_tick =
  tk_now :: gotime
  tk_done :: gotime
  tk_fetch :: "string \<Rightarrow> string + string list"
  tk_edit :: "manager \<Rightarrow> manager"

definition service_tick ::
  "(string \<Rightarrow> duration option) \<Rightarrow> system \<Rightarrow> sync_tick \<Rightarrow> manager \<times> gotime \<Rightarrow> manager \<times> gotime" where
  "service_tick parse sys t s =
     (let m = tk_edit t (fst s) in
      if should_sync parse (tk_now t) (snd s) m then (try_sync sys (tk_fetch t) (tk_now t) m, tk_done t)
      else (m, snd s))"

definition service_run ::
  "(string \<Rightarrow> duration option) \<Rightarrow> system \<Rightarrow> sync_tick \<Rightarrow> sync_tick list \<Rightarrow> manager \<Rightarrow> manager \<times> gotime" where
  "service_run parse sys first ticks m =
     fold (service_tick parse sys) ticks (try_sync sys (tk_fetch first) (tk_now first) m, tk_done first)"

text \<open>
  The service of the sites: without a store or a manager it does nothing; else it fills the
  memory tables and works tick by tick.
\<close>

record origin_tick =
  ot_fetch :: "origin_provider \<Rightarrow> string + string list"
  ot_wobble :: "string \<Rightarrow> string \<Rightarrow> nat \<Rightarrow> duration \<Rightarrow> duration"
  ot_world :: world
  ot_worlds :: "nat \<Rightarrow> nat \<Rightarrow> world"
  ot_edit :: "sync_state \<Rightarrow> sync_state"

definition origin_run ::
  "origin_service \<Rightarrow> (store_error \<Rightarrow> string) \<Rightarrow> world \<Rightarrow> origin_tick list \<Rightarrow> sync_state \<Rightarrow> sync_state" where
  "origin_run service error_text w ticks s =
     fold (\<lambda>t s1. tick service (ot_fetch t) error_text (ot_wobble t) (ot_world t) (ot_worlds t) (ot_edit t s1))
       ticks (s\<lparr>sy_manager := warm_cache w (sy_store s) (sy_manager s)\<rparr>)"

text \<open>The instants at which the ticks of the global synchroniser set off a run.\<close>

fun sync_times ::
  "(string \<Rightarrow> duration option) \<Rightarrow> system \<Rightarrow> sync_tick list \<Rightarrow> manager \<times> gotime \<Rightarrow> gotime list" where
  "sync_times parse sys [] s = []"
| "sync_times parse sys (t # ts) s =
     (if should_sync parse (tk_now t) (snd s) (tk_edit t (fst s)) then [tk_now t] else []) @
       sync_times parse sys ts (service_tick parse sys t s)"

lemma should_sync_later:
  assumes "should_sync parse now last_sync m" "0 < d" "d \<le> hour" "\<And>x i. parse x = Some i \<Longrightarrow> d \<le> i"
  shows "last_sync + d \<le> now"
proof -
  have "d \<le> time_sub now last_sync"
    using assms(1,3) assms(4) by (auto simp: should_sync_def Let_def split: if_splits option.splits intro: order_trans)
  moreover have "hour < 2 ^ 63" by code_simp
  ultimately show ?thesis using assms(2,3) by (auto simp: time_sub_def max_def min_def split: if_splits)
qed

text \<open>Runs are apart by at least the shortest schedule there is, counted from the end of the one before.\<close>

lemma syncs_are_spaced:
  assumes "0 < d" "d \<le> hour" "\<And>x i. parse x = Some i \<Longrightarrow> d \<le> i"
    and "list_all (\<lambda>t. tk_now t \<le> tk_done t) ticks"
  shows "successively (\<lambda>a b. a + d \<le> b) (snd s # sync_times parse sys ticks s)"
proof -
  have "list_all (\<lambda>t. tk_now t \<le> tk_done t) ticks \<Longrightarrow> a \<le> snd s \<Longrightarrow>
      successively (\<lambda>a b. a + d \<le> b) (a # sync_times parse sys ticks s)" for a s
  proof (induction ticks arbitrary: a s)
    case (Cons t ts)
    show ?case
    proof (cases "should_sync parse (tk_now t) (snd s) (tk_edit t (fst s))")
      case True
      then have "snd s + d \<le> tk_now t" using should_sync_later [OF True assms(1-3)] by simp
      then show ?thesis using Cons True by (simp add: service_tick_def Let_def)
    next
      case False
      then show ?thesis using Cons by (simp add: service_tick_def Let_def)
    qed
  qed simp
  then show ?thesis using assms(4) by blast
qed

end
