(* ===== verification/Flights.thy ===== *)
theory Flights
  imports GatewayProps "HOL-Library.Sublist"
begin

text \<open>
  Requests of the data plane that run at the same time. \<open>ServeHTTP\<close> reads what the control
  plane and the reloads write at several moments: the site, its configuration, the trusted
  proxies, the whitelist, the routes for the authorisation of the host and the routes once
  more. Here each of these reads is a step of its own, and the steps of all requests in flight,
  changes of the configuration among them, happen in any order. A read or a log entry is one
  step, as the locks of the manager, the store and the pipeline make it.
\<close>

section \<open>One request, step by step\<close>

record shared =
  sh_gateway :: gateway
  sh_sites :: "string \<Rightarrow> site_view"

record call =
  cl_request :: http_request
  cl_id :: string
  cl_now :: gotime
  cl_upstream :: "forwarded \<Rightarrow> int option"

definition cl_host :: "call \<Rightarrow> string" where
  "cl_host c = gw_normalize_host (rq_host (cl_request c))"

text \<open>How far \<open>ServeHTTP\<close> has come, with the values of its local variables.\<close>

datatype phase =
    Accepted
  | SiteFound "string option"
  | ConfigFound site_view
  | ClientFound site_view ip_addr
  | Checked site_view ip_addr bool string
  | Refused site_view ip_addr string
  | Admitted site_view ip_addr
  | Unrouted site_view ip_addr
  | Routed site_view ip_addr route_match
  | Answered response

abbreviation sh_manager :: "shared \<Rightarrow> manager" where
  "sh_manager s \<equiv> gw_manager (sh_gateway s)"

definition set_manager :: "manager \<Rightarrow> shared \<Rightarrow> shared" where
  "set_manager m s = s\<lparr>sh_gateway := (sh_gateway s)\<lparr>gw_manager := m\<rparr>\<rparr>"

definition log_call ::
  "(ip_addr \<Rightarrow> string) \<Rightarrow> call \<Rightarrow> site_view \<Rightarrow> ip_addr \<Rightarrow> string \<Rightarrow> string \<Rightarrow> int \<Rightarrow> string \<Rightarrow> shared \<Rightarrow> shared" where
  "log_call ip_text c site client level typ status msg s =
     s\<lparr>sh_gateway := emit_log site
        (gw_event (cl_request c) (cl_id c) (ip_text client) (cl_host c) level typ status msg) (sh_gateway s)\<rparr>"

definition advance :: "(ip_addr \<Rightarrow> string) \<Rightarrow> call \<Rightarrow> phase \<times> shared \<Rightarrow> phase \<times> shared" where
  "advance ip_text c x =
     (case x of (ph, s) \<Rightarrow>
        let r = cl_request c; m = sh_manager s in
        case ph of
          Accepted \<Rightarrow> (SiteFound (sv_site_id (sh_sites s (cl_host c))), s)
        | SiteFound i \<Rightarrow> (ConfigFound \<lparr>sv_site_id = i, sv_config = sv_config (sh_sites s (cl_host c))\<rparr>, s)
        | ConfigFound site \<Rightarrow> (ClientFound site (parse_client_ip r (trusted_proxies m site)), s)
        | ClientFound site client \<Rightarrow>
            (case access_decision m site client (cl_now c) of
               (allowed, reason) \<Rightarrow> (Checked site client allowed reason, s))
        | Checked site client allowed reason \<Rightarrow>
            (case is_host_authorized (cl_host c) m of
               (m1, authorized) \<Rightarrow>
                 (if \<not> allowed \<or> \<not> authorized
                  then Refused site client (denial_message allowed authorized reason)
                  else Admitted site client, set_manager m1 s))
        | Refused site client msg \<Rightarrow>
            (Answered (Forbidden (cl_id c) client), log_call ip_text c site client ''warn'' ''blocked'' 403 msg s)
        | Admitted site client \<Rightarrow>
            (case resolve_route (cl_host c) m of
               (m2, None) \<Rightarrow> (Unrouted site client, set_manager m2 s)
             | (m2, Some route) \<Rightarrow> (Routed site client route, set_manager m2 s))
        | Unrouted site client \<Rightarrow>
            (Answered BadGateway, log_call ip_text c site client ''error'' ''proxy'' 502 ''route not found'' s)
        | Routed site client route \<Rightarrow>
            (if rm_force_https route \<and> \<not> rq_tls r then
               (Answered (Redirected (''https://'' @ cl_host c @ rq_uri r)),
                log_call ip_text c site client ''info'' ''proxy'' 301 ''http redirected to https'' s)
             else
               let fwd = forward ip_text r (cl_id c) client (peer_of r client) route;
                   status = (case cl_upstream c fwd of None \<Rightarrow> 502 | Some st \<Rightarrow> st)
               in (Answered (Proxied fwd status),
                   log_call ip_text c site client ''info'' ''proxy'' status ''request proxied'' s))
        | Answered a \<Rightarrow> (Answered a, s))"

lemma advance_simps:
  "advance ip_text c (Accepted, s) = (SiteFound (sv_site_id (sh_sites s (cl_host c))), s)"
  "advance ip_text c (SiteFound i, s) =
     (ConfigFound \<lparr>sv_site_id = i, sv_config = sv_config (sh_sites s (cl_host c))\<rparr>, s)"
  "advance ip_text c (ConfigFound site, s) =
     (ClientFound site (parse_client_ip (cl_request c) (trusted_proxies (sh_manager s) site)), s)"
  "advance ip_text c (ClientFound site client, s) =
     (Checked site client (fst (access_decision (sh_manager s) site client (cl_now c)))
        (snd (access_decision (sh_manager s) site client (cl_now c))), s)"
  "advance ip_text c (Answered a, s) = (Answered a, s)"
  by (simp_all add: advance_def split: prod.split)

lemma site_view_parts: "\<lparr>sv_site_id = sv_site_id v, sv_config = sv_config v\<rparr> = v"
  by simp


section \<open>What an answer rests on\<close>

text \<open>The phase after the steps that found the shared states \<open>ss\<close>, one after the other.\<close>

definition phase_after :: "(ip_addr \<Rightarrow> string) \<Rightarrow> call \<Rightarrow> shared list \<Rightarrow> phase" where
  "phase_after ip_text c ss = fold (\<lambda>s ph. fst (advance ip_text c (ph, s))) ss Accepted"

lemma phase_after_snoc: "phase_after ip_text c (ss @ [s]) = fst (advance ip_text c (phase_after ip_text c ss, s))"
  by (simp add: phase_after_def)

definition routed_answer :: "(ip_addr \<Rightarrow> string) \<Rightarrow> call \<Rightarrow> ip_addr \<Rightarrow> route_match \<Rightarrow> response" where
  "routed_answer ip_text c client route =
     (let r = cl_request c in
      if rm_force_https route \<and> \<not> rq_tls r then Redirected (''https://'' @ cl_host c @ rq_uri r)
      else
        let fwd = forward ip_text r (cl_id c) client (peer_of r client) route in
        Proxied fwd (case cl_upstream c fwd of None \<Rightarrow> 502 | Some st \<Rightarrow> st))"

text \<open>
  The answer of a request that found the site in the state \<open>s1\<close>, its configuration in \<open>s2\<close>, the
  trusted proxies in \<open>s3\<close>, the whitelists in \<open>s4\<close>, the routes in \<open>s5\<close> and once more in \<open>s6\<close>.
\<close>

definition answer_of ::
  "(ip_addr \<Rightarrow> string) \<Rightarrow> call \<Rightarrow> shared \<Rightarrow> shared \<Rightarrow> shared \<Rightarrow> shared \<Rightarrow> shared \<Rightarrow> shared \<Rightarrow> response" where
  "answer_of ip_text c s1 s2 s3 s4 s5 s6 =
     (let r = cl_request c;
          site = \<lparr>sv_site_id = sv_site_id (sh_sites s1 (cl_host c)), sv_config = sv_config (sh_sites s2 (cl_host c))\<rparr>;
          client = parse_client_ip r (trusted_proxies (sh_manager s3) site)
      in if \<not> fst (access_decision (sh_manager s4) site client (cl_now c)) \<or>
            \<not> snd (is_host_authorized (cl_host c) (sh_manager s5)) then Forbidden (cl_id c) client
         else
           (case snd (resolve_route (cl_host c) (sh_manager s6)) of
              None \<Rightarrow> BadGateway
            | Some route \<Rightarrow> routed_answer ip_text c client route))"

lemma fold_answered: "fold (\<lambda>s ph. fst (advance ip_text c (ph, s))) ss (Answered a) = Answered a"
  by (induction ss) (simp_all add: advance_simps)

text \<open>How many steps a phase takes at least.\<close>

fun steps_before :: "phase \<Rightarrow> nat" where
  "steps_before Accepted = 0"
| "steps_before (SiteFound _) = 1"
| "steps_before (ConfigFound _) = 2"
| "steps_before (ClientFound _ _) = 3"
| "steps_before (Checked _ _ _ _) = 4"
| "steps_before (Refused _ _ _) = 5"
| "steps_before (Admitted _ _) = 5"
| "steps_before _ = 6"

lemma steps_before_advance: "steps_before (fst (advance ip_text c (ph, s))) \<le> Suc (steps_before ph)"
  by (cases ph) (auto simp: advance_def Let_def split: prod.split option.split)

lemma steps_before_length: "steps_before (phase_after ip_text c ss) \<le> length ss"
proof (induction ss rule: rev_induct)
  case (snoc s ss)
  then show ?case
    using steps_before_advance [of ip_text c "phase_after ip_text c ss" s] by (simp add: phase_after_snoc)
qed (simp add: phase_after_def)

lemma six_first:
  assumes "6 \<le> length xs"
  obtains x1 x2 x3 x4 x5 x6 rest where "xs = x1 # x2 # x3 # x4 # x5 # x6 # rest"
  using assms by (auto simp: numeral_eq_Suc Suc_le_length_iff)

lemma advance_phases:
  "fst (advance ip_text c (Checked site client allowed reason, s)) =
     (if \<not> allowed \<or> \<not> snd (is_host_authorized (cl_host c) (sh_manager s))
      then Refused site client (denial_message allowed (snd (is_host_authorized (cl_host c) (sh_manager s))) reason)
      else Admitted site client)"
  "fst (advance ip_text c (Refused site client msg, s)) = Answered (Forbidden (cl_id c) client)"
  "fst (advance ip_text c (Admitted site client, s)) =
     (case snd (resolve_route (cl_host c) (sh_manager s)) of
        None \<Rightarrow> Unrouted site client | Some route \<Rightarrow> Routed site client route)"
  "fst (advance ip_text c (Unrouted site client, s)) = Answered BadGateway"
  "fst (advance ip_text c (Routed site client route, s)) = Answered (routed_answer ip_text c client route)"
  by (simp_all add: advance_def routed_answer_def Let_def split: prod.split option.split)

lemma answer_rests_on:
  assumes "phase_after ip_text c ss = Answered a"
  obtains s1 s2 s3 s4 s5 s6 rest where "ss = s1 # s2 # s3 # s4 # s5 # s6 # rest"
    "a = answer_of ip_text c s1 s2 s3 s4 s5 s6"
proof -
  have "6 \<le> length ss" using steps_before_length [of ip_text c ss] assms by simp
  then obtain s1 s2 s3 s4 s5 s6 rest where ss: "ss = s1 # s2 # s3 # s4 # s5 # s6 # rest" by (rule six_first)
  have "a = answer_of ip_text c s1 s2 s3 s4 s5 s6"
    using assms unfolding ss phase_after_def
    by (cases rest) (auto simp: advance_simps advance_phases answer_of_def fold_answered Let_def
        split: if_splits option.splits)
  then show thesis using that ss by blast
qed

text \<open>No step waits for another request: the seventh step of a request answers it, if not the sixth.\<close>

lemma seven_steps_answer:
  assumes "7 \<le> length ss"
  shows "\<exists>a. phase_after ip_text c ss = Answered a"
proof -
  have "6 \<le> length ss" using assms by simp
  then obtain s1 s2 s3 s4 s5 s6 rest where ss: "ss = s1 # s2 # s3 # s4 # s5 # s6 # rest" by (rule six_first)
  then obtain s7 more where "rest = s7 # more" using assms by (cases rest) auto
  then show ?thesis
    unfolding ss phase_after_def
    by (auto simp: advance_simps advance_phases fold_answered split: option.split)
qed

section \<open>All requests together\<close>

text \<open>
  A flight is a request, its phase, and the shared states that were in force since it came. In
  the relation requests arrive, any of them takes its next step, or the shared state changes
  by a step of \<open>change\<close>: what the control plane, the reloads and the synchronisers do.
\<close>

type_synonym flight = "call \<times> phase \<times> shared list"

definition watched :: "shared \<Rightarrow> flight list \<Rightarrow> flight list" where
  "watched s fs = map (\<lambda>(c, ph, seen). (c, ph, seen @ [s])) fs"

inductive traffic ::
  "(ip_addr \<Rightarrow> string) \<Rightarrow> (shared \<Rightarrow> shared \<Rightarrow> bool) \<Rightarrow> shared \<Rightarrow> shared \<Rightarrow> flight list \<Rightarrow> bool"
  for ip_text change s0 where
  quiet: "traffic ip_text change s0 s0 []"
| arrive: "traffic ip_text change s0 s fs \<Longrightarrow> traffic ip_text change s0 s ((c, Accepted, [s]) # fs)"
| move: "traffic ip_text change s0 s (ahead @ (c, ph, seen) # behind) \<Longrightarrow> advance ip_text c (ph, s) = (ph1, s1) \<Longrightarrow>
    traffic ip_text change s0 s1 (watched s1 ahead @ (c, ph1, seen @ [s1]) # watched s1 behind)"
| change: "traffic ip_text change s0 s fs \<Longrightarrow> change s s1 \<Longrightarrow> traffic ip_text change s0 s1 (watched s1 fs)"

text \<open>Each phase is the one after steps that found, in this order, states in force so far.\<close>

definition founded :: "(ip_addr \<Rightarrow> string) \<Rightarrow> shared \<Rightarrow> flight \<Rightarrow> bool" where
  "founded ip_text s f =
     (case f of (c, ph, seen) \<Rightarrow>
        \<exists>past ss. seen = past @ [s] \<and> subseq ss past \<and> ph = phase_after ip_text c ss)"

lemma founded_watch: "founded ip_text s (c, ph, seen) \<Longrightarrow> founded ip_text s1 (c, ph, seen @ [s1])"
  unfolding founded_def using list_emb_prefix by fastforce

lemma founded_watched: "\<forall>f \<in> set fs. founded ip_text s f \<Longrightarrow> \<forall>f \<in> set (watched s1 fs). founded ip_text s1 f"
  using founded_watch by (auto simp: watched_def)

lemma founded_move:
  assumes "founded ip_text s (c, ph, seen)" "advance ip_text c (ph, s) = (ph1, s1)"
  shows "founded ip_text s1 (c, ph1, seen @ [s1])"
proof -
  obtain past ss where f: "seen = past @ [s]" "subseq ss past" "ph = phase_after ip_text c ss"
    using assms(1) by (auto simp: founded_def)
  then have "subseq (ss @ [s]) seen" by simp
  moreover have "ph1 = phase_after ip_text c (ss @ [s])" using assms(2) f(3) by (simp add: phase_after_snoc)
  ultimately show ?thesis unfolding founded_def prod.case by blast
qed

lemma traffic_founded:
  "traffic ip_text change s0 s fs \<Longrightarrow> \<forall>f \<in> set fs. founded ip_text s f"
proof (induction rule: traffic.induct)
  case (arrive s fs c)
  then show ?case by (auto simp: founded_def phase_after_def)
next
  case (move s ahead c ph seen behind ph1 s1)
  then show ?case
    using founded_move [of ip_text s c ph seen ph1 s1] founded_watched [of ahead ip_text s s1]
      founded_watched [of behind ip_text s s1] by auto
qed (use founded_watched in auto)

lemma answered_reads:
  assumes "traffic ip_text change s0 s fs" "(c, Answered a, seen) \<in> set fs"
  shows "\<exists>s1 s2 s3 s4 s5 s6. subseq [s1, s2, s3, s4, s5, s6] seen \<and> a = answer_of ip_text c s1 s2 s3 s4 s5 s6"
proof -
  obtain past ss where f: "seen = past @ [s]" "subseq ss past" "phase_after ip_text c ss = Answered a"
    using traffic_founded [OF assms(1)] assms(2) by (fastforce simp: founded_def)
  obtain s1 s2 s3 s4 s5 s6 rest where a: "ss = s1 # s2 # s3 # s4 # s5 # s6 # rest"
    "a = answer_of ip_text c s1 s2 s3 s4 s5 s6" using f(3) by (rule answer_rests_on)
  have "subseq [s1, s2, s3, s4, s5, s6] ss" unfolding a(1) by (rule prefix_imp_subseq) simp
  moreover have "subseq ss seen" unfolding f(1) by (rule list_emb_prefix [OF f(2)])
  ultimately have "subseq [s1, s2, s3, s4, s5, s6] seen" by (rule subseq_order.trans)
  then show ?thesis using a(2) by blast
qed

text \<open>
  C6. Whatever happens meanwhile, each answer rests on states that were in force during its
  request, taken in the order of the code: it is the answer for a site, a configuration of it,
  trusted proxies, whitelists and routes that were read one after the other, which need not
  belong together.
\<close>

theorem answers_rest_on_states_in_force:
  assumes "traffic ip_text change s0 s fs" "(c, Answered a, seen) \<in> set fs"
  shows "\<exists>s1 s2 s3 s4 s5 s6. subseq [s1, s2, s3, s4, s5, s6] seen \<and> a = answer_of ip_text c s1 s2 s3 s4 s5 s6"
  using assms by (rule answered_reads)

section \<open>Requests alone do not disturb each other\<close>

definition same_decisions :: "shared \<Rightarrow> shared \<Rightarrow> bool" where
  "same_decisions s0 s \<longleftrightarrow> manager_inv (sh_manager s) \<and> sh_sites s = sh_sites s0 \<and>
     access_decision (sh_manager s) = access_decision (sh_manager s0) \<and>
     trusted_proxies (sh_manager s) = trusted_proxies (sh_manager s0) \<and>
     manager_knows (sh_manager s) = manager_knows (sh_manager s0)"

lemma same_resolved:
  assumes "same_decisions s0 s"
  shows "same_decisions s0 (set_manager (fst (resolve_route h (sh_manager s))) s)"
  using assms resolve_route_decisions [of "sh_manager s" h] by (simp add: same_decisions_def set_manager_def)

lemma same_logged: "same_decisions s0 s \<Longrightarrow> same_decisions s0 (log_call ip_text c site client l t st msg s)"
  by (simp add: same_decisions_def log_call_def emit_log_def)

lemma same_advance: "same_decisions s0 s \<Longrightarrow> same_decisions s0 (snd (advance ip_text c (ph, s)))"
  by (cases ph)
    (auto simp: advance_def same_logged authorized_eq Let_def split: prod.split option.split
      dest: same_resolved [where h = "cl_host c"])

definition seen_by :: "flight list \<Rightarrow> shared set" where
  "seen_by fs = (\<Union>(_, _, seen) \<in> set fs. set seen)"

lemma seen_by_simps [simp]:
  "seen_by [] = {}"
  "seen_by ((c, ph, seen) # fs) = set seen \<union> seen_by fs"
  "seen_by (fs @ gs) = seen_by fs \<union> seen_by gs"
  by (auto simp: seen_by_def)

lemma seen_by_watched: "seen_by (watched s fs) \<subseteq> insert s (seen_by fs)"
  by (auto simp: seen_by_def watched_def)

lemma subseq_subset: "subseq xs ys \<Longrightarrow> set xs \<subseteq> set ys"
  by (induction rule: list_emb.induct) auto

text \<open>A change that keeps what requests are decided by: none at all, for one.\<close>

lemma traffic_keeps_decisions:
  assumes "traffic ip_text change s0 s fs" "manager_inv (sh_manager s0)"
    and "\<And>s s'. same_decisions s0 s \<Longrightarrow> change s s' \<Longrightarrow> same_decisions s0 s'"
  shows "\<forall>t \<in> insert s (seen_by fs). same_decisions s0 t"
  using assms(1)
proof (induction rule: traffic.induct)
  case quiet
  then show ?case using assms(2) by (simp add: same_decisions_def)
next
  case (move s ahead c ph seen behind ph1 s1)
  then have "same_decisions s0 s1" using same_advance [of s0 s ip_text c ph] by simp
  then show ?case using move seen_by_watched [of s1 ahead] seen_by_watched [of s1 behind] by auto
next
  case (change s fs s1)
  then have "same_decisions s0 s1" using assms(3) by blast
  then show ?case using change seen_by_watched [of s1 fs] by auto
qed simp

lemma answer_of_same:
  fixes c :: call
  assumes "\<forall>t \<in> {s1, s2, s3, s4, s5, s6}. same_decisions s0 t"
  defines "r \<equiv> cl_request c"
  shows "case answer_of ip_text c s1 s2 s3 s4 s5 s6 of
      Forbidden i client \<Rightarrow> \<not> admitted (sh_sites s0) (cl_now c) r (sh_gateway s0) \<and> i = cl_id c \<and>
        client = client_of (sh_sites s0) r (sh_gateway s0)
    | BadGateway \<Rightarrow> False
    | Redirected u \<Rightarrow> admitted (sh_sites s0) (cl_now c) r (sh_gateway s0) \<and> \<not> rq_tls r
    | Proxied fwd status \<Rightarrow> admitted (sh_sites s0) (cl_now c) r (sh_gateway s0) \<and>
        fw_real_ip fwd = client_of (sh_sites s0) r (sh_gateway s0)"
proof -
  have client: "parse_client_ip r (trusted_proxies (sh_manager s3) \<lparr>sv_site_id = sv_site_id (sh_sites s1 (cl_host c)),
      sv_config = sv_config (sh_sites s2 (cl_host c))\<rparr>) = client_of (sh_sites s0) r (sh_gateway s0)"
    using assms(1) by (simp add: same_decisions_def site_view_parts client_of_def site_of_def cl_host_def r_def)
  have found: "snd (is_host_authorized (cl_host c) (sh_manager s5)) = manager_knows (sh_manager s0) (cl_host c)"
    "(snd (resolve_route (cl_host c) (sh_manager s6)) \<noteq> None) = manager_knows (sh_manager s0) (cl_host c)"
    using assms(1) mgr_router.found_iff [of "sh_manager s5" "cl_host c"] mgr_router.found_iff [of "sh_manager s6" "cl_host c"]
    by (simp_all add: same_decisions_def authorized_eq)
  have adm: "admitted (sh_sites s0) (cl_now c) r (sh_gateway s0) \<longleftrightarrow>
      fst (access_decision (sh_manager s4) \<lparr>sv_site_id = sv_site_id (sh_sites s1 (cl_host c)),
        sv_config = sv_config (sh_sites s2 (cl_host c))\<rparr> (client_of (sh_sites s0) r (sh_gateway s0)) (cl_now c)) \<and>
      manager_knows (sh_manager s0) (cl_host c)"
    using assms(1) by (simp add: same_decisions_def site_view_parts admitted_def site_of_def cl_host_def r_def)
  show ?thesis
    unfolding answer_of_def Let_def r_def [symmetric] client found(1) using adm found(2)
    by (auto simp: routed_answer_def forward_def Let_def r_def split: option.split)
qed

text \<open>
  C7. Requests do not disturb each other: however their steps are interleaved, as long as
  nothing else changes the shared state, each is answered as it would be alone. It is forbidden
  exactly when the state at the beginning refuses it, and a route that was authorised is found.
\<close>

theorem flights_do_not_interfere:
  assumes "traffic ip_text (\<lambda>_ _. False) s0 s fs" "manager_inv (sh_manager s0)"
    and "(c, Answered a, seen) \<in> set fs"
  shows "case a of
      Forbidden i client \<Rightarrow> \<not> admitted (sh_sites s0) (cl_now c) (cl_request c) (sh_gateway s0) \<and> i = cl_id c \<and>
        client = client_of (sh_sites s0) (cl_request c) (sh_gateway s0)
    | BadGateway \<Rightarrow> False
    | Redirected u \<Rightarrow> admitted (sh_sites s0) (cl_now c) (cl_request c) (sh_gateway s0) \<and> \<not> rq_tls (cl_request c)
    | Proxied fwd status \<Rightarrow> admitted (sh_sites s0) (cl_now c) (cl_request c) (sh_gateway s0) \<and>
        fw_real_ip fwd = client_of (sh_sites s0) (cl_request c) (sh_gateway s0)"
proof -
  obtain s1 s2 s3 s4 s5 s6 where a: "subseq [s1, s2, s3, s4, s5, s6] seen" "a = answer_of ip_text c s1 s2 s3 s4 s5 s6"
    using answered_reads [OF assms(1,3)] by blast
  have "set seen \<subseteq> seen_by fs" using assms(3) by (force simp: seen_by_def)
  moreover have "{s1, s2, s3, s4, s5, s6} \<subseteq> set seen" using subseq_subset [OF a(1)] by simp
  ultimately have "\<forall>t \<in> {s1, s2, s3, s4, s5, s6}. same_decisions s0 t"
    using traffic_keeps_decisions [OF assms(1,2)] by blast
  then show ?thesis unfolding a(2) by (rule answer_of_same)
qed

section \<open>Changes in between\<close>

text \<open>The control plane or a reload puts another configuration into service.\<close>

definition applies :: "system \<Rightarrow> shared \<Rightarrow> shared \<Rightarrow> bool" where
  "applies sys s s1 \<longleftrightarrow>
     (\<exists>cfg m. apply_config sys cfg (sh_manager s) = (m, None) \<and> s1 = set_manager m s)"

lemma lone_move:
  assumes "traffic ip_text change s0 s [(c, ph, seen)]"
  shows "traffic ip_text change s0 (snd (advance ip_text c (ph, s)))
    [(c, fst (advance ip_text c (ph, s)), seen @ [snd (advance ip_text c (ph, s))])]"
  using traffic.move [of ip_text change s0 s "[]" c ph seen "[]"] assms by (simp add: watched_def)

lemma lone_change:
  "traffic ip_text change s0 s [(c, ph, seen)] \<Longrightarrow> change s s1 \<Longrightarrow> traffic ip_text change s0 s1 [(c, ph, seen @ [s1])]"
  using traffic.change [of ip_text change s0 s "[(c, ph, seen)]" s1] by (simp add: watched_def)

text \<open>A schedule for one request: \<open>None\<close> is its next step, \<open>Some cfg\<close> the application of \<open>cfg\<close>.\<close>

fun lone ::
  "(ip_addr \<Rightarrow> string) \<Rightarrow> system \<Rightarrow> config option list \<Rightarrow> shared \<Rightarrow> flight \<Rightarrow> shared \<times> flight" where
  "lone ip_text sys [] s f = (s, f)"
| "lone ip_text sys (None # es) s (c, ph, seen) =
     (case advance ip_text c (ph, s) of (ph1, s1) \<Rightarrow> lone ip_text sys es s1 (c, ph1, seen @ [s1]))"
| "lone ip_text sys (Some cfg # es) s (c, ph, seen) =
     (case apply_config sys cfg (sh_manager s) of
        (m, Some _) \<Rightarrow> lone ip_text sys es s (c, ph, seen)
      | (m, None) \<Rightarrow> lone ip_text sys es (set_manager m s) (c, ph, seen @ [set_manager m s]))"

lemma lone_traffic:
  assumes "traffic ip_text change s0 s [f]"
    and "(\<forall>s s1. applies sys s s1 \<longrightarrow> change s s1) \<or> (\<forall>e \<in> set es. e = None)"
  shows "traffic ip_text change s0 (fst (lone ip_text sys es s f)) [snd (lone ip_text sys es s f)]"
  using assms
proof (induction ip_text sys es s f rule: lone.induct)
  case (2 ip_text sys es s c ph seen)
  then show ?case using lone_move [OF 2(2)] by (cases "advance ip_text c (ph, s)") simp
next
  case (3 ip_text sys cfg es s c ph seen)
  show ?case
  proof (cases "apply_config sys cfg (sh_manager s)")
    case (Pair m e)
    have "change s (set_manager m s)" if "e = None"
      using that Pair 3(4) by (auto simp: applies_def)
    then show ?thesis
      using Pair 3 lone_change [OF 3(3), of "set_manager m s"] by (cases e) simp_all
  qed
qed simp

lemma lone_call: "fst (snd (lone ip_text sys es s f)) = fst f"
  by (induction ip_text sys es s f rule: lone.induct) (auto split: prod.split option.split)

definition two_step_config :: "string list \<Rightarrow> string list \<Rightarrow> string \<Rightarrow> config" where
  "two_step_config proxies cidrs upstream = zero_config
     \<lparr>security := (security zero_config)\<lparr>trusted_proxy_cidrs := proxies, allowed_cidrs := cidrs\<rparr>,
      routing := (routing zero_config)\<lparr>default_upstream := upstream\<rparr>\<rparr>"

definition proxy_config :: config where
  "proxy_config = two_step_config [''10.0.0.0/8''] [''192.168.0.0/16''] ''http://10.1.1.1:80''"

definition direct_config :: config where
  "direct_config = two_step_config [] [''8.8.8.0/24''] ''http://10.1.1.1:80''"

definition no_files :: system where
  "no_files = \<lparr>sys_read_file = (\<lambda>_. None), sys_key_pair = (\<lambda>_ _. None), sys_decode = (\<lambda>_ _. None)\<rparr>"

definition shared_with :: "config \<Rightarrow> shared" where
  "shared_with cfg = \<lparr>sh_gateway = \<lparr>gw_manager = fst (apply_config no_files cfg sample_manager), gw_logs = None,
     gw_traffic = []\<rparr>, sh_sites = no_sites\<rparr>"

definition proxied_call :: call where
  "proxied_call = \<lparr>cl_request = sample_request\<lparr>rq_xff := ''8.8.8.8''\<rparr>, cl_id = ''r'', cl_now = 0,
     cl_upstream = (\<lambda>_. Some 200)\<rparr>"

text \<open>
  C8. A request can be let through that no configuration lets through. The client's address is
  taken with the trusted proxies of one configuration and checked against the whitelist of the
  next, when a new one is applied between the two reads.
\<close>

theorem mixed_configurations_admit:
  "\<exists>s fwd seen. traffic (\<lambda>_. []) (applies no_files) (shared_with proxy_config) s
       [(proxied_call, Answered (Proxied fwd 200), seen)] \<and>
     list_all (\<lambda>t. \<not> admitted (sh_sites t) 0 (cl_request proxied_call) (sh_gateway t)) seen"
proof -
  let ?s = "shared_with proxy_config"
  let ?es = "[None, None, None, Some direct_config, None, None, None, None]"
  let ?r = "lone (\<lambda>_. []) no_files ?es ?s (proxied_call, Accepted, [?s])"
  have t: "traffic (\<lambda>_. []) (applies no_files) ?s (fst ?r) [snd ?r]"
    by (rule lone_traffic [OF traffic.arrive [OF traffic.quiet]]) simp
  have "(case snd ?r of (_, Answered (Proxied _ st), seen) \<Rightarrow> st = 200 \<and>
      list_all (\<lambda>t. \<not> admitted (sh_sites t) 0 (cl_request proxied_call) (sh_gateway t)) seen | _ \<Rightarrow> False)"
    by code_simp
  moreover have "fst (snd ?r) = proxied_call" by (simp add: lone_call del: lone.simps)
  ultimately show ?thesis using t
    by (cases "snd ?r") (auto split: phase.splits response.splits)
qed

definition routeless_config :: config where
  "routeless_config = two_step_config [] [''8.8.8.0/24''] []"

definition direct_call :: call where
  "direct_call = \<lparr>cl_request = sample_request\<lparr>rq_remote_addr := ''8.8.8.8:1''\<rparr>, cl_id = ''r'', cl_now = 0,
     cl_upstream = (\<lambda>_. Some 200)\<rparr>"

text \<open>The answer 502 for a missing route, out of reach for requests alone, is there after a change in between.\<close>

theorem route_vanishes:
  "\<exists>s seen. traffic (\<lambda>_. []) (applies no_files) (shared_with direct_config) s
     [(direct_call, Answered BadGateway, seen)]"
proof -
  let ?s = "shared_with direct_config"
  let ?es = "[None, None, None, None, None, Some routeless_config, None, None]"
  let ?r = "lone (\<lambda>_. []) no_files ?es ?s (direct_call, Accepted, [?s])"
  have t: "traffic (\<lambda>_. []) (applies no_files) ?s (fst ?r) [snd ?r]"
    by (rule lone_traffic [OF traffic.arrive [OF traffic.quiet]]) simp
  have "(case snd ?r of (_, Answered BadGateway, _) \<Rightarrow> True | _ \<Rightarrow> False)" by code_simp
  moreover have "fst (snd ?r) = direct_call" by (simp add: lone_call del: lone.simps)
  ultimately show ?thesis using t
    by (cases "snd ?r") (auto split: phase.splits response.splits)
qed

text \<open>A request that is served without any change, and one with a change.\<close>

definition direct_flight :: "shared \<times> flight" where
  "direct_flight = lone (\<lambda>_. []) no_files [None, None, None, None, None, None, None] (shared_with direct_config)
     (direct_call, Accepted, [shared_with direct_config])"

lemma direct_traffic:
  obtains fwd seen where "snd direct_flight = (direct_call, Answered (Proxied fwd 200), seen)"
    "\<And>change. traffic (\<lambda>_. []) change (shared_with direct_config) (fst direct_flight) [snd direct_flight]"
proof -
  have "(case snd direct_flight of (_, Answered (Proxied _ st), _) \<Rightarrow> st = 200 | _ \<Rightarrow> False)" by code_simp
  moreover have "fst (snd direct_flight) = direct_call" by (simp add: direct_flight_def lone_call del: lone.simps)
  ultimately obtain fwd seen where "snd direct_flight = (direct_call, Answered (Proxied fwd 200), seen)"
    by (cases "snd direct_flight") (auto split: phase.splits response.splits)
  moreover have "traffic (\<lambda>_. []) change (shared_with direct_config) (fst direct_flight) [snd direct_flight]" for change
    unfolding direct_flight_def by (rule lone_traffic [OF traffic.arrive [OF traffic.quiet]]) simp
  ultimately show thesis using that by blast
qed

theorem answers_rest_on_states_in_force_witness:
  "\<exists>fwd seen s1 s2 s3 s4 s5 s6. snd direct_flight = (direct_call, Answered (Proxied fwd 200), seen) \<and>
     subseq [s1, s2, s3, s4, s5, s6] seen \<and> Proxied fwd 200 = answer_of (\<lambda>_. []) direct_call s1 s2 s3 s4 s5 s6"
proof -
  obtain fwd seen where f: "snd direct_flight = (direct_call, Answered (Proxied fwd 200), seen)"
    "\<And>change. traffic (\<lambda>_. []) change (shared_with direct_config) (fst direct_flight) [snd direct_flight]"
    using direct_traffic by metis
  show ?thesis
    using answers_rest_on_states_in_force [OF f(2) [of "applies no_files"], of direct_call "Proxied fwd 200" seen] f(1)
    by auto
qed

theorem flights_do_not_interfere_witness:
  "\<exists>fwd seen. snd direct_flight = (direct_call, Answered (Proxied fwd 200), seen) \<and>
     admitted no_sites 0 (cl_request direct_call) (sh_gateway (shared_with direct_config))"
proof -
  obtain fwd seen where f: "snd direct_flight = (direct_call, Answered (Proxied fwd 200), seen)"
    "\<And>change. traffic (\<lambda>_. []) change (shared_with direct_config) (fst direct_flight) [snd direct_flight]"
    using direct_traffic by metis
  have inv: "manager_inv (sh_manager (shared_with direct_config))" by code_simp
  have here: "sh_sites (shared_with direct_config) = no_sites" "cl_now direct_call = 0"
    by (simp_all add: shared_with_def direct_call_def)
  show ?thesis
    using flights_do_not_interfere [OF f(2) inv, of direct_call "Proxied fwd 200" seen] f(1) here by auto
qed

end
