(* ===== verification/Edits.thy ===== *)
theory Edits
  imports ControlPlaneProps
begin

text \<open>
  Two requests that create a pool at the same time (\<open>lbPools\<close> and \<open>applyLBConfig\<close> in
  \<open>internal/admin/lb.go\<close>). A handler reads the configuration in force, adds to its copy,
  applies the copy and saves a version of it; nothing holds the configuration between these
  steps, so those of another request may come in between. A copy is a value here: that two
  copies may share the spare room of one array is left out.
\<close>

section \<open>The steps of a request\<close>

record pool_post =
  pp_world :: world
  pp_operator :: string
  pp_random_id :: string
  pp_pool :: lb_pool

text \<open>The pool with the identifier and the strategy that the handler gives it.\<close>

definition post_pool :: "pool_post \<Rightarrow> lb_pool" where
  "post_pool q =
     (let pid = normalize_pool_id (pool_id (pp_pool q)) in
      (pp_pool q)\<lparr>pool_id := (if pid = [] then ''pool_'' @ take 12 (pp_random_id q) else pid),
        pool_strategy := normalize_strategy (pool_strategy (pp_pool q))\<rparr>)"

datatype post_phase =
    PostStart
  | PostBuilt config
  | PostApplied config
  | PostDone reply

definition post_step :: "system \<Rightarrow> pool_post \<Rightarrow> post_phase \<times> admin \<Rightarrow> post_phase \<times> admin" where
  "post_step sys q x =
     (case x of (ph, ad) \<Rightarrow>
        let cfg = current_config (ad_manager ad) in
        case ph of
          PostStart \<Rightarrow>
            (case slice_append (post_pool q) (lb_cfg_pools (load_balancer cfg)) of
               (local_pools, live_pools) \<Rightarrow>
                 (PostBuilt (with_lb (\<lambda>lb. lb\<lparr>lb_cfg_pools := local_pools\<rparr>) cfg),
                  write_live (\<lambda>lb. lb\<lparr>lb_cfg_pools := live_pools\<rparr>) ad))
        | PostBuilt next_cfg \<Rightarrow>
            (case validate_and_apply sys next_cfg (\<lambda>ad1. (ad1, Done ''applied'' [])) ad of
               (ad1, Done _ _) \<Rightarrow> (PostApplied next_cfg, ad1)
             | (ad1, failure) \<Rightarrow> (PostDone failure, ad1))
        | PostApplied next_cfg \<Rightarrow>
            (case save_version_and_audit (pp_world q) next_cfg (pp_operator q) ''lb_pool_create'' ''lb_pool_create''
                (json_object [(''source'', ''lb_pool_create'')]) (Done ''created'' (pool_id (post_pool q))) ad of
               (ad1, reply) \<Rightarrow> (PostDone reply, ad1))
        | PostDone reply \<Rightarrow> (PostDone reply, ad))"

lemma write_live_same:
  "write_live (\<lambda>lb. lb\<lparr>lb_cfg_pools := lb_cfg_pools (load_balancer (current_config (ad_manager ad)))\<rparr>) ad = ad"
  by (cases "mgr_data (ad_manager ad)") (simp_all add: write_live_def with_lb_def current_config_def)

definition with_pool :: "lb_pool \<Rightarrow> config \<Rightarrow> config" where
  "with_pool p cfg = with_lb (\<lambda>lb. lb\<lparr>lb_cfg_pools := lb_cfg_pools lb @ [p]\<rparr>) cfg"

lemma post_step_start:
  "post_step sys q (PostStart, ad) = (PostBuilt (with_pool (post_pool q) (current_config (ad_manager ad))), ad)"
  by (simp add: post_step_def slice_append_def with_pool_def with_lb_def write_live_same Let_def)

lemma post_step_built:
  "post_step sys q (PostBuilt cfg, ad) =
    (if manager_validate sys cfg (ad_manager ad) \<noteq> [] then (PostDone (Invalid (manager_validate sys cfg (ad_manager ad))), ad)
     else
       (case apply_config sys cfg (ad_manager ad) of
          (m1, Some _) \<Rightarrow> (PostDone (Failed 400 ''config_apply_failed''), ad\<lparr>ad_manager := m1\<rparr>)
        | (m1, None) \<Rightarrow> (PostApplied cfg, ad\<lparr>ad_manager := m1\<rparr>)))"
  by (simp add: post_step_def validate_and_apply_def Let_def split: prod.split option.split)

definition save_post :: "pool_post \<Rightarrow> config \<Rightarrow> admin \<Rightarrow> admin \<times> reply" where
  "save_post q cfg ad =
     save_version_and_audit (pp_world q) cfg (pp_operator q) ''lb_pool_create'' ''lb_pool_create''
       (json_object [(''source'', ''lb_pool_create'')]) (Done ''created'' (pool_id (post_pool q))) ad"

lemma post_step_rest:
  "post_step sys q (PostApplied cfg, ad) = (PostDone (snd (save_post q cfg ad)), fst (save_post q cfg ad))"
  "post_step sys q (PostDone reply, ad) = (PostDone reply, ad)"
  by (simp_all add: post_step_def save_post_def split: prod.split)

lemma save_post_manager [simp]: "ad_manager (fst (save_post q cfg ad)) = ad_manager ad"
  by (simp add: save_post_def)

lemmas post_steps = post_step_start post_step_built post_step_rest

text \<open>
  Stepwise is the same as at once: a request that nothing disturbs has, after its three
  steps, the reply of \<open>lb_pools_handler\<close>, and leaves what that leaves.
\<close>

theorem undisturbed_post_is_handled:
  "(post_step sys q ^^ 3) (PostStart, ad) =
     (case lb_pools_handler sys (pp_world q) ''POST'' (pp_operator q) (pp_random_id q) (Some (pp_pool q)) ad of
        (ad1, reply) \<Rightarrow> (PostDone reply, ad1))"
proof -
  have built: "(post_step sys q ^^ 3) (PostStart, ad) = (post_step sys q ^^ 2)
      (PostBuilt (with_pool (post_pool q) (current_config (ad_manager ad))), ad)"
    using funpow_add [of 2 1 "post_step sys q"] by (simp add: post_step_start)
  have handler: "lb_pools_handler sys (pp_world q) ''POST'' (pp_operator q) (pp_random_id q) (Some (pp_pool q)) ad =
      apply_lb_config sys (pp_world q) (with_pool (post_pool q) (current_config (ad_manager ad))) (pp_operator q)
        ''lb_pool_create'' (Done ''created'' (pool_id (post_pool q))) ad"
    by (simp add: lb_pools_handler_def slice_append_def write_live_same with_pool_def with_lb_def post_pool_def Let_def)
  show ?thesis
    unfolding built handler apply_lb_config_def validate_and_apply_def
    by (auto simp: numeral_eq_Suc post_steps save_post_def Let_def split: prod.split option.split)
qed

section \<open>Two requests\<close>

text \<open>A schedule says whose step is next: \<open>True\<close> for the first request.\<close>

fun run_posts ::
  "system \<Rightarrow> pool_post \<Rightarrow> pool_post \<Rightarrow> bool list \<Rightarrow> post_phase \<times> post_phase \<times> admin \<Rightarrow>
   post_phase \<times> post_phase \<times> admin" where
  "run_posts sys q1 q2 [] x = x"
| "run_posts sys q1 q2 (first # es) (p1, p2, ad) =
     (if first then (case post_step sys q1 (p1, ad) of (p, ad1) \<Rightarrow> run_posts sys q1 q2 es (p, p2, ad1))
      else (case post_step sys q2 (p2, ad) of (p, ad1) \<Rightarrow> run_posts sys q1 q2 es (p1, p, ad1)))"

definition config_pool_ids :: "admin \<Rightarrow> string set" where
  "config_pool_ids ad = pool_id ` set (lb_cfg_pools (load_balancer (current_config (ad_manager ad))))"

text \<open>From its first step on, a request works on the configuration it has built.\<close>

definition works_on :: "config \<Rightarrow> post_phase \<Rightarrow> bool" where
  "works_on cfg ph \<longleftrightarrow> ph \<in> {PostBuilt cfg, PostApplied cfg} \<union> range PostDone"

lemma applied_with_pool:
  assumes "apply_config sys (with_pool p cfg) m = (m1, None)"
  shows "load_balancer (current_config m1) = load_balancer (with_pool p cfg)"
proof -
  have "has_load_balancer_binding (load_balancer (fill_defaults (with_pool p cfg)))"
    by (simp add: has_load_balancer_binding_def with_pool_def with_lb_def)
  then show ?thesis
    by (simp add: apply_config_current [OF assms] prepare_routing_and_load_balancer_def)
qed

lemma post_step_works_on:
  assumes "works_on (with_pool p cfg) ph" "post_step sys q (ph, ad) = (ph1, ad1)"
  shows "works_on (with_pool p cfg) ph1"
    "load_balancer (current_config (ad_manager ad1)) \<in>
       {load_balancer (current_config (ad_manager ad)), load_balancer (with_pool p cfg)}"
proof -
  have failed: "apply_config sys c m = (m1, Some e) \<Longrightarrow> m1 = m" for c m m1 e
    by (auto simp: apply_config_def split: sum.splits)
  from assms show "works_on (with_pool p cfg) ph1"
    by (auto simp: works_on_def post_steps split: if_splits prod.splits option.splits)
  from assms show "load_balancer (current_config (ad_manager ad1)) \<in>
       {load_balancer (current_config (ad_manager ad)), load_balancer (with_pool p cfg)}"
    by (auto simp: works_on_def post_steps applied_with_pool split: if_splits prod.splits option.splits dest!: failed)
qed

lemma run_posts_works_on:
  assumes "run_posts sys q1 q2 es (p1, p2, ad) = (p1', p2', ad')"
    and "works_on (with_pool a cfg) p1" "works_on (with_pool b cfg) p2"
  shows "load_balancer (current_config (ad_manager ad')) \<in>
    {load_balancer (current_config (ad_manager ad)), load_balancer (with_pool a cfg), load_balancer (with_pool b cfg)}"
  using assms
proof (induction es arbitrary: p1 p2 ad)
  case (Cons first es)
  show ?case
  proof (cases first)
    case True
    obtain p ad1 where s: "post_step sys q1 (p1, ad) = (p, ad1)" by fastforce
    then show ?thesis
      using Cons.IH [of p p2 ad1] Cons.prems True post_step_works_on [OF Cons.prems(2) s] by auto
  next
    case False
    obtain p ad1 where s: "post_step sys q2 (p2, ad) = (p, ad1)" by fastforce
    then show ?thesis
      using Cons.IH [of p1 p ad1] Cons.prems False post_step_works_on [OF Cons.prems(3) s] by auto
  qed
qed simp

text \<open>
  C11. Two pools that are created at the same time: when the second request reads the
  configuration before the first one has applied its own, at most one of the two pools is in
  force in the end, in whatever order the other steps come and although both requests are
  reported as done.
\<close>

theorem concurrent_creations_lose_a_pool:
  assumes "run_posts sys q1 q2 (True # False # es) (PostStart, PostStart, ad) =
      (PostDone (Done ''created'' i1), PostDone (Done ''created'' i2), ad')"
    and "pool_id (post_pool q1) \<noteq> pool_id (post_pool q2)"
    and "pool_id (post_pool q1) \<notin> config_pool_ids ad" "pool_id (post_pool q2) \<notin> config_pool_ids ad"
  shows "pool_id (post_pool q1) \<notin> config_pool_ids ad' \<or> pool_id (post_pool q2) \<notin> config_pool_ids ad'"
proof -
  let ?cfg = "current_config (ad_manager ad)"
  have "run_posts sys q1 q2 es (PostBuilt (with_pool (post_pool q1) ?cfg), PostBuilt (with_pool (post_pool q2) ?cfg), ad) =
      (PostDone (Done ''created'' i1), PostDone (Done ''created'' i2), ad')"
    using assms(1) by (simp add: post_step_start)
  then have "load_balancer (current_config (ad_manager ad')) \<in>
      {load_balancer ?cfg, load_balancer (with_pool (post_pool q1) ?cfg), load_balancer (with_pool (post_pool q2) ?cfg)}"
    by (rule run_posts_works_on) (simp_all add: works_on_def)
  then show ?thesis using assms(2-4) by (auto simp: config_pool_ids_def with_pool_def with_lb_def)
qed

text \<open>One after the other the same requests both take effect.\<close>

definition pool_request :: "string \<Rightarrow> pool_post" where
  "pool_request i = \<lparr>pp_world = sample_world\<lparr>wd_random := (\<lambda>n. Some (i @ itoa n))\<rparr>, pp_operator = ''op'',
     pp_random_id = ''0123456789ab'', pp_pool = (one_node_pool ''http://c:1'' 1)\<lparr>pool_id := i\<rparr>\<rparr>"

lemma creations_in_turn:
  "case run_posts sample_system (pool_request ''a'') (pool_request ''b'') [True, True, True, False, False, False]
       (PostStart, PostStart, sample_admin) of
     (PostDone (Done _ i), PostDone (Done _ j), ad) \<Rightarrow> i = ''a'' \<and> j = ''b'' \<and> {i, j} \<subseteq> config_pool_ids ad | _ \<Rightarrow> False"
  by code_simp

theorem concurrent_creations_lose_a_pool_witness:
  "\<exists>ad'. run_posts sample_system (pool_request ''a'') (pool_request ''b'') [True, False, True, False, True, False]
       (PostStart, PostStart, sample_admin) =
     (PostDone (Done ''created'' ''a''), PostDone (Done ''created'' ''b''), ad') \<and>
     (''a'' \<notin> config_pool_ids ad' \<or> ''b'' \<notin> config_pool_ids ad')"
proof -
  let ?run = "run_posts sample_system (pool_request ''a'') (pool_request ''b'') [True, False, True, False, True, False]
       (PostStart, PostStart, sample_admin)"
  have "case ?run of (PostDone (Done x i), PostDone (Done y j), _) \<Rightarrow> (x, i, y, j) = (''created'', ''a'', ''created'', ''b'')
      | _ \<Rightarrow> False" by code_simp
  then obtain ad' where run: "?run = (PostDone (Done ''created'' ''a''), PostDone (Done ''created'' ''b''), ad')"
    by (cases ?run) (auto split: post_phase.splits reply.splits)
  have ids: "pool_id (post_pool (pool_request ''a'')) = ''a''" "pool_id (post_pool (pool_request ''b'')) = ''b''" by code_simp+
  have fresh: "''a'' \<notin> config_pool_ids sample_admin" "''b'' \<notin> config_pool_ids sample_admin" by code_simp+
  show ?thesis
    using concurrent_creations_lose_a_pool [OF run] ids fresh run by auto
qed

end
