(* ===== verification/Changes.thy ===== *)
theory Changes
  imports ProviderProps
begin

text \<open>
  Changes of the manager that run at the same time: \<open>Apply\<close> (the control plane), \<open>Reload\<close> (the
  watcher) and \<open>UpdateProviderStatus\<close> (the synchronisers) of \<open>internal/config/manager.go\<close>. The
  lock of the manager covers its provider lists only, the snapshot is swapped in atomically, and
  nothing covers the way from one to the other. A step is what is done under the lock, a load or
  a store of the snapshot.
\<close>

section \<open>The steps of a change\<close>

datatype change_call =
    ApplyCall config
  | ReloadCall
  | StatusCall string "string list" "string option" gotime

datatype change_phase =
    Begun change_call
  | Recorded
  | Applying config
  | Copied config "string list" "cdn_status gomap"
  | Built snapshot
  | Ended "config_error option"

definition change_step :: "system \<Rightarrow> change_phase \<times> manager \<Rightarrow> change_phase \<times> manager" where
  "change_step sys x =
     (case x of (ph, m) \<Rightarrow>
        case ph of
          Begun (ApplyCall cfg) \<Rightarrow> (Applying cfg, m)
        | Begun ReloadCall \<Rightarrow>
            (case load_config sys (mgr_path m) of Inl e \<Rightarrow> (Ended (Some e), m) | Inr cfg \<Rightarrow> (Applying cfg, m))
        | Begun (StatusCall provider cidrs err now) \<Rightarrow>
            (let name = to_lower (trim_space provider) in
             if name = [] then (Ended (Some ProviderEmpty), m)
             else (Recorded, record_provider_status name cidrs (case err of None \<Rightarrow> [] | Some e \<Rightarrow> e) now m))
        | Recorded \<Rightarrow> (Applying (current_config m), m)
        | Applying cfg \<Rightarrow> (Copied cfg (dynamic_cidrs m) (cdn_statuses m), m)
        | Copied cfg dynamic statuses \<Rightarrow>
            (case prepare_routing_and_load_balancer (fill_defaults cfg) of
               (prepared, issues) \<Rightarrow>
                 if issues \<noteq> [] then (Ended (Some (ConfigConflict issues)), m)
                 else
                   (case build_snapshot sys prepared (mgr_path m) dynamic statuses of
                      Inl e \<Rightarrow> (Ended (Some e), m)
                    | Inr next \<Rightarrow> (Built next, m)))
        | Built next \<Rightarrow> (Ended None, m\<lparr>mgr_data := Some next\<rparr>)
        | Ended e \<Rightarrow> (Ended e, m))"

definition run_change :: "system \<Rightarrow> change_call \<Rightarrow> manager \<Rightarrow> manager \<times> config_error option" where
  "run_change sys call m =
     (case call of
        ApplyCall cfg \<Rightarrow> apply_config sys cfg m
      | ReloadCall \<Rightarrow> reload sys m
      | StatusCall provider cidrs err now \<Rightarrow> update_provider_status sys provider cidrs err now m)"

lemma change_step_copied:
  "change_step sys (Copied cfg dynamic statuses, m) =
     (case compile_config sys cfg (m\<lparr>dynamic_cidrs := dynamic, cdn_statuses := statuses\<rparr>) of
        Inl e \<Rightarrow> (Ended (Some e), m) | Inr next \<Rightarrow> (Built next, m))"
  by (auto simp: change_step_def compile_config_def split: prod.split)

lemma change_step_simps:
  "change_step sys (Begun (ApplyCall cfg), m) = (Applying cfg, m)"
  "change_step sys (Begun ReloadCall, m) =
     (case load_config sys (mgr_path m) of Inl e \<Rightarrow> (Ended (Some e), m) | Inr cfg \<Rightarrow> (Applying cfg, m))"
  "change_step sys (Begun (StatusCall p cidrs err now), m) =
     (if to_lower (trim_space p) = [] then (Ended (Some ProviderEmpty), m)
      else (Recorded, record_provider_status (to_lower (trim_space p)) cidrs (case err of None \<Rightarrow> [] | Some e \<Rightarrow> e) now m))"
  "change_step sys (Recorded, m) = (Applying (current_config m), m)"
  "change_step sys (Applying cfg, m) = (Copied cfg (dynamic_cidrs m) (cdn_statuses m), m)"
  "change_step sys (Built d, m) = (Ended None, m\<lparr>mgr_data := Some d\<rparr>)"
  "change_step sys (Ended e, m) = (Ended e, m)"
  by (simp_all add: change_step_def Let_def)

lemmas change_steps = change_step_simps change_step_copied

lemma ended_stays [simp]: "(change_step sys ^^ n) (Ended e, m) = (Ended e, m)"
  by (induction n) (simp_all add: change_steps)

lemma three_steps_apply:
  "(change_step sys ^^ 3) (Applying cfg, m) = (case apply_config sys cfg m of (m1, e) \<Rightarrow> (Ended e, m1))"
  by (auto simp: numeral_eq_Suc change_steps apply_config_def split: sum.split)

lemma change_one_more: "(change_step sys ^^ Suc n) x = (change_step sys ^^ n) (change_step sys x)"
  by (simp add: funpow_swap1)

lemma applying_ends:
  assumes "3 \<le> n"
  shows "(change_step sys ^^ n) (Applying cfg, m) = (case apply_config sys cfg m of (m1, e) \<Rightarrow> (Ended e, m1))"
proof -
  have "(change_step sys ^^ n) x = (change_step sys ^^ (n - 3)) ((change_step sys ^^ 3) x)" for x
    using assms funpow_add [of "n - 3" 3 "change_step sys"] by simp
  then show ?thesis by (simp add: three_steps_apply split: prod.split)
qed

text \<open>
  Stepwise is the same as at once: a change that nothing disturbs ends after five steps with
  the error and the manager of \<open>Apply\<close>, \<open>Reload\<close> or \<open>UpdateProviderStatus\<close>.
\<close>

theorem undisturbed_change_is_whole:
  "(change_step sys ^^ 5) (Begun call, m) = (case run_change sys call m of (m1, e) \<Rightarrow> (Ended e, m1))"
proof -
  have five: "(change_step sys ^^ 5) x = (change_step sys ^^ 4) (change_step sys x)" for x
    using change_one_more [of 4] by (simp add: numeral_eq_Suc)
  have four: "(change_step sys ^^ 4) x = (change_step sys ^^ 3) (change_step sys x)" for x
    using change_one_more [of 3] by (simp add: numeral_eq_Suc)
  show ?thesis
  proof (cases call)
    case (ApplyCall cfg)
    then show ?thesis by (simp add: five change_steps applying_ends run_change_def)
  next
    case ReloadCall
    then show ?thesis
      by (simp add: five change_steps applying_ends run_change_def reload_def split: sum.split)
  next
    case (StatusCall p cidrs err now)
    then show ?thesis
      by (simp add: five four change_steps applying_ends run_change_def update_provider_status_def Let_def)
  qed
qed

section \<open>All changes together\<close>

text \<open>
  Changes begin, any of them takes its next step, and requests resolve routes in between, which
  moves the counters of the pools. \<open>calls\<close> are the changes that may begin; \<open>past\<close> are the states
  so far, the present one included.
\<close>

inductive changing ::
  "system \<Rightarrow> change_call set \<Rightarrow> manager \<Rightarrow> manager list \<Rightarrow> manager \<Rightarrow> change_phase list \<Rightarrow> bool"
  for sys calls m0 where
  initial: "changing sys calls m0 [m0] m0 []"
| begins: "changing sys calls m0 past m phs \<Longrightarrow> call \<in> calls \<Longrightarrow> changing sys calls m0 past m (Begun call # phs)"
| steps: "changing sys calls m0 past m (ahead @ ph # behind) \<Longrightarrow> change_step sys (ph, m) = (ph1, m1) \<Longrightarrow>
    changing sys calls m0 (past @ [m1]) m1 (ahead @ ph1 # behind)"
| resolves: "changing sys calls m0 past m phs \<Longrightarrow> m1 = fst (resolve_route h m) \<Longrightarrow>
    changing sys calls m0 (past @ [m1]) m1 phs"

text \<open>Where the configuration of a snapshot comes from: a call, the file, or what was in force.\<close>

definition config_source :: "system \<Rightarrow> change_call set \<Rightarrow> manager list \<Rightarrow> config \<Rightarrow> bool" where
  "config_source sys calls past cfg \<longleftrightarrow>
     ApplyCall cfg \<in> calls \<or> (\<exists>m \<in> set past. load_config sys (mgr_path m) = Inr cfg \<or> cfg = current_config m)"

text \<open>The lists of a manager belong together: the dynamic CIDRs are those of the statuses.\<close>

definition lists_agree :: "manager \<Rightarrow> bool" where
  "lists_agree m \<longleftrightarrow> dynamic_cidrs m = all_dynamic (cdn_statuses m)"

text \<open>A snapshot that was compiled from a configuration and the lists of one moment.\<close>

definition whole_snapshot :: "system \<Rightarrow> change_call set \<Rightarrow> manager list \<Rightarrow> snapshot \<Rightarrow> bool" where
  "whole_snapshot sys calls past d \<longleftrightarrow>
     (\<exists>cfg. config_source sys calls past cfg \<and>
       (\<exists>m \<in> set past. lists_agree m \<and> compile_config sys cfg m = Inr d))"

text \<open>What a phase holds was in force when it was read.\<close>

fun phase_founded :: "system \<Rightarrow> change_call set \<Rightarrow> manager list \<Rightarrow> change_phase \<Rightarrow> bool" where
  "phase_founded sys calls past (Begun call) \<longleftrightarrow> call \<in> calls"
| "phase_founded sys calls past (Applying cfg) \<longleftrightarrow> config_source sys calls past cfg"
| "phase_founded sys calls past (Copied cfg dynamic statuses) \<longleftrightarrow> config_source sys calls past cfg \<and>
     (\<exists>m \<in> set past. dynamic = dynamic_cidrs m \<and> statuses = cdn_statuses m)"
| "phase_founded sys calls past (Built d) \<longleftrightarrow> whole_snapshot sys calls past d"
| "phase_founded sys calls past _ \<longleftrightarrow> True"

lemma config_source_mono: "config_source sys calls past cfg \<Longrightarrow> config_source sys calls (past @ new) cfg"
  by (auto simp: config_source_def)

lemma whole_snapshot_mono: "whole_snapshot sys calls past d \<Longrightarrow> whole_snapshot sys calls (past @ new) d"
  unfolding whole_snapshot_def using config_source_mono by fastforce

lemma phase_founded_mono: "phase_founded sys calls past ph \<Longrightarrow> phase_founded sys calls (past @ new) ph"
  by (cases ph) (auto intro: config_source_mono whole_snapshot_mono)

definition snapshot_whole :: "system \<Rightarrow> change_call set \<Rightarrow> manager list \<Rightarrow> manager \<Rightarrow> bool" where
  "snapshot_whole sys calls past m \<longleftrightarrow>
     (case mgr_data m of None \<Rightarrow> True
      | Some d \<Rightarrow> \<exists>d0. whole_snapshot sys calls past d0 \<and> reset_counters d = reset_counters d0)"

definition changing_inv :: "system \<Rightarrow> change_call set \<Rightarrow> manager \<Rightarrow> manager list \<Rightarrow> manager \<Rightarrow> change_phase list \<Rightarrow> bool" where
  "changing_inv sys calls m0 past m phs \<longleftrightarrow>
     m \<in> set past \<and> (\<forall>k \<in> set past. lists_agree k \<and> mgr_path k = mgr_path m0) \<and>
     (\<forall>ph \<in> set phs. phase_founded sys calls past ph) \<and> snapshot_whole sys calls past m"

lemma compile_config_lists:
  assumes "mgr_path k = mgr_path m"
  shows "compile_config sys cfg (m\<lparr>dynamic_cidrs := dynamic_cidrs k, cdn_statuses := cdn_statuses k\<rparr>) =
    compile_config sys cfg k"
  using assms by (simp add: compile_config_def split: prod.split)

lemma record_provider_status_agree: "lists_agree (record_provider_status n cs e t m)"
  by (simp add: lists_agree_def record_provider_status_def Let_def)

lemma change_step_lists:
  assumes "lists_agree m"
  shows "lists_agree (snd (change_step sys (ph, m))) \<and> mgr_path (snd (change_step sys (ph, m))) = mgr_path m"
proof (cases ph)
  case (Begun call)
  then show ?thesis
    using assms by (cases call) (simp_all add: change_steps record_provider_status_agree split: sum.split)
qed (use assms in \<open>simp_all add: change_steps lists_agree_def split: sum.split\<close>)

lemma change_step_founded:
  assumes "phase_founded sys calls past ph" "m \<in> set past"
    and past: "\<forall>k \<in> set past. lists_agree k \<and> mgr_path k = mgr_path m"
  shows "phase_founded sys calls past (fst (change_step sys (ph, m)))"
proof (cases ph)
  case (Begun call)
  then show ?thesis
    using assms(1,2) by (cases call) (auto simp: change_steps config_source_def split: sum.split)
next
  case Recorded
  then show ?thesis using assms(2) by (auto simp: change_steps config_source_def)
next
  case (Applying cfg)
  then show ?thesis using assms(1,2) by (auto simp: change_steps)
next
  case (Copied cfg dynamic statuses)
  then obtain k where k: "k \<in> set past" "config_source sys calls past cfg"
    and ph: "ph = Copied cfg (dynamic_cidrs k) (cdn_statuses k)" using assms(1) by auto
  have compiled: "compile_config sys cfg (m\<lparr>dynamic_cidrs := dynamic_cidrs k, cdn_statuses := cdn_statuses k\<rparr>) =
      compile_config sys cfg k" using past k(1) by (simp add: compile_config_lists)
  have "whole_snapshot sys calls past d" if "compile_config sys cfg k = Inr d" for d
    using that past k unfolding whole_snapshot_def by blast
  then show ?thesis unfolding ph change_step_copied compiled by (simp split: sum.split)
qed (use assms(1) in \<open>simp_all add: change_steps\<close>)

lemma change_step_data:
  "mgr_data (snd (change_step sys (ph, m))) = (case ph of Built d \<Rightarrow> Some d | _ \<Rightarrow> mgr_data m)"
proof (cases ph)
  case (Begun call)
  then show ?thesis by (cases call) (simp_all add: change_steps split: sum.split)
qed (simp_all add: change_steps split: sum.split)

lemma change_step_inv:
  assumes "changing_inv sys calls m0 past m (ahead @ ph # behind)" "change_step sys (ph, m) = (ph1, m1)"
  shows "changing_inv sys calls m0 (past @ [m1]) m1 (ahead @ ph1 # behind)"
proof -
  have m1: "ph1 = fst (change_step sys (ph, m))" "m1 = snd (change_step sys (ph, m))" using assms(2) by simp_all
  have inv: "m \<in> set past" "\<forall>k \<in> set past. lists_agree k \<and> mgr_path k = mgr_path m0"
    "phase_founded sys calls past ph" "\<forall>p \<in> set (ahead @ behind). phase_founded sys calls past p"
    "snapshot_whole sys calls past m"
    using assms(1) by (auto simp: changing_inv_def)
  have ph1: "phase_founded sys calls (past @ [m1]) ph1"
    unfolding m1(1) using inv by (intro phase_founded_mono change_step_founded) auto
  have "snapshot_whole sys calls (past @ [m1]) m1"
    using inv(3,5) whole_snapshot_mono [of sys calls past _ "[m1]"]
    by (cases ph) (auto simp: snapshot_whole_def change_step_data m1(2) split: option.splits)
  then show ?thesis
    using ph1 inv change_step_lists [of m sys ph] phase_founded_mono [of sys calls past _ "[m1]"]
    by (auto simp: changing_inv_def m1(2))
qed

lemma resolve_inv:
  assumes "changing_inv sys calls m0 past m phs" "m1 = fst (resolve_route h m)"
  shows "changing_inv sys calls m0 (past @ [m1]) m1 phs"
proof -
  have inv: "m \<in> set past" "\<forall>k \<in> set past. lists_agree k \<and> mgr_path k = mgr_path m0"
    "\<forall>p \<in> set phs. phase_founded sys calls past p" "snapshot_whole sys calls past m"
    using assms(1) by (auto simp: changing_inv_def)
  have "lists_agree m1 = lists_agree m" "mgr_path m1 = mgr_path m"
    by (simp_all add: assms(2) fst_resolve_route lists_agree_def split: option.split)
  moreover have "snapshot_whole sys calls (past @ [m1]) m1"
    using inv(4) whole_snapshot_mono [of sys calls past _ "[m1]"] keeps_poolsD(1) [OF snapshot_resolve_keeps]
    by (fastforce simp: snapshot_whole_def assms(2) fst_resolve_route split: option.splits)
  ultimately show ?thesis
    using inv phase_founded_mono [of sys calls past _ "[m1]"] by (auto simp: changing_inv_def)
qed

lemma pools_wf_reset: "pools_wf (reset_counters d) = pools_wf d"
  by (auto simp: pools_wf_def reset_counters_def list_all_iff)

lemma changing_keeps_inv:
  assumes "changing sys calls m0 past m phs" "mgr_data m0 = None" "lists_agree m0"
  shows "changing_inv sys calls m0 past m phs"
  using assms
proof (induction rule: changing.induct)
  case initial
  then show ?case by (simp add: changing_inv_def snapshot_whole_def)
next
  case (begins past m phs call)
  then show ?case by (auto simp: changing_inv_def)
next
  case (steps past m ahead ph behind ph1 m1)
  then show ?case using change_step_inv by blast
next
  case (resolves past m phs m1 h)
  then show ?case using resolve_inv by blast
qed

text \<open>
  C9. No interleaving shows a torn snapshot: whatever changes and requests run at the same
  time, the snapshot in force is, but for the counters of its pools, compiled from one
  configuration, which a call brought, the file held or was in force before, and from the
  provider lists of one moment, where dynamic CIDRs and statuses belong together. Its pools are
  well formed, and its whitelist lets an address through exactly when that configuration and
  those lists do.
\<close>

theorem snapshots_are_whole:
  assumes "changing sys calls m0 past m phs" "mgr_data m0 = None" "lists_agree m0" "mgr_data m = Some d"
  shows "manager_inv m \<and> (\<exists>cfg k. config_source sys calls past cfg \<and> k \<in> set past \<and> lists_agree k \<and>
    (\<exists>d0. apply_config sys cfg k = (k\<lparr>mgr_data := Some d0\<rparr>, None) \<and> reset_counters d = reset_counters d0) \<and>
    (\<forall>ip. is_ip_allowed m ip \<longleftrightarrow> allowed_cidrs (security cfg) @ dynamic_cidrs k = [] \<or>
       in_cidr_texts (allowed_cidrs (security cfg) @ dynamic_cidrs k) ip))"
proof -
  have "snapshot_whole sys calls past m" using changing_keeps_inv [OF assms(1-3)] by (simp add: changing_inv_def)
  then obtain cfg k d0 where w: "config_source sys calls past cfg" "k \<in> set past" "lists_agree k"
    "compile_config sys cfg k = Inr d0" "reset_counters d = reset_counters d0"
    using assms(4) by (auto simp: snapshot_whole_def whole_snapshot_def)
  have applied: "apply_config sys cfg k = (k\<lparr>mgr_data := Some d0\<rparr>, None)" using w(4) by (simp add: apply_config_def)
  have "allow_all d = allow_all d0" "snap_allowed_cidrs d = snap_allowed_cidrs d0"
    using w(5) by (metis reset_counters_routes)+
  then have "is_ip_allowed m ip = is_ip_allowed (fst (apply_config sys cfg k)) ip" for ip
    by (simp add: is_ip_allowed_def applied assms(4))
  moreover have "pools_wf d" using compile_config_wf [OF w(4)] pools_wf_reset w(5) by metis
  ultimately show ?thesis
    using w applied whitelist_meaning [of sys cfg k] assms(4) by (auto simp: manager_inv_def)
qed

section \<open>What a change in between does\<close>

text \<open>No change waits for another: its own five steps end it, whatever it finds at each of them.\<close>

lemma five_steps_end:
  "\<exists>e. fst (change_step sys (fst (change_step sys (fst (change_step sys (fst (change_step sys
     (fst (change_step sys (Begun call, m1)), m2)), m3)), m4)), m5)) = Ended e"
  by (cases call) (simp_all add: change_steps split: sum.split)

definition after_edits :: "system \<Rightarrow> config list \<Rightarrow> manager \<Rightarrow> manager" where
  "after_edits sys cfgs m = fold (\<lambda>cfg k. fst (apply_config sys cfg k)) cfgs m"

lemma after_edits_lists: "\<exists>d. after_edits sys cfgs m = m\<lparr>mgr_data := d\<rparr>"
proof (induction cfgs arbitrary: m)
  case Nil
  then show ?case by (intro exI [of _ "mgr_data m"]) (simp add: after_edits_def)
next
  case (Cons cfg cfgs)
  obtain d where d: "fst (apply_config sys cfg m) = m\<lparr>mgr_data := d\<rparr>"
    by (cases "compile_config sys cfg m") (auto simp: apply_config_def intro: that [of "mgr_data m"])
  have "after_edits sys (cfg # cfgs) m = after_edits sys cfgs (m\<lparr>mgr_data := d\<rparr>)" using d by (simp add: after_edits_def)
  then show ?case using Cons.IH [of "m\<lparr>mgr_data := d\<rparr>"] by auto
qed

lemma apply_config_data: "compile_config sys cfg (m\<lparr>mgr_data := d\<rparr>) = compile_config sys cfg m"
  by (simp add: compile_config_def split: prod.split)


text \<open>
  The other way round an edit puts old lists back: when a synchronisation is done between the
  moment \<open>Apply\<close> copies the lists and the moment it stores the snapshot, the new addresses are
  recorded but not in force.
\<close>

theorem edit_misses_lists:
  assumes "apply_config sys cfg m = (m1, None)" "update_provider_status sys p cidrs err now m = (m2, None)"
    and "(change_step sys ^^ 2) (Begun (ApplyCall cfg), m) = (ph, m)"
  shows "(change_step sys ^^ 2) (ph, m2) = (Ended None, m2\<lparr>mgr_data := mgr_data m1\<rparr>)"
proof -
  obtain d where d: "compile_config sys cfg m = Inr d" "m1 = m\<lparr>mgr_data := Some d\<rparr>"
    using assms(1) by (auto simp: apply_config_def split: sum.splits)
  have "mgr_path (fst (apply_config sys c k)) = mgr_path k" for c k
    by (simp add: apply_config_def split: sum.split)
  then have path: "mgr_path m2 = mgr_path m"
    using assms(2) by (metis fst_conv record_provider_status_simps(2) snd_conv update_status_ok(3))
  have "ph = Copied cfg (dynamic_cidrs m) (cdn_statuses m)"
    using assms(3) by (simp add: numeral_eq_Suc change_steps)
  then show ?thesis
    using d path compile_config_lists [of m m2 sys cfg] by (simp add: numeral_eq_Suc change_steps)
qed

section \<open>Examples\<close>

definition open_to :: "string list \<Rightarrow> config" where
  "open_to cidrs = zero_config\<lparr>security := (security zero_config)\<lparr>allowed_cidrs := cidrs\<rparr>\<rparr>"

definition office_manager :: manager where
  "office_manager = fst (apply_config sample_system (open_to [''8.8.8.0/24'']) sample_manager)"

definition tencent_call_at :: change_call where
  "tencent_call_at = StatusCall ''tencent'' [''1.2.3.0/24''] None 7"


text \<open>A schedule of changes: whose step is next.\<close>

fun interleaved :: "system \<Rightarrow> nat list \<Rightarrow> change_phase list \<times> manager \<Rightarrow> change_phase list \<times> manager" where
  "interleaved sys [] x = x"
| "interleaved sys (i # order) (phs, m) =
     (if i < length phs then
        (case change_step sys (phs ! i, m) of (ph, m1) \<Rightarrow> interleaved sys order (phs[i := ph], m1))
      else interleaved sys order (phs, m))"

lemma changing_begins:
  "set cs \<subseteq> calls \<Longrightarrow> changing sys calls m0 [m0] m0 (map Begun cs)"
  by (induction cs) (auto intro: changing.initial changing.begins)

lemma changing_interleaved:
  assumes "changing sys calls m0 past m phs"
  shows "\<exists>past1. changing sys calls m0 past1 (snd (interleaved sys order (phs, m))) (fst (interleaved sys order (phs, m)))"
  using assms
proof (induction order arbitrary: past m phs)
  case (Cons i order)
  show ?case
  proof (cases "i < length phs")
    case True
    obtain ph m1 where s: "change_step sys (phs ! i, m) = (ph, m1)" by fastforce
    have "changing sys calls m0 past m (take i phs @ phs ! i # drop (Suc i) phs)"
      using Cons.prems True by (simp add: id_take_nth_drop [symmetric])
    from changing.steps [OF this s] have "changing sys calls m0 (past @ [m1]) m1 (phs[i := ph])"
      using True by (simp add: upd_conv_take_nth_drop)
    then show ?thesis using Cons.IH True s by simp
  qed (use Cons in auto)
qed auto

definition mixed_calls :: "change_call list" where
  "mixed_calls = [ApplyCall (open_to [''8.8.8.0/24'']), tencent_call_at, ApplyCall (open_to [''10.0.0.0/8''])]"

theorem snapshots_are_whole_witness:
  "\<exists>past m phs d cfg k. changing sample_system (set mixed_calls) sample_manager past m phs \<and>
     phs = [Ended None, Ended None, Ended None] \<and> mgr_data m = Some d \<and>
     config_source sample_system (set mixed_calls) past cfg \<and> k \<in> set past \<and>
     is_ip_allowed m = is_ip_allowed (fst (apply_config sample_system cfg k))"
proof -
  let ?run = "interleaved sample_system [0, 2, 0, 0, 1, 2, 0, 1, 1, 1, 2, 1, 2] (map Begun mixed_calls, sample_manager)"
  obtain past where t: "changing sample_system (set mixed_calls) sample_manager past (snd ?run) (fst ?run)"
    using changing_interleaved [OF changing_begins [OF subset_refl]] by blast
  have "(case ?run of (phs, m) \<Rightarrow> phs = [Ended None, Ended None, Ended None] \<and> mgr_data m \<noteq> None)" by code_simp
  then obtain d where d: "mgr_data (snd ?run) = Some d" "fst ?run = [Ended None, Ended None, Ended None]"
    by (auto split: prod.splits)
  have start: "mgr_data sample_manager = None" "lists_agree sample_manager" by code_simp+
  obtain cfg k where "config_source sample_system (set mixed_calls) past cfg" "k \<in> set past"
    "snd (apply_config sample_system cfg k) = None"
    "\<forall>ip. is_ip_allowed (snd ?run) ip \<longleftrightarrow> allowed_cidrs (security cfg) @ dynamic_cidrs k = [] \<or>
       in_cidr_texts (allowed_cidrs (security cfg) @ dynamic_cidrs k) ip"
    using snapshots_are_whole [OF t start d(1)] by auto
  then have "is_ip_allowed (snd ?run) = is_ip_allowed (fst (apply_config sample_system cfg k))"
    using whitelist_meaning by blast
  then show ?thesis using t d \<open>config_source _ _ past cfg\<close> \<open>k \<in> set past\<close> by blast
qed

end
